(* ===== verification/Prelude.thy ===== *)
theory Prelude
  imports Main "HOL-Library.Word"
begin

text \<open>
  The vocabulary every component shares: the widths of the Rust integers, the
  collections of rewrite rules, hexadecimal formatting as \<^verbatim>\<open>core::fmt\<close> prints it,
  little- and big-endian byte images of words, and the facts about slices of byte
  lists that the buffer-handling components rest on.

  \<^verbatim>\<open>usize\<close> is a natural number below \<open>usize_modulus\<close>; the arithmetic that the
  source performs on it is written out with its overflow behaviour
  (\<open>checked_add\<close>, \<open>saturating_sub\<close>).  The modulus is that of the 64-bit targets the
  SDK builds for (\<^verbatim>\<open>aarch64\<close>).
\<close>

unbundle bit_operations_syntax

type_synonym u8 = "8 word"
type_synonym u16 = "16 word"
type_synonym u32 = "32 word"
type_synonym u64 = "64 word"
type_synonym i32 = "32 word"
type_synonym usize = nat
type_synonym bytes = "u8 list"

named_theorems raw_consts \<open>the numeric constants of the raw binding crates\<close>
named_theorems result_simps \<open>unfolding rules for fallible operations\<close>

section \<open>usize arithmetic\<close>

definition usize_modulus :: nat where
  "usize_modulus = 2 ^ 64"

definition checked_add :: "usize \<Rightarrow> usize \<Rightarrow> usize option" where
  "checked_add a b = (if a + b < usize_modulus then Some (a + b) else None)"

definition saturating_sub :: "usize \<Rightarrow> usize \<Rightarrow> usize" where
  "saturating_sub a b = (if b \<le> a then a - b else 0)"

lemma checked_add_Some_iff [simp]:
  "checked_add a b = Some c \<longleftrightarrow> c = a + b \<and> a + b < usize_modulus"
  by (auto simp: checked_add_def)

lemma checked_add_None_iff [simp]:
  "checked_add a b = None \<longleftrightarrow> usize_modulus \<le> a + b"
  by (auto simp: checked_add_def)

lemma saturating_sub_eq [simp]: "saturating_sub a b = a - b"
  by (simp add: saturating_sub_def)

section \<open>Results\<close>

text \<open>
  \<^verbatim>\<open>Result<T, E>\<close> is the sum \<open>'e + 'a\<close> with \<open>Inl\<close> for the error.  The question
  mark operator is \<open>try_bind\<close>.
\<close>

definition try_bind :: "'e + 'a \<Rightarrow> ('a \<Rightarrow> 'e + 'b) \<Rightarrow> 'e + 'b" where
  "try_bind r f = (case r of Inl e \<Rightarrow> Inl e | Inr a \<Rightarrow> f a)"

lemma try_bind_Inl [simp]: "try_bind (Inl e) f = Inl e"
  by (simp add: try_bind_def)

lemma try_bind_Inr [simp]: "try_bind (Inr a) f = f a"
  by (simp add: try_bind_def)

lemma try_bind_eq_Inr_iff:
  "try_bind r f = Inr b \<longleftrightarrow> (\<exists>a. r = Inr a \<and> f a = Inr b)"
  by (cases r) auto

lemma try_bind_eq_Inl_iff:
  "try_bind r f = Inl e \<longleftrightarrow> r = Inl e \<or> (\<exists>a. r = Inr a \<and> f a = Inl e)"
  by (cases r) auto

definition ok_or :: "'a option \<Rightarrow> 'e \<Rightarrow> 'e + 'a" where
  "ok_or x e = (case x of None \<Rightarrow> Inl e | Some a \<Rightarrow> Inr a)"

lemma ok_or_simps [simp]:
  "ok_or None e = Inl e"
  "ok_or (Some a) e = Inr a"
  by (simp_all add: ok_or_def)

text \<open>An operation that may panic instead of returning.\<close>

datatype 'a outcome = Panics | Returns 'a

definition outcome_bind :: "'a outcome \<Rightarrow> ('a \<Rightarrow> 'b outcome) \<Rightarrow> 'b outcome" where
  "outcome_bind x f = (case x of Panics \<Rightarrow> Panics | Returns a \<Rightarrow> f a)"

lemma outcome_bind_simps [simp]:
  "outcome_bind Panics f = Panics"
  "outcome_bind (Returns a) f = f a"
  by (simp_all add: outcome_bind_def)

text \<open>
  \<^verbatim>\<open>+\<close> and \<^verbatim>\<open>-\<close> on \<^verbatim>\<open>u32\<close>: with overflow checks, which depend on the build profile, an
  overflow panics; without, it wraps.
\<close>

definition add_u32 :: "bool \<Rightarrow> u32 \<Rightarrow> u32 \<Rightarrow> u32 outcome" where
  "add_u32 overflow_checks a b =
     (if overflow_checks \<and> 2 ^ 32 \<le> unat a + unat b then Panics else Returns (a + b))"

definition sub_u32 :: "bool \<Rightarrow> u32 \<Rightarrow> u32 \<Rightarrow> u32 outcome" where
  "sub_u32 overflow_checks a b =
     (if overflow_checks \<and> unat a < unat b then Panics else Returns (a - b))"

lemma add_u32_exact:
  "unat a + unat b < 2 ^ 32 \<Longrightarrow> add_u32 checks a b = Returns (a + b) \<and> unat (a + b) = unat a + unat b"
  by (simp add: add_u32_def unat_word_ariths)

lemma sub_u32_exact:
  "unat b \<le> unat a \<Longrightarrow> sub_u32 checks a b = Returns (a - b) \<and> unat (a - b) = unat a - unat b"
  by (simp add: sub_u32_def unat_sub word_le_nat_alt)

section \<open>Hexadecimal formatting\<close>

definition hex_digit :: "nat \<Rightarrow> char" where
  "hex_digit d = (if d < 10 then char_of (48 + d) else char_of (87 + d))"

text \<open>\<^verbatim>\<open>{:x}\<close>: no leading zeros, \<^verbatim>\<open>0\<close> for zero.\<close>

fun lower_hex :: "nat \<Rightarrow> string" where
  "lower_hex n = (if n < 16 then [hex_digit n] else lower_hex (n div 16) @ [hex_digit (n mod 16)])"

declare lower_hex.simps [simp del]

text \<open>\<^verbatim>\<open>{:0wx}\<close>: padded on the left with zeros to width \<open>w\<close>.\<close>

definition lower_hex_padded :: "nat \<Rightarrow> nat \<Rightarrow> string" where
  "lower_hex_padded w n = (let s = lower_hex n in replicate (w - length s) (CHR ''0'') @ s)"

text \<open>The \<open>w\<close> low hexadecimal digits of a number, most significant first.\<close>

fun hex_digits :: "nat \<Rightarrow> nat \<Rightarrow> string" where
  "hex_digits 0 n = []"
| "hex_digits (Suc w) n = hex_digits w (n div 16) @ [hex_digit (n mod 16)]"

lemma length_hex_digits [simp]: "length (hex_digits w n) = w"
  by (induction w arbitrary: n) simp_all

lemma hex_digit_zero: "hex_digit 0 = CHR ''0''"
  by code_simp

lemma hex_digits_zero: "hex_digits w 0 = replicate w (CHR ''0'')"
  by (induction w) (simp_all add: hex_digit_zero replicate_append_same)

lemma lower_hex_nonempty: "lower_hex n \<noteq> []"
  by (subst lower_hex.simps) simp

lemma hex_digits_pad:
  "n < 16 ^ w \<Longrightarrow> 0 < w \<Longrightarrow>
     length (lower_hex n) \<le> w \<and> hex_digits w n = replicate (w - length (lower_hex n)) (CHR ''0'') @ lower_hex n"
proof (induction n arbitrary: w rule: lower_hex.induct)
  case (1 n)
  obtain v where w: "w = Suc v" using \<open>0 < w\<close> by (cases w) auto
  show ?case
  proof (cases "n < 16")
    case True
    then show ?thesis
      by (subst (1 2 3) lower_hex.simps) (simp add: w hex_digits_zero)
  next
    case False
    with "1.prems" w have "n div 16 < 16 ^ v"
      by (simp add: less_mult_imp_div_less mult.commute)
    moreover from this False have "0 < v"
      by (cases v) auto
    ultimately have "length (lower_hex (n div 16)) \<le> v \<and>
        hex_digits v (n div 16) =
          replicate (v - length (lower_hex (n div 16))) (CHR ''0'') @ lower_hex (n div 16)"
      using "1.IH"[OF False] by blast
    with False show ?thesis
      by (subst (1 2 3) lower_hex.simps) (simp add: w)
  qed
qed

text \<open>Within its width a padded number is exactly its digits.\<close>

lemma lower_hex_padded_eq:
  assumes "n < 16 ^ w" and "0 < w"
  shows "lower_hex_padded w n = hex_digits w n"
  using hex_digits_pad[OF assms] by (simp add: lower_hex_padded_def Let_def)

lemma hex_digits_append:
  "hex_digits (v + w) n = hex_digits v (n div 16 ^ w) @ hex_digits w n"
  by (induction w arbitrary: n) (simp_all add: div_mult2_eq)

lemma hex_digits_mod: "hex_digits w (n mod 16 ^ w) = hex_digits w n"
proof (induction w arbitrary: n)
  case (Suc w)
  have "n mod 16 ^ Suc w div 16 = n div 16 mod 16 ^ w"
    by (simp add: mod_mult2_eq)
  moreover have "n mod 16 ^ Suc w mod 16 = n mod 16"
    by (simp add: mod_mult2_eq)
  ultimately show ?case using Suc by simp
qed simp

section \<open>Byte images of words\<close>

text \<open>\<open>be_bytes k n\<close> and \<open>le_bytes k n\<close> are the \<open>k\<close> low bytes of \<open>n\<close> in either order.\<close>

fun le_bytes :: "nat \<Rightarrow> nat \<Rightarrow> bytes" where
  "le_bytes 0 n = []"
| "le_bytes (Suc k) n = of_nat (n mod 256) # le_bytes k (n div 256)"

definition be_bytes :: "nat \<Rightarrow> nat \<Rightarrow> bytes" where
  "be_bytes k n = rev (le_bytes k n)"

fun le_value :: "bytes \<Rightarrow> nat" where
  "le_value [] = 0"
| "le_value (b # bs) = unat b + 256 * le_value bs"

definition be_value :: "bytes \<Rightarrow> nat" where
  "be_value bs = le_value (rev bs)"

lemma length_le_bytes [simp]: "length (le_bytes k n) = k"
  by (induction k arbitrary: n) simp_all

lemma length_be_bytes [simp]: "length (be_bytes k n) = k"
  by (simp add: be_bytes_def)

lemma unat_u8_less [simp]: "unat (b :: u8) < 256"
  using unsigned_less[of b] by simp

lemma unat_u16_less: "unat (x :: u16) < 65536"
  using unsigned_less[of x, where 'a = nat] by simp

lemma unat_u32_less: "unat (x :: u32) < 4294967296"
  using unsigned_less[of x, where 'a = nat] by simp

lemma unat_u64_less: "unat (x :: u64) < usize_modulus"
  using unsigned_less[of x, where 'a = nat] by (simp add: usize_modulus_def)

lemma unat_u8_div_16 [simp]: "unat (b :: u8) div 16 < 16"
  by (rule less_mult_imp_div_less) simp

lemma unat_of_nat_u8: "unat (of_nat n :: u8) = n mod 256"
  by (simp add: unat_of_nat)

lemma le_value_bytes: "le_value (le_bytes k n) = n mod 256 ^ k"
proof (induction k arbitrary: n)
  case (Suc k)
  have "n mod 256 ^ Suc k = n mod 256 + 256 * (n div 256 mod 256 ^ k)"
    by (simp add: mod_mult2_eq)
  with Suc show ?case by (simp add: unat_of_nat_u8)
qed simp

lemma le_bytes_value: "le_bytes (length bs) (le_value bs) = bs"
proof (induction bs)
  case (Cons b bs)
  have "(unat b + 256 * le_value bs) mod 256 = unat b"
    using unat_u8_less[of b] by simp
  moreover have "(unat b + 256 * le_value bs) div 256 = le_value bs"
    using unat_u8_less[of b] by simp
  ultimately show ?case using Cons by simp
qed simp

lemma le_value_less: "le_value bs < 256 ^ length bs"
proof (induction bs)
  case (Cons b bs)
  have "unat b + 256 * le_value bs < 256 + 256 * le_value bs"
    using unat_u8_less[of b] by simp
  also have "\<dots> = 256 * Suc (le_value bs)" by simp
  also have "\<dots> \<le> 256 * 256 ^ length bs"
    using Cons by (intro mult_le_mono2) (simp add: Suc_le_eq)
  finally show ?case by simp
qed simp

lemma be_value_bytes: "be_value (be_bytes k n) = n mod 256 ^ k"
  by (simp add: be_value_def be_bytes_def le_value_bytes)

lemma be_bytes_value: "be_bytes (length bs) (be_value bs) = bs"
  using le_bytes_value[of "rev bs"] by (simp add: be_value_def be_bytes_def)

lemma be_value_less: "be_value bs < 256 ^ length bs"
  using le_value_less[of "rev bs"] by (simp add: be_value_def)

section \<open>Byte strings in hexadecimal\<close>

text \<open>Two lower-case digits per byte, in order.\<close>

definition hex_byte :: "u8 \<Rightarrow> string" where
  "hex_byte b = hex_digits 2 (unat b)"

definition hex_bytes :: "bytes \<Rightarrow> string" where
  "hex_bytes bs = concat (map hex_byte bs)"

lemma hex_bytes_Nil [simp]: "hex_bytes [] = []"
  by (simp add: hex_bytes_def)

lemma hex_bytes_Cons [simp]: "hex_bytes (b # bs) = hex_byte b @ hex_bytes bs"
  by (simp add: hex_bytes_def)

lemma hex_bytes_append [simp]: "hex_bytes (xs @ ys) = hex_bytes xs @ hex_bytes ys"
  by (simp add: hex_bytes_def)

lemma length_hex_byte [simp]: "length (hex_byte b) = 2"
  by (simp add: hex_byte_def)

lemma length_hex_bytes [simp]: "length (hex_bytes bs) = 2 * length bs"
  by (induction bs) simp_all

text \<open>Printing the big-endian bytes of a number prints its digits.\<close>

lemma hex_bytes_be: "hex_bytes (be_bytes k n) = hex_digits (2 * k) n"
proof (induction k arbitrary: n)
  case (Suc k)
  have "hex_bytes (be_bytes (Suc k) n) = hex_bytes (be_bytes k (n div 256)) @ hex_byte (of_nat (n mod 256))"
    by (simp add: be_bytes_def)
  also have "hex_byte (of_nat (n mod 256)) = hex_digits 2 n"
    using hex_digits_mod[of 2 n] by (simp add: hex_byte_def unat_of_nat_u8)
  also have "hex_bytes (be_bytes k (n div 256)) @ hex_digits 2 n = hex_digits (2 * k + 2) n"
    using Suc[of "n div 256"] hex_digits_append[of "2 * k" 2 n] by simp
  finally show ?case by simp
qed (simp add: be_bytes_def)

section \<open>Slices\<close>

lemma take_drop_step: "n + k = m \<Longrightarrow> take n (drop k xs) @ drop m xs = drop k xs"
  by (metis append_take_drop_id drop_drop)

text \<open>\<open>overwrite xs i ys\<close> overwrites \<open>xs\<close> from position \<open>i\<close> with \<open>ys\<close>.\<close>

definition overwrite :: "'a list \<Rightarrow> nat \<Rightarrow> 'a list \<Rightarrow> 'a list" where
  "overwrite xs i ys = take i xs @ ys @ drop (i + length ys) xs"

lemma length_overwrite [simp]:
  "i + length ys \<le> length xs \<Longrightarrow> length (overwrite xs i ys) = length xs"
  by (simp add: overwrite_def)

lemma overwrite_read_back:
  "i + length ys \<le> length xs \<Longrightarrow> take (length ys) (drop i (overwrite xs i ys)) = ys"
  by (simp add: overwrite_def)

lemma overwrite_outside:
  assumes "i + length ys \<le> length xs" and "j < length xs" and "j < i \<or> i + length ys \<le> j"
  shows "overwrite xs i ys ! j = xs ! j"
  using assms by (auto simp: overwrite_def nth_append min_def)

section \<open>Four-bit fields\<close>

lemma take_bit_nibble: "take_bit 4 t = t \<longleftrightarrow> t < 16" for t :: u32
proof -
  have "take_bit 4 t = t \<longleftrightarrow> unat (take_bit 4 t) = unat t"
    by (simp add: word_unat_eq_iff)
  also have "\<dots> \<longleftrightarrow> unat t < 16"
    by (simp add: unsigned_take_bit_eq take_bit_nat_eq_self_iff)
  also have "\<dots> \<longleftrightarrow> t < 16"
    by (simp add: word_less_nat_alt)
  finally show ?thesis .
qed

lemma nibble_bits: "t < 16 \<Longrightarrow> bit t n \<Longrightarrow> n < 4" for t :: u32
  by (metis bit_take_bit_iff take_bit_nibble)

lemma and_nibble_mask: "t AND 0xF = take_bit 4 t" for t :: u32
  by (simp add: take_bit_eq_mask mask_numeral)

lemma and_nibble_mask_less [simp]: "t AND 0xF < 16" for t :: u32
  unfolding and_nibble_mask by (subst take_bit_nibble [symmetric]) simp

text \<open>Four nibbles packed from the least significant one are read back one by one.\<close>

lemma nibble_unpack:
  fixes t0 t1 t2 t3 :: u32
  assumes "t0 < 16" "t1 < 16" "t2 < 16" "t3 < 16"
  defines "p \<equiv> t0 OR push_bit 4 t1 OR push_bit 8 t2 OR push_bit 12 t3"
  shows "p AND 0xF = t0" "drop_bit 4 p AND 0xF = t1"
    "drop_bit 8 p AND 0xF = t2" "drop_bit 12 p AND 0xF = t3"
  unfolding p_def and_nibble_mask
  by (rule bit_word_eqI, use assms(1-4)[THEN nibble_bits] in \<open>force simp: bit_simps\<close>)+

section \<open>Enums with a numeric representation\<close>

text \<open>
  What the \<^verbatim>\<open>FromPrimitive\<close> and \<^verbatim>\<open>IntoPrimitive\<close> derives of the \<^verbatim>\<open>num_enum\<close> crate give a
  fieldless enum: the conversion from a number selects the variant with that
  discriminant, and any other number goes to the variant marked
  \<^verbatim>\<open>#[num_enum(catch_all)]\<close> (which keeps the number) or \<^verbatim>\<open>#[num_enum(default)]\<close> (which
  does not).
\<close>

definition from_primitive :: "('v \<Rightarrow> u32) \<Rightarrow> 'v list \<Rightarrow> (u32 \<Rightarrow> 'v) \<Rightarrow> u32 \<Rightarrow> 'v" where
  "from_primitive into_primitive variants catch_all code =
     (case find (\<lambda>v. into_primitive v = code) variants of
        Some v \<Rightarrow> v
      | None \<Rightarrow> catch_all code)"

lemma find_distinct_code:
  assumes "distinct (map f vs)" and "v \<in> set vs"
  shows "find (\<lambda>w. f w = f v) vs = Some v"
  using assms by (induction vs) auto

lemma find_code_None: "c \<notin> f ` set vs \<Longrightarrow> find (\<lambda>v. f v = c) vs = None"
  by (auto simp: find_None_iff)

locale num_enum =
  fixes into_primitive :: "'v \<Rightarrow> u32"
    and variants :: "'v list"
    and catch_all :: "u32 \<Rightarrow> 'v"
  assumes distinct_codes: "distinct (map into_primitive variants)"
    and catch_all_code: "into_primitive (catch_all c) = c"
begin

lemma from_variant:
  "v \<in> set variants \<Longrightarrow> from_primitive into_primitive variants catch_all (into_primitive v) = v"
  by (simp add: from_primitive_def find_distinct_code distinct_codes)

lemma from_other:
  "c \<notin> into_primitive ` set variants \<Longrightarrow> from_primitive into_primitive variants catch_all c = catch_all c"
  by (simp add: from_primitive_def find_code_None)

text \<open>No code is lost, whether or not the enum knows it.\<close>

lemma into_from: "into_primitive (from_primitive into_primitive variants catch_all c) = c"
proof (cases "c \<in> into_primitive ` set variants")
  case True
  then obtain v where "v \<in> set variants" "c = into_primitive v" by blast
  then show ?thesis using from_variant by simp
next
  case False
  then show ?thesis by (simp add: from_other catch_all_code)
qed

lemma from_inj: "inj (from_primitive into_primitive variants catch_all)"
  by (rule inj_on_inverseI [of _ into_primitive]) (rule into_from)

end

locale num_enum_default =
  fixes into_primitive :: "'v \<Rightarrow> u32"
    and variants :: "'v list"
    and default_variant :: 'v
  assumes distinct_default_codes: "distinct (map into_primitive variants)"
    and default_listed: "default_variant \<in> set variants"
begin

lemma default_from_variant:
  "v \<in> set variants \<Longrightarrow>
     from_primitive into_primitive variants (\<lambda>_. default_variant) (into_primitive v) = v"
  by (simp add: from_primitive_def find_distinct_code distinct_default_codes)

lemma default_from_other:
  "c \<notin> into_primitive ` set variants \<Longrightarrow>
     from_primitive into_primitive variants (\<lambda>_. default_variant) c = default_variant"
  by (simp add: from_primitive_def find_code_None)

text \<open>The round trip succeeds exactly on the codes of the variants.\<close>

lemma default_into_from_iff:
  "into_primitive (from_primitive into_primitive variants (\<lambda>_. default_variant) c) = c \<longleftrightarrow>
     c \<in> into_primitive ` set variants"
proof (cases "c \<in> into_primitive ` set variants")
  case True
  then obtain v where "v \<in> set variants" "c = into_primitive v" by blast
  then show ?thesis using default_from_variant by simp
next
  case False
  then show ?thesis using default_listed by (auto simp: default_from_other)
qed

end

end
