(* ===== verification/UuidCrate.thy ===== *)
theory UuidCrate
  imports Prelude
begin

text \<open>
  The two third-party crates behind the SDK's \<^verbatim>\<open>Uuid\<close> types: \<^verbatim>\<open>uuid\<close> and \<^verbatim>\<open>hex\<close>.  Their
  code is not part of the SDK, so the functions the SDK calls are a parameter, the
  record \<open>uuid_crate\<close>, and what their documentation promises is the named
  hypothesis \<open>uuid_crate_ok\<close>.  \<open>uuid_ref\<close> is a concrete instance for which the
  hypothesis holds; its UUIDs are their sixteen big-endian bytes.
\<close>

section \<open>The parameter\<close>

type_synonym uuid_fields = "u32 \<times> u16 \<times> u16 \<times> bytes"

record 'u uuid_crate =
  uc_parse_str :: "string \<Rightarrow> 'u option"
  uc_from_bytes :: "bytes \<Rightarrow> 'u"
  uc_from_slice :: "bytes \<Rightarrow> 'u option"
  uc_from_bytes_le :: "bytes \<Rightarrow> 'u"
  uc_as_fields :: "'u \<Rightarrow> uuid_fields"
  uc_hex_encode :: "bytes \<Rightarrow> string"

definition be_fields :: "bytes \<Rightarrow> uuid_fields" where
  "be_fields b =
     (of_nat (be_value (take 4 b)), of_nat (be_value (take 2 (drop 4 b))),
      of_nat (be_value (take 2 (drop 6 b))), drop 8 b)"

definition le_fields :: "bytes \<Rightarrow> uuid_fields" where
  "le_fields b =
     (of_nat (le_value (take 4 b)), of_nat (le_value (take 2 (drop 4 b))),
      of_nat (le_value (take 2 (drop 6 b))), drop 8 b)"

text \<open>The sixteen bytes with given fields, in either order.\<close>

fun be_image :: "uuid_fields \<Rightarrow> bytes" where
  "be_image (t0, t1, t2, cs) = be_bytes 4 (unat t0) @ be_bytes 2 (unat t1) @ be_bytes 2 (unat t2) @ cs"

fun le_image :: "uuid_fields \<Rightarrow> bytes" where
  "le_image (t0, t1, t2, cs) = le_bytes 4 (unat t0) @ le_bytes 2 (unat t1) @ le_bytes 2 (unat t2) @ cs"

text \<open>The hyphenated text form of sixteen bytes, in lower case.\<close>

definition hyphenated :: "bytes \<Rightarrow> string" where
  "hyphenated b =
     hex_bytes (take 4 b) @ ''-'' @ hex_bytes (take 2 (drop 4 b)) @ ''-'' @
     hex_bytes (take 2 (drop 6 b)) @ ''-'' @ hex_bytes (take 2 (drop 8 b)) @ ''-'' @
     hex_bytes (drop 10 b)"

text \<open>
  What the documentation of the crates promises: the hyphenated form is accepted,
  slices of any length but 16 are rejected, the fields of a UUID made from bytes are
  those bytes in big-endian (or, for \<^verbatim>\<open>from_bytes_le\<close>, in little-endian) order, and
  \<^verbatim>\<open>hex::encode\<close> prints two lower-case digits per byte.
\<close>

definition uuid_crate_ok :: "'u uuid_crate \<Rightarrow> bool" where
  "uuid_crate_ok U \<longleftrightarrow>
     (\<forall>b. length b = 16 \<longrightarrow> uc_parse_str U (hyphenated b) = Some (uc_from_bytes U b)) \<and>
     (\<forall>b. uc_from_slice U b = (if length b = 16 then Some (uc_from_bytes U b) else None)) \<and>
     (\<forall>b. length b = 16 \<longrightarrow> uc_as_fields U (uc_from_bytes U b) = be_fields b) \<and>
     (\<forall>b. length b = 16 \<longrightarrow> uc_as_fields U (uc_from_bytes_le U b) = le_fields b) \<and>
     uc_hex_encode U = hex_bytes"

section \<open>A reference instance\<close>

definition hex_val :: "char \<Rightarrow> nat option" where
  "hex_val c =
     (let n = of_char c in
      if 48 \<le> n \<and> n < 58 then Some (n - 48)
      else if 97 \<le> n \<and> n < 103 then Some (n - 87)
      else None)"

fun unhex :: "string \<Rightarrow> bytes option" where
  "unhex [] = Some []"
| "unhex [c] = None"
| "unhex (c # d # s) =
     (case (hex_val c, hex_val d, unhex s) of
        (Some x, Some y, Some bs) \<Rightarrow> Some (of_nat (16 * x + y) # bs)
      | _ \<Rightarrow> None)"

definition uuid_ref_parse :: "string \<Rightarrow> bytes option" where
  "uuid_ref_parse s =
     (case unhex (filter (\<lambda>c. c \<noteq> CHR ''-'') s) of
        Some b \<Rightarrow> (if length b = 16 then Some b else None)
      | None \<Rightarrow> None)"

definition uuid_ref :: "bytes uuid_crate" where
  "uuid_ref = \<lparr>
     uc_parse_str = uuid_ref_parse,
     uc_from_bytes = (\<lambda>b. b),
     uc_from_slice = (\<lambda>b. if length b = 16 then Some b else None),
     uc_from_bytes_le =
       (\<lambda>b. rev (take 4 b) @ rev (take 2 (drop 4 b)) @ rev (take 2 (drop 6 b)) @ drop 8 b),
     uc_as_fields = be_fields,
     uc_hex_encode = hex_bytes\<rparr>"

section \<open>Lemmas\<close>

lemma uuid_crate_okD:
  assumes "uuid_crate_ok U"
  shows "length b = 16 \<Longrightarrow> uc_parse_str U (hyphenated b) = Some (uc_from_bytes U b)"
    and "uc_from_slice U b = (if length b = 16 then Some (uc_from_bytes U b) else None)"
    and "length b = 16 \<Longrightarrow> uc_as_fields U (uc_from_bytes U b) = be_fields b"
    and "length b = 16 \<Longrightarrow> uc_as_fields U (uc_from_bytes_le U b) = le_fields b"
    and "uc_hex_encode U = hex_bytes"
  using assms by (simp_all add: uuid_crate_ok_def)

lemma hex_digit_code: "d < 16 \<Longrightarrow> of_char (hex_digit d) = (if d < 10 then 48 + d else 87 + d)"
  by (simp add: hex_digit_def)

lemma hex_val_digit [simp]: "d < 16 \<Longrightarrow> hex_val (hex_digit d) = Some d"
  by (simp add: hex_val_def Let_def hex_digit_code)

lemma hex_digit_not_hyphen: "d < 16 \<Longrightarrow> hex_digit d \<noteq> CHR ''-''"
proof -
  assume "d < 16"
  moreover have "hex_val (CHR ''-'') = None" by code_simp
  ultimately show ?thesis by (metis hex_val_digit option.distinct(1))
qed

lemma hex_byte_eq: "hex_byte b = [hex_digit (unat b div 16), hex_digit (unat b mod 16)]"
  by (simp add: hex_byte_def numeral_2_eq_2)

lemma unhex_hex_bytes [simp]: "unhex (hex_bytes bs) = Some bs"
proof (induction bs)
  case (Cons b bs)
  show ?case by (simp add: hex_byte_eq Cons)
qed simp

lemma hex_bytes_no_hyphen: "filter (\<lambda>c. c \<noteq> CHR ''-'') (hex_bytes bs) = hex_bytes bs"
proof (induction bs)
  case (Cons b bs)
  show ?case by (simp add: hex_byte_eq hex_digit_not_hyphen Cons)
qed simp

lemma uuid_ref_parse_hyphenated:
  assumes "length b = 16"
  shows "uuid_ref_parse (hyphenated b) = Some b"
proof -
  have "filter (\<lambda>c. c \<noteq> CHR ''-'') (hyphenated b) =
      hex_bytes (take 4 b @ take 2 (drop 4 b) @ take 2 (drop 6 b) @ take 2 (drop 8 b) @ drop 10 b)"
    by (simp add: hyphenated_def hex_bytes_no_hyphen)
  also have "take 4 b @ take 2 (drop 4 b) @ take 2 (drop 6 b) @ take 2 (drop 8 b) @ drop 10 b = b"
    by (simp add: take_drop_step)
  finally show ?thesis using assms by (simp add: uuid_ref_parse_def)
qed

lemma uuid_ref_ok: "uuid_crate_ok uuid_ref"
  by (auto simp: uuid_crate_ok_def uuid_ref_def uuid_ref_parse_hyphenated be_fields_def le_fields_def
      be_value_def)

lemma word_image [simp]:
  "(of_nat (be_value (be_bytes 4 (unat (x :: u32)))) :: u32) = x"
  "(of_nat (be_value (be_bytes 2 (unat (y :: u16)))) :: u16) = y"
  "(of_nat (le_value (le_bytes 4 (unat x))) :: u32) = x"
  "(of_nat (le_value (le_bytes 2 (unat y))) :: u16) = y"
  using unat_u32_less[of x] unat_u16_less[of y]
  by (simp_all add: be_value_bytes le_value_bytes)

lemma length_images [simp]:
  "length cs = 8 \<Longrightarrow> length (be_image (t0, t1, t2, cs)) = 16"
  "length cs = 8 \<Longrightarrow> length (le_image (t0, t1, t2, cs)) = 16"
  by simp_all

lemma be_fields_image [simp]: "length cs = 8 \<Longrightarrow> be_fields (be_image (t0, t1, t2, cs)) = (t0, t1, t2, cs)"
  by (simp add: be_fields_def)

lemma le_fields_image [simp]: "length cs = 8 \<Longrightarrow> le_fields (le_image (t0, t1, t2, cs)) = (t0, t1, t2, cs)"
  by (simp add: le_fields_def)

text \<open>The text the SDK prints for the fields is the hyphenated form of their bytes.\<close>

lemma hyphenated_image:
  assumes "length cs = 8"
  shows "hyphenated (be_image (t0, t1, t2, cs)) =
     lower_hex_padded 8 (unat t0) @ ''-'' @ lower_hex_padded 4 (unat t1) @ ''-'' @
     lower_hex_padded 4 (unat t2) @ ''-'' @ hex_bytes (take 2 cs) @ ''-'' @ hex_bytes (drop 2 cs)"
proof -
  have "lower_hex_padded 8 (unat t0) = hex_digits 8 (unat t0)"
    using unat_u32_less[of t0] by (intro lower_hex_padded_eq) simp_all
  moreover have "lower_hex_padded 4 (unat t) = hex_digits 4 (unat t)" for t :: u16
    using unat_u16_less[of t] by (intro lower_hex_padded_eq) simp_all
  ultimately show ?thesis
    using assms by (simp add: hyphenated_def hex_bytes_be)
qed

end
