(* ===== verification/TeeApiDefines.thy ===== *)
theory TeeApiDefines
  imports Prelude
begin

text \<open>
  The constants of the GlobalPlatform TEE Internal Core API as the binding crate
  \<^verbatim>\<open>optee-utee-sys\<close> declares them (\<^verbatim>\<open>tee_api_defines.rs\<close>), under their own names and in
  their order, and the two functions that pack and unpack the types of the four
  parameters of an entry point.  The identifiers of panicking functions
  (\<^verbatim>\<open>TEE_PANIC_ID_*\<close>) are used by no code of the SDK and are left out.
\<close>

unbundle bit_operations_syntax

definition TEE_CORE_API_MAJOR_VERSION :: u32 where [raw_consts]:
  "TEE_CORE_API_MAJOR_VERSION = 0x00000001"

definition TEE_CORE_API_MINOR_VERSION :: u32 where [raw_consts]:
  "TEE_CORE_API_MINOR_VERSION = 0x00000003"

definition TEE_CORE_API_MAINTENANCE_VERSION :: u32 where [raw_consts]:
  "TEE_CORE_API_MAINTENANCE_VERSION = 0x00000001"

definition TEE_TIMEOUT_INFINITE :: u32 where [raw_consts]:
  "TEE_TIMEOUT_INFINITE = 0xFFFFFFFF"

definition TEE_SUCCESS :: u32 where [raw_consts]:
  "TEE_SUCCESS = 0x00000000"

definition TEE_ERROR_CORRUPT_OBJECT :: u32 where [raw_consts]:
  "TEE_ERROR_CORRUPT_OBJECT = 0xF0100001"

definition TEE_ERROR_CORRUPT_OBJECT_2 :: u32 where [raw_consts]:
  "TEE_ERROR_CORRUPT_OBJECT_2 = 0xF0100002"

definition TEE_ERROR_STORAGE_NOT_AVAILABLE :: u32 where [raw_consts]:
  "TEE_ERROR_STORAGE_NOT_AVAILABLE = 0xF0100003"

definition TEE_ERROR_STORAGE_NOT_AVAILABLE_2 :: u32 where [raw_consts]:
  "TEE_ERROR_STORAGE_NOT_AVAILABLE_2 = 0xF0100004"

definition TEE_ERROR_UNSUPPORTED_VERSION :: u32 where [raw_consts]:
  "TEE_ERROR_UNSUPPORTED_VERSION = 0xF0100005"

definition TEE_ERROR_CIPHERTEXT_INVALID :: u32 where [raw_consts]:
  "TEE_ERROR_CIPHERTEXT_INVALID = 0xF0100006"

definition TEE_ERROR_GENERIC :: u32 where [raw_consts]:
  "TEE_ERROR_GENERIC = 0xFFFF0000"

definition TEE_ERROR_ACCESS_DENIED :: u32 where [raw_consts]:
  "TEE_ERROR_ACCESS_DENIED = 0xFFFF0001"

definition TEE_ERROR_CANCEL :: u32 where [raw_consts]:
  "TEE_ERROR_CANCEL = 0xFFFF0002"

definition TEE_ERROR_ACCESS_CONFLICT :: u32 where [raw_consts]:
  "TEE_ERROR_ACCESS_CONFLICT = 0xFFFF0003"

definition TEE_ERROR_EXCESS_DATA :: u32 where [raw_consts]:
  "TEE_ERROR_EXCESS_DATA = 0xFFFF0004"

definition TEE_ERROR_BAD_FORMAT :: u32 where [raw_consts]:
  "TEE_ERROR_BAD_FORMAT = 0xFFFF0005"

definition TEE_ERROR_BAD_PARAMETERS :: u32 where [raw_consts]:
  "TEE_ERROR_BAD_PARAMETERS = 0xFFFF0006"

definition TEE_ERROR_BAD_STATE :: u32 where [raw_consts]:
  "TEE_ERROR_BAD_STATE = 0xFFFF0007"

definition TEE_ERROR_ITEM_NOT_FOUND :: u32 where [raw_consts]:
  "TEE_ERROR_ITEM_NOT_FOUND = 0xFFFF0008"

definition TEE_ERROR_NOT_IMPLEMENTED :: u32 where [raw_consts]:
  "TEE_ERROR_NOT_IMPLEMENTED = 0xFFFF0009"

definition TEE_ERROR_NOT_SUPPORTED :: u32 where [raw_consts]:
  "TEE_ERROR_NOT_SUPPORTED = 0xFFFF000A"

definition TEE_ERROR_NO_DATA :: u32 where [raw_consts]:
  "TEE_ERROR_NO_DATA = 0xFFFF000B"

definition TEE_ERROR_OUT_OF_MEMORY :: u32 where [raw_consts]:
  "TEE_ERROR_OUT_OF_MEMORY = 0xFFFF000C"

definition TEE_ERROR_BUSY :: u32 where [raw_consts]:
  "TEE_ERROR_BUSY = 0xFFFF000D"

definition TEE_ERROR_COMMUNICATION :: u32 where [raw_consts]:
  "TEE_ERROR_COMMUNICATION = 0xFFFF000E"

definition TEE_ERROR_SECURITY :: u32 where [raw_consts]:
  "TEE_ERROR_SECURITY = 0xFFFF000F"

definition TEE_ERROR_SHORT_BUFFER :: u32 where [raw_consts]:
  "TEE_ERROR_SHORT_BUFFER = 0xFFFF0010"

definition TEE_ERROR_EXTERNAL_CANCEL :: u32 where [raw_consts]:
  "TEE_ERROR_EXTERNAL_CANCEL = 0xFFFF0011"

definition TEE_ERROR_TIMEOUT :: u32 where [raw_consts]:
  "TEE_ERROR_TIMEOUT = 0xFFFF3001"

definition TEE_ERROR_OVERFLOW :: u32 where [raw_consts]:
  "TEE_ERROR_OVERFLOW = 0xFFFF300F"

definition TEE_ERROR_TARGET_DEAD :: u32 where [raw_consts]:
  "TEE_ERROR_TARGET_DEAD = 0xFFFF3024"

definition TEE_ERROR_STORAGE_NO_SPACE :: u32 where [raw_consts]:
  "TEE_ERROR_STORAGE_NO_SPACE = 0xFFFF3041"

definition TEE_ERROR_MAC_INVALID :: u32 where [raw_consts]:
  "TEE_ERROR_MAC_INVALID = 0xFFFF3071"

definition TEE_ERROR_SIGNATURE_INVALID :: u32 where [raw_consts]:
  "TEE_ERROR_SIGNATURE_INVALID = 0xFFFF3072"

definition TEE_ERROR_TIME_NOT_SET :: u32 where [raw_consts]:
  "TEE_ERROR_TIME_NOT_SET = 0xFFFF5000"

definition TEE_ERROR_TIME_NEEDS_RESET :: u32 where [raw_consts]:
  "TEE_ERROR_TIME_NEEDS_RESET = 0xFFFF5001"

definition TEE_PARAM_TYPE_NONE :: u32 where [raw_consts]:
  "TEE_PARAM_TYPE_NONE = 0"

definition TEE_PARAM_TYPE_VALUE_INPUT :: u32 where [raw_consts]:
  "TEE_PARAM_TYPE_VALUE_INPUT = 1"

definition TEE_PARAM_TYPE_VALUE_OUTPUT :: u32 where [raw_consts]:
  "TEE_PARAM_TYPE_VALUE_OUTPUT = 2"

definition TEE_PARAM_TYPE_VALUE_INOUT :: u32 where [raw_consts]:
  "TEE_PARAM_TYPE_VALUE_INOUT = 3"

definition TEE_PARAM_TYPE_MEMREF_INPUT :: u32 where [raw_consts]:
  "TEE_PARAM_TYPE_MEMREF_INPUT = 5"

definition TEE_PARAM_TYPE_MEMREF_OUTPUT :: u32 where [raw_consts]:
  "TEE_PARAM_TYPE_MEMREF_OUTPUT = 6"

definition TEE_PARAM_TYPE_MEMREF_INOUT :: u32 where [raw_consts]:
  "TEE_PARAM_TYPE_MEMREF_INOUT = 7"

definition TEE_LOGIN_PUBLIC :: u32 where [raw_consts]:
  "TEE_LOGIN_PUBLIC = 0x00000000"

definition TEE_LOGIN_USER :: u32 where [raw_consts]:
  "TEE_LOGIN_USER = 0x00000001"

definition TEE_LOGIN_GROUP :: u32 where [raw_consts]:
  "TEE_LOGIN_GROUP = 0x00000002"

definition TEE_LOGIN_APPLICATION :: u32 where [raw_consts]:
  "TEE_LOGIN_APPLICATION = 0x00000004"

definition TEE_LOGIN_APPLICATION_USER :: u32 where [raw_consts]:
  "TEE_LOGIN_APPLICATION_USER = 0x00000005"

definition TEE_LOGIN_APPLICATION_GROUP :: u32 where [raw_consts]:
  "TEE_LOGIN_APPLICATION_GROUP = 0x00000006"

definition TEE_LOGIN_TRUSTED_APP :: u32 where [raw_consts]:
  "TEE_LOGIN_TRUSTED_APP = 0xF0000000"

definition TEE_ORIGIN_API :: u32 where [raw_consts]:
  "TEE_ORIGIN_API = 0x00000001"

definition TEE_ORIGIN_COMMS :: u32 where [raw_consts]:
  "TEE_ORIGIN_COMMS = 0x00000002"

definition TEE_ORIGIN_TEE :: u32 where [raw_consts]:
  "TEE_ORIGIN_TEE = 0x00000003"

definition TEE_ORIGIN_TRUSTED_APP :: u32 where [raw_consts]:
  "TEE_ORIGIN_TRUSTED_APP = 0x00000004"

definition TEE_MEMORY_ACCESS_READ :: u32 where [raw_consts]:
  "TEE_MEMORY_ACCESS_READ = 0x00000001"

definition TEE_MEMORY_ACCESS_WRITE :: u32 where [raw_consts]:
  "TEE_MEMORY_ACCESS_WRITE = 0x00000002"

definition TEE_MEMORY_ACCESS_ANY_OWNER :: u32 where [raw_consts]:
  "TEE_MEMORY_ACCESS_ANY_OWNER = 0x00000004"

definition TEE_MALLOC_FILL_ZERO :: u32 where [raw_consts]:
  "TEE_MALLOC_FILL_ZERO = 0x00000000"

definition TEE_MALLOC_NO_FILL :: u32 where [raw_consts]:
  "TEE_MALLOC_NO_FILL = 0x00000001"

definition TEE_MALLOC_NO_SHARE :: u32 where [raw_consts]:
  "TEE_MALLOC_NO_SHARE = 0x00000002"

definition TEE_DATA_SEEK_SET :: u32 where [raw_consts]:
  "TEE_DATA_SEEK_SET = 0x00000000"

definition TEE_DATA_SEEK_CUR :: u32 where [raw_consts]:
  "TEE_DATA_SEEK_CUR = 0x00000001"

definition TEE_DATA_SEEK_END :: u32 where [raw_consts]:
  "TEE_DATA_SEEK_END = 0x00000002"

definition TEE_WHENCE_ILLEGAL_VALUE :: u32 where [raw_consts]:
  "TEE_WHENCE_ILLEGAL_VALUE = 0x7FFFFFFF"

definition TEE_MODE_ENCRYPT :: u32 where [raw_consts]:
  "TEE_MODE_ENCRYPT = 0x00000000"

definition TEE_MODE_DECRYPT :: u32 where [raw_consts]:
  "TEE_MODE_DECRYPT = 0x00000001"

definition TEE_MODE_SIGN :: u32 where [raw_consts]:
  "TEE_MODE_SIGN = 0x00000002"

definition TEE_MODE_VERIFY :: u32 where [raw_consts]:
  "TEE_MODE_VERIFY = 0x00000003"

definition TEE_MODE_MAC :: u32 where [raw_consts]:
  "TEE_MODE_MAC = 0x00000004"

definition TEE_MODE_DIGEST :: u32 where [raw_consts]:
  "TEE_MODE_DIGEST = 0x00000005"

definition TEE_MODE_DERIVE :: u32 where [raw_consts]:
  "TEE_MODE_DERIVE = 0x00000006"

definition TEE_MODE_ILLEGAL_VALUE :: u32 where [raw_consts]:
  "TEE_MODE_ILLEGAL_VALUE = 0x7FFFFFFF"

definition TEE_STORAGE_PRIVATE :: u32 where [raw_consts]:
  "TEE_STORAGE_PRIVATE = 0x00000001"

definition TEE_DATA_FLAG_ACCESS_READ :: u32 where [raw_consts]:
  "TEE_DATA_FLAG_ACCESS_READ = 0x00000001"

definition TEE_DATA_FLAG_ACCESS_WRITE :: u32 where [raw_consts]:
  "TEE_DATA_FLAG_ACCESS_WRITE = 0x00000002"

definition TEE_DATA_FLAG_ACCESS_WRITE_META :: u32 where [raw_consts]:
  "TEE_DATA_FLAG_ACCESS_WRITE_META = 0x00000004"

definition TEE_DATA_FLAG_SHARE_READ :: u32 where [raw_consts]:
  "TEE_DATA_FLAG_SHARE_READ = 0x00000010"

definition TEE_DATA_FLAG_SHARE_WRITE :: u32 where [raw_consts]:
  "TEE_DATA_FLAG_SHARE_WRITE = 0x00000020"

definition TEE_DATA_FLAG_OVERWRITE :: u32 where [raw_consts]:
  "TEE_DATA_FLAG_OVERWRITE = 0x00000400"

definition TEE_DATA_MAX_POSITION :: u32 where [raw_consts]:
  "TEE_DATA_MAX_POSITION = 0xFFFFFFFF"

definition TEE_OBJECT_ID_MAX_LEN :: u32 where [raw_consts]:
  "TEE_OBJECT_ID_MAX_LEN = 64"

definition TEE_USAGE_EXTRACTABLE :: u32 where [raw_consts]:
  "TEE_USAGE_EXTRACTABLE = 0x00000001"

definition TEE_USAGE_ENCRYPT :: u32 where [raw_consts]:
  "TEE_USAGE_ENCRYPT = 0x00000002"

definition TEE_USAGE_DECRYPT :: u32 where [raw_consts]:
  "TEE_USAGE_DECRYPT = 0x00000004"

definition TEE_USAGE_MAC :: u32 where [raw_consts]:
  "TEE_USAGE_MAC = 0x00000008"

definition TEE_USAGE_SIGN :: u32 where [raw_consts]:
  "TEE_USAGE_SIGN = 0x00000010"

definition TEE_USAGE_VERIFY :: u32 where [raw_consts]:
  "TEE_USAGE_VERIFY = 0x00000020"

definition TEE_USAGE_DERIVE :: u32 where [raw_consts]:
  "TEE_USAGE_DERIVE = 0x00000040"

definition TEE_HANDLE_FLAG_PERSISTENT :: u32 where [raw_consts]:
  "TEE_HANDLE_FLAG_PERSISTENT = 0x00010000"

definition TEE_HANDLE_FLAG_INITIALIZED :: u32 where [raw_consts]:
  "TEE_HANDLE_FLAG_INITIALIZED = 0x00020000"

definition TEE_HANDLE_FLAG_KEY_SET :: u32 where [raw_consts]:
  "TEE_HANDLE_FLAG_KEY_SET = 0x00040000"

definition TEE_HANDLE_FLAG_EXPECT_TWO_KEYS :: u32 where [raw_consts]:
  "TEE_HANDLE_FLAG_EXPECT_TWO_KEYS = 0x00080000"

definition TEE_HANDLE_FLAG_EXTRACTING :: u32 where [raw_consts]:
  "TEE_HANDLE_FLAG_EXTRACTING = 0x00100000"

definition TEE_OPERATION_CIPHER :: u32 where [raw_consts]:
  "TEE_OPERATION_CIPHER = 1"

definition TEE_OPERATION_MAC :: u32 where [raw_consts]:
  "TEE_OPERATION_MAC = 3"

definition TEE_OPERATION_AE :: u32 where [raw_consts]:
  "TEE_OPERATION_AE = 4"

definition TEE_OPERATION_DIGEST :: u32 where [raw_consts]:
  "TEE_OPERATION_DIGEST = 5"

definition TEE_OPERATION_ASYMMETRIC_CIPHER :: u32 where [raw_consts]:
  "TEE_OPERATION_ASYMMETRIC_CIPHER = 6"

definition TEE_OPERATION_ASYMMETRIC_SIGNATURE :: u32 where [raw_consts]:
  "TEE_OPERATION_ASYMMETRIC_SIGNATURE = 7"

definition TEE_OPERATION_KEY_DERIVATION :: u32 where [raw_consts]:
  "TEE_OPERATION_KEY_DERIVATION = 8"

definition TEE_OPERATION_STATE_INITIAL :: u32 where [raw_consts]:
  "TEE_OPERATION_STATE_INITIAL = 0x00000000"

definition TEE_OPERATION_STATE_ACTIVE :: u32 where [raw_consts]:
  "TEE_OPERATION_STATE_ACTIVE = 0x00000001"

definition TEE_OPERATION_STATE_EXTRACTING :: u32 where [raw_consts]:
  "TEE_OPERATION_STATE_EXTRACTING = 0x00000002"

definition TEE_ALG_AES_ECB_NOPAD :: u32 where [raw_consts]:
  "TEE_ALG_AES_ECB_NOPAD = 0x10000010"

definition TEE_ALG_AES_CBC_NOPAD :: u32 where [raw_consts]:
  "TEE_ALG_AES_CBC_NOPAD = 0x10000110"

definition TEE_ALG_AES_CTR :: u32 where [raw_consts]:
  "TEE_ALG_AES_CTR = 0x10000210"

definition TEE_ALG_AES_CTS :: u32 where [raw_consts]:
  "TEE_ALG_AES_CTS = 0x10000310"

definition TEE_ALG_AES_XTS :: u32 where [raw_consts]:
  "TEE_ALG_AES_XTS = 0x10000410"

definition TEE_ALG_AES_CBC_MAC_NOPAD :: u32 where [raw_consts]:
  "TEE_ALG_AES_CBC_MAC_NOPAD = 0x30000110"

definition TEE_ALG_AES_CBC_MAC_PKCS5 :: u32 where [raw_consts]:
  "TEE_ALG_AES_CBC_MAC_PKCS5 = 0x30000510"

definition TEE_ALG_AES_CMAC :: u32 where [raw_consts]:
  "TEE_ALG_AES_CMAC = 0x30000610"

definition TEE_ALG_AES_CCM :: u32 where [raw_consts]:
  "TEE_ALG_AES_CCM = 0x40000710"

definition TEE_ALG_AES_GCM :: u32 where [raw_consts]:
  "TEE_ALG_AES_GCM = 0x40000810"

definition TEE_ALG_DES_ECB_NOPAD :: u32 where [raw_consts]:
  "TEE_ALG_DES_ECB_NOPAD = 0x10000011"

definition TEE_ALG_DES_CBC_NOPAD :: u32 where [raw_consts]:
  "TEE_ALG_DES_CBC_NOPAD = 0x10000111"

definition TEE_ALG_DES_CBC_MAC_NOPAD :: u32 where [raw_consts]:
  "TEE_ALG_DES_CBC_MAC_NOPAD = 0x30000111"

definition TEE_ALG_DES_CBC_MAC_PKCS5 :: u32 where [raw_consts]:
  "TEE_ALG_DES_CBC_MAC_PKCS5 = 0x30000511"

definition TEE_ALG_DES3_ECB_NOPAD :: u32 where [raw_consts]:
  "TEE_ALG_DES3_ECB_NOPAD = 0x10000013"

definition TEE_ALG_DES3_CBC_NOPAD :: u32 where [raw_consts]:
  "TEE_ALG_DES3_CBC_NOPAD = 0x10000113"

definition TEE_ALG_DES3_CBC_MAC_NOPAD :: u32 where [raw_consts]:
  "TEE_ALG_DES3_CBC_MAC_NOPAD = 0x30000113"

definition TEE_ALG_DES3_CBC_MAC_PKCS5 :: u32 where [raw_consts]:
  "TEE_ALG_DES3_CBC_MAC_PKCS5 = 0x30000513"

definition TEE_ALG_SM4_ECB_NOPAD :: u32 where [raw_consts]:
  "TEE_ALG_SM4_ECB_NOPAD = 0x10000014"

definition TEE_ALG_SM4_CBC_NOPAD :: u32 where [raw_consts]:
  "TEE_ALG_SM4_CBC_NOPAD = 0x10000114"

definition TEE_ALG_SM4_CTR :: u32 where [raw_consts]:
  "TEE_ALG_SM4_CTR = 0x10000214"

definition TEE_ALG_RSASSA_PKCS1_V1_5_MD5 :: u32 where [raw_consts]:
  "TEE_ALG_RSASSA_PKCS1_V1_5_MD5 = 0x70001830"

definition TEE_ALG_RSASSA_PKCS1_V1_5_SHA1 :: u32 where [raw_consts]:
  "TEE_ALG_RSASSA_PKCS1_V1_5_SHA1 = 0x70002830"

definition TEE_ALG_RSASSA_PKCS1_V1_5_SHA224 :: u32 where [raw_consts]:
  "TEE_ALG_RSASSA_PKCS1_V1_5_SHA224 = 0x70003830"

definition TEE_ALG_RSASSA_PKCS1_V1_5_SHA256 :: u32 where [raw_consts]:
  "TEE_ALG_RSASSA_PKCS1_V1_5_SHA256 = 0x70004830"

definition TEE_ALG_RSASSA_PKCS1_V1_5_SHA384 :: u32 where [raw_consts]:
  "TEE_ALG_RSASSA_PKCS1_V1_5_SHA384 = 0x70005830"

definition TEE_ALG_RSASSA_PKCS1_V1_5_SHA512 :: u32 where [raw_consts]:
  "TEE_ALG_RSASSA_PKCS1_V1_5_SHA512 = 0x70006830"

definition TEE_ALG_RSASSA_PKCS1_V1_5_MD5SHA1 :: u32 where [raw_consts]:
  "TEE_ALG_RSASSA_PKCS1_V1_5_MD5SHA1 = 0x7000F830"

definition TEE_ALG_RSASSA_PKCS1_PSS_MGF1_SHA1 :: u32 where [raw_consts]:
  "TEE_ALG_RSASSA_PKCS1_PSS_MGF1_SHA1 = 0x70212930"

definition TEE_ALG_RSASSA_PKCS1_PSS_MGF1_SHA224 :: u32 where [raw_consts]:
  "TEE_ALG_RSASSA_PKCS1_PSS_MGF1_SHA224 = 0x70313930"

definition TEE_ALG_RSASSA_PKCS1_PSS_MGF1_SHA256 :: u32 where [raw_consts]:
  "TEE_ALG_RSASSA_PKCS1_PSS_MGF1_SHA256 = 0x70414930"

definition TEE_ALG_RSASSA_PKCS1_PSS_MGF1_SHA384 :: u32 where [raw_consts]:
  "TEE_ALG_RSASSA_PKCS1_PSS_MGF1_SHA384 = 0x70515930"

definition TEE_ALG_RSASSA_PKCS1_PSS_MGF1_SHA512 :: u32 where [raw_consts]:
  "TEE_ALG_RSASSA_PKCS1_PSS_MGF1_SHA512 = 0x70616930"

definition TEE_ALG_RSAES_PKCS1_V1_5 :: u32 where [raw_consts]:
  "TEE_ALG_RSAES_PKCS1_V1_5 = 0x60000130"

definition TEE_ALG_RSAES_PKCS1_OAEP_MGF1_SHA1 :: u32 where [raw_consts]:
  "TEE_ALG_RSAES_PKCS1_OAEP_MGF1_SHA1 = 0x60210230"

definition TEE_ALG_RSAES_PKCS1_OAEP_MGF1_SHA224 :: u32 where [raw_consts]:
  "TEE_ALG_RSAES_PKCS1_OAEP_MGF1_SHA224 = 0x60310230"

definition TEE_ALG_RSAES_PKCS1_OAEP_MGF1_SHA256 :: u32 where [raw_consts]:
  "TEE_ALG_RSAES_PKCS1_OAEP_MGF1_SHA256 = 0x60410230"

definition TEE_ALG_RSAES_PKCS1_OAEP_MGF1_SHA384 :: u32 where [raw_consts]:
  "TEE_ALG_RSAES_PKCS1_OAEP_MGF1_SHA384 = 0x60510230"

definition TEE_ALG_RSAES_PKCS1_OAEP_MGF1_SHA512 :: u32 where [raw_consts]:
  "TEE_ALG_RSAES_PKCS1_OAEP_MGF1_SHA512 = 0x60610230"

definition TEE_ALG_RSA_NOPAD :: u32 where [raw_consts]:
  "TEE_ALG_RSA_NOPAD = 0x60000030"

definition TEE_ALG_DSA_SHA1 :: u32 where [raw_consts]:
  "TEE_ALG_DSA_SHA1 = 0x70002131"

definition TEE_ALG_DSA_SHA224 :: u32 where [raw_consts]:
  "TEE_ALG_DSA_SHA224 = 0x70003131"

definition TEE_ALG_DSA_SHA256 :: u32 where [raw_consts]:
  "TEE_ALG_DSA_SHA256 = 0x70004131"

definition TEE_ALG_SM2_DSA_SM3 :: u32 where [raw_consts]:
  "TEE_ALG_SM2_DSA_SM3 = 0x70006045"

definition TEE_ALG_DH_DERIVE_SHARED_SECRET :: u32 where [raw_consts]:
  "TEE_ALG_DH_DERIVE_SHARED_SECRET = 0x80000032"

definition TEE_ALG_PBKDF2_HMAC_SHA1_DERIVE_KEY :: u32 where [raw_consts]:
  "TEE_ALG_PBKDF2_HMAC_SHA1_DERIVE_KEY = 0x800020C2"

definition TEE_ALG_PBKDF2_HMAC_SHA224_DERIVE_KEY :: u32 where [raw_consts]:
  "TEE_ALG_PBKDF2_HMAC_SHA224_DERIVE_KEY = 0x800030C2"

definition TEE_ALG_PBKDF2_HMAC_SHA256_DERIVE_KEY :: u32 where [raw_consts]:
  "TEE_ALG_PBKDF2_HMAC_SHA256_DERIVE_KEY = 0x800040C2"

definition TEE_ALG_PBKDF2_HMAC_SHA384_DERIVE_KEY :: u32 where [raw_consts]:
  "TEE_ALG_PBKDF2_HMAC_SHA384_DERIVE_KEY = 0x800050C2"

definition TEE_ALG_PBKDF2_HMAC_SHA512_DERIVE_KEY :: u32 where [raw_consts]:
  "TEE_ALG_PBKDF2_HMAC_SHA512_DERIVE_KEY = 0x800060C2"

definition TEE_ALG_PBKDF2_HMAC_SM3_DERIVE_KEY :: u32 where [raw_consts]:
  "TEE_ALG_PBKDF2_HMAC_SM3_DERIVE_KEY = 0x800070C2"

definition TEE_ALG_SM2_KEP :: u32 where [raw_consts]:
  "TEE_ALG_SM2_KEP = 0x60000045"

definition TEE_ALG_MD5 :: u32 where [raw_consts]:
  "TEE_ALG_MD5 = 0x50000001"

definition TEE_ALG_SHA1 :: u32 where [raw_consts]:
  "TEE_ALG_SHA1 = 0x50000002"

definition TEE_ALG_SHA224 :: u32 where [raw_consts]:
  "TEE_ALG_SHA224 = 0x50000003"

definition TEE_ALG_SHA256 :: u32 where [raw_consts]:
  "TEE_ALG_SHA256 = 0x50000004"

definition TEE_ALG_SHA384 :: u32 where [raw_consts]:
  "TEE_ALG_SHA384 = 0x50000005"

definition TEE_ALG_SHA512 :: u32 where [raw_consts]:
  "TEE_ALG_SHA512 = 0x50000006"

definition TEE_ALG_MD5SHA1 :: u32 where [raw_consts]:
  "TEE_ALG_MD5SHA1 = 0x5000000F"

definition TEE_ALG_HMAC_MD5 :: u32 where [raw_consts]:
  "TEE_ALG_HMAC_MD5 = 0x30000001"

definition TEE_ALG_HMAC_SHA1 :: u32 where [raw_consts]:
  "TEE_ALG_HMAC_SHA1 = 0x30000002"

definition TEE_ALG_HMAC_SHA224 :: u32 where [raw_consts]:
  "TEE_ALG_HMAC_SHA224 = 0x30000003"

definition TEE_ALG_HMAC_SHA256 :: u32 where [raw_consts]:
  "TEE_ALG_HMAC_SHA256 = 0x30000004"

definition TEE_ALG_HMAC_SHA384 :: u32 where [raw_consts]:
  "TEE_ALG_HMAC_SHA384 = 0x30000005"

definition TEE_ALG_HMAC_SHA512 :: u32 where [raw_consts]:
  "TEE_ALG_HMAC_SHA512 = 0x30000006"

definition TEE_ALG_HMAC_SM3 :: u32 where [raw_consts]:
  "TEE_ALG_HMAC_SM3 = 0x30000007"

definition TEE_ALG_ECDSA_P192 :: u32 where [raw_consts]:
  "TEE_ALG_ECDSA_P192 = 0x70001041"

definition TEE_ALG_ECDSA_P224 :: u32 where [raw_consts]:
  "TEE_ALG_ECDSA_P224 = 0x70002041"

definition TEE_ALG_ECDSA_P256 :: u32 where [raw_consts]:
  "TEE_ALG_ECDSA_P256 = 0x70003041"

definition TEE_ALG_ECDSA_P384 :: u32 where [raw_consts]:
  "TEE_ALG_ECDSA_P384 = 0x70004041"

definition TEE_ALG_ECDSA_P521 :: u32 where [raw_consts]:
  "TEE_ALG_ECDSA_P521 = 0x70005041"

definition TEE_ALG_ECDH_P192 :: u32 where [raw_consts]:
  "TEE_ALG_ECDH_P192 = 0x80001042"

definition TEE_ALG_ECDH_P224 :: u32 where [raw_consts]:
  "TEE_ALG_ECDH_P224 = 0x80002042"

definition TEE_ALG_ECDH_P256 :: u32 where [raw_consts]:
  "TEE_ALG_ECDH_P256 = 0x80003042"

definition TEE_ALG_ECDH_P384 :: u32 where [raw_consts]:
  "TEE_ALG_ECDH_P384 = 0x80004042"

definition TEE_ALG_ECDH_P521 :: u32 where [raw_consts]:
  "TEE_ALG_ECDH_P521 = 0x80005042"

definition TEE_ALG_SM2_PKE :: u32 where [raw_consts]:
  "TEE_ALG_SM2_PKE = 0x80000045"

definition TEE_ALG_SM3 :: u32 where [raw_consts]:
  "TEE_ALG_SM3 = 0x50000007"

definition TEE_ALG_ILLEGAL_VALUE :: u32 where [raw_consts]:
  "TEE_ALG_ILLEGAL_VALUE = 0xEFFFFFFF"

definition TEE_TYPE_AES :: u32 where [raw_consts]:
  "TEE_TYPE_AES = 0xA0000010"

definition TEE_TYPE_DES :: u32 where [raw_consts]:
  "TEE_TYPE_DES = 0xA0000011"

definition TEE_TYPE_DES3 :: u32 where [raw_consts]:
  "TEE_TYPE_DES3 = 0xA0000013"

definition TEE_TYPE_SM4 :: u32 where [raw_consts]:
  "TEE_TYPE_SM4 = 0xA0000014"

definition TEE_TYPE_HMAC_MD5 :: u32 where [raw_consts]:
  "TEE_TYPE_HMAC_MD5 = 0xA0000001"

definition TEE_TYPE_HMAC_SHA1 :: u32 where [raw_consts]:
  "TEE_TYPE_HMAC_SHA1 = 0xA0000002"

definition TEE_TYPE_HMAC_SHA224 :: u32 where [raw_consts]:
  "TEE_TYPE_HMAC_SHA224 = 0xA0000003"

definition TEE_TYPE_HMAC_SHA256 :: u32 where [raw_consts]:
  "TEE_TYPE_HMAC_SHA256 = 0xA0000004"

definition TEE_TYPE_HMAC_SHA384 :: u32 where [raw_consts]:
  "TEE_TYPE_HMAC_SHA384 = 0xA0000005"

definition TEE_TYPE_HMAC_SHA512 :: u32 where [raw_consts]:
  "TEE_TYPE_HMAC_SHA512 = 0xA0000006"

definition TEE_TYPE_HMAC_SM3 :: u32 where [raw_consts]:
  "TEE_TYPE_HMAC_SM3 = 0xA0000007"

definition TEE_TYPE_RSA_PUBLIC_KEY :: u32 where [raw_consts]:
  "TEE_TYPE_RSA_PUBLIC_KEY = 0xA0000030"

definition TEE_TYPE_RSA_KEYPAIR :: u32 where [raw_consts]:
  "TEE_TYPE_RSA_KEYPAIR = 0xA1000030"

definition TEE_TYPE_DSA_PUBLIC_KEY :: u32 where [raw_consts]:
  "TEE_TYPE_DSA_PUBLIC_KEY = 0xA0000031"

definition TEE_TYPE_DSA_KEYPAIR :: u32 where [raw_consts]:
  "TEE_TYPE_DSA_KEYPAIR = 0xA1000031"

definition TEE_TYPE_DH_KEYPAIR :: u32 where [raw_consts]:
  "TEE_TYPE_DH_KEYPAIR = 0xA1000032"

definition TEE_TYPE_ECDSA_PUBLIC_KEY :: u32 where [raw_consts]:
  "TEE_TYPE_ECDSA_PUBLIC_KEY = 0xA0000041"

definition TEE_TYPE_ECDSA_KEYPAIR :: u32 where [raw_consts]:
  "TEE_TYPE_ECDSA_KEYPAIR = 0xA1000041"

definition TEE_TYPE_ECDH_PUBLIC_KEY :: u32 where [raw_consts]:
  "TEE_TYPE_ECDH_PUBLIC_KEY = 0xA0000042"

definition TEE_TYPE_ECDH_KEYPAIR :: u32 where [raw_consts]:
  "TEE_TYPE_ECDH_KEYPAIR = 0xA1000042"

definition TEE_TYPE_SM2_DSA_PUBLIC_KEY :: u32 where [raw_consts]:
  "TEE_TYPE_SM2_DSA_PUBLIC_KEY = 0xA0000045"

definition TEE_TYPE_SM2_DSA_KEYPAIR :: u32 where [raw_consts]:
  "TEE_TYPE_SM2_DSA_KEYPAIR = 0xA1000045"

definition TEE_TYPE_SM2_KEP_PUBLIC_KEY :: u32 where [raw_consts]:
  "TEE_TYPE_SM2_KEP_PUBLIC_KEY = 0xA0000046"

definition TEE_TYPE_SM2_KEP_KEYPAIR :: u32 where [raw_consts]:
  "TEE_TYPE_SM2_KEP_KEYPAIR = 0xA1000046"

definition TEE_TYPE_SM2_PKE_PUBLIC_KEY :: u32 where [raw_consts]:
  "TEE_TYPE_SM2_PKE_PUBLIC_KEY = 0xA0000047"

definition TEE_TYPE_SM2_PKE_KEYPAIR :: u32 where [raw_consts]:
  "TEE_TYPE_SM2_PKE_KEYPAIR = 0xA1000047"

definition TEE_TYPE_GENERIC_SECRET :: u32 where [raw_consts]:
  "TEE_TYPE_GENERIC_SECRET = 0xA0000000"

definition TEE_TYPE_CORRUPTED_OBJECT :: u32 where [raw_consts]:
  "TEE_TYPE_CORRUPTED_OBJECT = 0xA00000BE"

definition TEE_TYPE_DATA :: u32 where [raw_consts]:
  "TEE_TYPE_DATA = 0xA00000BF"

definition TEE_TYPE_PBKDF2_PASSWORD :: u32 where [raw_consts]:
  "TEE_TYPE_PBKDF2_PASSWORD = 0xA10000C2"

definition TEE_ATTR_SECRET_VALUE :: u32 where [raw_consts]:
  "TEE_ATTR_SECRET_VALUE = 0xC0000000"

definition TEE_ATTR_RSA_MODULUS :: u32 where [raw_consts]:
  "TEE_ATTR_RSA_MODULUS = 0xD0000130"

definition TEE_ATTR_RSA_PUBLIC_EXPONENT :: u32 where [raw_consts]:
  "TEE_ATTR_RSA_PUBLIC_EXPONENT = 0xD0000230"

definition TEE_ATTR_RSA_PRIVATE_EXPONENT :: u32 where [raw_consts]:
  "TEE_ATTR_RSA_PRIVATE_EXPONENT = 0xC0000330"

definition TEE_ATTR_RSA_PRIME1 :: u32 where [raw_consts]:
  "TEE_ATTR_RSA_PRIME1 = 0xC0000430"

definition TEE_ATTR_RSA_PRIME2 :: u32 where [raw_consts]:
  "TEE_ATTR_RSA_PRIME2 = 0xC0000530"

definition TEE_ATTR_RSA_EXPONENT1 :: u32 where [raw_consts]:
  "TEE_ATTR_RSA_EXPONENT1 = 0xC0000630"

definition TEE_ATTR_RSA_EXPONENT2 :: u32 where [raw_consts]:
  "TEE_ATTR_RSA_EXPONENT2 = 0xC0000730"

definition TEE_ATTR_RSA_COEFFICIENT :: u32 where [raw_consts]:
  "TEE_ATTR_RSA_COEFFICIENT = 0xC0000830"

definition TEE_ATTR_DSA_PRIME :: u32 where [raw_consts]:
  "TEE_ATTR_DSA_PRIME = 0xD0001031"

definition TEE_ATTR_DSA_SUBPRIME :: u32 where [raw_consts]:
  "TEE_ATTR_DSA_SUBPRIME = 0xD0001131"

definition TEE_ATTR_DSA_BASE :: u32 where [raw_consts]:
  "TEE_ATTR_DSA_BASE = 0xD0001231"

definition TEE_ATTR_DSA_PUBLIC_VALUE :: u32 where [raw_consts]:
  "TEE_ATTR_DSA_PUBLIC_VALUE = 0xD0000131"

definition TEE_ATTR_DSA_PRIVATE_VALUE :: u32 where [raw_consts]:
  "TEE_ATTR_DSA_PRIVATE_VALUE = 0xC0000231"

definition TEE_ATTR_DH_PRIME :: u32 where [raw_consts]:
  "TEE_ATTR_DH_PRIME = 0xD0001032"

definition TEE_ATTR_DH_SUBPRIME :: u32 where [raw_consts]:
  "TEE_ATTR_DH_SUBPRIME = 0xD0001132"

definition TEE_ATTR_DH_BASE :: u32 where [raw_consts]:
  "TEE_ATTR_DH_BASE = 0xD0001232"

definition TEE_ATTR_DH_X_BITS :: u32 where [raw_consts]:
  "TEE_ATTR_DH_X_BITS = 0xF0001332"

definition TEE_ATTR_DH_PUBLIC_VALUE :: u32 where [raw_consts]:
  "TEE_ATTR_DH_PUBLIC_VALUE = 0xD0000132"

definition TEE_ATTR_DH_PRIVATE_VALUE :: u32 where [raw_consts]:
  "TEE_ATTR_DH_PRIVATE_VALUE = 0xC0000232"

definition TEE_ATTR_RSA_OAEP_LABEL :: u32 where [raw_consts]:
  "TEE_ATTR_RSA_OAEP_LABEL = 0xD0000930"

definition TEE_ATTR_RSA_PSS_SALT_LENGTH :: u32 where [raw_consts]:
  "TEE_ATTR_RSA_PSS_SALT_LENGTH = 0xF0000A30"

definition TEE_ATTR_ECC_PUBLIC_VALUE_X :: u32 where [raw_consts]:
  "TEE_ATTR_ECC_PUBLIC_VALUE_X = 0xD0000141"

definition TEE_ATTR_ECC_PUBLIC_VALUE_Y :: u32 where [raw_consts]:
  "TEE_ATTR_ECC_PUBLIC_VALUE_Y = 0xD0000241"

definition TEE_ATTR_ECC_PRIVATE_VALUE :: u32 where [raw_consts]:
  "TEE_ATTR_ECC_PRIVATE_VALUE = 0xC0000341"

definition TEE_ATTR_ECC_CURVE :: u32 where [raw_consts]:
  "TEE_ATTR_ECC_CURVE = 0xF0000441"

definition TEE_ATTR_SM2_ID_INITIATOR :: u32 where [raw_consts]:
  "TEE_ATTR_SM2_ID_INITIATOR = 0xD0000446"

definition TEE_ATTR_SM2_ID_RESPONDER :: u32 where [raw_consts]:
  "TEE_ATTR_SM2_ID_RESPONDER = 0xD0000546"

definition TEE_ATTR_SM2_KEP_USER :: u32 where [raw_consts]:
  "TEE_ATTR_SM2_KEP_USER = 0xF0000646"

definition TEE_ATTR_SM2_KEP_CONFIRMATION_IN :: u32 where [raw_consts]:
  "TEE_ATTR_SM2_KEP_CONFIRMATION_IN = 0xD0000746"

definition TEE_ATTR_SM2_KEP_CONFIRMATION_OUT :: u32 where [raw_consts]:
  "TEE_ATTR_SM2_KEP_CONFIRMATION_OUT = 0xD0000846"

definition TEE_ATTR_ECC_EPHEMERAL_PUBLIC_VALUE_X :: u32 where [raw_consts]:
  "TEE_ATTR_ECC_EPHEMERAL_PUBLIC_VALUE_X = 0xD0000946"

definition TEE_ATTR_ECC_EPHEMERAL_PUBLIC_VALUE_Y :: u32 where [raw_consts]:
  "TEE_ATTR_ECC_EPHEMERAL_PUBLIC_VALUE_Y = 0xD0000A46"

definition TEE_ATTR_PBKDF2_PASSWORD :: u32 where [raw_consts]:
  "TEE_ATTR_PBKDF2_PASSWORD = 0xC00001C2"

definition TEE_ATTR_PBKDF2_SALT :: u32 where [raw_consts]:
  "TEE_ATTR_PBKDF2_SALT = 0xD00002C2"

definition TEE_ATTR_PBKDF2_ITERATION_COUNT :: u32 where [raw_consts]:
  "TEE_ATTR_PBKDF2_ITERATION_COUNT = 0xF00003C2"

definition TEE_ATTR_PBKDF2_DKM_LENGTH :: u32 where [raw_consts]:
  "TEE_ATTR_PBKDF2_DKM_LENGTH = 0xF00004C2"

definition TEE_ATTR_FLAG_PUBLIC :: u32 where [raw_consts]:
  "TEE_ATTR_FLAG_PUBLIC = push_bit 28 1"

definition TEE_ATTR_FLAG_VALUE :: u32 where [raw_consts]:
  "TEE_ATTR_FLAG_VALUE = push_bit 29 1"

definition TEE_ATTR_BIT_PROTECTED :: u32 where [raw_consts]:
  "TEE_ATTR_BIT_PROTECTED = push_bit 28 1"

definition TEE_ATTR_BIT_VALUE :: u32 where [raw_consts]:
  "TEE_ATTR_BIT_VALUE = push_bit 29 1"

definition TEE_CRYPTO_ELEMENT_NONE :: u32 where [raw_consts]:
  "TEE_CRYPTO_ELEMENT_NONE = 0x00000000"

definition TEE_ECC_CURVE_NIST_P192 :: u32 where [raw_consts]:
  "TEE_ECC_CURVE_NIST_P192 = 0x00000001"

definition TEE_ECC_CURVE_NIST_P224 :: u32 where [raw_consts]:
  "TEE_ECC_CURVE_NIST_P224 = 0x00000002"

definition TEE_ECC_CURVE_NIST_P256 :: u32 where [raw_consts]:
  "TEE_ECC_CURVE_NIST_P256 = 0x00000003"

definition TEE_ECC_CURVE_NIST_P384 :: u32 where [raw_consts]:
  "TEE_ECC_CURVE_NIST_P384 = 0x00000004"

definition TEE_ECC_CURVE_NIST_P521 :: u32 where [raw_consts]:
  "TEE_ECC_CURVE_NIST_P521 = 0x00000005"

definition TEE_ECC_CURVE_SM2 :: u32 where [raw_consts]:
  "TEE_ECC_CURVE_SM2 = 0x00000300"

definition TEE_NUM_PARAMS :: u32 where [raw_consts]:
  "TEE_NUM_PARAMS = 4"

text \<open>
  The four 4-bit parameter types in one word.  Shifting a \<^verbatim>\<open>u32\<close> uses the shift
  amount modulo 32; the indices the code passes are below 4.
\<close>

definition TEE_PARAM_TYPES :: "u32 \<Rightarrow> u32 \<Rightarrow> u32 \<Rightarrow> u32 \<Rightarrow> u32" where
  "TEE_PARAM_TYPES t0 t1 t2 t3 = t0 OR push_bit 4 t1 OR push_bit 8 t2 OR push_bit 12 t3"

definition TEE_PARAM_TYPE_GET :: "u32 \<Rightarrow> usize \<Rightarrow> u32" where
  "TEE_PARAM_TYPE_GET t i = drop_bit ((i * 4) mod 32) t AND 0xF"

lemma TEE_PARAM_TYPE_GET_nibble [simp]: "TEE_PARAM_TYPE_GET t i < 16"
  by (simp add: TEE_PARAM_TYPE_GET_def)

text \<open>Masking before shifting reads the same field as shifting before masking.\<close>

lemma masked_field:
  "0x000f AND t = TEE_PARAM_TYPE_GET t 0"
  "drop_bit 4 (0x00f0 AND t) = TEE_PARAM_TYPE_GET t 1"
  "drop_bit 8 (0x0f00 AND t) = TEE_PARAM_TYPE_GET t 2"
  "drop_bit 12 (0xf000 AND t) = TEE_PARAM_TYPE_GET t 3" for t :: u32
  by (simp_all add: TEE_PARAM_TYPE_GET_def drop_bit_and and.commute)

text \<open>Each of the four types is read back from the packed word.\<close>

lemma TEE_PARAM_TYPES_get:
  assumes "t0 < 16" "t1 < 16" "t2 < 16" "t3 < 16"
  shows "TEE_PARAM_TYPE_GET (TEE_PARAM_TYPES t0 t1 t2 t3) 0 = t0"
    and "TEE_PARAM_TYPE_GET (TEE_PARAM_TYPES t0 t1 t2 t3) (Suc 0) = t1"
    and "TEE_PARAM_TYPE_GET (TEE_PARAM_TYPES t0 t1 t2 t3) 2 = t2"
    and "TEE_PARAM_TYPE_GET (TEE_PARAM_TYPES t0 t1 t2 t3) 3 = t3"
  using nibble_unpack[OF assms] by (simp_all add: TEE_PARAM_TYPE_GET_def TEE_PARAM_TYPES_def)

end
