(* ===== verification/TeeError.thy ===== *)
theory TeeError
  imports TeeApiDefines
begin

text \<open>
  The error type of the TA side, \<^verbatim>\<open>crates/optee-utee/src/error.rs\<close>: the kinds with their
  GlobalPlatform codes, the catch-all that keeps an unrecognised code, the optional
  origin, and the checks that turn the result of a TEE call into a \<^verbatim>\<open>Result\<close>.
\<close>

section \<open>Definitions\<close>

datatype ErrorKind =
    CorruptObject
  | CorruptObject2
  | StorageNotAvailable
  | StorageNotAvailable2
  | Generic
  | AccessDenied
  | Cancel
  | AccessConflict
  | ExcessData
  | BadFormat
  | BadParameters
  | BadState
  | ItemNotFound
  | NotImplemented
  | NotSupported
  | NoData
  | OutOfMemory
  | Busy
  | Communication
  | Security
  | ShortBuffer
  | ExternalCancel
  | Overflow
  | TargetDead
  | StorageNoSpace
  | MacInvalid
  | SignatureInvalid
  | TimeNotSet
  | TimeNeedsReset
  | Unknown u32

text \<open>The \<^verbatim>\<open>IntoPrimitive\<close> derive: the discriminant, and the payload of the catch-all.\<close>

fun ErrorKind_into :: "ErrorKind \<Rightarrow> u32" where
  "ErrorKind_into CorruptObject = TEE_ERROR_CORRUPT_OBJECT"
| "ErrorKind_into CorruptObject2 = TEE_ERROR_CORRUPT_OBJECT_2"
| "ErrorKind_into StorageNotAvailable = TEE_ERROR_STORAGE_NOT_AVAILABLE"
| "ErrorKind_into StorageNotAvailable2 = TEE_ERROR_STORAGE_NOT_AVAILABLE_2"
| "ErrorKind_into Generic = TEE_ERROR_GENERIC"
| "ErrorKind_into AccessDenied = TEE_ERROR_ACCESS_DENIED"
| "ErrorKind_into Cancel = TEE_ERROR_CANCEL"
| "ErrorKind_into AccessConflict = TEE_ERROR_ACCESS_CONFLICT"
| "ErrorKind_into ExcessData = TEE_ERROR_EXCESS_DATA"
| "ErrorKind_into BadFormat = TEE_ERROR_BAD_FORMAT"
| "ErrorKind_into BadParameters = TEE_ERROR_BAD_PARAMETERS"
| "ErrorKind_into BadState = TEE_ERROR_BAD_STATE"
| "ErrorKind_into ItemNotFound = TEE_ERROR_ITEM_NOT_FOUND"
| "ErrorKind_into NotImplemented = TEE_ERROR_NOT_IMPLEMENTED"
| "ErrorKind_into NotSupported = TEE_ERROR_NOT_SUPPORTED"
| "ErrorKind_into NoData = TEE_ERROR_NO_DATA"
| "ErrorKind_into OutOfMemory = TEE_ERROR_OUT_OF_MEMORY"
| "ErrorKind_into Busy = TEE_ERROR_BUSY"
| "ErrorKind_into Communication = TEE_ERROR_COMMUNICATION"
| "ErrorKind_into Security = TEE_ERROR_SECURITY"
| "ErrorKind_into ShortBuffer = TEE_ERROR_SHORT_BUFFER"
| "ErrorKind_into ExternalCancel = TEE_ERROR_EXTERNAL_CANCEL"
| "ErrorKind_into Overflow = TEE_ERROR_OVERFLOW"
| "ErrorKind_into TargetDead = TEE_ERROR_TARGET_DEAD"
| "ErrorKind_into StorageNoSpace = TEE_ERROR_STORAGE_NO_SPACE"
| "ErrorKind_into MacInvalid = TEE_ERROR_MAC_INVALID"
| "ErrorKind_into SignatureInvalid = TEE_ERROR_SIGNATURE_INVALID"
| "ErrorKind_into TimeNotSet = TEE_ERROR_TIME_NOT_SET"
| "ErrorKind_into TimeNeedsReset = TEE_ERROR_TIME_NEEDS_RESET"
| "ErrorKind_into (Unknown code) = code"

definition ErrorKind_variants :: "ErrorKind list" where
  "ErrorKind_variants =
     [CorruptObject, CorruptObject2, StorageNotAvailable, StorageNotAvailable2, Generic,
      AccessDenied, Cancel, AccessConflict, ExcessData, BadFormat, BadParameters, BadState,
      ItemNotFound, NotImplemented, NotSupported, NoData, OutOfMemory, Busy, Communication,
      Security, ShortBuffer, ExternalCancel, Overflow, TargetDead, StorageNoSpace, MacInvalid,
      SignatureInvalid, TimeNotSet, TimeNeedsReset]"

text \<open>The \<^verbatim>\<open>FromPrimitive\<close> derive.\<close>

definition ErrorKind_from :: "u32 \<Rightarrow> ErrorKind" where
  "ErrorKind_from = from_primitive ErrorKind_into ErrorKind_variants Unknown"

fun as_str :: "ErrorKind \<Rightarrow> string" where
  "as_str CorruptObject = ''Object corruption.''"
| "as_str CorruptObject2 = ''Persistent object corruption.''"
| "as_str StorageNotAvailable = ''Object storage is not available.''"
| "as_str StorageNotAvailable2 = ''Persistent object storage is not available.''"
| "as_str Generic = ''Non-specific cause.''"
| "as_str AccessDenied = ''Access privileges are not sufficient.''"
| "as_str Cancel = ''The operation was canceled.''"
| "as_str AccessConflict = ''Concurrent accesses caused conflict.''"
| "as_str ExcessData = ''Too much data for the requested operation was passed.''"
| "as_str BadFormat = ''Input data was of invalid format.''"
| "as_str BadParameters = ''Input parameters were invalid.''"
| "as_str BadState = ''Operation is not valid in the current state.''"
| "as_str ItemNotFound = ''The requested data item is not found.''"
| "as_str NotImplemented = ''The requested operation should exist but is not yet implemented.''"
| "as_str NotSupported = ''The requested operation is valid but is not supported in this implementation.''"
| "as_str NoData = ''Expected data was missing.''"
| "as_str OutOfMemory = ''System ran out of resources.''"
| "as_str Busy = ''The system is busy working on something else.''"
| "as_str Communication = ''Communication with a remote party failed.''"
| "as_str Security = ''A security fault was detected.''"
| "as_str ShortBuffer = ''The supplied buffer is too short for the generated output.''"
| "as_str ExternalCancel = ''Undocumented.''"
| "as_str Overflow = ''Data overflow.''"
| "as_str TargetDead = ''Trusted Application has panicked during the operation.''"
| "as_str StorageNoSpace = ''Insufficient space is available.''"
| "as_str MacInvalid = ''MAC is invalid.''"
| "as_str SignatureInvalid = ''Signature is invalid.''"
| "as_str TimeNotSet = ''The persistent time has not been set.''"
| "as_str TimeNeedsReset = ''The persistent time has been set but may have been corrupted and SHALL no longer be trusted.''"
| "as_str (Unknown _) = ''Unknown error.''"

datatype ErrorOrigin = Api | Comms | Tee | Ta | Origin_Unknown

text \<open>\<^verbatim>\<open>origin as u32\<close>: the last variant has no explicit discriminant and follows \<open>Ta\<close>.\<close>

fun ErrorOrigin_into :: "ErrorOrigin \<Rightarrow> u32" where
  "ErrorOrigin_into Api = TEE_ORIGIN_API"
| "ErrorOrigin_into Comms = TEE_ORIGIN_COMMS"
| "ErrorOrigin_into Tee = TEE_ORIGIN_TEE"
| "ErrorOrigin_into Ta = TEE_ORIGIN_TRUSTED_APP"
| "ErrorOrigin_into Origin_Unknown = TEE_ORIGIN_TRUSTED_APP + 1"

definition ErrorOrigin_from :: "u32 \<Rightarrow> ErrorOrigin" where
  "ErrorOrigin_from code =
     (if code = TEE_ORIGIN_API then Api
      else if code = TEE_ORIGIN_COMMS then Comms
      else if code = TEE_ORIGIN_TEE then Tee
      else if code = TEE_ORIGIN_TRUSTED_APP then Ta
      else Origin_Unknown)"

record Error =
  kind :: ErrorKind
  origin :: "ErrorOrigin option"

definition Error_from :: "ErrorKind \<Rightarrow> Error" where
  "Error_from k = \<lparr>kind = k, origin = None\<rparr>"

definition Error_new :: "ErrorKind \<Rightarrow> Error" where
  "Error_new k = Error_from k"

definition from_raw_error :: "u32 \<Rightarrow> Error" where
  "from_raw_error code = Error_from (ErrorKind_from code)"

definition with_origin :: "Error \<Rightarrow> ErrorOrigin \<Rightarrow> Error" where
  "with_origin e org = e\<lparr>origin := Some org\<rparr>"

definition raw_code :: "Error \<Rightarrow> u32" where
  "raw_code e = ErrorKind_into (kind e)"

definition message :: "Error \<Rightarrow> string" where
  "message e = as_str (kind e)"

definition Error_fmt :: "Error \<Rightarrow> string" where
  "Error_fmt e =
     message e @ '' (error code 0x'' @ lower_hex (unat (raw_code e)) @
     '', origin 0x'' @ lower_hex (unat (case origin e of Some v \<Rightarrow> ErrorOrigin_into v | None \<Rightarrow> 0)) @ '')''"

definition tee_check :: "u32 \<Rightarrow> Error + unit" where
  "tee_check code = (if code = TEE_SUCCESS then Inr () else Inl (from_raw_error code))"

definition tee_check_with_origin :: "u32 \<Rightarrow> u32 \<Rightarrow> Error + unit" where
  "tee_check_with_origin code org =
     (if code = TEE_SUCCESS then Inr ()
      else Inl (with_origin (from_raw_error code) (ErrorOrigin_from org)))"

section \<open>Lemmas\<close>

interpretation kinds: num_enum ErrorKind_into ErrorKind_variants Unknown
  by unfold_locales (simp_all add: ErrorKind_variants_def raw_consts)

lemma ErrorKind_into_from [simp]: "ErrorKind_into (ErrorKind_from c) = c"
  by (simp add: ErrorKind_from_def kinds.into_from)

lemma ErrorKind_variants_complete:
  "k \<in> set ErrorKind_variants \<longleftrightarrow> (\<forall>c. k \<noteq> Unknown c)"
  by (cases k) (simp_all add: ErrorKind_variants_def)

text \<open>Named kinds are recovered from their code; the catch-all only holds foreign codes.\<close>

lemma ErrorKind_from_into_iff:
  "ErrorKind_from (ErrorKind_into k) = k \<longleftrightarrow>
     (\<forall>c. k = Unknown c \<longrightarrow> c \<notin> ErrorKind_into ` set ErrorKind_variants)"
proof (cases "k \<in> set ErrorKind_variants")
  case True
  then show ?thesis
    by (simp add: ErrorKind_from_def kinds.from_variant) (simp add: ErrorKind_variants_complete)
next
  case False
  then obtain c where k: "k = Unknown c" by (auto simp: ErrorKind_variants_complete)
  show ?thesis
  proof (cases "c \<in> ErrorKind_into ` set ErrorKind_variants")
    case True
    then obtain v where v: "v \<in> set ErrorKind_variants" "c = ErrorKind_into v" by blast
    then have "ErrorKind_from c = v" by (simp add: ErrorKind_from_def kinds.from_variant)
    with v True k show ?thesis by (auto simp: ErrorKind_variants_complete)
  next
    case False
    with k show ?thesis by (simp add: ErrorKind_from_def kinds.from_other)
  qed
qed

lemma raw_code_from_raw_error [simp]: "raw_code (from_raw_error c) = c"
  by (simp add: raw_code_def from_raw_error_def Error_from_def)

lemma raw_code_with_origin [simp]: "raw_code (with_origin e org) = raw_code e"
  by (simp add: raw_code_def with_origin_def)

lemma raw_code_new [simp]: "raw_code (Error_new k) = ErrorKind_into k"
  by (simp add: raw_code_def Error_new_def Error_from_def)

lemma kind_new [simp]: "kind (Error_new k) = k"
  by (simp add: Error_new_def Error_from_def)

lemma tee_check_eq_Inr_iff [simp]: "tee_check c = Inr u \<longleftrightarrow> c = TEE_SUCCESS"
  by (simp add: tee_check_def)

lemma tee_check_eq_Inl_iff [simp]:
  "tee_check c = Inl e \<longleftrightarrow> c \<noteq> TEE_SUCCESS \<and> e = from_raw_error c"
  by (auto simp: tee_check_def)

lemma tee_check_with_origin_eq_Inr_iff [simp]:
  "tee_check_with_origin c org = Inr u \<longleftrightarrow> c = TEE_SUCCESS"
  by (simp add: tee_check_with_origin_def)

lemma tee_check_with_origin_eq_Inl_iff [simp]:
  "tee_check_with_origin c org = Inl e \<longleftrightarrow>
     c \<noteq> TEE_SUCCESS \<and> e = with_origin (from_raw_error c) (ErrorOrigin_from org)"
  by (auto simp: tee_check_with_origin_def)

text \<open>No error kind of the SDK collides with success.\<close>

lemma ErrorKind_into_nonzero: "k \<in> set ErrorKind_variants \<Longrightarrow> ErrorKind_into k \<noteq> TEE_SUCCESS"
  by (cases k) (simp_all add: ErrorKind_variants_complete raw_consts)

definition ErrorOrigin_variants :: "ErrorOrigin list" where
  "ErrorOrigin_variants = [Api, Comms, Tee, Ta, Origin_Unknown]"

interpretation origins: num_enum_default ErrorOrigin_into ErrorOrigin_variants Origin_Unknown
  by unfold_locales (simp_all add: ErrorOrigin_variants_def raw_consts)

text \<open>The hand-written conversion is the one the \<^verbatim>\<open>num_enum\<close> derive would give.\<close>

lemma ErrorOrigin_from_eq:
  "ErrorOrigin_from = from_primitive ErrorOrigin_into ErrorOrigin_variants (\<lambda>_. Origin_Unknown)"
  by (rule ext)
    (auto simp: ErrorOrigin_from_def from_primitive_def ErrorOrigin_variants_def split: option.split)

lemma ErrorOrigin_into_from_iff:
  "ErrorOrigin_into (ErrorOrigin_from c) = c \<longleftrightarrow> c \<in> {1, 2, 3, 4, 5}"
  unfolding ErrorOrigin_from_eq origins.default_into_from_iff
  by (simp add: ErrorOrigin_variants_def raw_consts)

end
