(* ===== verification/TeeUuid.thy ===== *)
theory TeeUuid
  imports UuidCrate TeeError
begin

text \<open>
  The UUID of a trusted application on the TA side, \<^verbatim>\<open>crates/optee-utee/src/uuid.rs\<close>, over
  the \<^verbatim>\<open>uuid\<close> and \<^verbatim>\<open>hex\<close> crates: parsing, the constructors from bytes, and the text
  form.
\<close>

section \<open>Definitions\<close>

record TEE_UUID =
  timeLow :: u32
  timeMid :: u16
  timeHiAndVersion :: u16
  clockSeqAndNode :: bytes

record Uuid =
  uuid_raw :: TEE_UUID

definition Uuid_new_raw :: "u32 \<Rightarrow> u16 \<Rightarrow> u16 \<Rightarrow> bytes \<Rightarrow> Uuid" where
  "Uuid_new_raw time_low time_mid time_hi_and_version clock_seq_and_nod =
     \<lparr>uuid_raw =
        \<lparr>timeLow = time_low, timeMid = time_mid, timeHiAndVersion = time_hi_and_version,
         clockSeqAndNode = clock_seq_and_nod\<rparr>\<rparr>"

definition Uuid_parse_str :: "'u uuid_crate \<Rightarrow> string \<Rightarrow> Error + Uuid" where
  "Uuid_parse_str U input =
     (case uc_parse_str U input of
        None \<Rightarrow> Inl (Error_from BadFormat)
      | Some uuid \<Rightarrow>
          (case uc_as_fields U uuid of
             (time_low, time_mid, time_hi_and_version, clock_seq_and_node) \<Rightarrow>
               Inr (Uuid_new_raw time_low time_mid time_hi_and_version clock_seq_and_node)))"

definition Uuid_from_bytes :: "'u uuid_crate \<Rightarrow> bytes \<Rightarrow> Uuid" where
  "Uuid_from_bytes U b =
     (case uc_as_fields U (uc_from_bytes U b) of
        (time_low, time_mid, time_hi_and_version, clock_seq_and_node) \<Rightarrow>
          Uuid_new_raw time_low time_mid time_hi_and_version clock_seq_and_node)"

definition Uuid_from_slice :: "'u uuid_crate \<Rightarrow> bytes \<Rightarrow> Error + Uuid" where
  "Uuid_from_slice U b =
     (case uc_from_slice U b of
        None \<Rightarrow> Inl (Error_from BadFormat)
      | Some uuid \<Rightarrow>
          (case uc_as_fields U uuid of
             (time_low, time_mid, time_hi_and_version, clock_seq_and_node) \<Rightarrow>
               Inr (Uuid_new_raw time_low time_mid time_hi_and_version clock_seq_and_node)))"

definition Uuid_fmt :: "'u uuid_crate \<Rightarrow> Uuid \<Rightarrow> string" where
  "Uuid_fmt U uuid =
     (let raw = uuid_raw uuid in
      lower_hex_padded 8 (unat (timeLow raw)) @ ''-'' @
      lower_hex_padded 4 (unat (timeMid raw)) @ ''-'' @
      lower_hex_padded 4 (unat (timeHiAndVersion raw)) @ ''-'' @
      uc_hex_encode U (take 2 (clockSeqAndNode raw)) @ ''-'' @
      uc_hex_encode U (take 6 (drop 2 (clockSeqAndNode raw))))"

text \<open>\<^verbatim>\<open>clockSeqAndNode\<close> is an array of eight bytes.\<close>

definition Uuid_wf :: "Uuid \<Rightarrow> bool" where
  "Uuid_wf uuid \<longleftrightarrow> length (clockSeqAndNode (uuid_raw uuid)) = 8"

definition Uuid_fields :: "Uuid \<Rightarrow> uuid_fields" where
  "Uuid_fields uuid =
     (let raw = uuid_raw uuid in
      (timeLow raw, timeMid raw, timeHiAndVersion raw, clockSeqAndNode raw))"

section \<open>Lemmas\<close>

lemma Uuid_fields_new_raw [simp]: "Uuid_fields (Uuid_new_raw t0 t1 t2 cs) = (t0, t1, t2, cs)"
  by (simp add: Uuid_fields_def Uuid_new_raw_def)

lemma Uuid_wf_new_raw [simp]: "Uuid_wf (Uuid_new_raw t0 t1 t2 cs) \<longleftrightarrow> length cs = 8"
  by (simp add: Uuid_wf_def Uuid_new_raw_def)

lemma Uuid_new_raw_surj:
  obtains t0 t1 t2 cs where "uuid = Uuid_new_raw t0 t1 t2 cs"
proof -
  have "uuid = Uuid_new_raw (timeLow (uuid_raw uuid)) (timeMid (uuid_raw uuid))
      (timeHiAndVersion (uuid_raw uuid)) (clockSeqAndNode (uuid_raw uuid))"
    by (simp add: Uuid_new_raw_def)
  then show ?thesis by (rule that)
qed

lemma Uuid_from_bytes_fields:
  assumes "uuid_crate_ok U" and "length b = 16"
  shows "Uuid_fields (Uuid_from_bytes U b) = be_fields b"
  using uuid_crate_okD(3)[OF assms]
  by (simp add: Uuid_from_bytes_def be_fields_def)

lemma Uuid_from_slice_eq:
  assumes "uuid_crate_ok U"
  shows "Uuid_from_slice U b =
    (if length b = 16 then Inr (Uuid_from_bytes U b) else Inl (Error_from BadFormat))"
  using uuid_crate_okD(2)[OF assms, of b]
  by (simp add: Uuid_from_slice_def Uuid_from_bytes_def split: prod.split)

text \<open>What is printed is the hyphenated form of the sixteen big-endian bytes.\<close>

lemma Uuid_fmt_hyphenated:
  assumes "uuid_crate_ok U" and "Uuid_wf uuid"
  shows "Uuid_fmt U uuid = hyphenated (be_image (Uuid_fields uuid))"
proof -
  obtain t0 t1 t2 cs where u: "uuid = Uuid_new_raw t0 t1 t2 cs" by (rule Uuid_new_raw_surj)
  with assms have "length cs = 8" by simp
  then show ?thesis
    unfolding u Uuid_fields_new_raw hyphenated_image[OF \<open>length cs = 8\<close>]
    by (simp add: Uuid_fmt_def Uuid_new_raw_def uuid_crate_okD(5)[OF assms(1)])
qed

text \<open>Printing and parsing is the identity.\<close>

lemma Uuid_parse_fmt:
  assumes "uuid_crate_ok U" and "Uuid_wf uuid"
  shows "Uuid_parse_str U (Uuid_fmt U uuid) = Inr uuid"
proof -
  obtain t0 t1 t2 cs where u: "uuid = Uuid_new_raw t0 t1 t2 cs" by (rule Uuid_new_raw_surj)
  with assms have "length cs = 8" by simp
  with u show ?thesis
    using uuid_crate_okD(1,3)[OF assms(1) length_images(1), of cs t0 t1 t2]
    unfolding Uuid_parse_str_def Uuid_fmt_hyphenated[OF assms]
    by (simp del: be_image.simps)
qed

end
