(* ===== verification/TeeClientApi.thy ===== *)
theory TeeClientApi
  imports Prelude
begin

text \<open>
  The constants of the GlobalPlatform TEE Client API as the binding crate
  \<^verbatim>\<open>optee-teec-sys\<close> declares them (\<^verbatim>\<open>tee_client_api.rs\<close>), and the packing of the parameter
  types of an operation.
\<close>

unbundle bit_operations_syntax

definition TEEC_CONFIG_PAYLOAD_REF_COUNT :: u32 where [raw_consts]:
  "TEEC_CONFIG_PAYLOAD_REF_COUNT = 4"

definition TEEC_NONE :: u32 where [raw_consts]:
  "TEEC_NONE = 0x00000000"

definition TEEC_VALUE_INPUT :: u32 where [raw_consts]:
  "TEEC_VALUE_INPUT = 0x00000001"

definition TEEC_VALUE_OUTPUT :: u32 where [raw_consts]:
  "TEEC_VALUE_OUTPUT = 0x00000002"

definition TEEC_VALUE_INOUT :: u32 where [raw_consts]:
  "TEEC_VALUE_INOUT = 0x00000003"

definition TEEC_MEMREF_TEMP_INPUT :: u32 where [raw_consts]:
  "TEEC_MEMREF_TEMP_INPUT = 0x00000005"

definition TEEC_MEMREF_TEMP_OUTPUT :: u32 where [raw_consts]:
  "TEEC_MEMREF_TEMP_OUTPUT = 0x00000006"

definition TEEC_MEMREF_TEMP_INOUT :: u32 where [raw_consts]:
  "TEEC_MEMREF_TEMP_INOUT = 0x00000007"

definition TEEC_MEMREF_WHOLE :: u32 where [raw_consts]:
  "TEEC_MEMREF_WHOLE = 0x0000000C"

definition TEEC_MEMREF_PARTIAL_INPUT :: u32 where [raw_consts]:
  "TEEC_MEMREF_PARTIAL_INPUT = 0x0000000D"

definition TEEC_MEMREF_PARTIAL_OUTPUT :: u32 where [raw_consts]:
  "TEEC_MEMREF_PARTIAL_OUTPUT = 0x0000000E"

definition TEEC_MEMREF_PARTIAL_INOUT :: u32 where [raw_consts]:
  "TEEC_MEMREF_PARTIAL_INOUT = 0x0000000F"

definition TEEC_MEM_INPUT :: u32 where [raw_consts]:
  "TEEC_MEM_INPUT = 0x00000001"

definition TEEC_MEM_OUTPUT :: u32 where [raw_consts]:
  "TEEC_MEM_OUTPUT = 0x00000002"

definition TEEC_SUCCESS :: u32 where [raw_consts]:
  "TEEC_SUCCESS = 0x00000000"

definition TEEC_ERROR_GENERIC :: u32 where [raw_consts]:
  "TEEC_ERROR_GENERIC = 0xFFFF0000"

definition TEEC_ERROR_ACCESS_DENIED :: u32 where [raw_consts]:
  "TEEC_ERROR_ACCESS_DENIED = 0xFFFF0001"

definition TEEC_ERROR_CANCEL :: u32 where [raw_consts]:
  "TEEC_ERROR_CANCEL = 0xFFFF0002"

definition TEEC_ERROR_ACCESS_CONFLICT :: u32 where [raw_consts]:
  "TEEC_ERROR_ACCESS_CONFLICT = 0xFFFF0003"

definition TEEC_ERROR_EXCESS_DATA :: u32 where [raw_consts]:
  "TEEC_ERROR_EXCESS_DATA = 0xFFFF0004"

definition TEEC_ERROR_BAD_FORMAT :: u32 where [raw_consts]:
  "TEEC_ERROR_BAD_FORMAT = 0xFFFF0005"

definition TEEC_ERROR_BAD_PARAMETERS :: u32 where [raw_consts]:
  "TEEC_ERROR_BAD_PARAMETERS = 0xFFFF0006"

definition TEEC_ERROR_BAD_STATE :: u32 where [raw_consts]:
  "TEEC_ERROR_BAD_STATE = 0xFFFF0007"

definition TEEC_ERROR_ITEM_NOT_FOUND :: u32 where [raw_consts]:
  "TEEC_ERROR_ITEM_NOT_FOUND = 0xFFFF0008"

definition TEEC_ERROR_NOT_IMPLEMENTED :: u32 where [raw_consts]:
  "TEEC_ERROR_NOT_IMPLEMENTED = 0xFFFF0009"

definition TEEC_ERROR_NOT_SUPPORTED :: u32 where [raw_consts]:
  "TEEC_ERROR_NOT_SUPPORTED = 0xFFFF000A"

definition TEEC_ERROR_NO_DATA :: u32 where [raw_consts]:
  "TEEC_ERROR_NO_DATA = 0xFFFF000B"

definition TEEC_ERROR_OUT_OF_MEMORY :: u32 where [raw_consts]:
  "TEEC_ERROR_OUT_OF_MEMORY = 0xFFFF000C"

definition TEEC_ERROR_BUSY :: u32 where [raw_consts]:
  "TEEC_ERROR_BUSY = 0xFFFF000D"

definition TEEC_ERROR_COMMUNICATION :: u32 where [raw_consts]:
  "TEEC_ERROR_COMMUNICATION = 0xFFFF000E"

definition TEEC_ERROR_SECURITY :: u32 where [raw_consts]:
  "TEEC_ERROR_SECURITY = 0xFFFF000F"

definition TEEC_ERROR_SHORT_BUFFER :: u32 where [raw_consts]:
  "TEEC_ERROR_SHORT_BUFFER = 0xFFFF0010"

definition TEEC_ERROR_EXTERNAL_CANCEL :: u32 where [raw_consts]:
  "TEEC_ERROR_EXTERNAL_CANCEL = 0xFFFF0011"

definition TEEC_ERROR_TARGET_DEAD :: u32 where [raw_consts]:
  "TEEC_ERROR_TARGET_DEAD = 0xFFFF3024"

definition TEEC_ORIGIN_API :: u32 where [raw_consts]:
  "TEEC_ORIGIN_API = 0x00000001"

definition TEEC_ORIGIN_COMMS :: u32 where [raw_consts]:
  "TEEC_ORIGIN_COMMS = 0x00000002"

definition TEEC_ORIGIN_TEE :: u32 where [raw_consts]:
  "TEEC_ORIGIN_TEE = 0x00000003"

definition TEEC_ORIGIN_TRUSTED_APP :: u32 where [raw_consts]:
  "TEEC_ORIGIN_TRUSTED_APP = 0x00000004"

definition TEEC_LOGIN_PUBLIC :: u32 where [raw_consts]:
  "TEEC_LOGIN_PUBLIC = 0x00000000"

definition TEEC_LOGIN_USER :: u32 where [raw_consts]:
  "TEEC_LOGIN_USER = 0x00000001"

definition TEEC_LOGIN_GROUP :: u32 where [raw_consts]:
  "TEEC_LOGIN_GROUP = 0x00000002"

definition TEEC_LOGIN_APPLICATION :: u32 where [raw_consts]:
  "TEEC_LOGIN_APPLICATION = 0x00000004"

definition TEEC_LOGIN_USER_APPLICATION :: u32 where [raw_consts]:
  "TEEC_LOGIN_USER_APPLICATION = 0x00000005"

definition TEEC_LOGIN_GROUP_APPLICATION :: u32 where [raw_consts]:
  "TEEC_LOGIN_GROUP_APPLICATION = 0x00000006"

definition TEEC_PARAM_TYPES :: "u32 \<Rightarrow> u32 \<Rightarrow> u32 \<Rightarrow> u32 \<Rightarrow> u32" where
  "TEEC_PARAM_TYPES p0 p1 p2 p3 =
     (let tmp = push_bit 4 p1 OR push_bit 8 p2 OR push_bit 12 p3 in p0 OR tmp)"


end
