(* ===== verification/TeecError.thy ===== *)
theory TeecError
  imports TeeClientApi
begin

text \<open>
  The error type of the client side, \<^verbatim>\<open>crates/optee-teec/src/error.rs\<close>.  It has the
  shape of the TA side's, with fewer named kinds and an origin derived by \<^verbatim>\<open>num_enum\<close>.
\<close>

section \<open>Definitions\<close>

datatype teec_ErrorKind =
    Teec_Generic
  | Teec_AccessDenied
  | Teec_Cancel
  | Teec_AccessConflict
  | Teec_ExcessData
  | Teec_BadFormat
  | Teec_BadParameters
  | Teec_BadState
  | Teec_ItemNotFound
  | Teec_NotImplemented
  | Teec_NotSupported
  | Teec_NoData
  | Teec_OutOfMemory
  | Teec_Busy
  | Teec_Communication
  | Teec_Security
  | Teec_ShortBuffer
  | Teec_ExternalCancel
  | Teec_TargetDead
  | Teec_Unknown u32

text \<open>The \<^verbatim>\<open>IntoPrimitive\<close> derive: the discriminant, and the payload of the catch-all.\<close>

fun teec_ErrorKind_into :: "teec_ErrorKind \<Rightarrow> u32" where
  "teec_ErrorKind_into Teec_Generic = TEEC_ERROR_GENERIC"
| "teec_ErrorKind_into Teec_AccessDenied = TEEC_ERROR_ACCESS_DENIED"
| "teec_ErrorKind_into Teec_Cancel = TEEC_ERROR_CANCEL"
| "teec_ErrorKind_into Teec_AccessConflict = TEEC_ERROR_ACCESS_CONFLICT"
| "teec_ErrorKind_into Teec_ExcessData = TEEC_ERROR_EXCESS_DATA"
| "teec_ErrorKind_into Teec_BadFormat = TEEC_ERROR_BAD_FORMAT"
| "teec_ErrorKind_into Teec_BadParameters = TEEC_ERROR_BAD_PARAMETERS"
| "teec_ErrorKind_into Teec_BadState = TEEC_ERROR_BAD_STATE"
| "teec_ErrorKind_into Teec_ItemNotFound = TEEC_ERROR_ITEM_NOT_FOUND"
| "teec_ErrorKind_into Teec_NotImplemented = TEEC_ERROR_NOT_IMPLEMENTED"
| "teec_ErrorKind_into Teec_NotSupported = TEEC_ERROR_NOT_SUPPORTED"
| "teec_ErrorKind_into Teec_NoData = TEEC_ERROR_NO_DATA"
| "teec_ErrorKind_into Teec_OutOfMemory = TEEC_ERROR_OUT_OF_MEMORY"
| "teec_ErrorKind_into Teec_Busy = TEEC_ERROR_BUSY"
| "teec_ErrorKind_into Teec_Communication = TEEC_ERROR_COMMUNICATION"
| "teec_ErrorKind_into Teec_Security = TEEC_ERROR_SECURITY"
| "teec_ErrorKind_into Teec_ShortBuffer = TEEC_ERROR_SHORT_BUFFER"
| "teec_ErrorKind_into Teec_ExternalCancel = TEEC_ERROR_EXTERNAL_CANCEL"
| "teec_ErrorKind_into Teec_TargetDead = TEEC_ERROR_TARGET_DEAD"
| "teec_ErrorKind_into (Teec_Unknown code) = code"

definition teec_ErrorKind_variants :: "teec_ErrorKind list" where
  "teec_ErrorKind_variants =
     [Teec_Generic, Teec_AccessDenied, Teec_Cancel, Teec_AccessConflict, Teec_ExcessData,
      Teec_BadFormat, Teec_BadParameters, Teec_BadState, Teec_ItemNotFound, Teec_NotImplemented,
      Teec_NotSupported, Teec_NoData, Teec_OutOfMemory, Teec_Busy, Teec_Communication,
      Teec_Security, Teec_ShortBuffer, Teec_ExternalCancel, Teec_TargetDead]"

text \<open>The \<^verbatim>\<open>FromPrimitive\<close> derive.\<close>

definition teec_ErrorKind_from :: "u32 \<Rightarrow> teec_ErrorKind" where
  "teec_ErrorKind_from = from_primitive teec_ErrorKind_into teec_ErrorKind_variants Teec_Unknown"

fun teec_as_str :: "teec_ErrorKind \<Rightarrow> string" where
  "teec_as_str Teec_Generic = ''Non-specific cause.''"
| "teec_as_str Teec_AccessDenied = ''Access privileges are not sufficient.''"
| "teec_as_str Teec_Cancel = ''The operation was canceled.''"
| "teec_as_str Teec_AccessConflict = ''Concurrent accesses caused conflict.''"
| "teec_as_str Teec_ExcessData = ''Too much data for the requested operation was passed.''"
| "teec_as_str Teec_BadFormat = ''Input data was of invalid format.''"
| "teec_as_str Teec_BadParameters = ''Input parameters were invalid.''"
| "teec_as_str Teec_BadState = ''Operation is not valid in the current state.''"
| "teec_as_str Teec_ItemNotFound = ''The requested data item is not found.''"
| "teec_as_str Teec_NotImplemented = ''The requested operation should exist but is not yet implemented.''"
| "teec_as_str Teec_NotSupported = ''The requested operation is valid but is not supported in this implementation.''"
| "teec_as_str Teec_NoData = ''Expected data was missing.''"
| "teec_as_str Teec_OutOfMemory = ''System ran out of resources.''"
| "teec_as_str Teec_Busy = ''The system is busy working on something else.''"
| "teec_as_str Teec_Communication = ''Communication with a remote party failed.''"
| "teec_as_str Teec_Security = ''A security fault was detected.''"
| "teec_as_str Teec_ShortBuffer = ''The supplied buffer is too short for the generated output.''"
| "teec_as_str Teec_ExternalCancel = ''Undocumented.''"
| "teec_as_str Teec_TargetDead = ''Trusted Application has panicked during the operation.''"
| "teec_as_str (Teec_Unknown _) = ''Unknown error.''"

datatype teec_ErrorOrigin = API | COMMS | TEE | TA | UNKNOWN

fun teec_ErrorOrigin_into :: "teec_ErrorOrigin \<Rightarrow> u32" where
  "teec_ErrorOrigin_into API = TEEC_ORIGIN_API"
| "teec_ErrorOrigin_into COMMS = TEEC_ORIGIN_COMMS"
| "teec_ErrorOrigin_into TEE = TEEC_ORIGIN_TEE"
| "teec_ErrorOrigin_into TA = TEEC_ORIGIN_TRUSTED_APP"
| "teec_ErrorOrigin_into UNKNOWN = TEEC_ORIGIN_TRUSTED_APP + 1"

definition teec_ErrorOrigin_variants :: "teec_ErrorOrigin list" where
  "teec_ErrorOrigin_variants = [API, COMMS, TEE, TA, UNKNOWN]"

definition teec_ErrorOrigin_from :: "u32 \<Rightarrow> teec_ErrorOrigin" where
  "teec_ErrorOrigin_from =
     from_primitive teec_ErrorOrigin_into teec_ErrorOrigin_variants (\<lambda>_. UNKNOWN)"

record teec_Error =
  teec_kind :: teec_ErrorKind
  teec_origin :: "teec_ErrorOrigin option"

definition teec_Error_from :: "teec_ErrorKind \<Rightarrow> teec_Error" where
  "teec_Error_from k = \<lparr>teec_kind = k, teec_origin = None\<rparr>"

definition teec_Error_new :: "teec_ErrorKind \<Rightarrow> teec_Error" where
  "teec_Error_new k = teec_Error_from k"

definition teec_from_raw_error :: "u32 \<Rightarrow> teec_Error" where
  "teec_from_raw_error code = teec_Error_from (teec_ErrorKind_from code)"

definition teec_with_origin :: "teec_Error \<Rightarrow> teec_ErrorOrigin \<Rightarrow> teec_Error" where
  "teec_with_origin e org = e\<lparr>teec_origin := Some org\<rparr>"

definition teec_raw_code :: "teec_Error \<Rightarrow> u32" where
  "teec_raw_code e = teec_ErrorKind_into (teec_kind e)"

definition teec_message :: "teec_Error \<Rightarrow> string" where
  "teec_message e = teec_as_str (teec_kind e)"

definition teec_Error_fmt :: "teec_Error \<Rightarrow> string" where
  "teec_Error_fmt e =
     teec_message e @ '' (error code 0x'' @ lower_hex (unat (teec_raw_code e)) @
     '', origin 0x'' @ lower_hex (unat (case teec_origin e of Some v \<Rightarrow> teec_ErrorOrigin_into v | None \<Rightarrow> 0)) @ '')''"

definition teec_check :: "u32 \<Rightarrow> teec_Error + unit" where
  "teec_check code = (if code = TEEC_SUCCESS then Inr () else Inl (teec_from_raw_error code))"

definition teec_check_with_origin :: "u32 \<Rightarrow> u32 \<Rightarrow> teec_Error + unit" where
  "teec_check_with_origin code org =
     (if code = TEEC_SUCCESS then Inr ()
      else Inl (teec_with_origin (teec_from_raw_error code) (teec_ErrorOrigin_from org)))"

section \<open>Lemmas\<close>

interpretation teec_kinds: num_enum teec_ErrorKind_into teec_ErrorKind_variants Teec_Unknown
  by unfold_locales (simp_all add: teec_ErrorKind_variants_def raw_consts)

lemma teec_ErrorKind_into_from [simp]: "teec_ErrorKind_into (teec_ErrorKind_from c) = c"
  by (simp add: teec_ErrorKind_from_def teec_kinds.into_from)

lemma teec_ErrorKind_variants_complete:
  "k \<in> set teec_ErrorKind_variants \<longleftrightarrow> (\<forall>c. k \<noteq> Teec_Unknown c)"
  by (cases k) (simp_all add: teec_ErrorKind_variants_def)

text \<open>Named kinds are recovered from their code; the catch-all only holds foreign codes.\<close>

lemma teec_ErrorKind_from_into_iff:
  "teec_ErrorKind_from (teec_ErrorKind_into k) = k \<longleftrightarrow>
     (\<forall>c. k = Teec_Unknown c \<longrightarrow> c \<notin> teec_ErrorKind_into ` set teec_ErrorKind_variants)"
proof (cases "k \<in> set teec_ErrorKind_variants")
  case True
  then show ?thesis
    by (simp add: teec_ErrorKind_from_def teec_kinds.from_variant) (simp add: teec_ErrorKind_variants_complete)
next
  case False
  then obtain c where k: "k = Teec_Unknown c" by (auto simp: teec_ErrorKind_variants_complete)
  show ?thesis
  proof (cases "c \<in> teec_ErrorKind_into ` set teec_ErrorKind_variants")
    case True
    then obtain v where v: "v \<in> set teec_ErrorKind_variants" "c = teec_ErrorKind_into v" by blast
    then have "teec_ErrorKind_from c = v" by (simp add: teec_ErrorKind_from_def teec_kinds.from_variant)
    with v True k show ?thesis by (auto simp: teec_ErrorKind_variants_complete)
  next
    case False
    with k show ?thesis by (simp add: teec_ErrorKind_from_def teec_kinds.from_other)
  qed
qed

lemma teec_raw_code_from_raw_error [simp]: "teec_raw_code (teec_from_raw_error c) = c"
  by (simp add: teec_raw_code_def teec_from_raw_error_def teec_Error_from_def)

lemma teec_raw_code_with_origin [simp]: "teec_raw_code (teec_with_origin e org) = teec_raw_code e"
  by (simp add: teec_raw_code_def teec_with_origin_def)

lemma teec_raw_code_new [simp]: "teec_raw_code (teec_Error_new k) = teec_ErrorKind_into k"
  by (simp add: teec_raw_code_def teec_Error_new_def teec_Error_from_def)

lemma teec_kind_new [simp]: "teec_kind (teec_Error_new k) = k"
  by (simp add: teec_Error_new_def teec_Error_from_def)

lemma teec_check_eq_Inr_iff [simp]: "teec_check c = Inr u \<longleftrightarrow> c = TEEC_SUCCESS"
  by (simp add: teec_check_def)

lemma teec_check_eq_Inl_iff [simp]:
  "teec_check c = Inl e \<longleftrightarrow> c \<noteq> TEEC_SUCCESS \<and> e = teec_from_raw_error c"
  by (auto simp: teec_check_def)

lemma teec_check_with_origin_eq_Inr_iff [simp]:
  "teec_check_with_origin c org = Inr u \<longleftrightarrow> c = TEEC_SUCCESS"
  by (simp add: teec_check_with_origin_def)

lemma teec_check_with_origin_eq_Inl_iff [simp]:
  "teec_check_with_origin c org = Inl e \<longleftrightarrow>
     c \<noteq> TEEC_SUCCESS \<and> e = teec_with_origin (teec_from_raw_error c) (teec_ErrorOrigin_from org)"
  by (auto simp: teec_check_with_origin_def)

text \<open>No error kind of the SDK collides with success.\<close>

lemma teec_ErrorKind_into_nonzero: "k \<in> set teec_ErrorKind_variants \<Longrightarrow> teec_ErrorKind_into k \<noteq> TEEC_SUCCESS"
  by (cases k) (simp_all add: teec_ErrorKind_variants_complete raw_consts)

interpretation teec_origins: num_enum_default teec_ErrorOrigin_into teec_ErrorOrigin_variants UNKNOWN
  by unfold_locales (simp_all add: teec_ErrorOrigin_variants_def raw_consts)

lemma teec_ErrorOrigin_into_from_iff:
  "teec_ErrorOrigin_into (teec_ErrorOrigin_from c) = c \<longleftrightarrow> c \<in> {1, 2, 3, 4, 5}"
  unfolding teec_ErrorOrigin_from_def teec_origins.default_into_from_iff
  by (simp add: teec_ErrorOrigin_variants_def raw_consts)

end
