(* ===== verification/TeecUuid.thy ===== *)
theory TeecUuid
  imports UuidCrate TeecError
begin

text \<open>
  The UUID type of the client side, \<^verbatim>\<open>crates/optee-teec/src/uuid.rs\<close>.  It repeats the TA
  side's code over the client library's struct.
\<close>

section \<open>Definitions\<close>

record TEEC_UUID =
  teec_timeLow :: u32
  teec_timeMid :: u16
  teec_timeHiAndVersion :: u16
  teec_clockSeqAndNode :: bytes

record teec_Uuid =
  teec_uuid_raw :: TEEC_UUID

definition teec_Uuid_new_raw :: "u32 \<Rightarrow> u16 \<Rightarrow> u16 \<Rightarrow> bytes \<Rightarrow> teec_Uuid" where
  "teec_Uuid_new_raw time_low time_mid time_hi_and_version clock_seq_and_nod =
     \<lparr>teec_uuid_raw =
        \<lparr>teec_timeLow = time_low, teec_timeMid = time_mid, teec_timeHiAndVersion = time_hi_and_version,
         teec_clockSeqAndNode = clock_seq_and_nod\<rparr>\<rparr>"

definition teec_Uuid_parse_str :: "'u uuid_crate \<Rightarrow> string \<Rightarrow> teec_Error + teec_Uuid" where
  "teec_Uuid_parse_str U input =
     (case uc_parse_str U input of
        None \<Rightarrow> Inl (teec_Error_from Teec_BadFormat)
      | Some uuid \<Rightarrow>
          (case uc_as_fields U uuid of
             (time_low, time_mid, time_hi_and_version, clock_seq_and_node) \<Rightarrow>
               Inr (teec_Uuid_new_raw time_low time_mid time_hi_and_version clock_seq_and_node)))"

definition teec_Uuid_from_bytes :: "'u uuid_crate \<Rightarrow> bytes \<Rightarrow> teec_Uuid" where
  "teec_Uuid_from_bytes U b =
     (case uc_as_fields U (uc_from_bytes U b) of
        (time_low, time_mid, time_hi_and_version, clock_seq_and_node) \<Rightarrow>
          teec_Uuid_new_raw time_low time_mid time_hi_and_version clock_seq_and_node)"

definition teec_Uuid_from_slice :: "'u uuid_crate \<Rightarrow> bytes \<Rightarrow> teec_Error + teec_Uuid" where
  "teec_Uuid_from_slice U b =
     (case uc_from_slice U b of
        None \<Rightarrow> Inl (teec_Error_from Teec_BadFormat)
      | Some uuid \<Rightarrow>
          (case uc_as_fields U uuid of
             (time_low, time_mid, time_hi_and_version, clock_seq_and_node) \<Rightarrow>
               Inr (teec_Uuid_new_raw time_low time_mid time_hi_and_version clock_seq_and_node)))"

definition teec_Uuid_fmt :: "'u uuid_crate \<Rightarrow> teec_Uuid \<Rightarrow> string" where
  "teec_Uuid_fmt U uuid =
     (let raw = teec_uuid_raw uuid in
      lower_hex_padded 8 (unat (teec_timeLow raw)) @ ''-'' @
      lower_hex_padded 4 (unat (teec_timeMid raw)) @ ''-'' @
      lower_hex_padded 4 (unat (teec_timeHiAndVersion raw)) @ ''-'' @
      uc_hex_encode U (take 2 (teec_clockSeqAndNode raw)) @ ''-'' @
      uc_hex_encode U (take 6 (drop 2 (teec_clockSeqAndNode raw))))"

definition teec_Uuid_clone :: "teec_Uuid \<Rightarrow> teec_Uuid" where
  "teec_Uuid_clone uuid =
     (let raw = teec_uuid_raw uuid in
      teec_Uuid_new_raw (teec_timeLow raw) (teec_timeMid raw) (teec_timeHiAndVersion raw)
        (teec_clockSeqAndNode raw))"

text \<open>\<^verbatim>\<open>clockSeqAndNode\<close> is an array of eight bytes.\<close>

definition teec_Uuid_wf :: "teec_Uuid \<Rightarrow> bool" where
  "teec_Uuid_wf uuid \<longleftrightarrow> length (teec_clockSeqAndNode (teec_uuid_raw uuid)) = 8"

definition teec_Uuid_fields :: "teec_Uuid \<Rightarrow> uuid_fields" where
  "teec_Uuid_fields uuid =
     (let raw = teec_uuid_raw uuid in
      (teec_timeLow raw, teec_timeMid raw, teec_timeHiAndVersion raw, teec_clockSeqAndNode raw))"

section \<open>Lemmas\<close>

lemma teec_Uuid_fields_new_raw [simp]: "teec_Uuid_fields (teec_Uuid_new_raw t0 t1 t2 cs) = (t0, t1, t2, cs)"
  by (simp add: teec_Uuid_fields_def teec_Uuid_new_raw_def)

lemma teec_Uuid_wf_new_raw [simp]: "teec_Uuid_wf (teec_Uuid_new_raw t0 t1 t2 cs) \<longleftrightarrow> length cs = 8"
  by (simp add: teec_Uuid_wf_def teec_Uuid_new_raw_def)

lemma teec_Uuid_new_raw_surj:
  obtains t0 t1 t2 cs where "uuid = teec_Uuid_new_raw t0 t1 t2 cs"
proof -
  have "uuid = teec_Uuid_new_raw (teec_timeLow (teec_uuid_raw uuid)) (teec_timeMid (teec_uuid_raw uuid))
      (teec_timeHiAndVersion (teec_uuid_raw uuid)) (teec_clockSeqAndNode (teec_uuid_raw uuid))"
    by (simp add: teec_Uuid_new_raw_def)
  then show ?thesis by (rule that)
qed

lemma teec_Uuid_from_bytes_fields:
  assumes "uuid_crate_ok U" and "length b = 16"
  shows "teec_Uuid_fields (teec_Uuid_from_bytes U b) = be_fields b"
  using uuid_crate_okD(3)[OF assms]
  by (simp add: teec_Uuid_from_bytes_def be_fields_def)

lemma teec_Uuid_from_slice_eq:
  assumes "uuid_crate_ok U"
  shows "teec_Uuid_from_slice U b =
    (if length b = 16 then Inr (teec_Uuid_from_bytes U b) else Inl (teec_Error_from Teec_BadFormat))"
  using uuid_crate_okD(2)[OF assms, of b]
  by (simp add: teec_Uuid_from_slice_def teec_Uuid_from_bytes_def split: prod.split)

text \<open>What is printed is the hyphenated form of the sixteen big-endian bytes.\<close>

lemma teec_Uuid_fmt_hyphenated:
  assumes "uuid_crate_ok U" and "teec_Uuid_wf uuid"
  shows "teec_Uuid_fmt U uuid = hyphenated (be_image (teec_Uuid_fields uuid))"
proof -
  obtain t0 t1 t2 cs where u: "uuid = teec_Uuid_new_raw t0 t1 t2 cs" by (rule teec_Uuid_new_raw_surj)
  with assms have "length cs = 8" by simp
  then show ?thesis
    unfolding u teec_Uuid_fields_new_raw hyphenated_image[OF \<open>length cs = 8\<close>]
    by (simp add: teec_Uuid_fmt_def teec_Uuid_new_raw_def uuid_crate_okD(5)[OF assms(1)])
qed

text \<open>Printing and parsing is the identity.\<close>

lemma teec_Uuid_parse_fmt:
  assumes "uuid_crate_ok U" and "teec_Uuid_wf uuid"
  shows "teec_Uuid_parse_str U (teec_Uuid_fmt U uuid) = Inr uuid"
proof -
  obtain t0 t1 t2 cs where u: "uuid = teec_Uuid_new_raw t0 t1 t2 cs" by (rule teec_Uuid_new_raw_surj)
  with assms have "length cs = 8" by simp
  with u show ?thesis
    using uuid_crate_okD(1,3)[OF assms(1) length_images(1), of cs t0 t1 t2]
    unfolding teec_Uuid_parse_str_def teec_Uuid_fmt_hyphenated[OF assms]
    by (simp del: be_image.simps)
qed

end
