(* ===== verification/Memory.thy ===== *)
theory Memory
  imports Prelude
begin

text \<open>
  The address space a trusted application sees: its own memory and the buffers that
  the Normal World shares with it, one byte per 64-bit address.  \<^verbatim>\<open>TEE_MemMove\<close> belongs to
  the TEE's C library, so it is a parameter; \<open>TEE_MemMove_ok\<close> is its specification
  (copy \<open>n\<close> bytes, overlapping regions allowed), and \<open>mem_move\<close> an instance of it.
\<close>

section \<open>Definitions\<close>

type_synonym mem = "u64 \<Rightarrow> u8"
type_synonym memmove = "mem \<Rightarrow> u64 \<Rightarrow> u64 \<Rightarrow> usize \<Rightarrow> mem"

text \<open>A Rust slice: a pointer and a length.\<close>

record slice =
  sl_ptr :: u64
  sl_len :: usize

definition region :: "u64 \<Rightarrow> usize \<Rightarrow> u64 set" where
  "region p n = {a. unat (a - p) < n}"

definition mem_read :: "mem \<Rightarrow> u64 \<Rightarrow> usize \<Rightarrow> bytes" where
  "mem_read m p n = map (\<lambda>i. m (p + of_nat i)) [0..<n]"

definition mem_write :: "mem \<Rightarrow> u64 \<Rightarrow> bytes \<Rightarrow> mem" where
  "mem_write m p bs = (\<lambda>a. if unat (a - p) < length bs then bs ! unat (a - p) else m a)"

definition slice_bytes :: "mem \<Rightarrow> slice \<Rightarrow> bytes" where
  "slice_bytes m s = mem_read m (sl_ptr s) (sl_len s)"

definition mem_move :: memmove where
  "mem_move m d s n = (\<lambda>a. if unat (a - d) < n then m (s + (a - d)) else m a)"

definition TEE_MemMove_ok :: "memmove \<Rightarrow> bool" where
  "TEE_MemMove_ok M \<longleftrightarrow> (\<forall>m d s n. M m d s n = mem_move m d s n)"

section \<open>Lemmas\<close>

lemma TEE_MemMove_ok_mem_move [simp]: "TEE_MemMove_ok mem_move"
  by (simp add: TEE_MemMove_ok_def)

lemma TEE_MemMove_okD: "TEE_MemMove_ok M \<Longrightarrow> M m d s n = mem_move m d s n"
  by (simp add: TEE_MemMove_ok_def)

lemma length_mem_read [simp]: "length (mem_read m p n) = n"
  by (simp add: mem_read_def)

lemma mem_read_0 [simp]: "mem_read m p 0 = []"
  by (simp add: mem_read_def)

lemma nth_mem_read [simp]: "i < n \<Longrightarrow> mem_read m p n ! i = m (p + of_nat i)"
  by (simp add: mem_read_def)

lemma length_slice_bytes [simp]: "length (slice_bytes m s) = sl_len s"
  by (simp add: slice_bytes_def)

lemma region_empty [simp]: "region p 0 = {}"
  by (simp add: region_def)

lemma unat_offset:
  "i < usize_modulus \<Longrightarrow> unat (p + of_nat i - p :: u64) = i"
  by (simp add: unat_of_nat usize_modulus_def)

lemma in_region: "i < n \<Longrightarrow> n \<le> usize_modulus \<Longrightarrow> p + of_nat i \<in> region p n"
  unfolding region_def by (simp only: mem_Collect_eq unat_offset)

lemma region_index:
  assumes "a \<in> region p n"
  obtains i where "i < n" and "a = p + of_nat i"
  using assms by (intro that[of "unat (a - p)"]) (simp_all add: region_def)

lemma unat_sub_offset:
  assumes "off + i < usize_modulus"
  shows "unat (p + of_nat (off + i) - (p + of_nat off) :: u64) = i"
proof -
  have "p + of_nat (off + i) - (p + of_nat off) = (of_nat i :: u64)" by simp
  with assms show ?thesis by (simp add: unat_of_nat usize_modulus_def)
qed

text \<open>A part of a region lies in it.\<close>

lemma subregion:
  assumes "off + k \<le> n" and "n \<le> usize_modulus"
  shows "region (p + of_nat off) k \<subseteq> region p n"
proof
  fix a assume "a \<in> region (p + of_nat off) k"
  then obtain i where "i < k" and a: "a = p + of_nat off + of_nat i" by (rule region_index)
  with assms have "p + of_nat (off + i) \<in> region p n" by (intro in_region) simp_all
  with a show "a \<in> region p n" by (simp add: add.assoc)
qed

lemma mem_move_outside: "a \<notin> region d n \<Longrightarrow> mem_move m d s n a = m a"
  by (simp add: mem_move_def region_def)

lemma mem_move_0 [simp]: "mem_move m d s 0 = m"
  by (simp add: mem_move_def)

lemma mem_read_cong: "(\<And>a. a \<in> region p n \<Longrightarrow> m a = m' a) \<Longrightarrow> n \<le> usize_modulus \<Longrightarrow> mem_read m p n = mem_read m' p n"
  by (simp add: mem_read_def in_region)

lemma mem_read_move_disjoint:
  assumes "region p n \<inter> region d k = {}" and "n \<le> usize_modulus"
  shows "mem_read (mem_move m d s k) p n = mem_read m p n"
  using assms by (intro mem_read_cong mem_move_outside) auto

text \<open>The destination holds what the source held before the copy.\<close>

lemma mem_read_move:
  assumes "n \<le> usize_modulus"
  shows "mem_read (mem_move m d s n) d n = mem_read m s n"
  using assms by (intro nth_equalityI) (auto simp: mem_move_def unat_of_nat usize_modulus_def)

lemma mem_read_prefix:
  "k \<le> n \<Longrightarrow> take k (mem_read m p n) = mem_read m p k"
  by (simp add: mem_read_def take_map)

lemma mem_read_slice:
  "off + k \<le> n \<Longrightarrow> take k (drop off (mem_read m p n)) = mem_read m (p + of_nat off) k"
  by (rule nth_equalityI) (simp_all add: add.assoc)

lemma not_in_subregion:
  assumes "i < n" and "off + k \<le> n" and "n \<le> usize_modulus" and "i < off \<or> off + k \<le> i"
  shows "p + of_nat i \<notin> region (p + of_nat off) k"
proof
  assume "p + of_nat i \<in> region (p + of_nat off) k"
  then obtain j where "j < k" "p + of_nat i = p + of_nat off + (of_nat j :: u64)"
    by (rule region_index)
  then have "unat (p + of_nat i - p) = unat (p + of_nat (off + j) - p)" by (simp add: add.assoc)
  with \<open>j < k\<close> assms show False by (auto simp only: unat_offset)
qed

text \<open>Copying into the middle of a region overwrites that part and keeps the rest.\<close>

lemma mem_read_move_within:
  assumes "off + k \<le> n" and "n \<le> usize_modulus"
  shows "mem_read (mem_move m (p + of_nat off) s k) p n = overwrite (mem_read m p n) off (mem_read m s k)"
proof (rule nth_equalityI)
  fix i assume "i < length (mem_read (mem_move m (p + of_nat off) s k) p n)"
  then have i: "i < n" by simp
  consider "i < off \<or> off + k \<le> i" | j where "i = off + j" "j < k"
    by (metis le_Suc_ex linorder_not_less nat_add_left_cancel_less)
  then show "mem_read (mem_move m (p + of_nat off) s k) p n ! i =
      overwrite (mem_read m p n) off (mem_read m s k) ! i"
  proof cases
    case 1
    with i assms show ?thesis by (simp add: overwrite_outside mem_move_outside not_in_subregion)
  next
    case 2
    then have "p + of_nat (off + j) \<in> region (p + of_nat off) k"
      using assms i in_region[of j k "p + of_nat off"] by (simp add: add.assoc)
    moreover have "p + of_nat (off + j) - (p + of_nat off) = (of_nat j :: u64)" by simp
    ultimately show ?thesis
      using 2 assms by (simp add: overwrite_def nth_append mem_move_def region_def)
  qed
qed (use assms in simp)

lemma mem_write_outside: "a \<notin> region p (length bs) \<Longrightarrow> mem_write m p bs a = m a"
  by (simp add: mem_write_def region_def)

lemma mem_read_write: "length bs \<le> usize_modulus \<Longrightarrow> mem_read (mem_write m p bs) p (length bs) = bs"
  by (intro nth_equalityI) (auto simp: mem_write_def unat_of_nat usize_modulus_def)

end
