(* ===== verification/RawParam.thy ===== *)
theory RawParam
  imports TeeError Memory
begin

text \<open>
  The raw parameters of an entry point: the union \<^verbatim>\<open>TEE_Param\<close> of
  \<^verbatim>\<open>crates/optee-utee-sys/src/tee_api_types.rs\<close> and the type tags \<^verbatim>\<open>ParamType\<close> of
  \<^verbatim>\<open>crates/optee-utee/src/parameter/mod.rs\<close>.

  The union has the layout of the 64-bit little-endian targets: two machine words,
  where \<^verbatim>\<open>memref\<close> reads the words as \<^verbatim>\<open>buffer\<close> and \<^verbatim>\<open>size\<close>, and \<^verbatim>\<open>value\<close> reads the low and
  the high half of the first word as \<^verbatim>\<open>a\<close> and \<^verbatim>\<open>b\<close>.
\<close>

unbundle bit_operations_syntax

section \<open>Definitions\<close>

record TEE_Param =
  par_w0 :: u64
  par_w1 :: u64

definition memref_buffer :: "TEE_Param \<Rightarrow> u64" where
  "memref_buffer p = par_w0 p"

definition memref_size :: "TEE_Param \<Rightarrow> usize" where
  "memref_size p = unat (par_w1 p)"

definition value_a :: "TEE_Param \<Rightarrow> u32" where
  "value_a p = ucast (par_w0 p)"

definition value_b :: "TEE_Param \<Rightarrow> u32" where
  "value_b p = ucast (drop_bit 32 (par_w0 p))"

definition set_memref_size :: "usize \<Rightarrow> TEE_Param \<Rightarrow> TEE_Param" where
  "set_memref_size s p = p\<lparr>par_w1 := of_nat s\<rparr>"

definition set_value_a :: "u32 \<Rightarrow> TEE_Param \<Rightarrow> TEE_Param" where
  "set_value_a a p = p\<lparr>par_w0 := push_bit 32 (drop_bit 32 (par_w0 p)) OR ucast a\<rparr>"

definition set_value_b :: "u32 \<Rightarrow> TEE_Param \<Rightarrow> TEE_Param" where
  "set_value_b b p = p\<lparr>par_w0 := take_bit 32 (par_w0 p) OR push_bit 32 (ucast b)\<rparr>"

text \<open>The two initialisers of the union.  A value initialiser leaves the second word alone.\<close>

definition Param_of_memref :: "u64 \<Rightarrow> usize \<Rightarrow> TEE_Param" where
  "Param_of_memref buf s = \<lparr>par_w0 = buf, par_w1 = of_nat s\<rparr>"

definition Param_of_value :: "u32 \<Rightarrow> u32 \<Rightarrow> u64 \<Rightarrow> TEE_Param" where
  "Param_of_value a b pad = \<lparr>par_w0 = ucast a OR push_bit 32 (ucast b), par_w1 = pad\<rparr>"

type_synonym RawParamType = u32
type_synonym RawParamTypes = u32
type_synonym RawParams = "TEE_Param \<times> TEE_Param \<times> TEE_Param \<times> TEE_Param"

datatype ParamType =
    ParamType_None
  | ParamType_ValueInput
  | ParamType_ValueOutput
  | ParamType_ValueInout
  | ParamType_MemrefInput
  | ParamType_MemrefOutput
  | ParamType_MemrefInout
  | ParamType_Unknown u32

fun ParamType_into :: "ParamType \<Rightarrow> u32" where
  "ParamType_into ParamType_None = TEE_PARAM_TYPE_NONE"
| "ParamType_into ParamType_ValueInput = TEE_PARAM_TYPE_VALUE_INPUT"
| "ParamType_into ParamType_ValueOutput = TEE_PARAM_TYPE_VALUE_OUTPUT"
| "ParamType_into ParamType_ValueInout = TEE_PARAM_TYPE_VALUE_INOUT"
| "ParamType_into ParamType_MemrefInput = TEE_PARAM_TYPE_MEMREF_INPUT"
| "ParamType_into ParamType_MemrefOutput = TEE_PARAM_TYPE_MEMREF_OUTPUT"
| "ParamType_into ParamType_MemrefInout = TEE_PARAM_TYPE_MEMREF_INOUT"
| "ParamType_into (ParamType_Unknown c) = c"

definition ParamType_variants :: "ParamType list" where
  "ParamType_variants =
     [ParamType_None, ParamType_ValueInput, ParamType_ValueOutput, ParamType_ValueInout,
      ParamType_MemrefInput, ParamType_MemrefOutput, ParamType_MemrefInout]"

definition ParamType_from :: "u32 \<Rightarrow> ParamType" where
  "ParamType_from = from_primitive ParamType_into ParamType_variants ParamType_Unknown"

definition check_type_is :: "RawParamType \<Rightarrow> ParamType \<Rightarrow> Error + unit" where
  "check_type_is raw_type exp_type =
     (if raw_type \<noteq> ParamType_into exp_type then Inl (Error_from BadParameters) else Inr ())"

section \<open>Lemmas\<close>

lemma bit_u32_high [simp]: "\<not> bit (a :: u32) (32 + n)"
  by (auto dest: bit_imp_le_length)

lemma low_half [simp]: "ucast (ucast (a :: u32) OR push_bit 32 x :: u64) = a"
  by (rule bit_word_eqI) (auto simp: bit_simps)

lemma high_half [simp]: "ucast (drop_bit 32 (ucast (a :: u32) OR push_bit 32 (ucast (b :: u32)) :: u64)) = b"
  by (rule bit_word_eqI) (auto simp: bit_simps)

lemma memref_size_less [simp]: "memref_size p < usize_modulus"
  by (simp add: memref_size_def unat_u64_less)

lemma memref_lens [simp]:
  "memref_buffer (set_memref_size s p) = memref_buffer p"
  "s < usize_modulus \<Longrightarrow> memref_size (set_memref_size s p) = s"
  "memref_buffer (Param_of_memref buf s) = buf"
  "s < usize_modulus \<Longrightarrow> memref_size (Param_of_memref buf s) = s"
  by (simp_all add: memref_buffer_def memref_size_def set_memref_size_def Param_of_memref_def
      unat_of_nat usize_modulus_def)

lemma value_lens [simp]:
  "value_a (set_value_a a p) = a"
  "value_b (set_value_a a p) = value_b p"
  "value_a (set_value_b b p) = value_a p"
  "value_b (set_value_b b p) = b"
  "value_a (Param_of_value a b pad) = a"
  "value_b (Param_of_value a b pad) = b"
  by (auto simp: value_a_def value_b_def set_value_a_def set_value_b_def Param_of_value_def bit_simps
      intro!: bit_word_eqI)

interpretation param_types: num_enum ParamType_into ParamType_variants ParamType_Unknown
  by unfold_locales (simp_all add: ParamType_variants_def raw_consts)

lemma ParamType_into_from [simp]: "ParamType_into (ParamType_from c) = c"
  by (simp add: ParamType_from_def param_types.into_from)

lemma check_type_is_iff [simp]:
  "check_type_is t k = Inr u \<longleftrightarrow> t = ParamType_into k"
  "check_type_is t k = Inl e \<longleftrightarrow> t \<noteq> ParamType_into k \<and> e = Error_from BadParameters"
  by (auto simp: check_type_is_def)

end
