(* ===== verification/Parameters.thy ===== *)
theory Parameters
  imports RawParam
begin

text \<open>
  The typed parameters of a trusted application, \<^verbatim>\<open>crates/optee-utee/src/parameter/\<close>: the
  traits \<^verbatim>\<open>ParameterMemref\<close>, \<^verbatim>\<open>ParameterMemrefRead\<close> and \<^verbatim>\<open>ParameterMemrefWrite\<close> with their
  provided methods, the value and memory-reference wrappers, the type-erased
  \<^verbatim>\<open>ParameterAny\<close> and the conversion of all four slots at once.

  A provided method is a function of the methods its trait requires, so one
  definition serves every implementor.  A wrapper borrows its slot exclusively for as
  long as it lives; it is modelled by the contents of that slot, and an operation on
  it returns the new contents.  The locales state what an implementor of the traits
  owes, and their lemmas what every implementor gets.
\<close>

section \<open>Definitions\<close>

subsection \<open>Provided methods of the memref traits\<close>

text \<open>The vector is allocated, zeroed, at \<open>vec_ptr\<close>, and the shared bytes are moved into it.\<close>

definition read_to_vec ::
    "memmove \<Rightarrow> ('p \<Rightarrow> usize) \<Rightarrow> ('p \<Rightarrow> u64) \<Rightarrow> mem \<Rightarrow> 'p \<Rightarrow> u64 \<Rightarrow> slice \<times> mem" where
  "read_to_vec TEE_MemMove buffer_len buffer_ptr m self vec_ptr =
     (let len = buffer_len self;
          m1 = mem_write m vec_ptr (replicate len 0);
          m2 = (if len \<noteq> 0 then TEE_MemMove m1 vec_ptr (buffer_ptr self) len else m1)
      in (\<lparr>sl_ptr = vec_ptr, sl_len = len\<rparr>, m2))"

definition read_at ::
    "memmove \<Rightarrow> ('p \<Rightarrow> usize) \<Rightarrow> ('p \<Rightarrow> u64) \<Rightarrow> mem \<Rightarrow> 'p \<Rightarrow> usize \<Rightarrow> slice \<Rightarrow> (Error + usize) \<times> mem" where
  "read_at TEE_MemMove buffer_len buffer_ptr m self offset dest =
     (if offset > buffer_len self then (Inl (Error_from BadParameters), m)
      else
        let available = buffer_len self - offset;
            to_read = min (sl_len dest) available;
            m' = (if to_read \<noteq> 0
                  then TEE_MemMove m (sl_ptr dest) (buffer_ptr self + of_nat offset) to_read
                  else m)
        in (Inr to_read, m'))"

definition set_updated_size ::
    "('p \<Rightarrow> usize) \<Rightarrow> (usize \<Rightarrow> 'p \<Rightarrow> 'p) \<Rightarrow> 'p \<Rightarrow> usize \<Rightarrow> (Error + unit) \<times> 'p" where
  "set_updated_size buffer_len set_updated_size_unchecked self s =
     (if s > buffer_len self then (Inl (Error_from ShortBuffer), self)
      else (Inr (), set_updated_size_unchecked s self))"

definition write_at ::
    "memmove \<Rightarrow> ('p \<Rightarrow> usize) \<Rightarrow> ('p \<Rightarrow> u64) \<Rightarrow> (usize \<Rightarrow> 'p \<Rightarrow> 'p) \<Rightarrow>
     mem \<Rightarrow> 'p \<Rightarrow> usize \<Rightarrow> slice \<Rightarrow> (Error + unit) \<times> mem \<times> 'p" where
  "write_at TEE_MemMove buffer_len buffer_ptr set_updated_size_unchecked m self offset input =
     (case checked_add offset (sl_len input) of
        None \<Rightarrow> (Inl (Error_from ShortBuffer), m, self)
      | Some new_size \<Rightarrow>
          if new_size > buffer_len self then (Inl (Error_from ShortBuffer), m, self)
          else
            let m' = (if sl_len input \<noteq> 0
                      then TEE_MemMove m (buffer_ptr self + of_nat offset) (sl_ptr input) (sl_len input)
                      else m)
            in (Inr (), m', set_updated_size_unchecked new_size self))"

definition set_output ::
    "memmove \<Rightarrow> ('p \<Rightarrow> usize) \<Rightarrow> ('p \<Rightarrow> u64) \<Rightarrow> (usize \<Rightarrow> 'p \<Rightarrow> 'p) \<Rightarrow>
     mem \<Rightarrow> 'p \<Rightarrow> slice \<Rightarrow> (Error + unit) \<times> mem \<times> 'p" where
  "set_output TEE_MemMove buffer_len buffer_ptr set_updated_size_unchecked m self data =
     write_at TEE_MemMove buffer_len buffer_ptr set_updated_size_unchecked m self 0 data"

subsection \<open>The memref wrappers\<close>

record ParameterMemrefInput =
  input_param :: TEE_Param

record ParameterMemrefInout =
  inout_capacity :: usize
  inout_raw_param :: TEE_Param

record ParameterMemrefOutput =
  output_capacity :: usize
  output_raw_param :: TEE_Param

definition MemrefInput_from_raw :: "RawParamType \<Rightarrow> TEE_Param \<Rightarrow> Error + ParameterMemrefInput" where
  "MemrefInput_from_raw raw_type raw_param =
     try_bind (check_type_is raw_type ParamType_MemrefInput) (\<lambda>_.
       if memref_buffer raw_param = 0 then Inl (Error_from BadParameters)
       else Inr \<lparr>input_param = raw_param\<rparr>)"

definition MemrefInout_from_raw :: "RawParamType \<Rightarrow> TEE_Param \<Rightarrow> Error + ParameterMemrefInout" where
  "MemrefInout_from_raw raw_type raw_param =
     try_bind (check_type_is raw_type ParamType_MemrefInout) (\<lambda>_.
       if memref_buffer raw_param = 0 then Inl (Error_from BadParameters)
       else Inr \<lparr>inout_capacity = memref_size raw_param, inout_raw_param = raw_param\<rparr>)"

definition MemrefOutput_from_raw :: "RawParamType \<Rightarrow> TEE_Param \<Rightarrow> Error + ParameterMemrefOutput" where
  "MemrefOutput_from_raw raw_type raw_param =
     try_bind (check_type_is raw_type ParamType_MemrefOutput) (\<lambda>_.
       if memref_buffer raw_param = 0 then Inl (Error_from BadParameters)
       else Inr \<lparr>output_capacity = memref_size raw_param, output_raw_param = raw_param\<rparr>)"

definition MemrefInput_buffer_len :: "ParameterMemrefInput \<Rightarrow> usize" where
  "MemrefInput_buffer_len self = memref_size (input_param self)"

definition MemrefInout_buffer_len :: "ParameterMemrefInout \<Rightarrow> usize" where
  "MemrefInout_buffer_len self = inout_capacity self"

definition MemrefOutput_buffer_len :: "ParameterMemrefOutput \<Rightarrow> usize" where
  "MemrefOutput_buffer_len self = output_capacity self"

definition MemrefInput_buffer_ptr :: "ParameterMemrefInput \<Rightarrow> u64" where
  "MemrefInput_buffer_ptr self = memref_buffer (input_param self)"

definition MemrefInout_buffer_ptr :: "ParameterMemrefInout \<Rightarrow> u64" where
  "MemrefInout_buffer_ptr self = memref_buffer (inout_raw_param self)"

definition MemrefOutput_buffer_ptr :: "ParameterMemrefOutput \<Rightarrow> u64" where
  "MemrefOutput_buffer_ptr self = memref_buffer (output_raw_param self)"

definition MemrefInout_set_size :: "usize \<Rightarrow> ParameterMemrefInout \<Rightarrow> ParameterMemrefInout" where
  "MemrefInout_set_size s self = self\<lparr>inout_raw_param := set_memref_size s (inout_raw_param self)\<rparr>"

definition MemrefOutput_set_size :: "usize \<Rightarrow> ParameterMemrefOutput \<Rightarrow> ParameterMemrefOutput" where
  "MemrefOutput_set_size s self = self\<lparr>output_raw_param := set_memref_size s (output_raw_param self)\<rparr>"

subsection \<open>The value wrappers\<close>

record ParameterValueInput =
  vin_a :: u32
  vin_b :: u32

record ParameterValueOutput =
  vout_param :: TEE_Param

record ParameterValueInout =
  vinout_param :: TEE_Param

definition ValueInput_from_raw :: "RawParamType \<Rightarrow> TEE_Param \<Rightarrow> Error + ParameterValueInput" where
  "ValueInput_from_raw raw_type raw_param =
     try_bind (check_type_is raw_type ParamType_ValueInput) (\<lambda>_.
       Inr \<lparr>vin_a = value_a raw_param, vin_b = value_b raw_param\<rparr>)"

definition ValueOutput_from_raw :: "RawParamType \<Rightarrow> TEE_Param \<Rightarrow> Error + ParameterValueOutput" where
  "ValueOutput_from_raw raw_type raw_param =
     try_bind (check_type_is raw_type ParamType_ValueOutput) (\<lambda>_. Inr \<lparr>vout_param = raw_param\<rparr>)"

definition ValueInout_from_raw :: "RawParamType \<Rightarrow> TEE_Param \<Rightarrow> Error + ParameterValueInout" where
  "ValueInout_from_raw raw_type raw_param =
     try_bind (check_type_is raw_type ParamType_ValueInout) (\<lambda>_. Inr \<lparr>vinout_param = raw_param\<rparr>)"

definition ValueInput_get_a :: "ParameterValueInput \<Rightarrow> u32" where
  "ValueInput_get_a self = vin_a self"

definition ValueInput_get_b :: "ParameterValueInput \<Rightarrow> u32" where
  "ValueInput_get_b self = vin_b self"

definition ValueInout_get_a :: "ParameterValueInout \<Rightarrow> u32" where
  "ValueInout_get_a self = value_a (vinout_param self)"

definition ValueInout_get_b :: "ParameterValueInout \<Rightarrow> u32" where
  "ValueInout_get_b self = value_b (vinout_param self)"

definition ValueInout_set_a :: "u32 \<Rightarrow> ParameterValueInout \<Rightarrow> ParameterValueInout" where
  "ValueInout_set_a a self = self\<lparr>vinout_param := set_value_a a (vinout_param self)\<rparr>"

definition ValueInout_set_b :: "u32 \<Rightarrow> ParameterValueInout \<Rightarrow> ParameterValueInout" where
  "ValueInout_set_b b self = self\<lparr>vinout_param := set_value_b b (vinout_param self)\<rparr>"

definition ValueOutput_set_a :: "u32 \<Rightarrow> ParameterValueOutput \<Rightarrow> ParameterValueOutput" where
  "ValueOutput_set_a a self = self\<lparr>vout_param := set_value_a a (vout_param self)\<rparr>"

definition ValueOutput_set_b :: "u32 \<Rightarrow> ParameterValueOutput \<Rightarrow> ParameterValueOutput" where
  "ValueOutput_set_b b self = self\<lparr>vout_param := set_value_b b (vout_param self)\<rparr>"

subsection \<open>ParameterNone, ParameterAny and the tuples\<close>

datatype ParameterNone = ParameterNone

definition None_from_raw :: "RawParamType \<Rightarrow> TEE_Param \<Rightarrow> Error + ParameterNone" where
  "None_from_raw raw_type raw_param =
     try_bind (check_type_is raw_type ParamType_None) (\<lambda>_. Inr ParameterNone)"

datatype ParameterAny =
    ParameterAny_None
  | ParameterAny_ValueInput ParameterValueInput
  | ParameterAny_ValueInout ParameterValueInout
  | ParameterAny_ValueOutput ParameterValueOutput
  | ParameterAny_MemrefInput ParameterMemrefInput
  | ParameterAny_MemrefInout ParameterMemrefInout
  | ParameterAny_MemrefOutput ParameterMemrefOutput
  | ParameterAny_Unknown RawParamType TEE_Param

definition Any_from_raw :: "RawParamType \<Rightarrow> TEE_Param \<Rightarrow> Error + ParameterAny" where
  "Any_from_raw raw_type raw_param =
     (if raw_type = TEE_PARAM_TYPE_NONE then Inr ParameterAny_None
      else if raw_type = TEE_PARAM_TYPE_VALUE_INPUT then
        try_bind (ValueInput_from_raw raw_type raw_param) (\<lambda>p. Inr (ParameterAny_ValueInput p))
      else if raw_type = TEE_PARAM_TYPE_VALUE_INOUT then
        try_bind (ValueInout_from_raw raw_type raw_param) (\<lambda>p. Inr (ParameterAny_ValueInout p))
      else if raw_type = TEE_PARAM_TYPE_VALUE_OUTPUT then
        try_bind (ValueOutput_from_raw raw_type raw_param) (\<lambda>p. Inr (ParameterAny_ValueOutput p))
      else if raw_type = TEE_PARAM_TYPE_MEMREF_INPUT then
        try_bind (MemrefInput_from_raw raw_type raw_param) (\<lambda>p. Inr (ParameterAny_MemrefInput p))
      else if raw_type = TEE_PARAM_TYPE_MEMREF_INOUT then
        try_bind (MemrefInout_from_raw raw_type raw_param) (\<lambda>p. Inr (ParameterAny_MemrefInout p))
      else if raw_type = TEE_PARAM_TYPE_MEMREF_OUTPUT then
        try_bind (MemrefOutput_from_raw raw_type raw_param) (\<lambda>p. Inr (ParameterAny_MemrefOutput p))
      else Inr (ParameterAny_Unknown raw_type raw_param))"

fun as_value_input :: "ParameterAny \<Rightarrow> Error + ParameterValueInput" where
  "as_value_input (ParameterAny_ValueInput p) = Inr p"
| "as_value_input _ = Inl (Error_from BadParameters)"

fun as_value_output :: "ParameterAny \<Rightarrow> Error + ParameterValueOutput" where
  "as_value_output (ParameterAny_ValueOutput p) = Inr p"
| "as_value_output _ = Inl (Error_from BadParameters)"

fun as_value_inout :: "ParameterAny \<Rightarrow> Error + ParameterValueInout" where
  "as_value_inout (ParameterAny_ValueInout p) = Inr p"
| "as_value_inout _ = Inl (Error_from BadParameters)"

fun as_memref_input :: "ParameterAny \<Rightarrow> Error + ParameterMemrefInput" where
  "as_memref_input (ParameterAny_MemrefInput p) = Inr p"
| "as_memref_input _ = Inl (Error_from BadParameters)"

fun as_memref_inout :: "ParameterAny \<Rightarrow> Error + ParameterMemrefInout" where
  "as_memref_inout (ParameterAny_MemrefInout p) = Inr p"
| "as_memref_inout _ = Inl (Error_from BadParameters)"

fun as_memref_output :: "ParameterAny \<Rightarrow> Error + ParameterMemrefOutput" where
  "as_memref_output (ParameterAny_MemrefOutput p) = Inr p"
| "as_memref_output _ = Inl (Error_from BadParameters)"

fun as_none :: "ParameterAny \<Rightarrow> Error + unit" where
  "as_none ParameterAny_None = Inr ()"
| "as_none _ = Inl (Error_from BadParameters)"

text \<open>The implementation of \<^verbatim>\<open>FromRawParameters\<close> for 4-tuples.\<close>

fun tuple_from_raw ::
    "(RawParamType \<Rightarrow> TEE_Param \<Rightarrow> Error + 'a) \<Rightarrow> (RawParamType \<Rightarrow> TEE_Param \<Rightarrow> Error + 'b) \<Rightarrow>
     (RawParamType \<Rightarrow> TEE_Param \<Rightarrow> Error + 'c) \<Rightarrow> (RawParamType \<Rightarrow> TEE_Param \<Rightarrow> Error + 'd) \<Rightarrow>
     RawParamTypes \<Rightarrow> RawParams \<Rightarrow> Error + 'a \<times> 'b \<times> 'c \<times> 'd" where
  "tuple_from_raw A B C D raw_types (p0, p1, p2, p3) =
     try_bind (A (TEE_PARAM_TYPE_GET raw_types 0) p0) (\<lambda>a.
     try_bind (B (TEE_PARAM_TYPE_GET raw_types 1) p1) (\<lambda>b.
     try_bind (C (TEE_PARAM_TYPE_GET raw_types 2) p2) (\<lambda>c.
     try_bind (D (TEE_PARAM_TYPE_GET raw_types 3) p3) (\<lambda>d.
       Inr (a, b, c, d)))))"

subsection \<open>Clients of the write trait\<close>

text \<open>
  What a trusted application can do with an output or in/out memref is a sequence of
  calls of the trait's methods; the results of the calls may steer it, so every
  sequence is considered.
\<close>

datatype memref_call =
    WriteAt usize slice
  | SetOutput slice
  | SetUpdatedSize usize

fun memref_step ::
    "memmove \<Rightarrow> ('p \<Rightarrow> usize) \<Rightarrow> ('p \<Rightarrow> u64) \<Rightarrow> (usize \<Rightarrow> 'p \<Rightarrow> 'p) \<Rightarrow>
     memref_call \<Rightarrow> mem \<times> 'p \<Rightarrow> mem \<times> 'p" where
  "memref_step M bl bp su (WriteAt off d) (m, p) = snd (write_at M bl bp su m p off d)"
| "memref_step M bl bp su (SetOutput d) (m, p) = snd (set_output M bl bp su m p d)"
| "memref_step M bl bp su (SetUpdatedSize s) (m, p) = (m, snd (set_updated_size bl su p s))"

definition memref_run ::
    "memmove \<Rightarrow> ('p \<Rightarrow> usize) \<Rightarrow> ('p \<Rightarrow> u64) \<Rightarrow> (usize \<Rightarrow> 'p \<Rightarrow> 'p) \<Rightarrow>
     memref_call list \<Rightarrow> mem \<times> 'p \<Rightarrow> mem \<times> 'p" where
  "memref_run M bl bp su calls st = fold (memref_step M bl bp su) calls st"

text \<open>Both wrappers keep the size they report within the size the host supplied.\<close>

definition MemrefInout_inv :: "ParameterMemrefInout \<Rightarrow> bool" where
  "MemrefInout_inv p \<longleftrightarrow>
     inout_capacity p < usize_modulus \<and> memref_size (inout_raw_param p) \<le> inout_capacity p"

definition MemrefOutput_inv :: "ParameterMemrefOutput \<Rightarrow> bool" where
  "MemrefOutput_inv p \<longleftrightarrow>
     output_capacity p < usize_modulus \<and> memref_size (output_raw_param p) \<le> output_capacity p"

section \<open>The memref traits as interfaces\<close>

locale parameter_memref =
  fixes buffer_len :: "'p \<Rightarrow> usize"
    and buffer_ptr :: "'p \<Rightarrow> u64"
    and inv :: "'p \<Rightarrow> bool"
  assumes len_bound: "inv p \<Longrightarrow> buffer_len p < usize_modulus"
begin

text \<open>
  \<^verbatim>\<open>read_at\<close> reports how much is there, moves exactly that much into the destination and
  touches nothing else.
\<close>

lemma read_at_error_iff:
  "fst (read_at M buffer_len buffer_ptr m p off d) = Inl e \<longleftrightarrow>
     buffer_len p < off \<and> e = Error_from BadParameters"
  by (auto simp: read_at_def Let_def)

lemma read_at_ok:
  assumes "TEE_MemMove_ok M" and "inv p" and "off \<le> buffer_len p"
  shows "read_at M buffer_len buffer_ptr m p off d =
     (let n = min (sl_len d) (buffer_len p - off)
      in (Inr n, mem_move m (sl_ptr d) (buffer_ptr p + of_nat off) n))"
  using assms by (simp add: read_at_def Let_def TEE_MemMove_okD[OF assms(1)])

lemma read_at_contents:
  assumes "TEE_MemMove_ok M" and "inv p"
    and "read_at M buffer_len buffer_ptr m p off d = (Inr n, m')"
  shows "n = min (sl_len d) (buffer_len p - off)"
    and "mem_read m' (sl_ptr d) n = take n (drop off (mem_read m (buffer_ptr p) (buffer_len p)))"
    and "a \<notin> region (sl_ptr d) n \<Longrightarrow> m' a = m a"
proof -
  have "\<not> buffer_len p < off"
    using assms(3) by (auto simp: read_at_def split: if_splits)
  then have off: "off \<le> buffer_len p" by simp
  show n: "n = min (sl_len d) (buffer_len p - off)"
    using assms(3) read_at_ok[OF assms(1,2) off] by (simp add: Let_def)
  have m': "m' = mem_move m (sl_ptr d) (buffer_ptr p + of_nat off) n"
    using assms(3) read_at_ok[OF assms(1,2) off] by (auto simp: Let_def)
  have "n \<le> usize_modulus" using n len_bound[OF assms(2)] by simp
  moreover have "off + n \<le> buffer_len p" using n off by simp
  ultimately show "mem_read m' (sl_ptr d) n = take n (drop off (mem_read m (buffer_ptr p) (buffer_len p)))"
    by (simp add: m' mem_read_move mem_read_slice)
  show "a \<notin> region (sl_ptr d) n \<Longrightarrow> m' a = m a"
    by (simp add: m' mem_move_outside)
qed

text \<open>A fresh vector ends up with the shared bytes.\<close>

lemma read_to_vec_contents:
  assumes "TEE_MemMove_ok M" and "inv p"
    and fresh: "region v (buffer_len p) \<inter> region (buffer_ptr p) (buffer_len p) = {}"
    and r: "read_to_vec M buffer_len buffer_ptr m p v = (s, m')"
  shows "slice_bytes m' s = mem_read m (buffer_ptr p) (buffer_len p)"
    and "a \<notin> region v (buffer_len p) \<Longrightarrow> m' a = m a"
proof -
  let ?n = "buffer_len p"
  let ?m1 = "mem_write m v (replicate ?n 0)"
  have s: "s = \<lparr>sl_ptr = v, sl_len = ?n\<rparr>" and m': "m' = mem_move ?m1 v (buffer_ptr p) ?n"
    using r assms(1) by (auto simp: read_to_vec_def Let_def TEE_MemMove_okD[OF assms(1)] split: if_splits)
  have n: "?n \<le> usize_modulus" using len_bound[OF assms(2)] by simp
  have "mem_read m' v ?n = mem_read ?m1 (buffer_ptr p) ?n"
    using n by (simp add: m' mem_read_move)
  also have "\<dots> = mem_read m (buffer_ptr p) ?n"
    using fresh n by (intro mem_read_cong mem_write_outside) auto
  finally show "slice_bytes m' s = mem_read m (buffer_ptr p) ?n"
    by (simp add: slice_bytes_def s)
  show "a \<notin> region v ?n \<Longrightarrow> m' a = m a"
    by (simp add: m' mem_move_outside mem_write_outside)
qed

end

locale parameter_memref_write = parameter_memref +
  fixes set_size :: "usize \<Rightarrow> 'p \<Rightarrow> 'p"
    and reported :: "'p \<Rightarrow> usize"
  assumes keeps_len: "buffer_len (set_size s p) = buffer_len p"
    and keeps_ptr: "buffer_ptr (set_size s p) = buffer_ptr p"
    and keeps_inv: "inv p \<Longrightarrow> s \<le> buffer_len p \<Longrightarrow> inv (set_size s p)"
    and reported_set: "s < usize_modulus \<Longrightarrow> reported (set_size s p) = s"
    and reported_le: "inv p \<Longrightarrow> reported p \<le> buffer_len p"
begin

lemma write_at_eq:
  assumes "TEE_MemMove_ok M" and "inv p"
  shows "write_at M buffer_len buffer_ptr set_size m p off d =
     (if off + sl_len d \<le> buffer_len p
      then (Inr (), mem_move m (buffer_ptr p + of_nat off) (sl_ptr d) (sl_len d),
            set_size (off + sl_len d) p)
      else (Inl (Error_from ShortBuffer), m, p))"
  using assms(1) len_bound[OF assms(2)]
  by (auto simp: write_at_def checked_add_def Let_def TEE_MemMove_okD[OF assms(1)])

lemma write_at_contents:
  assumes "TEE_MemMove_ok M" and "inv p"
    and w: "write_at M buffer_len buffer_ptr set_size m p off d = (Inr (), m', p')"
  shows "mem_read m' (buffer_ptr p) (buffer_len p) =
      overwrite (mem_read m (buffer_ptr p) (buffer_len p)) off (slice_bytes m d)"
    and "reported p' = off + sl_len d"
proof -
  have le: "off + sl_len d \<le> buffer_len p"
    using w assms(1,2) by (auto simp: write_at_eq split: if_splits)
  moreover have n: "buffer_len p \<le> usize_modulus" using len_bound[OF assms(2)] by simp
  ultimately show "mem_read m' (buffer_ptr p) (buffer_len p) =
      overwrite (mem_read m (buffer_ptr p) (buffer_len p)) off (slice_bytes m d)"
    using w assms(1,2) by (auto simp: write_at_eq slice_bytes_def mem_read_move_within)
  show "reported p' = off + sl_len d"
    using w assms(1,2) le len_bound[OF assms(2)] by (auto simp: write_at_eq reported_set)
qed

text \<open>One call, and then any number of calls, stays within the host's buffer.\<close>

lemma memref_step_safe:
  assumes "TEE_MemMove_ok M" and "inv p"
    and "memref_step M buffer_len buffer_ptr set_size c (m, p) = (m', p')"
  shows "inv p' \<and> buffer_len p' = buffer_len p \<and> buffer_ptr p' = buffer_ptr p \<and>
    (\<forall>a. a \<notin> region (buffer_ptr p) (buffer_len p) \<longrightarrow> m' a = m a)"
proof -
  have frame: "mem_move m (buffer_ptr p + of_nat off) s k a = m a"
    if "off + k \<le> buffer_len p" "a \<notin> region (buffer_ptr p) (buffer_len p)" for off s k a
    using that subregion[of off k "buffer_len p" "buffer_ptr p"] len_bound[OF assms(2)]
    by (intro mem_move_outside) auto
  show ?thesis
  proof (cases c)
    case (WriteAt off d)
    with assms show ?thesis
      by (auto simp: write_at_eq keeps_len keeps_ptr keeps_inv frame split: if_splits)
  next
    case (SetOutput d)
    with assms show ?thesis
      using frame[of 0]
      by (auto simp: set_output_def write_at_eq keeps_len keeps_ptr keeps_inv split: if_splits)
  next
    case (SetUpdatedSize s)
    with assms show ?thesis
      by (auto simp: set_updated_size_def keeps_len keeps_ptr keeps_inv split: if_splits)
  qed
qed

lemma memref_run_safe:
  assumes "TEE_MemMove_ok M" and "inv p"
    and "memref_run M buffer_len buffer_ptr set_size cs (m, p) = (m', p')"
  shows "reported p' \<le> buffer_len p \<and> inv p' \<and> buffer_len p' = buffer_len p \<and>
    buffer_ptr p' = buffer_ptr p \<and>
    (\<forall>a. a \<notin> region (buffer_ptr p) (buffer_len p) \<longrightarrow> m' a = m a)"
  using assms(2,3) unfolding memref_run_def
proof (induction cs arbitrary: m p)
  case Nil
  then show ?case by (simp add: reported_le)
next
  case (Cons c cs)
  obtain m1 p1 where step: "memref_step M buffer_len buffer_ptr set_size c (m, p) = (m1, p1)"
    by (cases "memref_step M buffer_len buffer_ptr set_size c (m, p)") auto
  note s = memref_step_safe[OF assms(1) Cons.prems(1) step]
  with Cons.IH[of p1 m1] Cons.prems step show ?case by auto
qed

end

interpretation memref_in: parameter_memref MemrefInput_buffer_len MemrefInput_buffer_ptr "\<lambda>_. True"
  by unfold_locales (simp add: MemrefInput_buffer_len_def)

interpretation memref_io: parameter_memref_write
  MemrefInout_buffer_len MemrefInout_buffer_ptr MemrefInout_inv MemrefInout_set_size
  "\<lambda>p. memref_size (inout_raw_param p)"
  by unfold_locales
    (simp_all add: MemrefInout_buffer_len_def MemrefInout_buffer_ptr_def MemrefInout_inv_def
      MemrefInout_set_size_def)

interpretation memref_out: parameter_memref_write
  MemrefOutput_buffer_len MemrefOutput_buffer_ptr MemrefOutput_inv MemrefOutput_set_size
  "\<lambda>p. memref_size (output_raw_param p)"
  by unfold_locales
    (simp_all add: MemrefOutput_buffer_len_def MemrefOutput_buffer_ptr_def MemrefOutput_inv_def
      MemrefOutput_set_size_def)

section \<open>Value parameters as a pair of cells\<close>

locale parameter_value =
  fixes get_a :: "'p \<Rightarrow> u32" and get_b :: "'p \<Rightarrow> u32"
    and set_a :: "u32 \<Rightarrow> 'p \<Rightarrow> 'p" and set_b :: "u32 \<Rightarrow> 'p \<Rightarrow> 'p"
  assumes get_set_a: "get_a (set_a a p) = a" "get_b (set_a a p) = get_b p"
    and get_set_b: "get_b (set_b b p) = b" "get_a (set_b b p) = get_a p"
begin

text \<open>The order in which the two fields are written does not matter to the reader.\<close>

lemma set_both:
  "get_a (set_a a (set_b b p)) = a \<and> get_b (set_a a (set_b b p)) = b \<and>
   get_a (set_b b (set_a a p)) = a \<and> get_b (set_b b (set_a a p)) = b"
  by (simp add: get_set_a get_set_b)

end

interpretation value_io: parameter_value
  ValueInout_get_a ValueInout_get_b ValueInout_set_a ValueInout_set_b
  by unfold_locales
    (simp_all add: ValueInout_get_a_def ValueInout_get_b_def ValueInout_set_a_def ValueInout_set_b_def)

interpretation value_out: parameter_value
  "\<lambda>p. value_a (vout_param p)" "\<lambda>p. value_b (vout_param p)" ValueOutput_set_a ValueOutput_set_b
  by unfold_locales (simp_all add: ValueOutput_set_a_def ValueOutput_set_b_def)

section \<open>Conversion from the raw parameters\<close>

lemmas from_raw_defs =
  MemrefInput_from_raw_def MemrefInout_from_raw_def MemrefOutput_from_raw_def
  ValueInput_from_raw_def ValueInout_from_raw_def ValueOutput_from_raw_def None_from_raw_def

lemma MemrefInput_from_raw_eq:
  "MemrefInput_from_raw t raw =
     (if t = TEE_PARAM_TYPE_MEMREF_INPUT \<and> memref_buffer raw \<noteq> 0
      then Inr \<lparr>input_param = raw\<rparr> else Inl (Error_from BadParameters))"
  by (simp add: from_raw_defs check_type_is_def)

lemma MemrefInout_from_raw_eq:
  "MemrefInout_from_raw t raw =
     (if t = TEE_PARAM_TYPE_MEMREF_INOUT \<and> memref_buffer raw \<noteq> 0
      then Inr \<lparr>inout_capacity = memref_size raw, inout_raw_param = raw\<rparr>
      else Inl (Error_from BadParameters))"
  by (simp add: from_raw_defs check_type_is_def)

lemma MemrefOutput_from_raw_eq:
  "MemrefOutput_from_raw t raw =
     (if t = TEE_PARAM_TYPE_MEMREF_OUTPUT \<and> memref_buffer raw \<noteq> 0
      then Inr \<lparr>output_capacity = memref_size raw, output_raw_param = raw\<rparr>
      else Inl (Error_from BadParameters))"
  by (simp add: from_raw_defs check_type_is_def)

lemma memref_from_raw_inv:
  "MemrefInout_from_raw t raw = Inr p \<Longrightarrow> MemrefInout_inv p"
  "MemrefOutput_from_raw t raw = Inr q \<Longrightarrow> MemrefOutput_inv q"
  by (auto simp: MemrefInout_from_raw_eq MemrefOutput_from_raw_eq MemrefInout_inv_def
      MemrefOutput_inv_def split: if_splits)

lemmas memref_wrapper_simps =
  MemrefInout_buffer_len_def MemrefInout_buffer_ptr_def MemrefOutput_buffer_len_def
  MemrefOutput_buffer_ptr_def MemrefInput_buffer_len_def MemrefInput_buffer_ptr_def
  MemrefInout_set_size_def MemrefOutput_set_size_def

section \<open>Properties\<close>

text \<open>
  C9.  Confinement of output parameters.  Take any output memref that \<^verbatim>\<open>from_raw\<close> accepts
  and any sequence of \<^verbatim>\<open>write_at\<close>, \<^verbatim>\<open>set_output\<close> and \<^verbatim>\<open>set_updated_size\<close> calls, with any
  offsets, sizes and source slices, failing calls included.  No byte outside the buffer
  the host supplied changes, the buffer pointer is untouched, and the size reported
  back to the host never exceeds the size the host supplied.
\<close>

theorem memref_output_confined:
  assumes "TEE_MemMove_ok M"
    and "MemrefOutput_from_raw t raw = Inr p"
    and "memref_run M MemrefOutput_buffer_len MemrefOutput_buffer_ptr MemrefOutput_set_size calls (m, p)
           = (m', p')"
  shows "(\<forall>a. a \<notin> region (memref_buffer raw) (memref_size raw) \<longrightarrow> m' a = m a) \<and>
    memref_buffer (output_raw_param p') = memref_buffer raw \<and>
    memref_size (output_raw_param p') \<le> memref_size raw"
  using memref_out.memref_run_safe[OF assms(1) memref_from_raw_inv(2)[OF assms(2)] assms(3)] assms(2)
  by (auto simp: MemrefOutput_from_raw_eq memref_wrapper_simps split: if_splits)

theorem memref_output_confined_witness:
  "\<exists>m' p'. memref_run mem_move MemrefOutput_buffer_len MemrefOutput_buffer_ptr MemrefOutput_set_size
      [WriteAt 3 \<lparr>sl_ptr = 0x2000, sl_len = 4\<rparr>, WriteAt 5 \<lparr>sl_ptr = 0x2000, sl_len = 4\<rparr>, SetUpdatedSize 9]
      (\<lambda>a. 0, \<lparr>output_capacity = 8, output_raw_param = Param_of_memref 0x1000 8\<rparr>) = (m', p') \<and>
    (\<forall>a. a \<notin> region 0x1000 8 \<longrightarrow> m' a = 0) \<and> memref_size (output_raw_param p') \<le> 8"
proof -
  let ?p = "\<lparr>output_capacity = 8, output_raw_param = Param_of_memref 0x1000 8\<rparr>"
  let ?calls = "[WriteAt 3 \<lparr>sl_ptr = 0x2000, sl_len = 4\<rparr>, WriteAt 5 \<lparr>sl_ptr = 0x2000, sl_len = 4\<rparr>,
    SetUpdatedSize 9]"
  have acc: "MemrefOutput_from_raw TEE_PARAM_TYPE_MEMREF_OUTPUT (Param_of_memref 0x1000 8) = Inr ?p"
    by (simp add: MemrefOutput_from_raw_eq usize_modulus_def)
  obtain m' p' where run: "memref_run mem_move MemrefOutput_buffer_len MemrefOutput_buffer_ptr
      MemrefOutput_set_size ?calls (\<lambda>a. 0, ?p) = (m', p')"
    by (rule prod.exhaust)
  from memref_output_confined[OF TEE_MemMove_ok_mem_move acc run]
  have "(\<forall>a. a \<notin> region 0x1000 8 \<longrightarrow> m' a = 0) \<and> memref_size (output_raw_param p') \<le> 8"
    by (simp add: usize_modulus_def)
  with run show ?thesis by blast
qed

text \<open>
  C28.  What is written is what is read.  After a successful \<^verbatim>\<open>write_at\<close> on an in/out
  memref, a \<^verbatim>\<open>read_at\<close> of the same length at the same offset succeeds, reports that
  length, and leaves in its destination exactly the bytes that were written, whatever
  the source, the destination and the shared buffer overlap; and the reported size is
  the end of the written range.
\<close>

theorem memref_write_then_read:
  assumes M: "TEE_MemMove_ok M"
    and "MemrefInout_from_raw t raw = Inr p"
    and w: "write_at M MemrefInout_buffer_len MemrefInout_buffer_ptr MemrefInout_set_size m p off data
           = (Inr (), m1, p1)"
    and "sl_len dest = sl_len data"
  shows "\<exists>m2. read_at M MemrefInout_buffer_len MemrefInout_buffer_ptr m1 p1 off dest
                = (Inr (sl_len data), m2) \<and>
    mem_read m2 (sl_ptr dest) (sl_len data) = slice_bytes m data \<and>
    memref_size (inout_raw_param p1) = off + sl_len data"
proof -
  note inv = memref_from_raw_inv(1)[OF assms(2)]
  have fits: "off + sl_len data \<le> MemrefInout_buffer_len p"
    using w by (auto simp: memref_io.write_at_eq[OF M inv] split: if_splits)
  have p1: "p1 = MemrefInout_set_size (off + sl_len data) p"
    using w by (auto simp: memref_io.write_at_eq[OF M inv] split: if_splits)
  note same = memref_io.keeps_len[of "off + sl_len data" p, folded p1]
    memref_io.keeps_ptr[of "off + sl_len data" p, folded p1]
  have inv1: "MemrefInout_inv p1" using memref_io.keeps_inv[OF inv fits] p1 by simp
  obtain m2 where r: "read_at M MemrefInout_buffer_len MemrefInout_buffer_ptr m1 p1 off dest
      = (Inr (sl_len data), m2)"
    using memref_io.read_at_ok[OF M inv1, of off m1 dest] fits assms(4) same by (auto simp: Let_def)
  have "mem_read m2 (sl_ptr dest) (sl_len data) = slice_bytes m data"
    unfolding memref_io.read_at_contents(2)[OF M inv1 r] same
      memref_io.write_at_contents(1)[OF M inv w]
    using overwrite_read_back[of off "slice_bytes m data"] fits by simp
  with r memref_io.write_at_contents(2)[OF M inv w] show ?thesis by blast
qed

theorem memref_write_then_read_witness:
  "let raw = Param_of_memref 0x1000 16;
       p = \<lparr>inout_capacity = 16, inout_raw_param = raw\<rparr>;
       data = \<lparr>sl_ptr = 0x2000, sl_len = 3\<rparr>;
       dest = \<lparr>sl_ptr = 0x3000, sl_len = 3\<rparr>;
       m = (\<lambda>a. if a = 0x2001 then 7 else 0)
   in \<exists>m1 p1 m2.
        write_at mem_move MemrefInout_buffer_len MemrefInout_buffer_ptr MemrefInout_set_size m p 5 data
          = (Inr (), m1, p1) \<and>
        read_at mem_move MemrefInout_buffer_len MemrefInout_buffer_ptr m1 p1 5 dest = (Inr 3, m2) \<and>
        mem_read m2 0x3000 3 = slice_bytes m data \<and> memref_size (inout_raw_param p1) = 8"
proof -
  let ?raw = "Param_of_memref 0x1000 16"
  let ?p = "\<lparr>inout_capacity = 16, inout_raw_param = ?raw\<rparr>"
  let ?data = "\<lparr>sl_ptr = 0x2000, sl_len = 3\<rparr>"
  let ?m = "(\<lambda>a. if a = 0x2001 then 7 else 0) :: mem"
  have acc: "MemrefInout_from_raw TEE_PARAM_TYPE_MEMREF_INOUT ?raw = Inr ?p"
    by (simp add: MemrefInout_from_raw_eq usize_modulus_def)
  obtain m1 p1 where w: "write_at mem_move MemrefInout_buffer_len MemrefInout_buffer_ptr
      MemrefInout_set_size ?m ?p 5 ?data = (Inr (), m1, p1)"
    by (simp add: write_at_def checked_add_def usize_modulus_def Let_def memref_wrapper_simps)
  from memref_write_then_read[OF TEE_MemMove_ok_mem_move acc w,
      of "\<lparr>sl_ptr = 0x3000, sl_len = 3\<rparr>"] w
  show ?thesis by (auto simp: Let_def)
qed

text \<open>
  The type-erased route and the typed route agree.  Converting a slot with
  \<^verbatim>\<open>ParameterAny::from_raw\<close> and then asking for a particular kind gives the same result,
  error included, as converting it directly to that kind: for every type tag, known or
  not, and every content of the slot.
\<close>

lemma any_agrees_with_typed:
  "try_bind (Any_from_raw t raw) as_none = try_bind (None_from_raw t raw) (\<lambda>_. Inr ()) \<and>
   try_bind (Any_from_raw t raw) as_value_input = ValueInput_from_raw t raw \<and>
   try_bind (Any_from_raw t raw) as_value_output = ValueOutput_from_raw t raw \<and>
   try_bind (Any_from_raw t raw) as_value_inout = ValueInout_from_raw t raw \<and>
   try_bind (Any_from_raw t raw) as_memref_input = MemrefInput_from_raw t raw \<and>
   try_bind (Any_from_raw t raw) as_memref_output = MemrefOutput_from_raw t raw \<and>
   try_bind (Any_from_raw t raw) as_memref_inout = MemrefInout_from_raw t raw"
  by (simp add: Any_from_raw_def from_raw_defs check_type_is_def raw_consts)

end
