(* ===== verification/DeprecatedParams.thy ===== *)
theory DeprecatedParams
  imports Parameters
begin

text \<open>
  The legacy parameter interface, \<^verbatim>\<open>crates/optee-utee/src/parameter/deprecated.rs\<close>.  A
  \<^verbatim>\<open>Parameter\<close> points to its slot; as in \<open>Parameters\<close> the pointer is modelled by the
  contents of the slot, and \<open>ParamValue\<close>/\<open>ParamMemref\<close> are views of it.
\<close>

unbundle bit_operations_syntax

section \<open>Definitions\<close>

record ParamTypes =
  types_bits :: u32

definition ParamTypes_from :: "u32 \<Rightarrow> ParamTypes" where
  "ParamTypes_from v = \<lparr>types_bits = v\<rparr>"

definition into_flags :: "ParamTypes \<Rightarrow> ParamType \<times> ParamType \<times> ParamType \<times> ParamType" where
  "into_flags self =
     (ParamType_from (0x000f AND types_bits self),
      ParamType_from (drop_bit 4 (0x00f0 AND types_bits self)),
      ParamType_from (drop_bit 8 (0x0f00 AND types_bits self)),
      ParamType_from (drop_bit 12 (0xf000 AND types_bits self)))"

record Parameter =
  parameter_raw :: TEE_Param
  parameter_type :: ParamType

definition Parameter_from_raw :: "TEE_Param \<Rightarrow> ParamType \<Rightarrow> Parameter" where
  "Parameter_from_raw ptr k = \<lparr>parameter_raw = ptr, parameter_type = k\<rparr>"

fun Parameters_from_raw :: "RawParams \<Rightarrow> u32 \<Rightarrow> Parameter \<times> Parameter \<times> Parameter \<times> Parameter" where
  "Parameters_from_raw (p0, p1, p2, p3) param_types =
     (case into_flags (ParamTypes_from param_types) of
        (f0, f1, f2, f3) \<Rightarrow>
          (Parameter_from_raw p0 f0, Parameter_from_raw p1 f1,
           Parameter_from_raw p2 f2, Parameter_from_raw p3 f3))"

definition Parameters_from_raw_trait ::
    "RawParamTypes \<Rightarrow> RawParams \<Rightarrow> Error + Parameter \<times> Parameter \<times> Parameter \<times> Parameter" where
  "Parameters_from_raw_trait raw_types raw_params = Inr (Parameters_from_raw raw_params raw_types)"

record ParamValue =
  pv_raw :: TEE_Param
  pv_type :: ParamType

definition ParamValue_a :: "ParamValue \<Rightarrow> u32" where
  "ParamValue_a self = value_a (pv_raw self)"

definition ParamValue_b :: "ParamValue \<Rightarrow> u32" where
  "ParamValue_b self = value_b (pv_raw self)"

definition ParamValue_set_a :: "u32 \<Rightarrow> ParamValue \<Rightarrow> ParamValue" where
  "ParamValue_set_a a self = self\<lparr>pv_raw := set_value_a a (pv_raw self)\<rparr>"

definition ParamValue_set_b :: "u32 \<Rightarrow> ParamValue \<Rightarrow> ParamValue" where
  "ParamValue_set_b b self = self\<lparr>pv_raw := set_value_b b (pv_raw self)\<rparr>"

record ParamMemref =
  pm_raw :: TEE_Param
  pm_type :: ParamType

definition ParamMemref_buffer :: "ParamMemref \<Rightarrow> slice" where
  "ParamMemref_buffer self = \<lparr>sl_ptr = memref_buffer (pm_raw self), sl_len = memref_size (pm_raw self)\<rparr>"

definition ParamMemref_set_updated_size :: "usize \<Rightarrow> ParamMemref \<Rightarrow> ParamMemref" where
  "ParamMemref_set_updated_size s self = self\<lparr>pm_raw := set_memref_size s (pm_raw self)\<rparr>"

definition as_value :: "Parameter \<Rightarrow> Error + ParamValue" where
  "as_value self =
     (case parameter_type self of
        ParamType_ValueInput \<Rightarrow> Inr \<lparr>pv_raw = parameter_raw self, pv_type = parameter_type self\<rparr>
      | ParamType_ValueInout \<Rightarrow> Inr \<lparr>pv_raw = parameter_raw self, pv_type = parameter_type self\<rparr>
      | ParamType_ValueOutput \<Rightarrow> Inr \<lparr>pv_raw = parameter_raw self, pv_type = parameter_type self\<rparr>
      | _ \<Rightarrow> Inl (Error_new BadParameters))"

definition as_memref :: "Parameter \<Rightarrow> Error + ParamMemref" where
  "as_memref self =
     (case parameter_type self of
        ParamType_MemrefInout \<Rightarrow> Inr \<lparr>pm_raw = parameter_raw self, pm_type = parameter_type self\<rparr>
      | ParamType_MemrefInput \<Rightarrow> Inr \<lparr>pm_raw = parameter_raw self, pm_type = parameter_type self\<rparr>
      | ParamType_MemrefOutput \<Rightarrow> Inr \<lparr>pm_raw = parameter_raw self, pm_type = parameter_type self\<rparr>
      | _ \<Rightarrow> Inl (Error_new BadParameters))"

section \<open>Lemmas\<close>

lemma into_flags_eq:
  "into_flags (ParamTypes_from t) =
     (ParamType_from (TEE_PARAM_TYPE_GET t 0), ParamType_from (TEE_PARAM_TYPE_GET t 1),
      ParamType_from (TEE_PARAM_TYPE_GET t 2), ParamType_from (TEE_PARAM_TYPE_GET t 3))"
  unfolding into_flags_def ParamTypes_from_def ParamTypes.simps masked_field ..

interpretation legacy_value: parameter_value ParamValue_a ParamValue_b ParamValue_set_a ParamValue_set_b
  by unfold_locales (simp_all add: ParamValue_a_def ParamValue_b_def ParamValue_set_a_def ParamValue_set_b_def)

lemma ParamType_from_nibble:
  "ParamType_from t =
     (if t = 0 then ParamType_None else if t = 1 then ParamType_ValueInput
      else if t = 2 then ParamType_ValueOutput else if t = 3 then ParamType_ValueInout
      else if t = 5 then ParamType_MemrefInput else if t = 6 then ParamType_MemrefOutput
      else if t = 7 then ParamType_MemrefInout else ParamType_Unknown t)"
  by (auto simp: ParamType_from_def from_primitive_def ParamType_variants_def raw_consts)

section \<open>Properties\<close>

text \<open>
  The legacy interface classifies a slot as the typed one does: for every tag,
  \<^verbatim>\<open>as_value\<close> succeeds exactly on the tags for which \<^verbatim>\<open>ParameterAny\<close> is one of the three
  value kinds, and \<^verbatim>\<open>as_memref\<close> exactly on the tags for which \<^verbatim>\<open>ParameterAny\<close> is one of
  the three memref kinds or refuses a null buffer.
\<close>

lemma legacy_classifies_like_any:
  "((\<exists>v. as_value (Parameter_from_raw raw (ParamType_from t)) = Inr v) \<longleftrightarrow>
      (\<exists>p. Any_from_raw t raw = Inr p \<and>
         ((\<exists>x. as_value_input p = Inr x) \<or> (\<exists>x. as_value_output p = Inr x) \<or>
          (\<exists>x. as_value_inout p = Inr x)))) \<and>
   ((\<exists>v. as_memref (Parameter_from_raw raw (ParamType_from t)) = Inr v) \<longleftrightarrow>
      Any_from_raw t raw = Inl (Error_from BadParameters) \<or>
      (\<exists>p. Any_from_raw t raw = Inr p \<and>
         ((\<exists>x. as_memref_input p = Inr x) \<or> (\<exists>x. as_memref_output p = Inr x) \<or>
          (\<exists>x. as_memref_inout p = Inr x))))"
  by (auto simp: ParamType_from_nibble as_value_def as_memref_def Parameter_from_raw_def
      Any_from_raw_def from_raw_defs check_type_is_def raw_consts)

text \<open>
  The legacy size update is unchecked.  Whatever size the host supplied, after
  \<^verbatim>\<open>set_updated_size(n)\<close> the slice that the safe method \<^verbatim>\<open>buffer()\<close> hands out has length
  \<open>n\<close>: it can extend past the host's buffer, which the typed interface rules out.
\<close>

lemma legacy_size_unchecked:
  assumes "as_memref par = Inr p" and "n < usize_modulus"
  shows "ParamMemref_buffer (ParamMemref_set_updated_size n p) =
    \<lparr>sl_ptr = memref_buffer (parameter_raw par), sl_len = n\<rparr>"
  using assms
  by (auto simp: as_memref_def ParamMemref_buffer_def ParamMemref_set_updated_size_def
      split: ParamType.splits)

lemma legacy_size_unchecked_witness:
  "ParamMemref_buffer (ParamMemref_set_updated_size 100
     \<lparr>pm_raw = Param_of_memref 0x1000 8, pm_type = ParamType_MemrefOutput\<rparr>) =
    \<lparr>sl_ptr = 0x1000, sl_len = 100\<rparr>"
  using legacy_size_unchecked[of
      "\<lparr>parameter_raw = Param_of_memref 0x1000 8, parameter_type = ParamType_MemrefOutput\<rparr>"
      "\<lparr>pm_raw = Param_of_memref 0x1000 8, pm_type = ParamType_MemrefOutput\<rparr>" 100]
  by (simp add: as_memref_def usize_modulus_def)

end
