(* ===== verification/TeeParams.thy ===== *)
theory TeeParams
  imports Parameters
begin

text \<open>
  The parameters a trusted application passes to another one,
  \<^verbatim>\<open>crates/optee-utee/src/tee_parameter.rs\<close>: the four typed parameters, their translation
  to the raw form, and the update from the raw form after the call.  Buffers are
  slices of the address space.  Initialising the \<^verbatim>\<open>value\<close> half of the union leaves its
  second word unspecified; that word is the argument \<open>pad\<close>.
\<close>

unbundle bit_operations_syntax

section \<open>Definitions\<close>

datatype ParamIndex = Arg0 | Arg1 | Arg2 | Arg3

fun to_usize :: "ParamIndex \<Rightarrow> usize" where
  "to_usize Arg0 = 0"
| "to_usize Arg1 = 1"
| "to_usize Arg2 = 2"
| "to_usize Arg3 = 3"

datatype ParamContent =
    Content_None
  | Content_MemrefInput slice
  | Content_MemrefOutput slice usize
  | Content_MemrefInout slice usize
  | Content_ValueInput u32 u32
  | Content_ValueOutput u32 u32
  | Content_ValueInout u32 u32

record Param =
  param_content :: ParamContent

definition Param_new :: Param where
  "Param_new = \<lparr>param_content = Content_None\<rparr>"

text \<open>Slicing \<^verbatim>\<open>buffer[..written]\<close> panics when \<^verbatim>\<open>written\<close> exceeds the length.\<close>

definition slice_to :: "mem \<Rightarrow> slice \<Rightarrow> usize \<Rightarrow> bytes outcome" where
  "slice_to m s n = (if n \<le> sl_len s then Returns (mem_read m (sl_ptr s) n) else Panics)"

definition written_slice :: "mem \<Rightarrow> Param \<Rightarrow> bytes outcome option" where
  "written_slice m self =
     (case param_content self of
        Content_MemrefOutput buffer written \<Rightarrow> Some (slice_to m buffer written)
      | Content_MemrefInout buffer written \<Rightarrow> Some (slice_to m buffer written)
      | _ \<Rightarrow> None)"

definition output_value :: "Param \<Rightarrow> (u32 \<times> u32) option" where
  "output_value self =
     (case param_content self of
        Content_ValueOutput a b \<Rightarrow> Some (a, b)
      | Content_ValueInout a b \<Rightarrow> Some (a, b)
      | _ \<Rightarrow> None)"

definition get_type :: "Param \<Rightarrow> ParamType" where
  "get_type self =
     (case param_content self of
        Content_None \<Rightarrow> ParamType_None
      | Content_MemrefInput _ \<Rightarrow> ParamType_MemrefInput
      | Content_MemrefOutput _ _ \<Rightarrow> ParamType_MemrefOutput
      | Content_MemrefInout _ _ \<Rightarrow> ParamType_MemrefInout
      | Content_ValueInput _ _ \<Rightarrow> ParamType_ValueInput
      | Content_ValueOutput _ _ \<Rightarrow> ParamType_ValueOutput
      | Content_ValueInout _ _ \<Rightarrow> ParamType_ValueInout)"

definition get_raw_type :: "Param \<Rightarrow> u32" where
  "get_raw_type self = ParamType_into (get_type self)"

definition Param_as_raw :: "u64 \<Rightarrow> Param \<Rightarrow> TEE_Param" where
  "Param_as_raw pad self =
     (case param_content self of
        Content_None \<Rightarrow> Param_of_memref 0 0
      | Content_MemrefInput buffer \<Rightarrow> Param_of_memref (sl_ptr buffer) (sl_len buffer)
      | Content_MemrefOutput buffer _ \<Rightarrow> Param_of_memref (sl_ptr buffer) (sl_len buffer)
      | Content_MemrefInout buffer _ \<Rightarrow> Param_of_memref (sl_ptr buffer) (sl_len buffer)
      | Content_ValueInput a b \<Rightarrow> Param_of_value a b pad
      | Content_ValueInout a b \<Rightarrow> Param_of_value a b pad
      | Content_ValueOutput a b \<Rightarrow> Param_of_value a b pad)"

definition update_size_from_raw :: "Param \<Rightarrow> TEE_Param \<Rightarrow> (Error + unit) \<times> Param" where
  "update_size_from_raw self raw_param =
     (case param_content self of
        Content_MemrefOutput buffer written \<Rightarrow>
          (let new_size = memref_size raw_param in
           if new_size > sl_len buffer then (Inl (Error_new BadParameters), self)
           else (Inr (), self\<lparr>param_content := Content_MemrefOutput buffer new_size\<rparr>))
      | Content_MemrefInout buffer written \<Rightarrow>
          (let new_size = memref_size raw_param in
           if new_size > sl_len buffer then (Inl (Error_new BadParameters), self)
           else (Inr (), self\<lparr>param_content := Content_MemrefInout buffer new_size\<rparr>))
      | _ \<Rightarrow> (Inl (Error_new BadFormat), self))"

definition update_value_from_raw :: "Param \<Rightarrow> TEE_Param \<Rightarrow> Param" where
  "update_value_from_raw self raw_param =
     (case param_content self of
        Content_ValueInout a b \<Rightarrow>
          self\<lparr>param_content := Content_ValueInout (value_a raw_param) (value_b raw_param)\<rparr>
      | Content_ValueOutput a b \<Rightarrow>
          self\<lparr>param_content := Content_ValueOutput (value_a raw_param) (value_b raw_param)\<rparr>
      | _ \<Rightarrow> self)"

text \<open>The array of four parameters, and its indexing by \<^verbatim>\<open>ParamIndex\<close>.\<close>

record TeeParams =
  tee_params :: "Param list"

definition TeeParams_new :: TeeParams where
  "TeeParams_new = \<lparr>tee_params = [Param_new, Param_new, Param_new, Param_new]\<rparr>"

definition TeeParams_index :: "TeeParams \<Rightarrow> ParamIndex \<Rightarrow> Param" where
  "TeeParams_index self idx = tee_params self ! to_usize idx"

definition TeeParams_set_content :: "ParamIndex \<Rightarrow> ParamContent \<Rightarrow> TeeParams \<Rightarrow> TeeParams" where
  "TeeParams_set_content idx c self =
     self\<lparr>tee_params := (tee_params self)[to_usize idx := (TeeParams_index self idx)\<lparr>param_content := c\<rparr>]\<rparr>"

definition with_memref_in :: "TeeParams \<Rightarrow> ParamIndex \<Rightarrow> slice \<Rightarrow> TeeParams" where
  "with_memref_in self idx buffer = TeeParams_set_content idx (Content_MemrefInput buffer) self"

definition with_memref_out :: "TeeParams \<Rightarrow> ParamIndex \<Rightarrow> slice \<Rightarrow> TeeParams" where
  "with_memref_out self idx buffer = TeeParams_set_content idx (Content_MemrefOutput buffer 0) self"

definition with_memref_inout :: "TeeParams \<Rightarrow> ParamIndex \<Rightarrow> slice \<Rightarrow> TeeParams" where
  "with_memref_inout self idx buffer = TeeParams_set_content idx (Content_MemrefInout buffer 0) self"

definition with_value_in :: "TeeParams \<Rightarrow> ParamIndex \<Rightarrow> u32 \<Rightarrow> u32 \<Rightarrow> TeeParams" where
  "with_value_in self idx a b = TeeParams_set_content idx (Content_ValueInput a b) self"

definition with_value_out :: "TeeParams \<Rightarrow> ParamIndex \<Rightarrow> u32 \<Rightarrow> u32 \<Rightarrow> TeeParams" where
  "with_value_out self idx a b = TeeParams_set_content idx (Content_ValueOutput a b) self"

definition with_value_inout :: "TeeParams \<Rightarrow> ParamIndex \<Rightarrow> u32 \<Rightarrow> u32 \<Rightarrow> TeeParams" where
  "with_value_inout self idx a b = TeeParams_set_content idx (Content_ValueInout a b) self"

definition set_memref_in :: "ParamIndex \<Rightarrow> slice \<Rightarrow> TeeParams \<Rightarrow> TeeParams" where
  "set_memref_in idx buffer self = TeeParams_set_content idx (Content_MemrefInput buffer) self"

definition set_memref_out :: "ParamIndex \<Rightarrow> slice \<Rightarrow> TeeParams \<Rightarrow> TeeParams" where
  "set_memref_out idx buffer self = TeeParams_set_content idx (Content_MemrefOutput buffer 0) self"

definition set_memref_inout :: "ParamIndex \<Rightarrow> slice \<Rightarrow> TeeParams \<Rightarrow> TeeParams" where
  "set_memref_inout idx buffer self = TeeParams_set_content idx (Content_MemrefInout buffer 0) self"

definition set_value_in :: "ParamIndex \<Rightarrow> u32 \<Rightarrow> u32 \<Rightarrow> TeeParams \<Rightarrow> TeeParams" where
  "set_value_in idx a b self = TeeParams_set_content idx (Content_ValueInput a b) self"

definition set_value_out :: "ParamIndex \<Rightarrow> u32 \<Rightarrow> u32 \<Rightarrow> TeeParams \<Rightarrow> TeeParams" where
  "set_value_out idx a b self = TeeParams_set_content idx (Content_ValueOutput a b) self"

definition set_value_inout :: "ParamIndex \<Rightarrow> u32 \<Rightarrow> u32 \<Rightarrow> TeeParams \<Rightarrow> TeeParams" where
  "set_value_inout idx a b self = TeeParams_set_content idx (Content_ValueInout a b) self"

text \<open>The loop over \<^verbatim>\<open>enumerate()\<close>; \<open>i\<close> is the index of the first parameter of the list.\<close>

fun raw_param_types_loop :: "usize \<Rightarrow> Param list \<Rightarrow> u32 \<Rightarrow> u32" where
  "raw_param_types_loop i [] param_types = param_types"
| "raw_param_types_loop i (param # ps) param_types =
     raw_param_types_loop (i + 1) ps (param_types OR push_bit (i * 4) (get_raw_type param))"

definition raw_param_types :: "TeeParams \<Rightarrow> u32" where
  "raw_param_types self = raw_param_types_loop 0 (tee_params self) 0"

definition TeeParams_as_raw :: "u64 \<Rightarrow> TeeParams \<Rightarrow> RawParams" where
  "TeeParams_as_raw pad self =
     (Param_as_raw pad (tee_params self ! 0), Param_as_raw pad (tee_params self ! 1),
      Param_as_raw pad (tee_params self ! 2), Param_as_raw pad (tee_params self ! 3))"

text \<open>
  The loop of \<^verbatim>\<open>update_from_raw\<close>: it stops at the first error, with the parameters before
  it already updated.
\<close>

fun update_loop :: "Param list \<Rightarrow> TEE_Param list \<Rightarrow> (Error + unit) \<times> Param list" where
  "update_loop (param # ps) (raw_param # rs) =
     (case (case get_type param of
              ParamType_MemrefOutput \<Rightarrow> update_size_from_raw param raw_param
            | ParamType_MemrefInout \<Rightarrow> update_size_from_raw param raw_param
            | ParamType_ValueOutput \<Rightarrow> (Inr (), update_value_from_raw param raw_param)
            | ParamType_ValueInout \<Rightarrow> (Inr (), update_value_from_raw param raw_param)
            | _ \<Rightarrow> (Inr (), param)) of
        (Inl e, param') \<Rightarrow> (Inl e, param' # ps)
      | (Inr _, param') \<Rightarrow>
          (case update_loop ps rs of (r, ps') \<Rightarrow> (r, param' # ps')))"
| "update_loop ps rs = (Inr (), ps)"

fun update_from_raw :: "TeeParams \<Rightarrow> RawParams \<Rightarrow> (Error + unit) \<times> TeeParams" where
  "update_from_raw self (r0, r1, r2, r3) =
     (case update_loop (tee_params self) [r0, r1, r2, r3] of
        (r, ps) \<Rightarrow> (r, self\<lparr>tee_params := ps\<rparr>))"

text \<open>
  Well-formed parameters: there are four, buffers have a length a slice can have, and
  no more is marked written than the buffer holds.
\<close>

definition Param_wf :: "Param \<Rightarrow> bool" where
  "Param_wf p =
     (case param_content p of
        Content_MemrefInput s \<Rightarrow> sl_len s < usize_modulus
      | Content_MemrefOutput s w \<Rightarrow> sl_len s < usize_modulus \<and> w \<le> sl_len s
      | Content_MemrefInout s w \<Rightarrow> sl_len s < usize_modulus \<and> w \<le> sl_len s
      | _ \<Rightarrow> True)"

definition TeeParams_wf :: "TeeParams \<Rightarrow> bool" where
  "TeeParams_wf ps \<longleftrightarrow> length (tee_params ps) = 4 \<and> (\<forall>p \<in> set (tee_params ps). Param_wf p)"

section \<open>Lemmas\<close>

lemma get_raw_type_nibble [simp]: "get_raw_type p < 16"
  by (cases "param_content p") (simp_all add: get_raw_type_def get_type_def raw_consts)

lemma TeeParams_four:
  assumes "length (tee_params ps) = 4"
  obtains p0 p1 p2 p3 where "ps = \<lparr>tee_params = [p0, p1, p2, p3]\<rparr>"
proof -
  from assms obtain p0 p1 p2 p3 where "tee_params ps = [p0, p1, p2, p3]"
    by (auto simp: numeral_eq_Suc length_Suc_conv)
  then show ?thesis by (intro that[of p0 p1 p2 p3]) (cases ps, simp)
qed

text \<open>The loop packs the types as the binding crate does.\<close>

lemma raw_param_types_eq:
  "raw_param_types \<lparr>tee_params = [p0, p1, p2, p3]\<rparr> =
     TEE_PARAM_TYPES (get_raw_type p0) (get_raw_type p1) (get_raw_type p2) (get_raw_type p3)"
  by (simp add: raw_param_types_def TEE_PARAM_TYPES_def or.assoc)

lemma raw_param_types_get:
  assumes "length (tee_params ps) = 4"
  shows "TEE_PARAM_TYPE_GET (raw_param_types ps) (to_usize idx) = get_raw_type (TeeParams_index ps idx)"
proof -
  obtain p0 p1 p2 p3 where ps: "ps = \<lparr>tee_params = [p0, p1, p2, p3]\<rparr>"
    by (rule TeeParams_four[OF assms])
  show ?thesis
    using TEE_PARAM_TYPES_get[of "get_raw_type p0" "get_raw_type p1" "get_raw_type p2" "get_raw_type p3"]
    by (cases idx) (simp_all add: ps raw_param_types_eq TeeParams_index_def)
qed

lemma to_usize_less [simp]: "to_usize idx < 4"
  by (cases idx) simp_all

lemma to_usize_inj [simp]: "to_usize i = to_usize j \<longleftrightarrow> i = j"
  by (cases i; cases j) simp_all

lemma TeeParams_wf_new: "TeeParams_wf TeeParams_new"
  by (simp add: TeeParams_wf_def TeeParams_new_def Param_new_def Param_wf_def)

lemma TeeParams_wf_set_content:
  "TeeParams_wf ps \<Longrightarrow> Param_wf \<lparr>param_content = c\<rparr> \<Longrightarrow> TeeParams_wf (TeeParams_set_content idx c ps)"
proof -
  have "Param_wf (q\<lparr>param_content := c\<rparr>) \<longleftrightarrow> Param_wf \<lparr>param_content = c\<rparr>" for q
    by (simp add: Param_wf_def)
  then show "TeeParams_wf ps \<Longrightarrow> Param_wf \<lparr>param_content = c\<rparr> \<Longrightarrow> ?thesis"
    by (auto simp: TeeParams_wf_def TeeParams_set_content_def dest!: set_update_subset_insert[THEN subsetD])
qed

lemma TeeParams_index_set_content:
  "TeeParams_wf ps \<Longrightarrow>
     TeeParams_index (TeeParams_set_content i c ps) j =
       (if i = j then (TeeParams_index ps i)\<lparr>param_content := c\<rparr> else TeeParams_index ps j)"
  by (auto simp: TeeParams_index_def TeeParams_set_content_def TeeParams_wf_def nth_list_update)

lemmas update_defs = update_size_from_raw_def update_value_from_raw_def get_type_def Let_def

lemma update_size_wf: "Param_wf p \<Longrightarrow> Param_wf (snd (update_size_from_raw p r))"
  by (cases "param_content p") (simp_all add: update_defs Param_wf_def)

lemma update_value_wf: "Param_wf p \<Longrightarrow> Param_wf (update_value_from_raw p r)"
  by (cases "param_content p") (simp_all add: update_defs Param_wf_def)

lemma update_types [simp]:
  "get_type (snd (update_size_from_raw p r)) = get_type p"
  "get_type (update_value_from_raw p r) = get_type p"
  by (cases "param_content p"; simp add: update_defs)+

lemma update_loop_wf:
  assumes "\<forall>p \<in> set ps. Param_wf p" and "update_loop ps rs = (res, ps')"
  shows "(\<forall>p \<in> set ps'. Param_wf p) \<and> map get_type ps' = map get_type ps"
  using assms
proof (induction ps rs arbitrary: ps' res rule: update_loop.induct)
  case (1 param ps raw_param rs)
  let ?u = "case get_type param of
              ParamType_MemrefOutput \<Rightarrow> update_size_from_raw param raw_param
            | ParamType_MemrefInout \<Rightarrow> update_size_from_raw param raw_param
            | ParamType_ValueOutput \<Rightarrow> (Inr (), update_value_from_raw param raw_param)
            | ParamType_ValueInout \<Rightarrow> (Inr (), update_value_from_raw param raw_param)
            | _ \<Rightarrow> (Inr (), param)"
  obtain r param' where u: "?u = (r, param')" by (cases ?u)
  have "Param_wf (snd ?u) \<and> get_type (snd ?u) = get_type param"
    using "1.prems"(1) by (auto simp: update_size_wf update_value_wf split: ParamType.split)
  with u have ok: "Param_wf param'" "get_type param' = get_type param" by simp_all
  show ?case
  proof (cases r)
    case (Inl e)
    with "1.prems" u ok show ?thesis by auto
  next
    case (Inr x)
    obtain r2 qs where l: "update_loop ps rs = (r2, qs)" by fastforce
    with "1.IH"[OF u[symmetric] Inr _ l] "1.prems" have "(\<forall>p \<in> set qs. Param_wf p) \<and> map get_type qs = map get_type ps"
      by simp
    with "1.prems" u ok Inr l show ?thesis by auto
  qed
qed auto

lemma update_from_raw_wf:
  assumes "TeeParams_wf ps" and "update_from_raw ps raw = (res, ps')"
  shows "TeeParams_wf ps'" and "map get_type (tee_params ps') = map get_type (tee_params ps)"
proof -
  obtain r0 r1 r2 r3 where raw: "raw = (r0, r1, r2, r3)" by (cases raw)
  obtain qs where l: "update_loop (tee_params ps) [r0, r1, r2, r3] = (res, qs)"
    and ps': "ps' = ps\<lparr>tee_params := qs\<rparr>"
    using assms(2) by (auto simp: raw split: prod.splits)
  have "(\<forall>p \<in> set qs. Param_wf p) \<and> map get_type qs = map get_type (tee_params ps)"
    using assms(1) by (intro update_loop_wf[OF _ l]) (simp add: TeeParams_wf_def)
  moreover from this have "length qs = length (tee_params ps)" by (metis length_map)
  ultimately show "TeeParams_wf ps'" "map get_type (tee_params ps') = map get_type (tee_params ps)"
    using assms(1) by (simp_all add: TeeParams_wf_def ps')
qed

lemma written_slice_wf:
  assumes "TeeParams_wf ps"
  shows "written_slice m (TeeParams_index ps idx) \<noteq> Some Panics"
proof -
  have "TeeParams_index ps idx \<in> set (tee_params ps)"
    using assms by (simp add: TeeParams_index_def TeeParams_wf_def)
  with assms have "Param_wf (TeeParams_index ps idx)" by (simp add: TeeParams_wf_def)
  then show ?thesis
    by (auto simp: written_slice_def slice_to_def Param_wf_def split: ParamContent.splits)
qed

text \<open>
  What one parameter becomes on success, and when it is acceptable.  The whole update
  succeeds exactly when every slot is acceptable.
\<close>

definition Param_accepts :: "Param \<Rightarrow> TEE_Param \<Rightarrow> bool" where
  "Param_accepts p r =
     (case param_content p of
        Content_MemrefOutput s _ \<Rightarrow> memref_size r \<le> sl_len s
      | Content_MemrefInout s _ \<Rightarrow> memref_size r \<le> sl_len s
      | _ \<Rightarrow> True)"

definition Param_updated :: "Param \<Rightarrow> TEE_Param \<Rightarrow> Param" where
  "Param_updated p r =
     p\<lparr>param_content :=
        (case param_content p of
           Content_MemrefOutput s _ \<Rightarrow> Content_MemrefOutput s (memref_size r)
         | Content_MemrefInout s _ \<Rightarrow> Content_MemrefInout s (memref_size r)
         | Content_ValueOutput _ _ \<Rightarrow> Content_ValueOutput (value_a r) (value_b r)
         | Content_ValueInout _ _ \<Rightarrow> Content_ValueInout (value_a r) (value_b r)
         | c \<Rightarrow> c)\<rparr>"

lemma update_loop_Cons:
  "update_loop (p # ps) (r # rs) =
     (if Param_accepts p r
      then (case update_loop ps rs of (res, ps') \<Rightarrow> (res, Param_updated p r # ps'))
      else (Inl (Error_new BadParameters), p # ps))"
  by (cases p; cases "param_content p")
    (auto simp: Param_accepts_def Param_updated_def update_defs split: prod.split)

declare update_loop.simps(1) [simp del]
declare update_loop_Cons [simp]

lemma update_loop_success:
  assumes "length ps = length rs"
  shows "update_loop ps rs = (Inr u, ps') \<longleftrightarrow>
    list_all2 Param_accepts ps rs \<and> ps' = map2 Param_updated ps rs"
  using assms
proof (induction ps rs arbitrary: ps' rule: list_induct2)
  case (Cons p ps r rs)
  then show ?case by (cases "update_loop ps rs") auto
qed auto

lemma update_loop_failure:
  assumes "length ps = length rs"
  shows "fst (update_loop ps rs) = Inl e \<longleftrightarrow>
    e = Error_new BadParameters \<and> \<not> list_all2 Param_accepts ps rs"
  using assms
proof (induction ps rs rule: list_induct2)
  case (Cons p ps r rs)
  then show ?case by (cases "update_loop ps rs") auto
qed simp

section \<open>Properties\<close>

text \<open>
  A caller is robust against any callee.  Whatever the four raw parameters look
  like when the call returns, updating the caller's parameters keeps them well formed
  and of the same types, also when the update reports an error and stops half-way; so
  \<^verbatim>\<open>written_slice\<close> never panics and never shows more than the caller's own buffer.
\<close>

lemma update_from_raw_robust:
  assumes "TeeParams_wf ps"
  shows "TeeParams_wf (snd (update_from_raw ps raw)) \<and>
    map get_type (tee_params (snd (update_from_raw ps raw))) = map get_type (tee_params ps) \<and>
    written_slice m (TeeParams_index (snd (update_from_raw ps raw)) idx) \<noteq> Some Panics"
  using update_from_raw_wf[OF assms, of raw "fst (update_from_raw ps raw)"]
  by (simp add: written_slice_wf)

lemma update_from_raw_robust_witness:
  "let ps = with_value_out (with_memref_out TeeParams_new Arg1 \<lparr>sl_ptr = 0x1000, sl_len = 8\<rparr>) Arg0 0 0;
       raw = (Param_of_value 1 2 0, Param_of_memref 0 9, Param_of_memref 0 0, Param_of_memref 0 0)
   in fst (update_from_raw ps raw) = Inl (Error_new BadParameters) \<and>
      TeeParams_wf (snd (update_from_raw ps raw)) \<and>
      output_value (TeeParams_index (snd (update_from_raw ps raw)) Arg0) = Some (1, 2)"
proof -
  let ?ps = "with_value_out (with_memref_out TeeParams_new Arg1 \<lparr>sl_ptr = 0x1000, sl_len = 8\<rparr>) Arg0 0 0"
  have "TeeParams_wf ?ps"
    by (simp add: with_value_out_def with_memref_out_def TeeParams_wf_set_content TeeParams_wf_new
        Param_wf_def usize_modulus_def)
  from update_from_raw_robust[OF this, of
      "(Param_of_value 1 2 0, Param_of_memref 0 9, Param_of_memref 0 0, Param_of_memref 0 0)"]
  show ?thesis
    by (simp add: Let_def with_value_out_def with_memref_out_def TeeParams_set_content_def
        TeeParams_new_def TeeParams_index_def Param_new_def Param_accepts_def Param_updated_def
        output_value_def usize_modulus_def)
qed

text \<open>
  C27.  The update is exact.  It succeeds precisely when no output or in/out buffer is
  reported longer than it is, the only error is \<^verbatim>\<open>BadParameters\<close>, and on success each
  output parameter carries what the callee reported while input parameters are
  untouched.
\<close>

theorem update_from_raw_exact:
  assumes "length (tee_params ps) = 4"
  shows "(update_from_raw ps (r0, r1, r2, r3) = (Inr (), ps') \<longleftrightarrow>
      list_all2 Param_accepts (tee_params ps) [r0, r1, r2, r3] \<and>
      ps' = ps\<lparr>tee_params := map2 Param_updated (tee_params ps) [r0, r1, r2, r3]\<rparr>) \<and>
    (fst (update_from_raw ps (r0, r1, r2, r3)) = Inl e \<longleftrightarrow>
      \<not> list_all2 Param_accepts (tee_params ps) [r0, r1, r2, r3] \<and> e = Error_new BadParameters)"
proof -
  have len: "length (tee_params ps) = length [r0, r1, r2, r3]" using assms by simp
  obtain res qs where l: "update_loop (tee_params ps) [r0, r1, r2, r3] = (res, qs)" by fastforce
  then have u: "update_from_raw ps (r0, r1, r2, r3) = (res, ps\<lparr>tee_params := qs\<rparr>)" by simp
  show ?thesis
  proof (cases res)
    case (Inl e')
    with update_loop_failure[OF len, of e'] l u show ?thesis by auto
  next
    case (Inr x)
    with update_loop_success[OF len, of x qs] l u show ?thesis by auto
  qed
qed

theorem update_from_raw_exact_witness:
  "let ps = with_memref_out (with_value_inout TeeParams_new Arg2 1 2) Arg0 \<lparr>sl_ptr = 0x1000, sl_len = 8\<rparr>;
       raw = (Param_of_memref 0x1000 5, Param_of_memref 0 0, Param_of_value 3 4 0, Param_of_memref 0 0)
   in \<exists>ps'. update_from_raw ps raw = (Inr (), ps') \<and>
        output_value (TeeParams_index ps' Arg2) = Some (3, 4) \<and>
        written_slice (\<lambda>_. 7) (TeeParams_index ps' Arg0) = Some (Returns (replicate 5 7))"
proof -
  let ?ps = "with_memref_out (with_value_inout TeeParams_new Arg2 1 2) Arg0 \<lparr>sl_ptr = 0x1000, sl_len = 8\<rparr>"
  let ?rs = "[Param_of_memref 0x1000 5, Param_of_memref 0 0, Param_of_value 3 4 0, Param_of_memref 0 0]"
  have ps: "tee_params ?ps =
      [\<lparr>param_content = Content_MemrefOutput \<lparr>sl_ptr = 0x1000, sl_len = 8\<rparr> 0\<rparr>, Param_new,
       \<lparr>param_content = Content_ValueInout 1 2\<rparr>, Param_new]"
    by (simp add: with_memref_out_def with_value_inout_def TeeParams_set_content_def TeeParams_new_def
        TeeParams_index_def Param_new_def)
  have "list_all2 Param_accepts (tee_params ?ps) ?rs"
    by (simp add: ps Param_accepts_def Param_new_def usize_modulus_def)
  moreover have "length (tee_params ?ps) = 4" by (simp add: ps)
  ultimately have "update_from_raw ?ps (?rs ! 0, ?rs ! 1, ?rs ! 2, ?rs ! 3) =
      (Inr (), ?ps\<lparr>tee_params := map2 Param_updated (tee_params ?ps) ?rs\<rparr>)"
    using update_from_raw_exact[of ?ps "?rs ! 0" "?rs ! 1" "?rs ! 2" "?rs ! 3"] by simp
  then show ?thesis
    by (simp add: Let_def TeeParams_index_def ps Param_updated_def output_value_def written_slice_def
        slice_to_def usize_modulus_def mem_read_def map_replicate_const)
qed



end
