(* ===== verification/Ownership.thy ===== *)
theory Ownership
  imports Main
begin

text \<open>
  Values that own a handle of the TEE, as Rust's \<^verbatim>\<open>Drop\<close> types do: a program holds a list
  of handles, and the TEE knows a set of live ones.  \<open>owns live L hs w\<close> says that in the
  world \<open>w\<close> the live handles are those in \<open>L\<close>, which belong to someone else, and the
  pairwise different handles in \<open>hs\<close>.
\<close>

definition owns :: "('w \<Rightarrow> 'h set) \<Rightarrow> 'h set \<Rightarrow> 'h list \<Rightarrow> 'w \<Rightarrow> bool" where
  "owns live L hs w \<longleftrightarrow> distinct hs \<and> live w = L \<union> set hs \<and> L \<inter> set hs = {}"

lemma owns_start: "owns live (live w) [] w"
  by (simp add: owns_def)

lemma owns_acquire:
  "owns live L hs w \<Longrightarrow> h \<notin> live w \<Longrightarrow> live w' = insert h (live w) \<Longrightarrow> owns live L (h # hs) w'"
  by (auto simp: owns_def)

lemma owns_release:
  "owns live L hs w \<Longrightarrow> h \<in> set hs \<Longrightarrow> live w' = live w - {h} \<Longrightarrow> owns live L (remove1 h hs) w'"
  by (auto simp: owns_def)

lemma owns_exchange:
  "owns live L hs w \<Longrightarrow> a \<in> set hs \<Longrightarrow> h \<notin> live w \<Longrightarrow> live w' = insert h (live w) - {a} \<Longrightarrow>
     owns live L (h # remove1 a hs) w'"
  by (auto simp: owns_def)

lemma owns_neutral: "owns live L hs w \<Longrightarrow> live w' = live w \<Longrightarrow> owns live L hs w'"
  by (simp add: owns_def)

lemma owns_nothing: "owns live L [] w \<Longrightarrow> live w = L"
  by (simp add: owns_def)

lemmas owns_intros = owns_acquire owns_release owns_exchange owns_neutral

section \<open>Bookkeeping\<close>

text \<open>
  The contract of a program that owns such values: \<open>books\<close> relates what it owns to what is live, and
  every step of the program keeps them.  Then every run does.
\<close>

locale bookkeeping =
  fixes step :: "'s \<Rightarrow> 's \<Rightarrow> bool" and books :: "'s \<Rightarrow> bool"
  assumes step_keeps: "step s s' \<Longrightarrow> books s \<Longrightarrow> books s'"
begin

lemma run_keeps: "step\<^sup>*\<^sup>* s s' \<Longrightarrow> books s \<Longrightarrow> books s'"
  by (induction rule: rtranclp_induct) (auto intro: step_keeps)

end

end
