(* ===== verification/TaSession.thy ===== *)
theory TaSession
  imports TeeParams TeeUuid Ownership
begin

text \<open>
  Sessions from one trusted application to another, \<^verbatim>\<open>crates/optee-utee/src/ta_session.rs\<close>.

  The TEE functions \<^verbatim>\<open>TEE_OpenTASession\<close>, \<^verbatim>\<open>TEE_InvokeTACommand\<close> and \<^verbatim>\<open>TEE_CloseTASession\<close> are
  a parameter, the record \<open>ta_api\<close>, acting on an opaque world \<open>'w\<close>; the values the C
  functions store through their out-pointers are part of their result.  The named
  hypothesis \<open>ta_api_ok\<close> says, of the set of sessions that are open in a world, that a
  successful open adds one session under a new handle, a failing one none, an
  invocation leaves the set alone and a close removes its session.
\<close>

section \<open>Definitions\<close>

type_synonym session_handle = u64

record 'w ta_api =
  ta_open :: "TEE_UUID \<Rightarrow> u32 \<Rightarrow> u32 \<Rightarrow> RawParams option \<Rightarrow> 'w \<Rightarrow>
    (u32 \<times> RawParams option \<times> session_handle \<times> u32) \<times> 'w"
  ta_invoke :: "session_handle \<Rightarrow> u32 \<Rightarrow> u32 \<Rightarrow> u32 \<Rightarrow> RawParams \<Rightarrow> 'w \<Rightarrow> (u32 \<times> RawParams \<times> u32) \<times> 'w"
  ta_close :: "session_handle \<Rightarrow> 'w \<Rightarrow> 'w"

definition ta_api_ok :: "'w ta_api \<Rightarrow> ('w \<Rightarrow> session_handle set) \<Rightarrow> bool" where
  "ta_api_ok T live \<longleftrightarrow>
     (\<forall>u t k ps w c ps' h org w'. ta_open T u t k ps w = ((c, ps', h, org), w') \<longrightarrow>
        (ps' = None \<longleftrightarrow> ps = None) \<and>
        (if c = TEE_SUCCESS then h \<notin> live w \<and> live w' = insert h (live w) else live w' = live w)) \<and>
     (\<forall>h t c k ps w. live (snd (ta_invoke T h t c k ps w)) = live w) \<and>
     (\<forall>h w. live (ta_close T h w) = live w - {h})"

record TaSessionBuilder =
  target_uuid :: Uuid
  timeout :: u32
  builder_params :: "TeeParams option"

record TaSession =
  session_raw :: session_handle

definition TaSessionBuilder_new :: "Uuid \<Rightarrow> TaSessionBuilder" where
  "TaSessionBuilder_new uuid =
     \<lparr>target_uuid = uuid, timeout = TEE_TIMEOUT_INFINITE, builder_params = None\<rparr>"

definition with_timeout :: "TaSessionBuilder \<Rightarrow> u32 \<Rightarrow> TaSessionBuilder" where
  "with_timeout self t = self\<lparr>timeout := t\<rparr>"

definition with_params :: "TaSessionBuilder \<Rightarrow> TeeParams \<Rightarrow> TaSessionBuilder" where
  "with_params self ps = self\<lparr>builder_params := Some ps\<rparr>"

definition TaSession_drop :: "'w ta_api \<Rightarrow> TaSession \<Rightarrow> 'w \<Rightarrow> 'w" where
  "TaSession_drop T self w = ta_close T (session_raw self) w"

text \<open>The \<^verbatim>\<open>?\<close> after the update drops the session that is already open.\<close>

definition TaSessionBuilder_build ::
    "'w ta_api \<Rightarrow> u64 \<Rightarrow> TaSessionBuilder \<Rightarrow> 'w \<Rightarrow> (Error + TaSession) \<times> 'w" where
  "TaSessionBuilder_build T pad self w =
     (let types = (case builder_params self of None \<Rightarrow> 0 | Some ps \<Rightarrow> raw_param_types ps);
          raw_opt = map_option (TeeParams_as_raw pad) (builder_params self)
      in case ta_open T (uuid_raw (target_uuid self)) (timeout self) types raw_opt w of
           ((code, raw_opt', raw_session, err_origin), w1) \<Rightarrow>
             (case tee_check_with_origin code err_origin of
                Inl e \<Rightarrow> (Inl e, w1)
              | Inr _ \<Rightarrow>
                  (let session = \<lparr>session_raw = raw_session\<rparr>
                   in case (builder_params self, raw_opt') of
                        (Some ps, Some raw) \<Rightarrow>
                          (case fst (update_from_raw ps raw) of
                             Inl e \<Rightarrow> (Inl e, TaSession_drop T session w1)
                           | Inr _ \<Rightarrow> (Inr session, w1))
                      | _ \<Rightarrow> (Inr session, w1))))"

definition invoke_command_with_timeout ::
    "'w ta_api \<Rightarrow> u64 \<Rightarrow> TaSession \<Rightarrow> u32 \<Rightarrow> TeeParams \<Rightarrow> u32 \<Rightarrow> 'w \<Rightarrow> (Error + unit) \<times> TeeParams \<times> 'w" where
  "invoke_command_with_timeout T pad self command_id params t w =
     (let raw_params = TeeParams_as_raw pad params;
          types = raw_param_types params
      in case ta_invoke T (session_raw self) t command_id types raw_params w of
           ((code, raw_params', err_origin), w1) \<Rightarrow>
             (case tee_check_with_origin code err_origin of
                Inl e \<Rightarrow> (Inl e, params, w1)
              | Inr _ \<Rightarrow>
                  (case update_from_raw params raw_params' of
                     (r, params') \<Rightarrow> (r, params', w1))))"

definition invoke_command ::
    "'w ta_api \<Rightarrow> u64 \<Rightarrow> TaSession \<Rightarrow> u32 \<Rightarrow> TeeParams \<Rightarrow> 'w \<Rightarrow> (Error + unit) \<times> TeeParams \<times> 'w" where
  "invoke_command T pad self command_id params w =
     invoke_command_with_timeout T pad self command_id params TEE_TIMEOUT_INFINITE w"

text \<open>
  A trusted application that uses sessions: it owns a list of sessions and opens,
  invokes and drops them in any order.  Ownership is what the Rust compiler checks: a
  session can be used only while it is owned, and dropping it ends its ownership.
\<close>

inductive session_step ::
    "'w ta_api \<Rightarrow> u64 \<Rightarrow> TaSession list \<times> 'w \<Rightarrow> TaSession list \<times> 'w \<Rightarrow> bool" for T pad where
  opened: "TaSessionBuilder_build T pad b w = (Inr s, w') \<Longrightarrow> session_step T pad (ss, w) (s # ss, w')"
| refused: "TaSessionBuilder_build T pad b w = (Inl e, w') \<Longrightarrow> session_step T pad (ss, w) (ss, w')"
| invoked: "s \<in> set ss \<Longrightarrow> invoke_command_with_timeout T pad s c ps t w = (r, ps', w') \<Longrightarrow>
    session_step T pad (ss, w) (ss, w')"
| dropped: "s \<in> set ss \<Longrightarrow> session_step T pad (ss, w) (remove1 s ss, TaSession_drop T s w)"

inductive_cases session_stepE: "session_step T pad st st'"

text \<open>A concrete world for the API: the open sessions, with handles given out in order.\<close>

definition ref_ta_api :: "(nat \<times> session_handle list) ta_api" where
  "ref_ta_api = \<lparr>
     ta_open = (\<lambda>u t k ps (n, hs).
       if n < 1000 \<and> of_nat n \<notin> set hs
       then ((TEE_SUCCESS, ps, of_nat n, 0), (n + 1, of_nat n # hs))
       else ((0xFFFF000C, ps, 0, 3), (n, hs))),
     ta_invoke = (\<lambda>h t c k ps w. ((TEE_SUCCESS, ps, 0), w)),
     ta_close = (\<lambda>h (n, hs). (n, filter (\<lambda>x. x \<noteq> h) hs))\<rparr>"

section \<open>Lemmas\<close>

lemma ref_ta_api_ok: "ta_api_ok ref_ta_api (\<lambda>w. set (snd w))"
  by (auto simp: ta_api_ok_def ref_ta_api_def raw_consts split: if_splits)

lemma ta_api_okD:
  assumes "ta_api_ok T live"
  shows "ta_open T u t k ps w = ((c, ps', h, org), w') \<Longrightarrow> c = TEE_SUCCESS \<Longrightarrow> h \<notin> live w \<and> live w' = insert h (live w)"
    and "ta_open T u t k ps w = ((c, ps', h, org), w') \<Longrightarrow> c \<noteq> TEE_SUCCESS \<Longrightarrow> live w' = live w"
    and "live (snd (ta_invoke T h t c k raw w)) = live w"
    and "live (ta_close T h w) = live w - {h}"
proof -
  note A = assms[unfolded ta_api_ok_def]
  show "ta_open T u t k ps w = ((c, ps', h, org), w') \<Longrightarrow> c = TEE_SUCCESS \<Longrightarrow> h \<notin> live w \<and> live w' = insert h (live w)"
    using A by (metis (no_types))
  show "ta_open T u t k ps w = ((c, ps', h, org), w') \<Longrightarrow> c \<noteq> TEE_SUCCESS \<Longrightarrow> live w' = live w"
    using A by (metis (no_types))
  show "live (snd (ta_invoke T h t c k raw w)) = live w" "live (ta_close T h w) = live w - {h}"
    using A by blast+
qed

text \<open>A failing build leaves no session behind; a succeeding one leaves exactly its own.\<close>

lemma build_live:
  assumes "ta_api_ok T live" and "TaSessionBuilder_build T pad b w = (r, w')"
  shows "case r of Inl e \<Rightarrow> live w' = live w
    | Inr s \<Rightarrow> session_raw s \<notin> live w \<and> live w' = insert (session_raw s) (live w)"
proof -
  let ?types = "case builder_params b of None \<Rightarrow> 0 | Some ps \<Rightarrow> raw_param_types ps"
  let ?raw = "map_option (TeeParams_as_raw pad) (builder_params b)"
  obtain code raw' h org w1 where
    o: "ta_open T (uuid_raw (target_uuid b)) (timeout b) ?types ?raw w = ((code, raw', h, org), w1)"
    by (metis prod_cases3 surj_pair)
  note ok = ta_api_okD(1,2)[OF assms(1) o] and close = ta_api_okD(4)[OF assms(1)]
  have r: "(r, w') = (if code = TEE_SUCCESS then
        (case (builder_params b, raw') of
           (Some ps, Some raw) \<Rightarrow>
             (case fst (update_from_raw ps raw) of
                Inl e \<Rightarrow> (Inl e, ta_close T h w1)
              | Inr _ \<Rightarrow> (Inr \<lparr>session_raw = h\<rparr>, w1))
         | _ \<Rightarrow> (Inr \<lparr>session_raw = h\<rparr>, w1))
      else (Inl (with_origin (from_raw_error code) (ErrorOrigin_from org)), w1))"
    using assms(2) unfolding TaSessionBuilder_build_def Let_def o
    by (cases "code = TEE_SUCCESS")
      (auto simp: tee_check_with_origin_def TaSession_drop_def
        simp del: update_from_raw.simps split_paired_All split: option.splits sum.splits)
  show ?thesis
  proof (cases "code = TEE_SUCCESS")
    case True
    with r consider e where "r = Inl e" "w' = ta_close T h w1" | "r = Inr \<lparr>session_raw = h\<rparr>" "w' = w1"
      by (auto split: option.splits sum.splits)
    then show ?thesis using ok(1) True close by cases auto
  next
    case False
    with r ok(2) show ?thesis by simp
  qed
qed

lemma session_step_live:
  assumes "ta_api_ok T live" and "session_step T pad st st'"
    and "distinct (map session_raw (fst st))" and "live (snd st) = L \<union> set (map session_raw (fst st))"
    and "L \<inter> set (map session_raw (fst st)) = {}"
  shows "distinct (map session_raw (fst st')) \<and> live (snd st') = L \<union> set (map session_raw (fst st')) \<and>
    L \<inter> set (map session_raw (fst st')) = {}"
  using assms(2)
proof (cases rule: session_step.cases)
  case (opened b w s w' ss)
  with build_live[OF assms(1) opened(3)] assms(3-5) show ?thesis by auto
next
  case (refused b w e w' ss)
  with build_live[OF assms(1) refused(3)] assms(3-5) show ?thesis by auto
next
  case (invoked s ss c ps t w r ps' w')
  from invoked(4) have "w' = snd (ta_invoke T (session_raw s) t c (raw_param_types ps) (TeeParams_as_raw pad ps) w)"
    by (auto simp: invoke_command_with_timeout_def Let_def split: prod.splits sum.splits)
  with invoked assms(3-5) ta_api_okD(3)[OF assms(1)] show ?thesis by simp
next
  case (dropped s ss w)
  have d: "distinct (map session_raw ss)" using dropped assms(3) by simp
  then have "set (map session_raw (remove1 s ss)) = set (map session_raw ss) - {session_raw s}"
    using dropped(3) by (auto simp: distinct_map inj_on_def)
  moreover have "distinct (map session_raw (remove1 s ss))"
    using d by (metis distinct_map distinct_remove1 inj_on_subset set_remove1_subset)
  ultimately show ?thesis
    using dropped assms(4,5) ta_api_okD(4)[OF assms(1)] by (auto simp: TaSession_drop_def)
qed

interpretation sessions: bookkeeping "session_step T pad"
  "\<lambda>st. ta_api_ok T live \<and> owns live L (map session_raw (fst st)) (snd st)" for T pad live L
  unfolding owns_def by unfold_locales (blast dest: session_step_live)

lemma session_run_live:
  assumes "ta_api_ok T live" and "(session_step T pad)\<^sup>*\<^sup>* ([], w0) st"
  shows "distinct (map session_raw (fst st)) \<and> live (snd st) = live w0 \<union> set (map session_raw (fst st)) \<and>
    live w0 \<inter> set (map session_raw (fst st)) = {}"
  using sessions.run_keeps[OF assms(2), of live "live w0"] assms(1) by (simp add: owns_def)

section \<open>Properties\<close>

text \<open>
  Building a session leaks nothing.  If \<^verbatim>\<open>build\<close> returns an error, whether because the
  open failed or because the callee reported an impossible buffer size after a
  successful open, the set of open sessions is what it was; if it succeeds, exactly the
  returned session has been added, under a handle that was not in use.
\<close>

lemma build_leaks_nothing:
  assumes "ta_api_ok T live"
  shows "case TaSessionBuilder_build T pad b w of
      (Inl e, w') \<Rightarrow> live w' = live w
    | (Inr s, w') \<Rightarrow> session_raw s \<notin> live w \<and> live w' = insert (session_raw s) (live w)"
  using build_live[OF assms, of pad b w]
  by (cases "TaSessionBuilder_build T pad b w") (auto split: sum.splits)

lemma build_leaks_nothing_witness:
  "let b = with_params (TaSessionBuilder_new (Uuid_new_raw 0 0 0 [])) TeeParams_new
   in \<exists>s w'. TaSessionBuilder_build ref_ta_api 0 b (5, [2]) = (Inr s, w') \<and> set (snd w') = {5, 2}"
proof -
  let ?b = "with_params (TaSessionBuilder_new (Uuid_new_raw 0 0 0 [])) TeeParams_new"
  have "\<exists>s w'. TaSessionBuilder_build ref_ta_api 0 ?b (5, [2]) = (Inr s, w') \<and> session_raw s = 5"
    by (simp add: TaSessionBuilder_build_def ref_ta_api_def with_params_def TaSessionBuilder_new_def
        Let_def tee_check_with_origin_def TeeParams_as_raw_def TeeParams_new_def Param_new_def
        Param_accepts_def)
  then obtain s w' where r: "TaSessionBuilder_build ref_ta_api 0 ?b (5, [2]) = (Inr s, w')"
    and s: "session_raw s = 5" by blast
  from build_leaks_nothing[OF ref_ta_api_ok, of "(5, [2])" 0 ?b] r s
  have "set (snd w') = {5, 2}" by simp
  with r show ?thesis unfolding Let_def by blast
qed

text \<open>
  C26.  Sessions are closed exactly once.  In every run of a trusted application that
  opens, invokes and drops sessions in any order, the sessions open in the TEE are those
  that were open at the start together with the ones the application owns, with no two
  owned sessions sharing a handle.  In particular, when the application owns none any
  more, everything it opened has been closed and nothing else has.
\<close>

theorem sessions_closed_once:
  assumes "ta_api_ok T live" and "(session_step T pad)\<^sup>*\<^sup>* ([], w0) (ss, w)"
  shows "distinct (map session_raw ss) \<and> live w = live w0 \<union> session_raw ` set ss \<and>
    live w0 \<inter> session_raw ` set ss = {} \<and> (ss = [] \<longrightarrow> live w = live w0)"
  using session_run_live[OF assms] by auto

theorem sessions_closed_once_witness:
  "\<exists>s w. (session_step ref_ta_api 0)\<^sup>*\<^sup>* ([], (5, [2])) ([s], w) \<and> set (snd w) = {2, session_raw s} \<and>
     session_raw s \<noteq> 2"
proof -
  let ?b = "TaSessionBuilder_new (Uuid_new_raw 0 0 0 [])"
  obtain s w where "TaSessionBuilder_build ref_ta_api 0 ?b (5, [2]) = (Inr s, w)"
    by (simp add: TaSessionBuilder_build_def ref_ta_api_def TaSessionBuilder_new_def Let_def
        tee_check_with_origin_def)
  then have run: "(session_step ref_ta_api 0)\<^sup>*\<^sup>* ([], (5, [2])) ([s], w)"
    by (intro r_into_rtranclp opened)
  from sessions_closed_once[OF ref_ta_api_ok run]
  have "set (snd w) = {2, session_raw s} \<and> session_raw s \<noteq> 2" by auto
  with run show ?thesis by blast
qed

end
