(* ===== verification/TeecParams.thy ===== *)
theory TeecParams
  imports TeecError RawParam
begin

text \<open>
  Parameters and operations of the client side, \<^verbatim>\<open>crates/optee-teec/src/parameter.rs\<close> and
  \<^verbatim>\<open>operation.rs\<close>.

  The union \<^verbatim>\<open>TEEC_Parameter\<close> has three machine words on the 64-bit targets: \<^verbatim>\<open>value\<close>
  occupies the first, \<^verbatim>\<open>tmpref\<close> the first two.  An initialiser leaves the words of the
  other variants unspecified; they are the argument \<open>pad\<close>.  The trait \<^verbatim>\<open>Param\<close> is the
  locale \<open>teec_param\<close>, and a generic operation takes the methods of its four
  parameter types.
\<close>

unbundle bit_operations_syntax

section \<open>Definitions\<close>

record TEEC_Parameter =
  tp_w0 :: u64
  tp_w1 :: u64
  tp_w2 :: u64

record TEEC_Value =
  tv_a :: u32
  tv_b :: u32

record TEEC_TempMemoryReference =
  tmp_buffer :: u64
  tmp_size :: usize

type_synonym padding = "u64 \<times> u64"

definition tp_value :: "TEEC_Parameter \<Rightarrow> TEEC_Value" where
  "tp_value p = \<lparr>tv_a = ucast (tp_w0 p), tv_b = ucast (drop_bit 32 (tp_w0 p))\<rparr>"

definition tp_tmpref :: "TEEC_Parameter \<Rightarrow> TEEC_TempMemoryReference" where
  "tp_tmpref p = \<lparr>tmp_buffer = tp_w0 p, tmp_size = unat (tp_w1 p)\<rparr>"

definition Parameter_of_value :: "TEEC_Value \<Rightarrow> padding \<Rightarrow> TEEC_Parameter" where
  "Parameter_of_value v pad =
     \<lparr>tp_w0 = ucast (tv_a v) OR push_bit 32 (ucast (tv_b v)), tp_w1 = fst pad, tp_w2 = snd pad\<rparr>"

definition Parameter_of_tmpref :: "TEEC_TempMemoryReference \<Rightarrow> padding \<Rightarrow> TEEC_Parameter" where
  "Parameter_of_tmpref r pad =
     \<lparr>tp_w0 = tmp_buffer r, tp_w1 = of_nat (tmp_size r), tp_w2 = snd pad\<rparr>"

datatype teec_ParamType =
    TeecType_None
  | TeecType_ValueInput
  | TeecType_ValueOutput
  | TeecType_ValueInout
  | TeecType_MemrefTempInput
  | TeecType_MemrefTempOutput
  | TeecType_MemrefTempInout
  | TeecType_MemrefWhole
  | TeecType_MemrefPartialInput
  | TeecType_MemrefPartialOutput
  | TeecType_MemrefPartialInout

text \<open>\<^verbatim>\<open>as u32\<close>.\<close>

fun teec_ParamType_into :: "teec_ParamType \<Rightarrow> u32" where
  "teec_ParamType_into TeecType_None = 0"
| "teec_ParamType_into TeecType_ValueInput = 1"
| "teec_ParamType_into TeecType_ValueOutput = 2"
| "teec_ParamType_into TeecType_ValueInout = 3"
| "teec_ParamType_into TeecType_MemrefTempInput = 5"
| "teec_ParamType_into TeecType_MemrefTempOutput = 6"
| "teec_ParamType_into TeecType_MemrefTempInout = 7"
| "teec_ParamType_into TeecType_MemrefWhole = 0xC"
| "teec_ParamType_into TeecType_MemrefPartialInput = 0xD"
| "teec_ParamType_into TeecType_MemrefPartialOutput = 0xE"
| "teec_ParamType_into TeecType_MemrefPartialInout = 0xF"

definition teec_ParamType_from :: "u32 \<Rightarrow> teec_ParamType" where
  "teec_ParamType_from v =
     (if v = 0 then TeecType_None
      else if v = 1 then TeecType_ValueInput
      else if v = 2 then TeecType_ValueOutput
      else if v = 3 then TeecType_ValueInout
      else if v = 5 then TeecType_MemrefTempInput
      else if v = 6 then TeecType_MemrefTempOutput
      else if v = 7 then TeecType_MemrefTempInout
      else if v = 0xC then TeecType_MemrefWhole
      else if v = 0xD then TeecType_MemrefPartialInput
      else if v = 0xE then TeecType_MemrefPartialOutput
      else if v = 0xF then TeecType_MemrefPartialInout
      else TeecType_None)"

record teec_ParamTypes =
  teec_types_bits :: u32

definition teec_ParamTypes_new ::
    "teec_ParamType \<Rightarrow> teec_ParamType \<Rightarrow> teec_ParamType \<Rightarrow> teec_ParamType \<Rightarrow> teec_ParamTypes" where
  "teec_ParamTypes_new p0 p1 p2 p3 =
     \<lparr>teec_types_bits =
        teec_ParamType_into p0 OR push_bit 4 (teec_ParamType_into p1) OR
        push_bit 8 (teec_ParamType_into p2) OR push_bit 12 (teec_ParamType_into p3)\<rparr>"

definition teec_into_flags ::
    "teec_ParamTypes \<Rightarrow> teec_ParamType \<times> teec_ParamType \<times> teec_ParamType \<times> teec_ParamType" where
  "teec_into_flags self =
     (teec_ParamType_from (0x000f AND teec_types_bits self),
      teec_ParamType_from (drop_bit 4 (0x00f0 AND teec_types_bits self)),
      teec_ParamType_from (drop_bit 8 (0x0f00 AND teec_types_bits self)),
      teec_ParamType_from (drop_bit 12 (0xf000 AND teec_types_bits self)))"

definition teec_ParamTypes_from :: "u32 \<Rightarrow> teec_ParamTypes" where
  "teec_ParamTypes_from v = \<lparr>teec_types_bits = v\<rparr>"

definition teec_ParamTypes_from_array :: "u32 \<times> u32 \<times> u32 \<times> u32 \<Rightarrow> teec_ParamTypes" where
  "teec_ParamTypes_from_array =
     (\<lambda>(t0, t1, t2, t3).
        \<lparr>teec_types_bits = t0 OR push_bit 4 t1 OR push_bit 8 t2 OR push_bit 12 t3\<rparr>)"

definition teec_ParamTypes_into :: "teec_ParamTypes \<Rightarrow> u32" where
  "teec_ParamTypes_into a = teec_types_bits a"

text \<open>The three implementors of \<^verbatim>\<open>Param\<close>.\<close>

record teec_ParamValue =
  tpv_raw :: TEEC_Value
  tpv_type :: teec_ParamType

definition teec_ParamValue_new :: "u32 \<Rightarrow> u32 \<Rightarrow> teec_ParamType \<Rightarrow> teec_ParamValue" where
  "teec_ParamValue_new a b k = \<lparr>tpv_raw = \<lparr>tv_a = a, tv_b = b\<rparr>, tpv_type = k\<rparr>"

definition teec_ParamValue_a :: "teec_ParamValue \<Rightarrow> u32" where
  "teec_ParamValue_a self = tv_a (tpv_raw self)"

definition teec_ParamValue_b :: "teec_ParamValue \<Rightarrow> u32" where
  "teec_ParamValue_b self = tv_b (tpv_raw self)"

definition teec_ParamValue_to_raw :: "padding \<Rightarrow> teec_ParamValue \<Rightarrow> TEEC_Parameter" where
  "teec_ParamValue_to_raw pad self = Parameter_of_value (tpv_raw self) pad"

definition teec_ParamValue_from_raw :: "TEEC_Parameter \<Rightarrow> teec_ParamType \<Rightarrow> teec_ParamValue" where
  "teec_ParamValue_from_raw raw k = \<lparr>tpv_raw = tp_value raw, tpv_type = k\<rparr>"

definition teec_ParamValue_param_type :: "teec_ParamValue \<Rightarrow> teec_ParamType" where
  "teec_ParamValue_param_type self = tpv_type self"

datatype teec_ParamNone = ParamNone

definition teec_ParamNone_to_raw :: "padding \<Rightarrow> teec_ParamNone \<Rightarrow> TEEC_Parameter" where
  "teec_ParamNone_to_raw pad self = \<lparr>tp_w0 = 0, tp_w1 = 0, tp_w2 = 0\<rparr>"

definition teec_ParamNone_param_type :: "teec_ParamNone \<Rightarrow> teec_ParamType" where
  "teec_ParamNone_param_type self = TeecType_None"

definition teec_ParamNone_from_raw :: "TEEC_Parameter \<Rightarrow> teec_ParamType \<Rightarrow> teec_ParamNone" where
  "teec_ParamNone_from_raw raw k = ParamNone"

record teec_ParamTmpRef =
  tpr_raw :: TEEC_TempMemoryReference
  tpr_type :: teec_ParamType

definition teec_ParamTmpRef_new_input :: "slice \<Rightarrow> teec_ParamTmpRef" where
  "teec_ParamTmpRef_new_input buffer =
     \<lparr>tpr_raw = \<lparr>tmp_buffer = sl_ptr buffer, tmp_size = sl_len buffer\<rparr>, tpr_type = TeecType_MemrefTempInput\<rparr>"

definition teec_ParamTmpRef_new_output :: "slice \<Rightarrow> teec_ParamTmpRef" where
  "teec_ParamTmpRef_new_output buffer =
     \<lparr>tpr_raw = \<lparr>tmp_buffer = sl_ptr buffer, tmp_size = sl_len buffer\<rparr>, tpr_type = TeecType_MemrefTempOutput\<rparr>"

definition teec_ParamTmpRef_new_inout :: "slice \<Rightarrow> teec_ParamTmpRef" where
  "teec_ParamTmpRef_new_inout buffer =
     \<lparr>tpr_raw = \<lparr>tmp_buffer = sl_ptr buffer, tmp_size = sl_len buffer\<rparr>, tpr_type = TeecType_MemrefTempInout\<rparr>"

definition teec_updated_size :: "teec_ParamTmpRef \<Rightarrow> usize" where
  "teec_updated_size self = tmp_size (tpr_raw self)"

definition teec_ParamTmpRef_to_raw :: "padding \<Rightarrow> teec_ParamTmpRef \<Rightarrow> TEEC_Parameter" where
  "teec_ParamTmpRef_to_raw pad self = Parameter_of_tmpref (tpr_raw self) pad"

definition teec_ParamTmpRef_param_type :: "teec_ParamTmpRef \<Rightarrow> teec_ParamType" where
  "teec_ParamTmpRef_param_type self = tpr_type self"

definition teec_ParamTmpRef_from_raw :: "TEEC_Parameter \<Rightarrow> teec_ParamType \<Rightarrow> teec_ParamTmpRef" where
  "teec_ParamTmpRef_from_raw raw k = \<lparr>tpr_raw = tp_tmpref raw, tpr_type = k\<rparr>"

text \<open>Operations.  \<^verbatim>\<open>mem::zeroed\<close> leaves only the library's private part, which is opaque.\<close>

record TEEC_Operation =
  op_started :: u32
  op_paramTypes :: u32
  op_params :: "TEEC_Parameter \<times> TEEC_Parameter \<times> TEEC_Parameter \<times> TEEC_Parameter"

record ('a, 'raw) param_methods =
  pm_to_raw :: "padding \<Rightarrow> 'a \<Rightarrow> 'raw"
  pm_param_type :: "'a \<Rightarrow> teec_ParamType"
  pm_from_raw :: "'raw \<Rightarrow> teec_ParamType \<Rightarrow> 'a"

type_synonym 'a teec_impl = "('a, TEEC_Parameter) param_methods"

definition value_impl :: "teec_ParamValue teec_impl" where
  "value_impl = \<lparr>pm_to_raw = teec_ParamValue_to_raw, pm_param_type = teec_ParamValue_param_type,
     pm_from_raw = teec_ParamValue_from_raw\<rparr>"

definition none_impl :: "teec_ParamNone teec_impl" where
  "none_impl = \<lparr>pm_to_raw = teec_ParamNone_to_raw, pm_param_type = teec_ParamNone_param_type,
     pm_from_raw = teec_ParamNone_from_raw\<rparr>"

definition tmpref_impl :: "teec_ParamTmpRef teec_impl" where
  "tmpref_impl = \<lparr>pm_to_raw = teec_ParamTmpRef_to_raw, pm_param_type = teec_ParamTmpRef_param_type,
     pm_from_raw = teec_ParamTmpRef_from_raw\<rparr>"

definition Operation_new ::
    "'a teec_impl \<Rightarrow> 'b teec_impl \<Rightarrow> 'c teec_impl \<Rightarrow> 'd teec_impl \<Rightarrow>
     padding \<Rightarrow> u32 \<Rightarrow> 'a \<Rightarrow> 'b \<Rightarrow> 'c \<Rightarrow> 'd \<Rightarrow> TEEC_Operation" where
  "Operation_new A B C D pad started p0 p1 p2 p3 =
     \<lparr>op_started = started,
      op_paramTypes =
        teec_ParamTypes_into
          (teec_ParamTypes_new (pm_param_type A p0) (pm_param_type B p1)
             (pm_param_type C p2) (pm_param_type D p3)),
      op_params =
        (pm_to_raw A pad p0, pm_to_raw B pad p1, pm_to_raw C pad p2, pm_to_raw D pad p3)\<rparr>"

definition Operation_parameters ::
    "'a teec_impl \<Rightarrow> 'b teec_impl \<Rightarrow> 'c teec_impl \<Rightarrow> 'd teec_impl \<Rightarrow>
     TEEC_Operation \<Rightarrow> 'a \<times> 'b \<times> 'c \<times> 'd" where
  "Operation_parameters A B C D self =
     (case teec_into_flags (teec_ParamTypes_from (op_paramTypes self)) of
        (f0, f1, f2, f3) \<Rightarrow>
          (case op_params self of
             (r0, r1, r2, r3) \<Rightarrow>
               (pm_from_raw A r0 f0, pm_from_raw B r1 f1, pm_from_raw C r2 f2, pm_from_raw D r3 f3)))"

section \<open>Lemmas\<close>

lemma teec_ParamType_from_into [simp]: "teec_ParamType_from (teec_ParamType_into k) = k"
  by (cases k) (simp_all add: teec_ParamType_from_def)

lemma teec_ParamType_into_nibble [simp]: "teec_ParamType_into k < 16"
  by (cases k) simp_all

lemma teec_types_pack:
  "teec_types_bits (teec_ParamTypes_new p0 p1 p2 p3) =
     TEE_PARAM_TYPES (teec_ParamType_into p0) (teec_ParamType_into p1)
       (teec_ParamType_into p2) (teec_ParamType_into p3)"
  by (simp add: teec_ParamTypes_new_def TEE_PARAM_TYPES_def)

text \<open>Packing and unpacking the four types is the identity.\<close>

lemma teec_into_flags_new:
  "teec_into_flags (teec_ParamTypes_new p0 p1 p2 p3) = (p0, p1, p2, p3)"
  unfolding teec_into_flags_def masked_field teec_types_pack by (simp add: TEE_PARAM_TYPES_get)

lemma teec_ParamTypes_from_into [simp]: "teec_ParamTypes_from (teec_ParamTypes_into x) = x"
  by (simp add: teec_ParamTypes_from_def teec_ParamTypes_into_def)

lemma tp_value_of_value [simp]: "tp_value (Parameter_of_value v pad) = v"
  unfolding tp_value_def Parameter_of_value_def TEEC_Parameter.simps low_half high_half by simp

lemma tp_tmpref_of_tmpref [simp]:
  "tmp_size r < usize_modulus \<Longrightarrow> tp_tmpref (Parameter_of_tmpref r pad) = r"
  by (simp add: tp_tmpref_def Parameter_of_tmpref_def unat_of_nat usize_modulus_def)

text \<open>
  What an implementor of \<^verbatim>\<open>Param\<close> owes: reading back what it wrote, under the type it
  announced, gives the parameter again.
\<close>

locale teec_param =
  fixes impl :: "'a teec_impl"
    and inv :: "'a \<Rightarrow> bool"
  assumes round_trip: "inv p \<Longrightarrow> pm_from_raw impl (pm_to_raw impl pad p) (pm_param_type impl p) = p"

interpretation value_param: teec_param value_impl "\<lambda>_. True"
  by unfold_locales
    (simp add: value_impl_def teec_ParamValue_to_raw_def teec_ParamValue_from_raw_def
      teec_ParamValue_param_type_def)

interpretation none_param: teec_param none_impl "\<lambda>_. True"
  by unfold_locales (simp add: none_impl_def teec_ParamNone_from_raw_def, metis teec_ParamNone.exhaust)

interpretation tmpref_param: teec_param tmpref_impl "\<lambda>p. tmp_size (tpr_raw p) < usize_modulus"
  by unfold_locales
    (simp add: tmpref_impl_def teec_ParamTmpRef_to_raw_def teec_ParamTmpRef_from_raw_def
      teec_ParamTmpRef_param_type_def)

section \<open>Properties\<close>

text \<open>
  C29.  An operation returns its parameters.  For any four parameter types that honour
  the \<^verbatim>\<open>Param\<close> contract, an operation that has not been sent yet gives back, from its
  packed types and raw unions, exactly the parameters it was made of.
\<close>

theorem operation_round_trip:
  assumes "teec_param A ia" "teec_param B ib" "teec_param C ic" "teec_param D idd"
    and "ia p0" "ib p1" "ic p2" "idd p3"
  shows "Operation_parameters A B C D (Operation_new A B C D pad started p0 p1 p2 p3) = (p0, p1, p2, p3)"
  using assms(5-8)
  by (simp add: Operation_parameters_def Operation_new_def teec_into_flags_new teec_param.round_trip[OF assms(1)] teec_param.round_trip[OF assms(2)]
      teec_param.round_trip[OF assms(3)] teec_param.round_trip[OF assms(4)])

theorem operation_round_trip_witness:
  "let v = teec_ParamValue_new 7 8 TeecType_ValueInout;
       r = teec_ParamTmpRef_new_output \<lparr>sl_ptr = 0x1000, sl_len = 64\<rparr>
   in Operation_parameters value_impl tmpref_impl none_impl none_impl
        (Operation_new value_impl tmpref_impl none_impl none_impl (1, 2) 0 v r ParamNone ParamNone)
      = (v, r, ParamNone, ParamNone)"
  unfolding Let_def
  by (rule operation_round_trip[OF value_param.teec_param_axioms tmpref_param.teec_param_axioms
        none_param.teec_param_axioms none_param.teec_param_axioms])
    (simp_all add: teec_ParamTmpRef_new_output_def usize_modulus_def)

end
