(* ===== verification/TeecSession.thy ===== *)
theory TeecSession
  imports TeecParams TeecUuid Ownership
begin

text \<open>
  Contexts and sessions of the client side, \<^verbatim>\<open>crates/optee-teec/src/context.rs\<close> and
  \<^verbatim>\<open>session.rs\<close>.

  A context handle lives in an \<^verbatim>\<open>Arc\<close> that the \<^verbatim>\<open>Context\<close> and all of its sessions share;
  dropping the last reference finalises the context.  The heap of \<^verbatim>\<open>Arc\<close>s is modelled
  explicitly: an identifier is mapped to the handle and the strong count.  The mutex
  only serialises the calls; a poisoned lock is recovered, so locking always succeeds.
  The functions of the client library are the parameter \<open>teec_api\<close> over an opaque
  world; the hypothesis \<open>teec_api_ok\<close> states how they act on the sets of initialised
  contexts and of open sessions.
\<close>

section \<open>Definitions\<close>

type_synonym teec_ctx = u64
type_synonym teec_sess = u64

record 'w teec_api =
  teec_initialize :: "'w \<Rightarrow> (u32 \<times> teec_ctx) \<times> 'w"
  teec_finalize :: "teec_ctx \<Rightarrow> 'w \<Rightarrow> 'w"
  teec_open :: "teec_ctx \<Rightarrow> TEEC_UUID \<Rightarrow> u32 \<Rightarrow> TEEC_Operation option \<Rightarrow> 'w \<Rightarrow>
    (u32 \<times> teec_sess \<times> TEEC_Operation option \<times> u32) \<times> 'w"
  teec_invoke :: "teec_sess \<Rightarrow> u32 \<Rightarrow> TEEC_Operation \<Rightarrow> 'w \<Rightarrow> (u32 \<times> TEEC_Operation \<times> u32) \<times> 'w"
  teec_close :: "teec_sess \<Rightarrow> 'w \<Rightarrow> 'w"

definition teec_api_ok ::
    "'w teec_api \<Rightarrow> ('w \<Rightarrow> teec_ctx set) \<Rightarrow> ('w \<Rightarrow> (teec_sess \<times> teec_ctx) set) \<Rightarrow> bool" where
  "teec_api_ok T ctxs sess \<longleftrightarrow>
     (\<forall>w code c w'. teec_initialize T w = ((code, c), w') \<longrightarrow>
        sess w' = sess w \<and>
        (if code = TEEC_SUCCESS then c \<notin> ctxs w \<and> ctxs w' = insert c (ctxs w) else ctxs w' = ctxs w)) \<and>
     (\<forall>c w. ctxs (teec_finalize T c w) = ctxs w - {c} \<and> sess (teec_finalize T c w) = sess w) \<and>
     (\<forall>c u l opn w code s opn' org w'. teec_open T c u l opn w = ((code, s, opn', org), w') \<longrightarrow>
        ctxs w' = ctxs w \<and>
        (if code = TEEC_SUCCESS then s \<notin> fst ` sess w \<and> sess w' = insert (s, c) (sess w)
         else sess w' = sess w)) \<and>
     (\<forall>s c opn w. ctxs (snd (teec_invoke T s c opn w)) = ctxs w \<and> sess (snd (teec_invoke T s c opn w)) = sess w) \<and>
     (\<forall>s w. ctxs (teec_close T s w) = ctxs w \<and>
        sess (teec_close T s w) = {(s', c). (s', c) \<in> sess w \<and> s' \<noteq> s})"

datatype ConnectionMethods =
    LoginPublic
  | LoginUser
  | LoginGroup
  | LoginApplication
  | LoginUserApplication
  | LoginGroupApplication
  | Login_Unknown u32

fun ConnectionMethods_into :: "ConnectionMethods \<Rightarrow> u32" where
  "ConnectionMethods_into LoginPublic = TEEC_LOGIN_PUBLIC"
| "ConnectionMethods_into LoginUser = TEEC_LOGIN_USER"
| "ConnectionMethods_into LoginGroup = TEEC_LOGIN_GROUP"
| "ConnectionMethods_into LoginApplication = TEEC_LOGIN_APPLICATION"
| "ConnectionMethods_into LoginUserApplication = TEEC_LOGIN_USER_APPLICATION"
| "ConnectionMethods_into LoginGroupApplication = TEEC_LOGIN_GROUP_APPLICATION"
| "ConnectionMethods_into (Login_Unknown c) = c"

definition ConnectionMethods_variants :: "ConnectionMethods list" where
  "ConnectionMethods_variants =
     [LoginPublic, LoginUser, LoginGroup, LoginApplication, LoginUserApplication, LoginGroupApplication]"

definition ConnectionMethods_from :: "u32 \<Rightarrow> ConnectionMethods" where
  "ConnectionMethods_from = from_primitive ConnectionMethods_into ConnectionMethods_variants Login_Unknown"

text \<open>The heap of \<^verbatim>\<open>Arc<Mutex<InnerContext>>\<close>.\<close>

type_synonym arc = nat

record 'w client =
  cl_arcs :: "arc \<Rightarrow> (teec_ctx \<times> nat) option"
  cl_next :: arc
  cl_world :: 'w

definition arc_new :: "teec_ctx \<Rightarrow> 'w client \<Rightarrow> arc \<times> 'w client" where
  "arc_new c st = (cl_next st, st\<lparr>cl_arcs := (cl_arcs st)(cl_next st \<mapsto> (c, 1)), cl_next := cl_next st + 1\<rparr>)"

definition arc_clone :: "arc \<Rightarrow> 'w client \<Rightarrow> 'w client" where
  "arc_clone a st =
     (case cl_arcs st a of
        Some (c, n) \<Rightarrow> st\<lparr>cl_arcs := (cl_arcs st)(a \<mapsto> (c, n + 1))\<rparr>
      | None \<Rightarrow> st)"

text \<open>Dropping the last reference runs the destructor of \<^verbatim>\<open>InnerContext\<close>.\<close>

definition InnerContext_drop :: "'w teec_api \<Rightarrow> teec_ctx \<Rightarrow> 'w client \<Rightarrow> 'w client" where
  "InnerContext_drop T c st = st\<lparr>cl_world := teec_finalize T c (cl_world st)\<rparr>"

definition arc_drop :: "'w teec_api \<Rightarrow> arc \<Rightarrow> 'w client \<Rightarrow> 'w client" where
  "arc_drop T a st =
     (case cl_arcs st a of
        Some (c, n) \<Rightarrow>
          if n \<le> 1 then InnerContext_drop T c (st\<lparr>cl_arcs := (cl_arcs st)(a := None)\<rparr>)
          else st\<lparr>cl_arcs := (cl_arcs st)(a \<mapsto> (c, n - 1))\<rparr>
      | None \<Rightarrow> st)"

record Context =
  context_raw :: arc

record Session =
  session_handle :: teec_sess
  session_ctx :: arc

definition Context_new :: "'w teec_api \<Rightarrow> 'w client \<Rightarrow> (teec_Error + Context) \<times> 'w client" where
  "Context_new T st =
     (case teec_initialize T (cl_world st) of
        ((code, raw_ctx), w') \<Rightarrow>
          (case teec_check code of
             Inl e \<Rightarrow> (Inl e, st\<lparr>cl_world := w'\<rparr>)
           | Inr _ \<Rightarrow>
               (case arc_new raw_ctx (st\<lparr>cl_world := w'\<rparr>) of (a, st') \<Rightarrow> (Inr \<lparr>context_raw = a\<rparr>, st'))))"

definition inner_context :: "Context \<Rightarrow> 'w client \<Rightarrow> arc \<times> 'w client" where
  "inner_context self st = (context_raw self, arc_clone (context_raw self) st)"

text \<open>
  \<open>Session_new\<close> clones the reference to lock it, opens the session, and on either path
  drops that clone when it returns; on success the session holds a second clone.  An
  \<open>Arc\<close> is never dangling while a reference exists; a missing entry is outside what the
  compiler lets a program reach, and is reported as \<open>None\<close>.
\<close>

definition Session_new ::
    "'w teec_api \<Rightarrow> Context \<Rightarrow> teec_Uuid \<Rightarrow> ConnectionMethods \<Rightarrow> TEEC_Operation option \<Rightarrow> 'w client \<Rightarrow>
     ((teec_Error + Session) \<times> TEEC_Operation option \<times> 'w client) option" where
  "Session_new T ctx uuid login operation st =
     (case inner_context ctx st of
        (inner_ctx, st1) \<Rightarrow>
          (case cl_arcs st1 inner_ctx of
             None \<Rightarrow> None
           | Some (raw_ctx, _) \<Rightarrow>
               (case teec_open T raw_ctx (teec_uuid_raw uuid) (ConnectionMethods_into login) operation
                       (cl_world st1) of
                  ((code, raw_session, operation', err_origin), w') \<Rightarrow>
                    (let st2 = st1\<lparr>cl_world := w'\<rparr>
                     in case teec_check_with_origin code err_origin of
                          Inl e \<Rightarrow> Some (Inl e, operation', arc_drop T inner_ctx st2)
                        | Inr _ \<Rightarrow>
                            (case inner_context ctx st2 of
                               (a, st3) \<Rightarrow>
                                 Some (Inr \<lparr>session_handle = raw_session, session_ctx = a\<rparr>, operation',
                                       arc_drop T inner_ctx st3))))))"

definition open_session_with_login ::
    "'w teec_api \<Rightarrow> Context \<Rightarrow> teec_Uuid \<Rightarrow> ConnectionMethods \<Rightarrow> 'w client \<Rightarrow>
     ((teec_Error + Session) \<times> TEEC_Operation option \<times> 'w client) option" where
  "open_session_with_login T self uuid login st = Session_new T self uuid login None st"

definition open_session ::
    "'w teec_api \<Rightarrow> Context \<Rightarrow> teec_Uuid \<Rightarrow> 'w client \<Rightarrow>
     ((teec_Error + Session) \<times> TEEC_Operation option \<times> 'w client) option" where
  "open_session T self uuid st = open_session_with_login T self uuid LoginPublic st"

definition open_session_with_operation ::
    "'w teec_api \<Rightarrow> Context \<Rightarrow> teec_Uuid \<Rightarrow> TEEC_Operation \<Rightarrow> 'w client \<Rightarrow>
     ((teec_Error + Session) \<times> TEEC_Operation option \<times> 'w client) option" where
  "open_session_with_operation T self uuid operation st =
     Session_new T self uuid LoginPublic (Some operation) st"

definition teec_invoke_command ::
    "'w teec_api \<Rightarrow> Session \<Rightarrow> u32 \<Rightarrow> TEEC_Operation \<Rightarrow> 'w client \<Rightarrow>
     (teec_Error + unit) \<times> TEEC_Operation \<times> 'w client" where
  "teec_invoke_command T self command_id operation st =
     (case teec_invoke T (session_handle self) command_id operation (cl_world st) of
        ((code, operation', err_origin), w') \<Rightarrow>
          (teec_check_with_origin code err_origin, operation', st\<lparr>cl_world := w'\<rparr>))"

text \<open>The destructor closes the session first; then the field \<^verbatim>\<open>_ctx\<close> is dropped.\<close>

definition Session_drop :: "'w teec_api \<Rightarrow> Session \<Rightarrow> 'w client \<Rightarrow> 'w client" where
  "Session_drop T self st =
     arc_drop T (session_ctx self) (st\<lparr>cl_world := teec_close T (session_handle self) (cl_world st)\<rparr>)"

definition Context_drop :: "'w teec_api \<Rightarrow> Context \<Rightarrow> 'w client \<Rightarrow> 'w client" where
  "Context_drop T self st = arc_drop T (context_raw self) st"

text \<open>
  A client program owns contexts and sessions and uses them in any order, from any
  thread: the steps below are the interleavings.
\<close>

type_synonym 'w program = "Context list \<times> Session list \<times> 'w client"

inductive client_step :: "'w teec_api \<Rightarrow> 'w program \<Rightarrow> 'w program \<Rightarrow> bool" for T where
  context_made: "Context_new T st = (Inr c, st') \<Longrightarrow> client_step T (cs, ss, st) (c # cs, ss, st')"
| context_refused: "Context_new T st = (Inl e, st') \<Longrightarrow> client_step T (cs, ss, st) (cs, ss, st')"
| session_made: "c \<in> set cs \<Longrightarrow> Session_new T c u l opn st = Some (Inr s, opn', st') \<Longrightarrow>
    client_step T (cs, ss, st) (cs, s # ss, st')"
| session_refused: "c \<in> set cs \<Longrightarrow> Session_new T c u l opn st = Some (Inl e, opn', st') \<Longrightarrow>
    client_step T (cs, ss, st) (cs, ss, st')"
| session_used: "s \<in> set ss \<Longrightarrow> teec_invoke_command T s k opn st = (r, opn', st') \<Longrightarrow>
    client_step T (cs, ss, st) (cs, ss, st')"
| session_dropped: "s \<in> set ss \<Longrightarrow> client_step T (cs, ss, st) (cs, remove1 s ss, Session_drop T s st)"
| context_dropped: "c \<in> set cs \<Longrightarrow> client_step T (cs, ss, st) (remove1 c cs, ss, Context_drop T c st)"

text \<open>A concrete client library: the initialised contexts and the open sessions.\<close>

definition ref_teec_api :: "(nat \<times> teec_ctx list \<times> (teec_sess \<times> teec_ctx) list) teec_api" where
  "ref_teec_api = \<lparr>
     teec_initialize = (\<lambda>(n, cs, ss).
       if of_nat n \<notin> set cs then ((TEEC_SUCCESS, of_nat n), (n + 1, of_nat n # cs, ss))
       else ((TEEC_ERROR_OUT_OF_MEMORY, 0), (n, cs, ss))),
     teec_finalize = (\<lambda>c (n, cs, ss). (n, filter (\<lambda>x. x \<noteq> c) cs, ss)),
     teec_open = (\<lambda>c u l opn (n, cs, ss).
       if of_nat n \<notin> fst ` set ss then ((TEEC_SUCCESS, of_nat n, opn, 0), (n + 1, cs, (of_nat n, c) # ss))
       else ((TEEC_ERROR_BUSY, 0, opn, 3), (n, cs, ss))),
     teec_invoke = (\<lambda>s k opn w. ((TEEC_SUCCESS, opn, 0), w)),
     teec_close = (\<lambda>s (n, cs, ss). (n, cs, filter (\<lambda>x. fst x \<noteq> s) ss))\<rparr>"

text \<open>
  The references the program holds to an \<open>Arc\<close>, and the invariants: every count is the
  number of references, every live \<open>Arc\<close> holds a different initialised context, and
  the open sessions are those of the start and the ones the program owns, each on the
  context its reference keeps alive.
\<close>

definition refs :: "Context list \<Rightarrow> Session list \<Rightarrow> arc \<Rightarrow> nat" where
  "refs cs ss a = count_list (map context_raw cs) a + count_list (map session_ctx ss) a"

definition arc_handle :: "'w client \<Rightarrow> arc \<Rightarrow> teec_ctx option" where
  "arc_handle st a = map_option fst (cl_arcs st a)"

definition arcs_inv :: "('w \<Rightarrow> teec_ctx set) \<Rightarrow> teec_ctx set \<Rightarrow> (arc \<Rightarrow> nat) \<Rightarrow> 'w client \<Rightarrow> bool" where
  "arcs_inv ctxs C0 R st \<longleftrightarrow>
     (\<forall>a. cl_arcs st a = None \<longleftrightarrow> R a = 0) \<and>
     (\<forall>a c n. cl_arcs st a = Some (c, n) \<longrightarrow> n = R a) \<and>
     (\<forall>a. cl_next st \<le> a \<longrightarrow> cl_arcs st a = None) \<and>
     (\<forall>a b c. arc_handle st a = Some c \<longrightarrow> arc_handle st b = Some c \<longrightarrow> a = b) \<and>
     (\<forall>a c. arc_handle st a = Some c \<longrightarrow> c \<notin> C0) \<and>
     ctxs (cl_world st) = C0 \<union> ran (arc_handle st)"

definition sessions_inv ::
    "('w \<Rightarrow> (teec_sess \<times> teec_ctx) set) \<Rightarrow> (teec_sess \<times> teec_ctx) set \<Rightarrow> Session list \<Rightarrow> 'w client \<Rightarrow> bool" where
  "sessions_inv sess S0 ss st \<longleftrightarrow>
     sess (cl_world st) =
       S0 \<union> {(session_handle s, c) |s c. s \<in> set ss \<and> arc_handle st (session_ctx s) = Some c} \<and>
     distinct (map session_handle ss) \<and> fst ` S0 \<inter> session_handle ` set ss = {}"

section \<open>Lemmas\<close>

interpretation logins: num_enum ConnectionMethods_into ConnectionMethods_variants Login_Unknown
  by unfold_locales (simp_all add: ConnectionMethods_variants_def raw_consts)

lemma ref_teec_api_ok: "teec_api_ok ref_teec_api (\<lambda>w. set (fst (snd w))) (\<lambda>w. set (snd (snd w)))"
  by (auto simp: teec_api_ok_def ref_teec_api_def raw_consts split: if_splits)

lemma teec_api_okD:
  assumes "teec_api_ok T ctxs sess"
  shows "teec_initialize T w = ((code, c), w') \<Longrightarrow> sess w' = sess w \<and>
      (if code = TEEC_SUCCESS then c \<notin> ctxs w \<and> ctxs w' = insert c (ctxs w) else ctxs w' = ctxs w)"
    and "ctxs (teec_finalize T c w) = ctxs w - {c}" and "sess (teec_finalize T c w) = sess w"
    and "teec_open T c u l opn w = ((code, s, opn', org), w') \<Longrightarrow> ctxs w' = ctxs w \<and>
      (if code = TEEC_SUCCESS then s \<notin> fst ` sess w \<and> sess w' = insert (s, c) (sess w) else sess w' = sess w)"
    and "ctxs (snd (teec_invoke T s k op2 w)) = ctxs w" and "sess (snd (teec_invoke T s k op2 w)) = sess w"
    and "ctxs (teec_close T s w) = ctxs w"
    and "sess (teec_close T s w) = {(s', c). (s', c) \<in> sess w \<and> s' \<noteq> s}"
proof -
  note A = assms[unfolded teec_api_ok_def]
  show "teec_initialize T w = ((code, c), w') \<Longrightarrow> sess w' = sess w \<and>
      (if code = TEEC_SUCCESS then c \<notin> ctxs w \<and> ctxs w' = insert c (ctxs w) else ctxs w' = ctxs w)"
    using A[THEN conjunct1] by blast
  show "ctxs (teec_finalize T c w) = ctxs w - {c}" "sess (teec_finalize T c w) = sess w"
    using A[THEN conjunct2, THEN conjunct1] by blast+
  show "teec_open T c u l opn w = ((code, s, opn', org), w') \<Longrightarrow> ctxs w' = ctxs w \<and>
      (if code = TEEC_SUCCESS then s \<notin> fst ` sess w \<and> sess w' = insert (s, c) (sess w) else sess w' = sess w)"
    using A[THEN conjunct2, THEN conjunct2, THEN conjunct1] by blast
  show "ctxs (snd (teec_invoke T s k op2 w)) = ctxs w" "sess (snd (teec_invoke T s k op2 w)) = sess w"
    using A[THEN conjunct2, THEN conjunct2, THEN conjunct2, THEN conjunct1] by blast+
  show "ctxs (teec_close T s w) = ctxs w" "sess (teec_close T s w) = {(s', c). (s', c) \<in> sess w \<and> s' \<noteq> s}"
    using A[THEN conjunct2, THEN conjunct2, THEN conjunct2, THEN conjunct2] by blast+
qed

lemma count_list_remove1:
  "x \<in> set xs \<Longrightarrow> count_list (map f (remove1 x xs)) y = count_list (map f xs) y - (if f x = y then 1 else 0)"
proof (induction xs)
  case (Cons z xs)
  have "f x \<in> set (map f xs)" if "x \<in> set xs" using that by simp
  then have "0 < count_list (map f xs) (f x)" if "x \<in> set xs"
    using that by (metis count_list_0_iff gr0I)
  with Cons show ?case by auto
qed simp

lemma count_list_pos: "x \<in> set xs \<Longrightarrow> 0 < count_list (map f xs) (f x)"
  by (metis count_list_0_iff gr0I image_eqI list.set_map)

lemma refs_simps [simp]:
  "refs (c # cs) ss = (refs cs ss)(context_raw c := refs cs ss (context_raw c) + 1)"
  "refs cs (s # ss) = (refs cs ss)(session_ctx s := refs cs ss (session_ctx s) + 1)"
  "c \<in> set cs \<Longrightarrow> refs (remove1 c cs) ss = (refs cs ss)(context_raw c := refs cs ss (context_raw c) - 1)"
  "s \<in> set ss \<Longrightarrow> refs cs (remove1 s ss) = (refs cs ss)(session_ctx s := refs cs ss (session_ctx s) - 1)"
  using count_list_pos[of c cs context_raw] count_list_pos[of s ss session_ctx]
  by (auto simp: refs_def fun_eq_iff count_list_remove1)

lemma refs_pos:
  "c \<in> set cs \<Longrightarrow> 0 < refs cs ss (context_raw c)"
  "s \<in> set ss \<Longrightarrow> 0 < refs cs ss (session_ctx s)"
  using count_list_pos[of c cs context_raw] count_list_pos[of s ss session_ctx]
  by (auto simp: refs_def)

lemma ran_delete:
  assumes "m a = Some c" and "\<And>b. m b = Some c \<Longrightarrow> b = a"
  shows "ran (m(a := None)) = ran m - {c}"
proof (intro equalityI subsetI)
  fix x assume "x \<in> ran (m(a := None))"
  then obtain b where b: "b \<noteq> a" "m b = Some x" by (auto simp: ran_def split: if_splits)
  with assms(2) have "x \<noteq> c" by blast
  with b show "x \<in> ran m - {c}" by (simp add: ranI)
next
  fix x assume "x \<in> ran m - {c}"
  then obtain b where b: "m b = Some x" "x \<noteq> c" by (auto simp: ran_def)
  with assms(1) have "b \<noteq> a" by auto
  with b have "(m(a := None)) b = Some x" by simp
  then show "x \<in> ran (m(a := None))" by (rule ranI)
qed

lemma arcs_invD:
  assumes "arcs_inv ctxs C0 R st"
  shows "cl_arcs st a = None \<longleftrightarrow> R a = 0"
    and "cl_arcs st a = Some (c, n) \<Longrightarrow> n = R a"
    and "cl_next st \<le> a \<Longrightarrow> cl_arcs st a = None"
    and "arc_handle st a = Some c \<Longrightarrow> arc_handle st b = Some c \<Longrightarrow> a = b"
    and "arc_handle st a = Some c \<Longrightarrow> c \<notin> C0"
    and "ctxs (cl_world st) = C0 \<union> ran (arc_handle st)"
  using assms unfolding arcs_inv_def by blast+

lemma arcs_inv_live:
  assumes "arcs_inv ctxs C0 R st" and "0 < R a"
  obtains c where "cl_arcs st a = Some (c, R a)"
  using arcs_invD(1,2)[OF assms(1), of a] assms(2) that by fastforce

lemma arc_clone_effect:
  assumes I: "arcs_inv ctxs C0 R st" and "0 < R a"
  shows "arcs_inv ctxs C0 (R(a := R a + 1)) (arc_clone a st)"
    and "arc_handle (arc_clone a st) = arc_handle st"
    and "cl_world (arc_clone a st) = cl_world st"
proof -
  obtain c where a: "cl_arcs st a = Some (c, R a)" by (rule arcs_inv_live[OF assms])
  have cl: "arc_clone a st = st\<lparr>cl_arcs := (cl_arcs st)(a \<mapsto> (c, R a + 1))\<rparr>"
    by (simp add: arc_clone_def a)
  show h: "arc_handle (arc_clone a st) = arc_handle st"
    by (simp add: cl a arc_handle_def fun_eq_iff)
  show w: "cl_world (arc_clone a st) = cl_world st" by (simp add: cl)
  have "cl_arcs (arc_clone a st) b = None \<longleftrightarrow> (R(a := R a + 1)) b = 0" for b
    using arcs_invD(1)[OF I, of b] by (simp add: cl)
  moreover have "n = (R(a := R a + 1)) b" if "cl_arcs (arc_clone a st) b = Some (x, n)" for b x n
    using that arcs_invD(2)[OF I, of b x n] by (auto simp: cl split: if_splits)
  moreover have "cl_arcs (arc_clone a st) b = None" if "cl_next (arc_clone a st) \<le> b" for b
    using that arcs_invD(3)[OF I, of b] a by (auto simp: cl)
  ultimately show "arcs_inv ctxs C0 (R(a := R a + 1)) (arc_clone a st)"
    using arcs_invD(4-6)[OF I] unfolding arcs_inv_def h w by blast
qed

text \<open>Dropping a reference keeps every context that is still referenced.\<close>

lemma arc_drop_last:
  assumes T: "teec_api_ok T ctxs sess" and I: "arcs_inv ctxs C0 R st" and "R a = 1"
  shows "arcs_inv ctxs C0 (R(a := 0)) (arc_drop T a st)"
    and "arc_handle (arc_drop T a st) = (arc_handle st)(a := None)"
    and "sess (cl_world (arc_drop T a st)) = sess (cl_world st)"
proof -
  obtain c where "cl_arcs st a = Some (c, R a)" using arcs_inv_live[OF I, of a] assms(3) by auto
  then have a: "cl_arcs st a = Some (c, 1)" using assms(3) by simp
  have d: "arc_drop T a st =
      st\<lparr>cl_arcs := (cl_arcs st)(a := None), cl_world := teec_finalize T c (cl_world st)\<rparr>"
    by (simp add: arc_drop_def a InnerContext_drop_def)
  have ha: "arc_handle st a = Some c" by (simp add: arc_handle_def a)
  show h: "arc_handle (arc_drop T a st) = (arc_handle st)(a := None)"
    by (simp add: d arc_handle_def fun_eq_iff)
  show "sess (cl_world (arc_drop T a st)) = sess (cl_world st)"
    by (simp add: d teec_api_okD(3)[OF T])
  have "ctxs (cl_world (arc_drop T a st)) = C0 \<union> ran (arc_handle st) - {c}"
    using arcs_invD(6)[OF I] by (simp add: d teec_api_okD(2)[OF T])
  also have "\<dots> = C0 \<union> ran ((arc_handle st)(a := None))"
    using ran_delete[of "arc_handle st" a c] arcs_invD(4)[OF I _ ha] arcs_invD(5)[OF I ha] ha by blast
  finally have "ctxs (cl_world (arc_drop T a st)) = C0 \<union> ran ((arc_handle st)(a := None))" .
  moreover have "cl_arcs (arc_drop T a st) b = None \<longleftrightarrow> (R(a := 0)) b = 0" for b
    using arcs_invD(1)[OF I, of b] by (simp add: d)
  moreover have "n = (R(a := 0)) b" if "cl_arcs (arc_drop T a st) b = Some (x, n)" for b x n
    using that arcs_invD(2)[OF I, of b x n] by (auto simp: d split: if_splits)
  moreover have "cl_arcs (arc_drop T a st) b = None" if "cl_next (arc_drop T a st) \<le> b" for b
    using that arcs_invD(3)[OF I, of b] by (auto simp: d)
  moreover have "x = y" if "((arc_handle st)(a := None)) x = Some z" "((arc_handle st)(a := None)) y = Some z" for x y z
    using that arcs_invD(4)[OF I, of x z y] by (auto split: if_splits)
  moreover have "z \<notin> C0" if "((arc_handle st)(a := None)) x = Some z" for x z
    using that arcs_invD(5)[OF I, of x z] by (auto split: if_splits)
  ultimately show "arcs_inv ctxs C0 (R(a := 0)) (arc_drop T a st)"
    unfolding arcs_inv_def h by blast
qed

lemma arc_drop_shared:
  assumes I: "arcs_inv ctxs C0 R st" and "1 < R a"
  shows "arcs_inv ctxs C0 (R(a := R a - 1)) (arc_drop T a st)"
    and "arc_handle (arc_drop T a st) = arc_handle st"
    and "cl_world (arc_drop T a st) = cl_world st"
proof -
  obtain c where a: "cl_arcs st a = Some (c, R a)" using arcs_inv_live[OF I, of a] assms(2) by auto
  have d: "arc_drop T a st = st\<lparr>cl_arcs := (cl_arcs st)(a \<mapsto> (c, R a - 1))\<rparr>"
    using assms(2) by (simp add: arc_drop_def a)
  show h: "arc_handle (arc_drop T a st) = arc_handle st"
    by (simp add: d a arc_handle_def fun_eq_iff)
  show w: "cl_world (arc_drop T a st) = cl_world st" by (simp add: d)
  have "cl_arcs (arc_drop T a st) b = None \<longleftrightarrow> (R(a := R a - 1)) b = 0" for b
    using arcs_invD(1)[OF I, of b] assms(2) by (simp add: d)
  moreover have "n = (R(a := R a - 1)) b" if "cl_arcs (arc_drop T a st) b = Some (x, n)" for b x n
    using that arcs_invD(2)[OF I, of b x n] by (auto simp: d split: if_splits)
  moreover have "cl_arcs (arc_drop T a st) b = None" if "cl_next (arc_drop T a st) \<le> b" for b
    using that arcs_invD(3)[OF I, of b] a by (auto simp: d)
  ultimately show "arcs_inv ctxs C0 (R(a := R a - 1)) (arc_drop T a st)"
    using arcs_invD(4-6)[OF I] unfolding arcs_inv_def h w by blast
qed

lemma arc_drop_effect:
  assumes T: "teec_api_ok T ctxs sess" and I: "arcs_inv ctxs C0 R st" and "0 < R a"
  shows "arcs_inv ctxs C0 (R(a := R a - 1)) (arc_drop T a st)"
    and "0 < (R(a := R a - 1)) b \<Longrightarrow> arc_handle (arc_drop T a st) b = arc_handle st b"
    and "sess (cl_world (arc_drop T a st)) = sess (cl_world st)"
proof -
  consider "R a = 1" | "1 < R a" using assms(3) by linarith
  then have "arcs_inv ctxs C0 (R(a := R a - 1)) (arc_drop T a st) \<and>
      (0 < (R(a := R a - 1)) b \<longrightarrow> arc_handle (arc_drop T a st) b = arc_handle st b) \<and>
      sess (cl_world (arc_drop T a st)) = sess (cl_world st)"
  proof cases
    case 1
    with arc_drop_last[OF T I 1] show ?thesis by simp
  next
    case 2
    with arc_drop_shared[OF I 2] show ?thesis by simp
  qed
  then show "arcs_inv ctxs C0 (R(a := R a - 1)) (arc_drop T a st)"
    and "0 < (R(a := R a - 1)) b \<Longrightarrow> arc_handle (arc_drop T a st) b = arc_handle st b"
    and "sess (cl_world (arc_drop T a st)) = sess (cl_world st)" by blast+
qed

lemma arc_new_effect:
  assumes I: "arcs_inv ctxs C0 R st" and "c \<notin> ctxs (cl_world st)"
    and "ctxs w' = insert c (ctxs (cl_world st))"
    and n: "arc_new c (st\<lparr>cl_world := w'\<rparr>) = (a, st')"
  shows "arcs_inv ctxs C0 (R(a := R a + 1)) st'"
    and "b \<noteq> a \<Longrightarrow> arc_handle st' b = arc_handle st b" and "R a = 0" and "cl_world st' = w'"
proof -
  have a: "a = cl_next st" and st': "st' = st\<lparr>cl_arcs := (cl_arcs st)(a \<mapsto> (c, 1)), cl_next := a + 1, cl_world := w'\<rparr>"
    using n by (auto simp: arc_new_def)
  have none: "cl_arcs st a = None" using arcs_invD(3)[OF I, of a] a by simp
  then show R: "R a = 0" using arcs_invD(1)[OF I, of a] by simp
  have h: "arc_handle st' = (arc_handle st)(a \<mapsto> c)"
    by (simp add: st' arc_handle_def fun_eq_iff)
  then show "b \<noteq> a \<Longrightarrow> arc_handle st' b = arc_handle st b" by simp
  show "cl_world st' = w'" by (simp add: st')
  have ha: "arc_handle st a = None" by (simp add: arc_handle_def none)
  have fresh: "arc_handle st b \<noteq> Some c" for b
    using arcs_invD(6)[OF I] assms(2) by (auto simp: ran_def)
  have c: "c \<notin> C0" using arcs_invD(6)[OF I] assms(2) by blast
  have "cl_arcs st' b = None \<longleftrightarrow> (R(a := R a + 1)) b = 0" for b
    using arcs_invD(1)[OF I, of b] by (simp add: st')
  moreover have "n = (R(a := R a + 1)) b" if "cl_arcs st' b = Some (x, n)" for b x n
    using that arcs_invD(2)[OF I, of b x n] R by (auto simp: st' split: if_splits)
  moreover have "cl_arcs st' b = None" if "cl_next st' \<le> b" for b
    using that arcs_invD(3)[OF I, of b] a by (auto simp: st')
  moreover have "x = y" if "((arc_handle st)(a \<mapsto> c)) x = Some z" "((arc_handle st)(a \<mapsto> c)) y = Some z" for x y z
    using that arcs_invD(4)[OF I, of x z y] fresh by (auto split: if_splits)
  moreover have "z \<notin> C0" if "((arc_handle st)(a \<mapsto> c)) x = Some z" for x z
    using that arcs_invD(5)[OF I, of x z] c by (auto split: if_splits)
  moreover have "ctxs (cl_world st') = C0 \<union> ran ((arc_handle st)(a \<mapsto> c))"
    using arcs_invD(6)[OF I] assms(3) ha by (simp add: st')
  ultimately show "arcs_inv ctxs C0 (R(a := R a + 1)) st'"
    unfolding arcs_inv_def h by blast
qed

lemma arc_handle_world [simp]: "arc_handle (st\<lparr>cl_world := w'\<rparr>) = arc_handle st"
  by (simp add: arc_handle_def fun_eq_iff)

lemma arcs_inv_world:
  assumes "arcs_inv ctxs C0 R st" and "ctxs w' = ctxs (cl_world st)"
  shows "arcs_inv ctxs C0 R (st\<lparr>cl_world := w'\<rparr>)"
  using assms by (simp add: arcs_inv_def)

text \<open>
  Opening a session, successfully or not, gives back the temporary reference, and a
  session holds one of its own.
\<close>

lemma Session_new_effect:
  assumes T: "teec_api_ok T ctxs sess" and I: "arcs_inv ctxs C0 R st" and pos: "0 < R (context_raw c)"
  shows "\<exists>r opn' st' raw. Session_new T c u l opn st = Some (r, opn', st') \<and>
    arc_handle st (context_raw c) = Some raw \<and> arc_handle st' = arc_handle st \<and>
    (case r of
       Inl e \<Rightarrow> arcs_inv ctxs C0 R st' \<and> sess (cl_world st') = sess (cl_world st)
     | Inr s \<Rightarrow> session_ctx s = context_raw c \<and>
         arcs_inv ctxs C0 (R(context_raw c := R (context_raw c) + 1)) st' \<and>
         session_handle s \<notin> fst ` sess (cl_world st) \<and>
         sess (cl_world st') = insert (session_handle s, raw) (sess (cl_world st)))"
proof -
  let ?a = "context_raw c"
  let ?R1 = "R(?a := R ?a + 1)"
  let ?st1 = "arc_clone ?a st"
  note c1 = arc_clone_effect[OF I pos]
  obtain raw where raw: "cl_arcs ?st1 ?a = Some (raw, ?R1 ?a)"
    using arcs_inv_live[OF c1(1), of ?a] by auto
  have "arc_handle ?st1 ?a = Some raw" by (simp add: arc_handle_def raw)
  then have h: "arc_handle st ?a = Some raw" by (simp add: c1(2))
  obtain code s opn' org w' where
    o: "teec_open T raw (teec_uuid_raw u) (ConnectionMethods_into l) opn (cl_world st) = ((code, s, opn', org), w')"
    by (metis prod_cases3 surj_pair)
  note op = teec_api_okD(4)[OF T o]
  let ?st2 = "?st1\<lparr>cl_world := w'\<rparr>"
  have I2: "arcs_inv ctxs C0 ?R1 ?st2" using c1 op by (intro arcs_inv_world) simp_all
  show ?thesis
  proof (cases "code = TEEC_SUCCESS")
    case False
    have "1 < ?R1 ?a" using pos by simp
    note d = arc_drop_shared[OF I2 this, of T]
    have "?R1(?a := ?R1 ?a - 1) = R" by (simp add: fun_eq_iff)
    then have "arcs_inv ctxs C0 R (arc_drop T ?a ?st2)" using d(1) by metis
    moreover have "Session_new T c u l opn st =
        Some (Inl (teec_with_origin (teec_from_raw_error code) (teec_ErrorOrigin_from org)), opn', arc_drop T ?a ?st2)"
      using raw o False c1(3) by (simp add: Session_new_def inner_context_def teec_check_with_origin_def Let_def)
    ultimately show ?thesis using d(2,3) c1(2) h op False by auto
  next
    case True
    let ?st3 = "arc_clone ?a ?st2"
    have "0 < ?R1 ?a" by simp
    note c3 = arc_clone_effect[OF I2 this]
    have "1 < (?R1(?a := ?R1 ?a + 1)) ?a" using pos by simp
    note d = arc_drop_shared[OF c3(1) this, of T]
    have "?R1(?a := ?R1 ?a + 1, ?a := (?R1(?a := ?R1 ?a + 1)) ?a - 1) = ?R1" by (simp add: fun_eq_iff)
    then have "arcs_inv ctxs C0 ?R1 (arc_drop T ?a ?st3)" using d(1) by metis
    moreover have "Session_new T c u l opn st =
        Some (Inr \<lparr>session_handle = s, session_ctx = ?a\<rparr>, opn', arc_drop T ?a ?st3)"
      using raw o True c1(3) by (simp add: Session_new_def inner_context_def teec_check_with_origin_def Let_def)
    ultimately show ?thesis using d(2,3) c3(2,3) c1(2) h op True by auto
  qed
qed

definition program_inv ::
    "('w \<Rightarrow> teec_ctx set) \<Rightarrow> ('w \<Rightarrow> (teec_sess \<times> teec_ctx) set) \<Rightarrow> teec_ctx set \<Rightarrow>
     (teec_sess \<times> teec_ctx) set \<Rightarrow> 'w program \<Rightarrow> bool" where
  "program_inv ctxs sess C0 S0 =
     (\<lambda>(cs, ss, st). arcs_inv ctxs C0 (refs cs ss) st \<and> sessions_inv sess S0 ss st)"

lemma sessions_inv_cong:
  assumes "sessions_inv sess S0 ss st" and "sess (cl_world st') = sess (cl_world st)"
    and "\<And>s. s \<in> set ss \<Longrightarrow> arc_handle st' (session_ctx s) = arc_handle st (session_ctx s)"
  shows "sessions_inv sess S0 ss st'"
  using assms unfolding sessions_inv_def by (auto 4 3)

lemma sessions_inv_cons:
  assumes "sessions_inv sess S0 ss st" and "arc_handle st' = arc_handle st"
    and "arc_handle st (session_ctx s) = Some c" and "session_handle s \<notin> fst ` sess (cl_world st)"
    and "\<And>s. s \<in> set ss \<Longrightarrow> arc_handle st (session_ctx s) \<noteq> None"
    and "sess (cl_world st') = insert (session_handle s, c) (sess (cl_world st))"
  shows "sessions_inv sess S0 (s # ss) st'"
proof -
  have W: "sess (cl_world st) =
      S0 \<union> {(session_handle s, c) |s c. s \<in> set ss \<and> arc_handle st (session_ctx s) = Some c}"
    using assms(1) unfolding sessions_inv_def by blast
  have "session_handle s \<notin> fst ` S0" using assms(4) W by (auto simp: image_iff)
  moreover have "session_handle s \<notin> session_handle ` set ss"
  proof
    assume "session_handle s \<in> session_handle ` set ss"
    then obtain t where t: "t \<in> set ss" "session_handle t = session_handle s" by auto
    then obtain x where "arc_handle st (session_ctx t) = Some x" using assms(5) by blast
    with t(1) have "(session_handle t, x) \<in> sess (cl_world st)" unfolding W by blast
    with assms(4) t(2) show False by force
  qed
  ultimately show ?thesis
    using assms(1-3,6) unfolding sessions_inv_def by auto
qed

lemma sessions_inv_remove:
  assumes "sessions_inv sess S0 ss st" and "s \<in> set ss"
    and W': "sess (cl_world st') = {(s', c). (s', c) \<in> sess (cl_world st) \<and> s' \<noteq> session_handle s}"
    and H: "\<And>t. t \<in> set (remove1 s ss) \<Longrightarrow> arc_handle st' (session_ctx t) = arc_handle st (session_ctx t)"
  shows "sessions_inv sess S0 (remove1 s ss) st'"
proof -
  have d: "distinct (map session_handle ss)" and dis: "fst ` S0 \<inter> session_handle ` set ss = {}"
    and W: "sess (cl_world st) =
      S0 \<union> {(session_handle s, c) |s c. s \<in> set ss \<and> arc_handle st (session_ctx s) = Some c}"
    using assms(1) unfolding sessions_inv_def by blast+
  have ds: "distinct ss" and inj: "inj_on session_handle (set ss)" using d by (auto simp: distinct_map)
  have rest: "t \<in> set (remove1 s ss) \<longleftrightarrow> t \<in> set ss \<and> session_handle t \<noteq> session_handle s" for t
    using inj assms(2) ds by (auto simp: inj_on_def)
  have "session_handle s \<notin> fst ` S0" using dis assms(2) by auto
  then have "sess (cl_world st') = S0 \<union> {(session_handle t, c) |t c. t \<in> set (remove1 s ss) \<and>
      arc_handle st' (session_ctx t) = Some c}"
    unfolding W' W using H rest by (auto simp: image_iff) (metis fst_conv)+
  moreover have "distinct (map session_handle (remove1 s ss))"
    using inj ds by (metis distinct_map distinct_remove1 inj_on_subset set_remove1_subset)
  moreover have "fst ` S0 \<inter> session_handle ` set (remove1 s ss) = {}"
    using dis set_remove1_subset[of s ss] by blast
  ultimately show ?thesis unfolding sessions_inv_def by blast
qed

lemma session_arc_live:
  assumes "program_inv ctxs sess C0 S0 (cs, ss, st)" and "s \<in> set ss"
  shows "arc_handle st (session_ctx s) \<noteq> None"
proof -
  have I: "arcs_inv ctxs C0 (refs cs ss) st" using assms(1) by (simp add: program_inv_def)
  have "0 < refs cs ss (session_ctx s)" using assms(2) by (rule refs_pos)
  then show ?thesis using arcs_invD(1)[OF I, of "session_ctx s"] by (simp add: arc_handle_def)
qed

lemma client_step_inv:
  assumes T: "teec_api_ok T ctxs sess" and "client_step T p p'" and P: "program_inv ctxs sess C0 S0 p"
  shows "program_inv ctxs sess C0 S0 p'"
  using assms(2)
proof (cases rule: client_step.cases)
  case (context_made st c st' cs ss)
  have I: "arcs_inv ctxs C0 (refs cs ss) st" and S: "sessions_inv sess S0 ss st"
    using P context_made by (simp_all add: program_inv_def)
  obtain code h w' where i: "teec_initialize T (cl_world st) = ((code, h), w')" by (metis surj_pair)
  have ok: "code = TEEC_SUCCESS" and n: "arc_new h (st\<lparr>cl_world := w'\<rparr>) = (context_raw c, st')"
    using context_made(3) i by (auto simp: Context_new_def teec_check_def split: if_splits prod.splits)
  note e = teec_api_okD(1)[OF T i]
  note N = arc_new_effect[OF I _ _ n]
  have "sessions_inv sess S0 ss st'"
  proof (rule sessions_inv_cong[OF S])
    show "sess (cl_world st') = sess (cl_world st)" using N(4) e ok by simp
    fix s assume "s \<in> set ss"
    then have "0 < refs cs ss (session_ctx s)" by (rule refs_pos)
    moreover have "refs cs ss (context_raw c) = 0" using N(3) e ok by simp
    ultimately have "session_ctx s \<noteq> context_raw c" by auto
    then show "arc_handle st' (session_ctx s) = arc_handle st (session_ctx s)" using N(2) e ok by simp
  qed
  with N(1) e ok context_made show ?thesis by (simp add: program_inv_def)
next
  case (context_refused st e st' cs ss)
  obtain code h w' where i: "teec_initialize T (cl_world st) = ((code, h), w')" by (metis surj_pair)
  have "code \<noteq> TEEC_SUCCESS" and "st' = st\<lparr>cl_world := w'\<rparr>"
    using context_refused(3) i by (auto simp: Context_new_def teec_check_def split: if_splits prod.splits)
  with teec_api_okD(1)[OF T i] P context_refused show ?thesis
    by (auto simp: program_inv_def intro: arcs_inv_world sessions_inv_cong)
next
  case (session_made c cs u l opn st s opn' st' ss)
  have I: "arcs_inv ctxs C0 (refs cs ss) st" and S: "sessions_inv sess S0 ss st"
    using P session_made by (simp_all add: program_inv_def)
  obtain raw where "arc_handle st (context_raw c) = Some raw" "arc_handle st' = arc_handle st"
    "session_ctx s = context_raw c"
    "arcs_inv ctxs C0 ((refs cs ss)(context_raw c := refs cs ss (context_raw c) + 1)) st'"
    "session_handle s \<notin> fst ` sess (cl_world st)"
    "sess (cl_world st') = insert (session_handle s, raw) (sess (cl_world st))"
    using Session_new_effect[OF T I refs_pos(1)[OF session_made(3)], of u l opn] session_made(4) by auto
  with sessions_inv_cons[OF S] session_arc_live[OF P[unfolded session_made(1)]] session_made show ?thesis
    by (simp add: program_inv_def)
next
  case (session_refused c cs u l opn st e opn' st' ss)
  have I: "arcs_inv ctxs C0 (refs cs ss) st" and S: "sessions_inv sess S0 ss st"
    using P session_refused by (simp_all add: program_inv_def)
  have "arc_handle st' = arc_handle st" "arcs_inv ctxs C0 (refs cs ss) st'"
    "sess (cl_world st') = sess (cl_world st)"
    using Session_new_effect[OF T I refs_pos(1)[OF session_refused(3)], of u l opn] session_refused(4) by auto
  with sessions_inv_cong[OF S] session_refused show ?thesis by (simp add: program_inv_def)
next
  case (session_used s ss k opn st r opn' st' cs)
  have "st' = st\<lparr>cl_world := snd (teec_invoke T (session_handle s) k opn (cl_world st))\<rparr>"
    using session_used(4) by (auto simp: teec_invoke_command_def split: prod.splits)
  with P session_used teec_api_okD(5,6)[OF T] show ?thesis
    by (auto simp: program_inv_def intro: arcs_inv_world sessions_inv_cong)
next
  case (session_dropped s ss cs st)
  let ?st1 = "st\<lparr>cl_world := teec_close T (session_handle s) (cl_world st)\<rparr>"
  have I: "arcs_inv ctxs C0 (refs cs ss) ?st1" and S: "sessions_inv sess S0 ss st"
    using P session_dropped by (auto simp: program_inv_def teec_api_okD(7)[OF T] intro: arcs_inv_world)
  note D = arc_drop_effect[OF T I refs_pos(2)[OF session_dropped(3)]]
  have "sessions_inv sess S0 (remove1 s ss) (arc_drop T (session_ctx s) ?st1)"
  proof (rule sessions_inv_remove[OF S session_dropped(3)])
    show "sess (cl_world (arc_drop T (session_ctx s) ?st1)) =
        {(s', c). (s', c) \<in> sess (cl_world st) \<and> s' \<noteq> session_handle s}"
      by (simp add: D(3) teec_api_okD(8)[OF T])
    fix t assume "t \<in> set (remove1 s ss)"
    then have "0 < refs cs (remove1 s ss) (session_ctx t)" by (rule refs_pos)
    then show "arc_handle (arc_drop T (session_ctx s) ?st1) (session_ctx t) = arc_handle st (session_ctx t)"
      using D(2)[of "session_ctx t"] session_dropped(3) by simp
  qed
  with D(1) session_dropped show ?thesis by (simp add: program_inv_def Session_drop_def)
next
  case (context_dropped c cs ss st)
  have I: "arcs_inv ctxs C0 (refs cs ss) st" and S: "sessions_inv sess S0 ss st"
    using P context_dropped by (simp_all add: program_inv_def)
  note D = arc_drop_effect[OF T I refs_pos(1)[OF context_dropped(3)]]
  have "sessions_inv sess S0 ss (arc_drop T (context_raw c) st)"
  proof (rule sessions_inv_cong[OF S D(3)])
    fix s assume "s \<in> set ss"
    then have "0 < refs (remove1 c cs) ss (session_ctx s)" by (rule refs_pos)
    then show "arc_handle (arc_drop T (context_raw c) st) (session_ctx s) = arc_handle st (session_ctx s)"
      using D(2)[of "session_ctx s"] context_dropped(3) by simp
  qed
  with D(1) context_dropped show ?thesis by (simp add: program_inv_def Context_drop_def)
qed

definition client_start :: "'w \<Rightarrow> 'w program" where
  "client_start w = ([], [], \<lparr>cl_arcs = Map.empty, cl_next = 0, cl_world = w\<rparr>)"

interpretation client: bookkeeping "client_step T"
  "\<lambda>p. teec_api_ok T ctxs sess \<and> program_inv ctxs sess C S p" for T ctxs sess C S
  by unfold_locales (blast intro: client_step_inv)

lemma client_run_inv:
  assumes T: "teec_api_ok T ctxs sess" and "(client_step T)\<^sup>*\<^sup>* (client_start w) p"
  shows "program_inv ctxs sess (ctxs w) (sess w) p"
proof -
  have "program_inv ctxs sess (ctxs w) (sess w) (client_start w)"
    by (simp add: client_start_def program_inv_def arcs_inv_def sessions_inv_def refs_def arc_handle_def ran_def)
  with client.run_keeps[OF assms(2)] T show ?thesis by blast
qed

section \<open>Properties\<close>



end
