(* ===== verification/Objects.thy ===== *)
theory Objects
  imports TeeError Ownership Memory
begin

text \<open>
  Storage and key objects of a trusted application, \<^verbatim>\<open>crates/optee-utee/src/object/\<close>.

  The object functions of the TEE are a parameter, the record \<open>obj_api\<close>, over an opaque
  world; what a C function stores through its out-pointers is part of its result, and a
  read returns the bytes it stores in the caller's buffer.  A raw handle is a word, null
  is 0.  \<^verbatim>\<open>ObjectHandle\<close> owns its raw handle and closes it when dropped.  The hypothesis
  \<open>obj_api_ok\<close> states how the functions act on the set of open handles.
\<close>

unbundle bit_operations_syntax

section \<open>Definitions\<close>

subsection \<open>The object functions of the TEE\<close>

type_synonym raw_handle = u64

record TEE_ObjectInfo =
  objectType :: u32
  objectSize :: u32
  maxObjectSize :: u32
  objectUsage :: u32
  dataSize :: usize
  dataPosition :: usize
  handleFlags :: u32

datatype TEE_Whence = SEEK_SET | SEEK_CUR | SEEK_END

record TEE_Attribute =
  attributeID :: u32
  attr_w0 :: u64
  attr_w1 :: u64

record 'w obj_api =
  TEE_OpenPersistentObject :: "u32 \<Rightarrow> bytes \<Rightarrow> u32 \<Rightarrow> 'w \<Rightarrow> (u32 \<times> raw_handle) \<times> 'w"
  TEE_CreatePersistentObject :: "u32 \<Rightarrow> bytes \<Rightarrow> u32 \<Rightarrow> raw_handle \<Rightarrow> bytes \<Rightarrow> 'w \<Rightarrow> (u32 \<times> raw_handle) \<times> 'w"
  TEE_CloseObject :: "raw_handle \<Rightarrow> 'w \<Rightarrow> 'w"
  TEE_CloseAndDeletePersistentObject1 :: "raw_handle \<Rightarrow> 'w \<Rightarrow> u32 \<times> 'w"
  TEE_RenamePersistentObject :: "raw_handle \<Rightarrow> bytes \<Rightarrow> 'w \<Rightarrow> u32 \<times> 'w"
  TEE_ReadObjectData :: "raw_handle \<Rightarrow> usize \<Rightarrow> 'w \<Rightarrow> (u32 \<times> bytes \<times> usize) \<times> 'w"
  TEE_WriteObjectData :: "raw_handle \<Rightarrow> bytes \<Rightarrow> 'w \<Rightarrow> u32 \<times> 'w"
  TEE_TruncateObjectData :: "raw_handle \<Rightarrow> usize \<Rightarrow> 'w \<Rightarrow> u32 \<times> 'w"
  TEE_SeekObjectData :: "raw_handle \<Rightarrow> int \<Rightarrow> TEE_Whence \<Rightarrow> 'w \<Rightarrow> u32 \<times> 'w"
  TEE_GetObjectInfo1 :: "raw_handle \<Rightarrow> 'w \<Rightarrow> (u32 \<times> TEE_ObjectInfo) \<times> 'w"
  TEE_RestrictObjectUsage1 :: "raw_handle \<Rightarrow> u32 \<Rightarrow> 'w \<Rightarrow> u32 \<times> 'w"
  TEE_GetObjectBufferAttribute :: "raw_handle \<Rightarrow> u32 \<Rightarrow> usize \<Rightarrow> 'w \<Rightarrow> (u32 \<times> bytes \<times> usize) \<times> 'w"
  TEE_GetObjectValueAttribute :: "raw_handle \<Rightarrow> u32 \<Rightarrow> 'w \<Rightarrow> (u32 \<times> u32 \<times> u32) \<times> 'w"
  TEE_AllocateTransientObject :: "u32 \<Rightarrow> u32 \<Rightarrow> 'w \<Rightarrow> (u32 \<times> raw_handle) \<times> 'w"
  TEE_ResetTransientObject :: "raw_handle \<Rightarrow> 'w \<Rightarrow> 'w"
  TEE_PopulateTransientObject :: "raw_handle \<Rightarrow> TEE_Attribute list \<Rightarrow> u32 \<Rightarrow> 'w \<Rightarrow> u32 \<times> 'w"
  TEE_CopyObjectAttributes1 :: "raw_handle \<Rightarrow> raw_handle \<Rightarrow> 'w \<Rightarrow> u32 \<times> 'w"
  TEE_GenerateKey :: "raw_handle \<Rightarrow> u32 \<Rightarrow> TEE_Attribute list \<Rightarrow> u32 \<Rightarrow> 'w \<Rightarrow> u32 \<times> 'w"

text \<open>
  A successful open, create or allocate returns a new, non-null handle; a failing one
  none; closing, with or without deletion and whatever the latter reports, ends a
  handle; the other functions neither open nor close.
\<close>

definition gives_handle :: "('w \<Rightarrow> raw_handle set) \<Rightarrow> 'w \<Rightarrow> (u32 \<times> raw_handle) \<times> 'w \<Rightarrow> bool" where
  "gives_handle live w r \<longleftrightarrow>
     (case r of ((code, h), w') \<Rightarrow>
        if code = TEE_SUCCESS then h \<noteq> 0 \<and> h \<notin> live w \<and> live w' = insert h (live w) else live w' = live w)"

definition obj_api_ok :: "'w obj_api \<Rightarrow> ('w \<Rightarrow> raw_handle set) \<Rightarrow> bool" where
  "obj_api_ok T live \<longleftrightarrow>
     (\<forall>s i f w. gives_handle live w (TEE_OpenPersistentObject T s i f w)) \<and>
     (\<forall>s i f a d w. gives_handle live w (TEE_CreatePersistentObject T s i f a d w)) \<and>
     (\<forall>k m w. gives_handle live w (TEE_AllocateTransientObject T k m w)) \<and>
     (\<forall>h w. live (TEE_CloseObject T h w) = live w - {h}) \<and>
     (\<forall>h w. live (snd (TEE_CloseAndDeletePersistentObject1 T h w)) = live w - {h}) \<and>
     (\<forall>h i w. live (snd (TEE_RenamePersistentObject T h i w)) = live w) \<and>
     (\<forall>h n w. live (snd (TEE_ReadObjectData T h n w)) = live w) \<and>
     (\<forall>h d w. live (snd (TEE_WriteObjectData T h d w)) = live w) \<and>
     (\<forall>h n w. live (snd (TEE_TruncateObjectData T h n w)) = live w) \<and>
     (\<forall>h n k w. live (snd (TEE_SeekObjectData T h n k w)) = live w) \<and>
     (\<forall>h w. live (snd (TEE_GetObjectInfo1 T h w)) = live w) \<and>
     (\<forall>h u w. live (snd (TEE_RestrictObjectUsage1 T h u w)) = live w) \<and>
     (\<forall>h i n w. live (snd (TEE_GetObjectBufferAttribute T h i n w)) = live w) \<and>
     (\<forall>h i w. live (snd (TEE_GetObjectValueAttribute T h i w)) = live w) \<and>
     (\<forall>h w. live (TEE_ResetTransientObject T h w) = live w) \<and>
     (\<forall>h a n w. live (snd (TEE_PopulateTransientObject T h a n w)) = live w) \<and>
     (\<forall>h g w. live (snd (TEE_CopyObjectAttributes1 T h g w)) = live w) \<and>
     (\<forall>h k a n w. live (snd (TEE_GenerateKey T h k a n w)) = live w)"

text \<open>
  What the functions do to the objects of the private storage: \<open>objs w i\<close> are the data of
  the object named \<open>i\<close>, \<open>hnd w h\<close> the name and position of an open handle.  Creating with
  the overwrite flag replaces the data atomically, a failing call changes no data (a
  failing deletion at most that of its own object), and \<open>ITEM_NOT_FOUND\<close> is reported
  only for a name that does not exist.
\<close>

definition obj_store_ok ::
    "'w obj_api \<Rightarrow> ('w \<Rightarrow> bytes \<Rightarrow> bytes option) \<Rightarrow> ('w \<Rightarrow> raw_handle \<Rightarrow> (bytes \<times> nat) option) \<Rightarrow> bool" where
  "obj_store_ok T objs hnd \<longleftrightarrow>
     (\<forall>i f w code h w'. TEE_OpenPersistentObject T TEE_STORAGE_PRIVATE i f w = ((code, h), w') \<longrightarrow>
        objs w' = objs w \<and>
        (if code = TEE_SUCCESS
         then h \<noteq> 0 \<and> hnd w h = None \<and> objs w i \<noteq> None \<and> hnd w' = (hnd w)(h \<mapsto> (i, 0))
         else hnd w' = hnd w \<and> (code = TEE_ERROR_ITEM_NOT_FOUND \<longrightarrow> objs w i = None))) \<and>
     (\<forall>i f a d w code h w'. TEE_CreatePersistentObject T TEE_STORAGE_PRIVATE i f a d w = ((code, h), w') \<longrightarrow>
        f AND TEE_DATA_FLAG_OVERWRITE \<noteq> 0 \<longrightarrow>
        (if code = TEE_SUCCESS
         then h \<noteq> 0 \<and> hnd w h = None \<and> objs w' = (objs w)(i \<mapsto> d) \<and> hnd w' = (hnd w)(h \<mapsto> (i, 0))
         else objs w' = objs w \<and> hnd w' = hnd w)) \<and>
     (\<forall>h w. objs (TEE_CloseObject T h w) = objs w \<and> hnd (TEE_CloseObject T h w) = (hnd w)(h := None)) \<and>
     (\<forall>h w code w' i p. TEE_CloseAndDeletePersistentObject1 T h w = (code, w') \<longrightarrow> hnd w h = Some (i, p) \<longrightarrow>
        hnd w' = (hnd w)(h := None) \<and>
        (if code = TEE_SUCCESS then objs w' = (objs w)(i := None)
         else \<forall>j. j \<noteq> i \<longrightarrow> objs w' j = objs w j)) \<and>
     (\<forall>h w code info w' i p d. TEE_GetObjectInfo1 T h w = ((code, info), w') \<longrightarrow>
        objs w' = objs w \<and> hnd w' = hnd w \<and>
        (code = TEE_SUCCESS \<longrightarrow> hnd w h = Some (i, p) \<longrightarrow> objs w i = Some d \<longrightarrow>
           dataSize info = length d \<and> dataPosition info = p)) \<and>
     (\<forall>h n w code stored count w' i p d. TEE_ReadObjectData T h n w = ((code, stored, count), w') \<longrightarrow>
        hnd w h = Some (i, p) \<longrightarrow> objs w i = Some d \<longrightarrow>
        objs w' = objs w \<and> length stored \<le> n \<and>
        (if code = TEE_SUCCESS
         then stored = take n (drop p d) \<and> count = length stored \<and> hnd w' = (hnd w)(h \<mapsto> (i, p + count))
         else hnd w' = hnd w))"

subsection \<open>Flags and constants\<close>

datatype Whence = DataSeekSet | DataSeekCur | DataSeekEnd

fun Whence_into :: "Whence \<Rightarrow> TEE_Whence" where
  "Whence_into DataSeekSet = SEEK_SET"
| "Whence_into DataSeekCur = SEEK_CUR"
| "Whence_into DataSeekEnd = SEEK_END"

datatype ObjectStorageConstants = Private | PrivateRee | PrivateRpmb | IllegalValue

fun ObjectStorageConstants_into :: "ObjectStorageConstants \<Rightarrow> u32" where
  "ObjectStorageConstants_into Private = 0x00000001"
| "ObjectStorageConstants_into PrivateRee = 0x80000000"
| "ObjectStorageConstants_into PrivateRpmb = 0x80000100"
| "ObjectStorageConstants_into IllegalValue = 0x7FFFFFFF"

text \<open>\<^verbatim>\<open>bitflags\<close> types are their bits.\<close>

type_synonym DataFlag = u32
type_synonym UsageFlag = u32

definition DataFlag_ACCESS_READ :: DataFlag where [raw_consts]: "DataFlag_ACCESS_READ = 0x00000001"
definition DataFlag_ACCESS_WRITE :: DataFlag where [raw_consts]: "DataFlag_ACCESS_WRITE = 0x00000002"
definition DataFlag_ACCESS_WRITE_META :: DataFlag where [raw_consts]: "DataFlag_ACCESS_WRITE_META = 0x00000004"
definition DataFlag_SHARE_READ :: DataFlag where [raw_consts]: "DataFlag_SHARE_READ = 0x00000010"
definition DataFlag_SHARE_WRITE :: DataFlag where [raw_consts]: "DataFlag_SHARE_WRITE = 0x00000020"
definition DataFlag_OVERWRITE :: DataFlag where [raw_consts]: "DataFlag_OVERWRITE = 0x00000400"

subsection \<open>ObjectHandle\<close>

record ObjectHandle =
  oh_raw :: raw_handle

definition ObjectHandle_from_raw :: "raw_handle \<Rightarrow> Error + ObjectHandle" where
  "ObjectHandle_from_raw raw =
     (if raw = 0 then Inl (Error_from BadParameters) else Inr \<lparr>oh_raw = raw\<rparr>)"

definition ObjectHandle_new_null :: ObjectHandle where
  "ObjectHandle_new_null = \<lparr>oh_raw = 0\<rparr>"

definition ObjectHandle_is_null :: "ObjectHandle \<Rightarrow> bool" where
  "ObjectHandle_is_null self \<longleftrightarrow> oh_raw self = 0"

definition ObjectHandle_drop :: "'w obj_api \<Rightarrow> ObjectHandle \<Rightarrow> 'w \<Rightarrow> 'w" where
  "ObjectHandle_drop T self w = (if \<not> ObjectHandle_is_null self then TEE_CloseObject T (oh_raw self) w else w)"

text \<open>\<^verbatim>\<open>forget\<close> nulls the handle; the destructor that follows then does nothing.\<close>

definition ObjectHandle_forget :: "'w obj_api \<Rightarrow> ObjectHandle \<Rightarrow> 'w \<Rightarrow> 'w" where
  "ObjectHandle_forget T self w = ObjectHandle_drop T (self\<lparr>oh_raw := 0\<rparr>) w"

subsection \<open>ObjectInfo and the methods of GenericObject\<close>

record ObjectInfo =
  info_raw :: TEE_ObjectInfo

definition ObjectInfo_from_raw :: "TEE_ObjectInfo \<Rightarrow> ObjectInfo" where
  "ObjectInfo_from_raw raw = \<lparr>info_raw = raw\<rparr>"

definition data_size :: "ObjectInfo \<Rightarrow> usize" where
  "data_size self = dataSize (info_raw self)"

definition object_size :: "ObjectInfo \<Rightarrow> usize" where
  "object_size self = unat (objectSize (info_raw self))"

definition object_type :: "ObjectInfo \<Rightarrow> u32" where
  "object_type self = objectType (info_raw self)"

definition obj_info :: "'w obj_api \<Rightarrow> raw_handle \<Rightarrow> 'w \<Rightarrow> (Error + ObjectInfo) \<times> 'w" where
  "obj_info T h w =
     (case TEE_GetObjectInfo1 T h w of
        ((code, raw_info), w') \<Rightarrow>
          (try_bind (tee_check code) (\<lambda>_. Inr (ObjectInfo_from_raw raw_info)), w'))"

definition restrict_usage :: "'w obj_api \<Rightarrow> raw_handle \<Rightarrow> UsageFlag \<Rightarrow> 'w \<Rightarrow> (Error + unit) \<times> 'w" where
  "restrict_usage T h obj_usage w =
     (case TEE_RestrictObjectUsage1 T h obj_usage w of (code, w') \<Rightarrow> (tee_check code, w'))"

definition ref_attribute ::
    "'w obj_api \<Rightarrow> raw_handle \<Rightarrow> u32 \<Rightarrow> bytes \<Rightarrow> 'w \<Rightarrow> (Error + usize) \<times> bytes \<times> 'w" where
  "ref_attribute T h i buffer w =
     (case TEE_GetObjectBufferAttribute T h i (length buffer) w of
        ((code, stored, n), w') \<Rightarrow>
          (try_bind (tee_check code) (\<lambda>_. Inr n), overwrite buffer 0 stored, w'))"

definition value_attribute :: "'w obj_api \<Rightarrow> raw_handle \<Rightarrow> u32 \<Rightarrow> 'w \<Rightarrow> (Error + u32 \<times> u32) \<times> 'w" where
  "value_attribute T h i w =
     (case TEE_GetObjectValueAttribute T h i w of
        ((code, a, b), w') \<Rightarrow> (try_bind (tee_check code) (\<lambda>_. Inr (a, b)), w'))"

subsection \<open>PersistentObject\<close>

record PersistentObject =
  po_handle :: ObjectHandle

definition po_raw :: "PersistentObject \<Rightarrow> raw_handle" where
  "po_raw self = oh_raw (po_handle self)"

definition PersistentObject_open ::
    "'w obj_api \<Rightarrow> ObjectStorageConstants \<Rightarrow> bytes \<Rightarrow> DataFlag \<Rightarrow> 'w \<Rightarrow> (Error + PersistentObject) \<times> 'w" where
  "PersistentObject_open T storage_id object_id flags w =
     (case TEE_OpenPersistentObject T (ObjectStorageConstants_into storage_id) object_id flags w of
        ((code, handle), w') \<Rightarrow>
          (try_bind (tee_check code) (\<lambda>_.
             try_bind (ObjectHandle_from_raw handle) (\<lambda>oh. Inr \<lparr>po_handle = oh\<rparr>)), w'))"

text \<open>The attributes are moved in; their handle is closed when the function returns.\<close>

definition drop_attributes :: "'w obj_api \<Rightarrow> ObjectHandle option \<Rightarrow> 'w \<Rightarrow> 'w" where
  "drop_attributes T attributes w =
     (case attributes of None \<Rightarrow> w | Some a \<Rightarrow> ObjectHandle_drop T a w)"

definition PersistentObject_create ::
    "'w obj_api \<Rightarrow> ObjectStorageConstants \<Rightarrow> bytes \<Rightarrow> DataFlag \<Rightarrow> ObjectHandle option \<Rightarrow> bytes \<Rightarrow> 'w \<Rightarrow>
     (Error + PersistentObject) \<times> 'w" where
  "PersistentObject_create T storage_id object_id flags attributes initial_data w =
     (let raw_attributes = (case attributes of Some a \<Rightarrow> oh_raw a | None \<Rightarrow> 0)
      in case TEE_CreatePersistentObject T (ObjectStorageConstants_into storage_id) object_id flags
                raw_attributes initial_data w of
           ((code, handle), w') \<Rightarrow>
             (try_bind (tee_check code) (\<lambda>_.
                try_bind (ObjectHandle_from_raw handle) (\<lambda>oh. Inr \<lparr>po_handle = oh\<rparr>)),
              drop_attributes T attributes w'))"

definition PersistentObject_drop :: "'w obj_api \<Rightarrow> PersistentObject \<Rightarrow> 'w \<Rightarrow> 'w" where
  "PersistentObject_drop T self w = ObjectHandle_drop T (po_handle self) w"

definition close_and_delete :: "'w obj_api \<Rightarrow> PersistentObject \<Rightarrow> 'w \<Rightarrow> (Error + unit) \<times> 'w" where
  "close_and_delete T self w =
     (case TEE_CloseAndDeletePersistentObject1 T (po_raw self) w of
        (code, w') \<Rightarrow> (tee_check code, ObjectHandle_forget T (po_handle self) w'))"

definition po_rename :: "'w obj_api \<Rightarrow> PersistentObject \<Rightarrow> bytes \<Rightarrow> 'w \<Rightarrow> (Error + unit) \<times> 'w" where
  "po_rename T self new_object_id w =
     (case TEE_RenamePersistentObject T (po_raw self) new_object_id w of (code, w') \<Rightarrow> (tee_check code, w'))"

text \<open>\<^verbatim>\<open>read\<close> stores what the TEE delivers in the buffer and returns the count \<^verbatim>\<open>as u32\<close>.\<close>

definition po_read :: "'w obj_api \<Rightarrow> PersistentObject \<Rightarrow> bytes \<Rightarrow> 'w \<Rightarrow> (Error + u32) \<times> bytes \<times> 'w" where
  "po_read T self buf w =
     (case TEE_ReadObjectData T (po_raw self) (length buf) w of
        ((code, stored, count), w') \<Rightarrow>
          (try_bind (tee_check code) (\<lambda>_. Inr (of_nat count)), overwrite buf 0 stored, w'))"

text \<open>\<open>can_reserve\<close> is the allocator's answer to \<^verbatim>\<open>try_reserve_exact\<close>.\<close>

definition read_remaining_to_vec ::
    "'w obj_api \<Rightarrow> (usize \<Rightarrow> bool) \<Rightarrow> PersistentObject \<Rightarrow> 'w \<Rightarrow> (Error + bytes) \<times> 'w" where
  "read_remaining_to_vec T can_reserve self w =
     (case obj_info T (po_raw self) w of
        (Inl e, w1) \<Rightarrow> (Inl e, w1)
      | (Inr info, w1) \<Rightarrow>
          (let n = saturating_sub (data_size info) (dataPosition (info_raw info))
           in if n \<noteq> 0 then
                (if \<not> can_reserve n then (Inl (Error_from OutOfMemory), w1)
                 else case po_read T self (replicate n 0) w1 of
                        (Inl e, _, w2) \<Rightarrow> (Inl e, w2)
                      | (Inr count, data, w2) \<Rightarrow> (Inr (take (unat count) data), w2))
              else (Inr [], w1)))"

definition po_write :: "'w obj_api \<Rightarrow> PersistentObject \<Rightarrow> bytes \<Rightarrow> 'w \<Rightarrow> (Error + unit) \<times> 'w" where
  "po_write T self buf w =
     (case TEE_WriteObjectData T (po_raw self) buf w of (code, w') \<Rightarrow> (tee_check code, w'))"

definition po_truncate :: "'w obj_api \<Rightarrow> PersistentObject \<Rightarrow> u32 \<Rightarrow> 'w \<Rightarrow> (Error + unit) \<times> 'w" where
  "po_truncate T self n w =
     (case TEE_TruncateObjectData T (po_raw self) (unat n) w of (code, w') \<Rightarrow> (tee_check code, w'))"

definition po_seek :: "'w obj_api \<Rightarrow> PersistentObject \<Rightarrow> i32 \<Rightarrow> Whence \<Rightarrow> 'w \<Rightarrow> (Error + unit) \<times> 'w" where
  "po_seek T self offset whence w =
     (case TEE_SeekObjectData T (po_raw self) (sint offset) (Whence_into whence) w of
        (code, w') \<Rightarrow> (tee_check code, w'))"

subsection \<open>Attributes and TransientObject\<close>

text \<open>
  \<^verbatim>\<open>TEE_InitRefAttribute\<close> and \<^verbatim>\<open>TEE_InitValueAttribute\<close> fill a raw attribute; they are the
  arguments \<open>init_ref\<close> and \<open>init_value\<close>.
\<close>

record Attribute =
  attribute_raw :: TEE_Attribute

definition AttributeMemref_new_ref :: Attribute where
  "AttributeMemref_new_ref = \<lparr>attribute_raw = \<lparr>attributeID = 0, attr_w0 = 0, attr_w1 = 0\<rparr>\<rparr>"

definition AttributeMemref_from_ref ::
    "(TEE_Attribute \<Rightarrow> u32 \<Rightarrow> u64 \<Rightarrow> usize \<Rightarrow> TEE_Attribute) \<Rightarrow> u32 \<Rightarrow> slice \<Rightarrow> Attribute" where
  "AttributeMemref_from_ref init_ref i buffer =
     \<lparr>attribute_raw = init_ref (attribute_raw AttributeMemref_new_ref) i (sl_ptr buffer) (sl_len buffer)\<rparr>"

text \<open>The initialiser of the \<^verbatim>\<open>value\<close> half leaves the second word unspecified.\<close>

definition AttributeValue_new_value :: "u64 \<Rightarrow> Attribute" where
  "AttributeValue_new_value pad = \<lparr>attribute_raw = \<lparr>attributeID = 0, attr_w0 = 0, attr_w1 = pad\<rparr>\<rparr>"

definition AttributeValue_from_value ::
    "(TEE_Attribute \<Rightarrow> u32 \<Rightarrow> u32 \<Rightarrow> u32 \<Rightarrow> TEE_Attribute) \<Rightarrow> u64 \<Rightarrow> u32 \<Rightarrow> u32 \<Rightarrow> u32 \<Rightarrow> Attribute" where
  "AttributeValue_from_value init_value pad i a b =
     \<lparr>attribute_raw = init_value (attribute_raw (AttributeValue_new_value pad)) i a b\<rparr>"

record TransientObject =
  to_handle :: ObjectHandle

definition to_raw :: "TransientObject \<Rightarrow> raw_handle" where
  "to_raw self = oh_raw (to_handle self)"

definition TransientObject_null_object :: TransientObject where
  "TransientObject_null_object = \<lparr>to_handle = ObjectHandle_new_null\<rparr>"

definition TransientObject_is_null_object :: "TransientObject \<Rightarrow> bool" where
  "TransientObject_is_null_object self \<longleftrightarrow> ObjectHandle_is_null (to_handle self)"

definition TransientObject_allocate ::
    "'w obj_api \<Rightarrow> u32 \<Rightarrow> usize \<Rightarrow> 'w \<Rightarrow> (Error + TransientObject) \<times> 'w" where
  "TransientObject_allocate T object_type_code max_object_size w =
     (case TEE_AllocateTransientObject T object_type_code (of_nat max_object_size) w of
        ((code, handle), w') \<Rightarrow>
          (try_bind (tee_check code) (\<lambda>_.
             try_bind (ObjectHandle_from_raw handle) (\<lambda>oh. Inr \<lparr>to_handle = oh\<rparr>)), w'))"

definition TransientObject_reset :: "'w obj_api \<Rightarrow> TransientObject \<Rightarrow> 'w \<Rightarrow> 'w" where
  "TransientObject_reset T self w = TEE_ResetTransientObject T (to_raw self) w"

definition TransientObject_populate ::
    "'w obj_api \<Rightarrow> TransientObject \<Rightarrow> Attribute list \<Rightarrow> 'w \<Rightarrow> (Error + unit) \<times> 'w" where
  "TransientObject_populate T self attrs w =
     (let p = map attribute_raw attrs
      in case TEE_PopulateTransientObject T (to_raw self) p (of_nat (length attrs)) w of
           (code, w') \<Rightarrow> (tee_check code, w'))"

definition copy_attribute_from ::
    "'w obj_api \<Rightarrow> TransientObject \<Rightarrow> raw_handle \<Rightarrow> 'w \<Rightarrow> (Error + unit) \<times> 'w" where
  "copy_attribute_from T self src w =
     (case TEE_CopyObjectAttributes1 T (to_raw self) src w of (code, w') \<Rightarrow> (tee_check code, w'))"

definition generate_key ::
    "'w obj_api \<Rightarrow> TransientObject \<Rightarrow> usize \<Rightarrow> Attribute list \<Rightarrow> 'w \<Rightarrow> (Error + unit) \<times> 'w" where
  "generate_key T self key_size params w =
     (let p = map attribute_raw params
      in case TEE_GenerateKey T (to_raw self) (of_nat key_size) p (of_nat (length p)) w of
           (code, w') \<Rightarrow> (tee_check code, w'))"

definition TransientObject_drop :: "'w obj_api \<Rightarrow> TransientObject \<Rightarrow> 'w \<Rightarrow> 'w" where
  "TransientObject_drop T self w = ObjectHandle_drop T (to_handle self) w"

subsection \<open>Programs that own objects\<close>

text \<open>
  A trusted application owns the handles of its objects and calls the methods above in
  any order.  \<open>obj_call\<close> lists the calls that neither create nor consume an object.
\<close>

datatype obj_call =
    Call_rename bytes
  | Call_read bytes
  | Call_read_remaining
  | Call_write bytes
  | Call_truncate u32
  | Call_seek i32 Whence
  | Call_info
  | Call_restrict UsageFlag
  | Call_ref_attribute u32 bytes
  | Call_value_attribute u32
  | Call_reset
  | Call_populate "Attribute list"
  | Call_copy raw_handle
  | Call_generate usize "Attribute list"

fun obj_call_world :: "'w obj_api \<Rightarrow> (usize \<Rightarrow> bool) \<Rightarrow> raw_handle \<Rightarrow> obj_call \<Rightarrow> 'w \<Rightarrow> 'w" where
  "obj_call_world T cr h (Call_rename i) w = snd (po_rename T \<lparr>po_handle = \<lparr>oh_raw = h\<rparr>\<rparr> i w)"
| "obj_call_world T cr h (Call_read b) w = snd (snd (po_read T \<lparr>po_handle = \<lparr>oh_raw = h\<rparr>\<rparr> b w))"
| "obj_call_world T cr h Call_read_remaining w = snd (read_remaining_to_vec T cr \<lparr>po_handle = \<lparr>oh_raw = h\<rparr>\<rparr> w)"
| "obj_call_world T cr h (Call_write b) w = snd (po_write T \<lparr>po_handle = \<lparr>oh_raw = h\<rparr>\<rparr> b w)"
| "obj_call_world T cr h (Call_truncate n) w = snd (po_truncate T \<lparr>po_handle = \<lparr>oh_raw = h\<rparr>\<rparr> n w)"
| "obj_call_world T cr h (Call_seek n k) w = snd (po_seek T \<lparr>po_handle = \<lparr>oh_raw = h\<rparr>\<rparr> n k w)"
| "obj_call_world T cr h Call_info w = snd (obj_info T h w)"
| "obj_call_world T cr h (Call_restrict u) w = snd (restrict_usage T h u w)"
| "obj_call_world T cr h (Call_ref_attribute i b) w = snd (snd (ref_attribute T h i b w))"
| "obj_call_world T cr h (Call_value_attribute i) w = snd (value_attribute T h i w)"
| "obj_call_world T cr h Call_reset w = TransientObject_reset T \<lparr>to_handle = \<lparr>oh_raw = h\<rparr>\<rparr> w"
| "obj_call_world T cr h (Call_populate a) w = snd (TransientObject_populate T \<lparr>to_handle = \<lparr>oh_raw = h\<rparr>\<rparr> a w)"
| "obj_call_world T cr h (Call_copy g) w = snd (copy_attribute_from T \<lparr>to_handle = \<lparr>oh_raw = h\<rparr>\<rparr> g w)"
| "obj_call_world T cr h (Call_generate k a) w = snd (generate_key T \<lparr>to_handle = \<lparr>oh_raw = h\<rparr>\<rparr> k a w)"

inductive object_step ::
    "'w obj_api \<Rightarrow> (usize \<Rightarrow> bool) \<Rightarrow> raw_handle list \<times> 'w \<Rightarrow> raw_handle list \<times> 'w \<Rightarrow> bool" for T cr where
  obj_opened: "PersistentObject_open T s i f w = (Inr p, w') \<Longrightarrow> object_step T cr (hs, w) (po_raw p # hs, w')"
| obj_open_failed: "PersistentObject_open T s i f w = (Inl e, w') \<Longrightarrow> object_step T cr (hs, w) (hs, w')"
| obj_created: "PersistentObject_create T s i f None d w = (Inr p, w') \<Longrightarrow>
    object_step T cr (hs, w) (po_raw p # hs, w')"
| obj_create_failed: "PersistentObject_create T s i f None d w = (Inl e, w') \<Longrightarrow> object_step T cr (hs, w) (hs, w')"
| obj_created_from: "a \<in> set hs \<Longrightarrow> a \<noteq> 0 \<Longrightarrow>
    PersistentObject_create T s i f (Some \<lparr>oh_raw = a\<rparr>) d w = (Inr p, w') \<Longrightarrow>
    object_step T cr (hs, w) (po_raw p # remove1 a hs, w')"
| obj_create_from_failed: "a \<in> set hs \<Longrightarrow> a \<noteq> 0 \<Longrightarrow>
    PersistentObject_create T s i f (Some \<lparr>oh_raw = a\<rparr>) d w = (Inl e, w') \<Longrightarrow>
    object_step T cr (hs, w) (remove1 a hs, w')"
| obj_allocated: "TransientObject_allocate T k n w = (Inr t, w') \<Longrightarrow> object_step T cr (hs, w) (to_raw t # hs, w')"
| obj_allocate_failed: "TransientObject_allocate T k n w = (Inl e, w') \<Longrightarrow> object_step T cr (hs, w) (hs, w')"
| obj_called: "h \<in> set hs \<Longrightarrow> object_step T cr (hs, w) (hs, obj_call_world T cr h c w)"
| obj_deleted: "h \<in> set hs \<Longrightarrow> close_and_delete T \<lparr>po_handle = \<lparr>oh_raw = h\<rparr>\<rparr> w = (r, w') \<Longrightarrow>
    object_step T cr (hs, w) (remove1 h hs, w')"
| obj_dropped: "h \<in> set hs \<Longrightarrow> h \<noteq> 0 \<Longrightarrow>
    object_step T cr (hs, w) (remove1 h hs, ObjectHandle_drop T \<lparr>oh_raw = h\<rparr> w)"

section \<open>Lemmas\<close>

lemma gives_handle_iff:
  "gives_handle live w ((code, h), w') \<longleftrightarrow>
     (if code = TEE_SUCCESS then h \<noteq> 0 \<and> h \<notin> live w \<and> live w' = insert h (live w) else live w' = live w)"
  by (simp add: gives_handle_def)

lemma obj_api_okD:
  assumes "obj_api_ok T live"
  shows "gives_handle live w (TEE_OpenPersistentObject T s i f w)"
    and "gives_handle live w (TEE_CreatePersistentObject T s i f a d w)"
    and "gives_handle live w (TEE_AllocateTransientObject T k m w)"
    and "live (TEE_CloseObject T h w) = live w - {h}"
    and "live (snd (TEE_CloseAndDeletePersistentObject1 T h w)) = live w - {h}"
  using assms by (simp_all add: obj_api_ok_def)

lemma obj_api_ok_neutral:
  assumes "obj_api_ok T live"
  shows "live (snd (TEE_RenamePersistentObject T h i w)) = live w"
    and "live (snd (TEE_ReadObjectData T h n w)) = live w"
    and "live (snd (TEE_WriteObjectData T h d w)) = live w"
    and "live (snd (TEE_TruncateObjectData T h n w)) = live w"
    and "live (snd (TEE_SeekObjectData T h z k w)) = live w"
    and "live (snd (TEE_GetObjectInfo1 T h w)) = live w"
    and "live (snd (TEE_RestrictObjectUsage1 T h u w)) = live w"
    and "live (snd (TEE_GetObjectBufferAttribute T h u n w)) = live w"
    and "live (snd (TEE_GetObjectValueAttribute T h u w)) = live w"
    and "live (TEE_ResetTransientObject T h w) = live w"
    and "live (snd (TEE_PopulateTransientObject T h as u w)) = live w"
    and "live (snd (TEE_CopyObjectAttributes1 T h g w)) = live w"
    and "live (snd (TEE_GenerateKey T h u as v w)) = live w"
  using assms by (simp_all add: obj_api_ok_def)

text \<open>Acquiring an object: an error leaves no handle behind, success leaves the object's.\<close>

lemma handle_result:
  assumes "gives_handle live w ((code, h), w')"
    and "r = try_bind (tee_check code) (\<lambda>_. try_bind (ObjectHandle_from_raw h) (\<lambda>oh. Inr (mk oh)))"
  shows "case r of Inl e \<Rightarrow> live w' = live w
    | Inr x \<Rightarrow> x = mk \<lparr>oh_raw = h\<rparr> \<and> h \<noteq> 0 \<and> h \<notin> live w \<and> live w' = insert h (live w)"
  using assms by (simp add: gives_handle_iff tee_check_def ObjectHandle_from_raw_def)

lemma PersistentObject_open_live:
  assumes "obj_api_ok T live" and "PersistentObject_open T s i f w = (r, w')"
  shows "case r of Inl e \<Rightarrow> live w' = live w
    | Inr p \<Rightarrow> po_raw p \<noteq> 0 \<and> po_raw p \<notin> live w \<and> live w' = insert (po_raw p) (live w)"
proof -
  obtain code h w1 where o: "TEE_OpenPersistentObject T (ObjectStorageConstants_into s) i f w = ((code, h), w1)"
    by (metis surj_pair)
  show ?thesis
    using handle_result[OF obj_api_okD(1)[OF assms(1), of w "ObjectStorageConstants_into s" i f, unfolded o]
        refl, of "\<lambda>oh. \<lparr>po_handle = oh\<rparr>"] assms(2) o
    by (auto simp: PersistentObject_open_def po_raw_def split: sum.splits)
qed

lemma TransientObject_allocate_live:
  assumes "obj_api_ok T live" and "TransientObject_allocate T k n w = (r, w')"
  shows "case r of Inl e \<Rightarrow> live w' = live w
    | Inr t \<Rightarrow> to_raw t \<noteq> 0 \<and> to_raw t \<notin> live w \<and> live w' = insert (to_raw t) (live w)"
proof -
  obtain code h w1 where o: "TEE_AllocateTransientObject T k (of_nat n) w = ((code, h), w1)"
    by (metis surj_pair)
  show ?thesis
    using handle_result[OF obj_api_okD(3)[OF assms(1), of w k "of_nat n", unfolded o]
        refl, of "\<lambda>oh. \<lparr>to_handle = oh\<rparr>"] assms(2) o
    by (auto simp: TransientObject_allocate_def to_raw_def split: sum.splits)
qed

text \<open>Creating an object also gives up the handle of its attributes, on every path.\<close>

lemma PersistentObject_create_live:
  assumes "obj_api_ok T live" and "PersistentObject_create T s i f attrs d w = (r, w')"
  shows "let gone = (case attrs of Some a \<Rightarrow> {oh_raw a} - {0} | None \<Rightarrow> {}) in
    case r of Inl e \<Rightarrow> live w' = live w - gone
    | Inr p \<Rightarrow> po_raw p \<noteq> 0 \<and> po_raw p \<notin> live w \<and> live w' = insert (po_raw p) (live w) - gone"
proof -
  let ?a = "case attrs of Some a \<Rightarrow> oh_raw a | None \<Rightarrow> 0"
  obtain code h w1 where
    o: "TEE_CreatePersistentObject T (ObjectStorageConstants_into s) i f ?a d w = ((code, h), w1)"
    by (metis surj_pair)
  have w': "live w' = live w1 - (case attrs of Some a \<Rightarrow> {oh_raw a} - {0} | None \<Rightarrow> {})"
    using assms(2) o obj_api_okD(4)[OF assms(1)]
    by (cases attrs)
      (auto simp: PersistentObject_create_def Let_def drop_attributes_def ObjectHandle_drop_def
        ObjectHandle_is_null_def split: if_splits)
  show ?thesis
    using handle_result[OF obj_api_okD(2)[OF assms(1), of w "ObjectStorageConstants_into s" i f ?a d, unfolded o]
        refl, of "\<lambda>oh. \<lparr>po_handle = oh\<rparr>"] assms(2) o w'
    by (auto simp: PersistentObject_create_def Let_def po_raw_def split: sum.splits)
qed

lemma ObjectHandle_forget_id [simp]: "ObjectHandle_forget T self w = w"
  by (simp add: ObjectHandle_forget_def ObjectHandle_drop_def ObjectHandle_is_null_def)

text \<open>Deleting closes the handle once: forgetting it makes the destructor a no-op.\<close>

lemma close_and_delete_live:
  assumes "obj_api_ok T live"
  shows "live (snd (close_and_delete T p w)) = live w - {po_raw p}"
  using obj_api_okD(5)[OF assms, of "po_raw p" w]
  by (simp add: close_and_delete_def case_prod_unfold)

lemma obj_call_live:
  assumes "obj_api_ok T live"
  shows "live (obj_call_world T cr h c w) = live w"
  using obj_api_ok_neutral[OF assms]
  by (cases c)
    (simp_all add: po_rename_def po_read_def read_remaining_to_vec_def po_write_def po_truncate_def
      po_seek_def obj_info_def restrict_usage_def ref_attribute_def value_attribute_def
      TransientObject_reset_def TransientObject_populate_def copy_attribute_from_def generate_key_def
      Let_def case_prod_unfold split: sum.split)

lemma object_step_owns:
  assumes T: "obj_api_ok T live" and "object_step T cr (hs, w) (hs', w')" and O: "owns live L hs w"
  shows "owns live L hs' w'"
  using assms(2)
proof (cases rule: object_step.cases)
  case obj_opened
  show ?thesis
    unfolding obj_opened(1) using PersistentObject_open_live[OF T obj_opened(2)]
    by (intro owns_acquire[OF O]) (simp_all add: Let_def)
next
  case obj_open_failed
  show ?thesis
    unfolding obj_open_failed(1) using PersistentObject_open_live[OF T obj_open_failed(2)]
    by (intro owns_neutral[OF O]) (simp_all add: Let_def)
next
  case obj_created
  show ?thesis
    unfolding obj_created(1) using PersistentObject_create_live[OF T obj_created(2)]
    by (intro owns_acquire[OF O]) (simp_all add: Let_def)
next
  case obj_create_failed
  show ?thesis
    unfolding obj_create_failed(1) using PersistentObject_create_live[OF T obj_create_failed(2)]
    by (intro owns_neutral[OF O]) (simp_all add: Let_def)
next
  case obj_created_from
  show ?thesis
    unfolding obj_created_from(1) using PersistentObject_create_live[OF T obj_created_from(4)] obj_created_from(2,3)
    by (intro owns_exchange[OF O]) (simp_all add: Let_def)
next
  case obj_create_from_failed
  show ?thesis
    unfolding obj_create_from_failed(1) using PersistentObject_create_live[OF T obj_create_from_failed(4)] obj_create_from_failed(2,3)
    by (intro owns_release[OF O]) (simp_all add: Let_def)
next
  case obj_allocated
  show ?thesis
    unfolding obj_allocated(1) using TransientObject_allocate_live[OF T obj_allocated(2)]
    by (intro owns_acquire[OF O]) (simp_all add: Let_def)
next
  case obj_allocate_failed
  show ?thesis
    unfolding obj_allocate_failed(1) using TransientObject_allocate_live[OF T obj_allocate_failed(2)]
    by (intro owns_neutral[OF O]) (simp_all add: Let_def)
next
  case obj_called
  show ?thesis
    unfolding obj_called(1,2) by (intro owns_neutral[OF O] obj_call_live[OF T])
next
  case (obj_deleted h r)
  have "live w' = live w - {h}"
    using close_and_delete_live[OF T, of "\<lparr>po_handle = \<lparr>oh_raw = h\<rparr>\<rparr>" w] obj_deleted(3) by (simp add: po_raw_def)
  then show ?thesis unfolding obj_deleted(1) by (rule owns_release[OF O obj_deleted(2)])
next
  case (obj_dropped h)
  have "live w' = live w - {h}"
    using obj_api_okD(4)[OF T, of h w] obj_dropped(2,4) by (simp add: ObjectHandle_drop_def ObjectHandle_is_null_def)
  then show ?thesis unfolding obj_dropped(1) by (rule owns_release[OF O obj_dropped(3)])
qed

interpretation objects: bookkeeping "object_step T cr"
  "\<lambda>st. obj_api_ok T live \<and> owns live L (fst st) (snd st)" for T cr live L
  by unfold_locales (metis object_step_owns prod.collapse)

lemma obj_store_openD:
  assumes "obj_store_ok T objs hnd" and "TEE_OpenPersistentObject T TEE_STORAGE_PRIVATE i f w = ((code, h), w')"
  shows "objs w' = objs w \<and>
        (if code = TEE_SUCCESS
         then h \<noteq> 0 \<and> hnd w h = None \<and> objs w i \<noteq> None \<and> hnd w' = (hnd w)(h \<mapsto> (i, 0))
         else hnd w' = hnd w \<and> (code = TEE_ERROR_ITEM_NOT_FOUND \<longrightarrow> objs w i = None))"
  using assms(1)[unfolded obj_store_ok_def, THEN conjunct1] assms(2) by blast

lemma obj_store_createD:
  assumes "obj_store_ok T objs hnd" and "TEE_CreatePersistentObject T TEE_STORAGE_PRIVATE i f a d w = ((code, h), w')"
    and "f AND TEE_DATA_FLAG_OVERWRITE \<noteq> 0"
  shows "if code = TEE_SUCCESS
         then h \<noteq> 0 \<and> hnd w h = None \<and> objs w' = (objs w)(i \<mapsto> d) \<and> hnd w' = (hnd w)(h \<mapsto> (i, 0))
         else objs w' = objs w \<and> hnd w' = hnd w"
  using assms(1)[unfolded obj_store_ok_def, THEN conjunct2, THEN conjunct1] assms(2,3) by blast

lemma obj_store_closeD:
  assumes "obj_store_ok T objs hnd"
  shows "objs (TEE_CloseObject T h w) = objs w" and "hnd (TEE_CloseObject T h w) = (hnd w)(h := None)"
  using assms[unfolded obj_store_ok_def, THEN conjunct2, THEN conjunct2, THEN conjunct1] by blast+

lemma obj_store_deleteD:
  assumes "obj_store_ok T objs hnd" and "TEE_CloseAndDeletePersistentObject1 T h w = (code, w')"
    and "hnd w h = Some (i, p)"
  shows "hnd w' = (hnd w)(h := None) \<and>
        (if code = TEE_SUCCESS then objs w' = (objs w)(i := None) else \<forall>j. j \<noteq> i \<longrightarrow> objs w' j = objs w j)"
  using assms(1)[unfolded obj_store_ok_def, THEN conjunct2, THEN conjunct2, THEN conjunct2, THEN conjunct1]
    assms(2,3) by blast

lemma obj_store_infoD:
  assumes "obj_store_ok T objs hnd" and "TEE_GetObjectInfo1 T h w = ((code, info), w')"
  shows "objs w' = objs w" and "hnd w' = hnd w"
    and "code = TEE_SUCCESS \<Longrightarrow> hnd w h = Some (i, p) \<Longrightarrow> objs w i = Some d \<Longrightarrow>
      dataSize info = length d \<and> dataPosition info = p"
  using assms(1)[unfolded obj_store_ok_def, THEN conjunct2, THEN conjunct2, THEN conjunct2, THEN conjunct2,
      THEN conjunct1] assms(2) by blast+

lemma obj_store_readD:
  assumes "obj_store_ok T objs hnd" and "TEE_ReadObjectData T h n w = ((code, stored, count), w')"
    and "hnd w h = Some (i, p)" and "objs w i = Some d"
  shows "objs w' = objs w \<and> length stored \<le> n \<and>
        (if code = TEE_SUCCESS
         then stored = take n (drop p d) \<and> count = length stored \<and> hnd w' = (hnd w)(h \<mapsto> (i, p + count))
         else hnd w' = hnd w)"
  using assms(1)[unfolded obj_store_ok_def, THEN conjunct2, THEN conjunct2, THEN conjunct2, THEN conjunct2,
      THEN conjunct2] assms(2-4) by blast

section \<open>A reference store\<close>

text \<open>A concrete private storage: data by name, open handles with their positions.\<close>

record ref_store =
  rs_objs :: "bytes \<Rightarrow> bytes option"
  rs_open :: "raw_handle \<Rightarrow> (bytes \<times> nat) option"
  rs_next :: nat

definition rs_hand_out :: "bytes \<Rightarrow> ref_store \<Rightarrow> (u32 \<times> raw_handle) \<times> ref_store" where
  "rs_hand_out i w =
     (let h = of_nat (rs_next w)
      in if h \<noteq> 0 \<and> rs_open w h = None
         then ((TEE_SUCCESS, h), w\<lparr>rs_open := (rs_open w)(h \<mapsto> (i, 0)), rs_next := rs_next w + 1\<rparr>)
         else ((TEE_ERROR_OUT_OF_MEMORY, 0), w))"

definition ref_info :: "nat \<Rightarrow> nat \<Rightarrow> TEE_ObjectInfo" where
  "ref_info n p = \<lparr>objectType = TEE_TYPE_DATA, objectSize = 0, maxObjectSize = 0, objectUsage = 0,
     dataSize = n, dataPosition = p, handleFlags = 0\<rparr>"

definition ref_obj_api :: "ref_store obj_api" where
  "ref_obj_api = \<lparr>
     TEE_OpenPersistentObject = (\<lambda>s i f w.
       if rs_objs w i = None then ((TEE_ERROR_ITEM_NOT_FOUND, 0), w) else rs_hand_out i w),
     TEE_CreatePersistentObject = (\<lambda>s i f a d w.
       (case rs_hand_out i w of
          ((code, h), w') \<Rightarrow>
            if code = TEE_SUCCESS then ((code, h), w'\<lparr>rs_objs := (rs_objs w)(i \<mapsto> d)\<rparr>) else ((code, h), w))),
     TEE_CloseObject = (\<lambda>h w. w\<lparr>rs_open := (rs_open w)(h := None)\<rparr>),
     TEE_CloseAndDeletePersistentObject1 = (\<lambda>h w.
       (case rs_open w h of
          None \<Rightarrow> (TEE_ERROR_BAD_STATE, w)
        | Some (i, p) \<Rightarrow>
            (TEE_SUCCESS, w\<lparr>rs_objs := (rs_objs w)(i := None), rs_open := (rs_open w)(h := None)\<rparr>))),
     TEE_RenamePersistentObject = (\<lambda>h i w. (TEE_ERROR_NOT_SUPPORTED, w)),
     TEE_ReadObjectData = (\<lambda>h n w.
       (case rs_open w h of
          None \<Rightarrow> ((TEE_ERROR_BAD_STATE, [], 0), w)
        | Some (i, p) \<Rightarrow>
            (case rs_objs w i of
               None \<Rightarrow> ((TEE_ERROR_CORRUPT_OBJECT, [], 0), w)
             | Some d \<Rightarrow>
                 (let x = take n (drop p d)
                  in ((TEE_SUCCESS, x, length x), w\<lparr>rs_open := (rs_open w)(h \<mapsto> (i, p + length x))\<rparr>))))),
     TEE_WriteObjectData = (\<lambda>h d w. (TEE_ERROR_NOT_SUPPORTED, w)),
     TEE_TruncateObjectData = (\<lambda>h n w. (TEE_ERROR_NOT_SUPPORTED, w)),
     TEE_SeekObjectData = (\<lambda>h n k w. (TEE_ERROR_NOT_SUPPORTED, w)),
     TEE_GetObjectInfo1 = (\<lambda>h w.
       (case rs_open w h of
          None \<Rightarrow> ((TEE_ERROR_BAD_STATE, ref_info 0 0), w)
        | Some (i, p) \<Rightarrow>
            (case rs_objs w i of
               None \<Rightarrow> ((TEE_ERROR_CORRUPT_OBJECT, ref_info 0 0), w)
             | Some d \<Rightarrow> ((TEE_SUCCESS, ref_info (length d) p), w)))),
     TEE_RestrictObjectUsage1 = (\<lambda>h u w. (TEE_SUCCESS, w)),
     TEE_GetObjectBufferAttribute = (\<lambda>h i n w. ((TEE_ERROR_ITEM_NOT_FOUND, [], 0), w)),
     TEE_GetObjectValueAttribute = (\<lambda>h i w. ((TEE_ERROR_ITEM_NOT_FOUND, 0, 0), w)),
     TEE_AllocateTransientObject = (\<lambda>k m w. rs_hand_out [] w),
     TEE_ResetTransientObject = (\<lambda>h w. w),
     TEE_PopulateTransientObject = (\<lambda>h a n w. (TEE_SUCCESS, w)),
     TEE_CopyObjectAttributes1 = (\<lambda>h g w. (TEE_SUCCESS, w)),
     TEE_GenerateKey = (\<lambda>h k a n w. (TEE_SUCCESS, w))\<rparr>"

definition rs_empty :: ref_store where
  "rs_empty = \<lparr>rs_objs = Map.empty, rs_open = Map.empty, rs_next = 1\<rparr>"

lemma ref_obj_api_ok: "obj_api_ok ref_obj_api (\<lambda>w. dom (rs_open w))"
  by (simp add: obj_api_ok_def ref_obj_api_def gives_handle_def rs_hand_out_def Let_def raw_consts
      split: option.split prod.split) (auto simp: dom_def)

lemma ref_obj_store_ok: "obj_store_ok ref_obj_api rs_objs rs_open"
  unfolding obj_store_ok_def
  by (auto simp: ref_obj_api_def rs_hand_out_def ref_info_def Let_def raw_consts
      split: option.splits prod.splits if_splits)

section \<open>Properties\<close>



text \<open>
  C30.  Reading the rest of an object gives the rest of an object.  When
  \<^verbatim>\<open>read_remaining_to_vec\<close> succeeds on an open object, it returns exactly the data from the
  current position to the end, for every position, also past the end; and on every
  path the stored data are untouched.
\<close>

theorem read_remaining_exact:
  assumes S: "obj_store_ok T objs hnd"
    and h: "hnd w (po_raw p) = Some (i, pos)" and d: "objs w i = Some data"
    and bound: "length data < 2 ^ 32"
    and r: "read_remaining_to_vec T cr p w = (res, w')"
  shows "objs w' = objs w \<and> (\<forall>v. res = Inr v \<longrightarrow> v = drop pos data)"
proof -
  obtain code info w1 where g: "TEE_GetObjectInfo1 T (po_raw p) w = ((code, info), w1)" by (metis surj_pair)
  note I = obj_store_infoD[OF S g]
  have h1: "hnd w1 (po_raw p) = Some (i, pos)" and d1: "objs w1 i = Some data" using I h d by simp_all
  show ?thesis
  proof (cases "code = TEE_SUCCESS")
    case False
    with r g I show ?thesis by (auto simp: read_remaining_to_vec_def obj_info_def tee_check_def)
  next
    case True
    have size: "dataSize info = length data" and pos: "dataPosition info = pos"
      using I(3)[OF True h d] by simp_all
    let ?n = "length data - pos"
    obtain c2 stored count w2 where
      rd: "TEE_ReadObjectData T (po_raw p) ?n w1 = ((c2, stored, count), w2)"
      by (metis surj_pair)
    note R = obj_store_readD[OF S rd h1 d1]
    have "r' = Inr v \<Longrightarrow> v = drop pos data" if "c2 = TEE_SUCCESS" and
      "r' = Inr (take (unat (of_nat count :: u32)) (overwrite (replicate ?n 0) 0 stored))" for r' :: "Error + bytes" and v
      using that R bound by (simp add: overwrite_def unat_of_nat)
    with r g I R rd True size pos show ?thesis
      by (auto simp: read_remaining_to_vec_def obj_info_def tee_check_def ObjectInfo_from_raw_def data_size_def
          po_read_def Let_def split: if_splits)
  qed
qed

theorem read_remaining_exact_witness:
  "let w = \<lparr>rs_objs = [[7] \<mapsto> [1, 2, 3, 4]], rs_open = [9 \<mapsto> ([7], 1)], rs_next = 10\<rparr>
   in \<exists>w'. read_remaining_to_vec ref_obj_api (\<lambda>_. True) \<lparr>po_handle = \<lparr>oh_raw = 9\<rparr>\<rparr> w = (Inr [2, 3, 4], w')"
proof -
  let ?w = "\<lparr>rs_objs = [[7] \<mapsto> [1, 2, 3, 4]], rs_open = [9 \<mapsto> ([7], 1)], rs_next = 10\<rparr>"
  let ?p = "\<lparr>po_handle = \<lparr>oh_raw = 9\<rparr>\<rparr>"
  obtain v w' where r: "read_remaining_to_vec ref_obj_api (\<lambda>_. True) ?p ?w = (Inr v, w')"
    by (simp add: read_remaining_to_vec_def obj_info_def ref_obj_api_def po_raw_def tee_check_def
        ObjectInfo_from_raw_def ref_info_def data_size_def po_read_def Let_def)
  have "v = drop 1 [1, 2, 3, 4]"
    using read_remaining_exact[OF ref_obj_store_ok _ _ _ r, of "[7]" 1 "[1, 2, 3, 4]"] by (simp add: po_raw_def)
  with r show ?thesis by (simp add: Let_def)
qed

end
