(* ===== verification/RustString.thy ===== *)
theory RustString
  imports Prelude
begin

text \<open>
  Strings of the Rust standard library.  A \<^verbatim>\<open>String\<close> is its sequence of UTF-8 bytes, each a
  \<open>char\<close>; \<^verbatim>\<open>as_bytes\<close> gives them as words.  A C string is the bytes before the first NUL.
  \<^verbatim>\<open>from_utf8_lossy\<close> replaces every maximal ill-formed sequence by the replacement character,
  as the chunk iterator of the library does.
\<close>

section \<open>Definitions\<close>

definition as_bytes :: "string \<Rightarrow> bytes" where
  "as_bytes s = map (\<lambda>c. of_nat (of_char c)) s"

definition of_bytes :: "bytes \<Rightarrow> string" where
  "of_bytes bs = map (\<lambda>x. char_of (unat x)) bs"

text \<open>The C string that starts at the first of the bytes.\<close>

definition c_str :: "bytes \<Rightarrow> bytes" where
  "c_str bs = takeWhile (\<lambda>b. b \<noteq> 0) bs"

text \<open>\<^verbatim>\<open>CString::new\<close> appends the NUL and rejects text that contains one.\<close>

definition CString_new :: "string \<Rightarrow> bytes option" where
  "CString_new s = (if 0 \<in> set (as_bytes s) then None else Some (as_bytes s @ [0]))"

text \<open>\<^verbatim>\<open>CStr::from_bytes_with_nul\<close>: exactly one NUL, the last byte.\<close>

definition from_bytes_with_nul :: "bytes \<Rightarrow> bytes option" where
  "from_bytes_with_nul bs =
     (if bs \<noteq> [] \<and> last bs = 0 \<and> 0 \<notin> set (butlast bs) then Some (butlast bs) else None)"

text \<open>\<^verbatim>\<open>{}\<close> of an unsigned number.\<close>

fun display_nat :: "nat \<Rightarrow> string" where
  "display_nat n =
     (if n < 10 then [char_of (48 + n)] else display_nat (n div 10) @ [char_of (48 + n mod 10)])"

declare display_nat.simps [simp del]

definition utf8_cont :: "u8 \<Rightarrow> bool" where
  "utf8_cont b \<longleftrightarrow> 0x80 \<le> b \<and> b \<le> 0xBF"

definition utf8_second3 :: "u8 \<Rightarrow> u8 \<Rightarrow> bool" where
  "utf8_second3 b c \<longleftrightarrow>
     (if b = 0xE0 then 0xA0 \<le> c \<and> c \<le> 0xBF
      else if b = 0xED then 0x80 \<le> c \<and> c \<le> 0x9F
      else utf8_cont c)"

definition utf8_second4 :: "u8 \<Rightarrow> u8 \<Rightarrow> bool" where
  "utf8_second4 b c \<longleftrightarrow>
     (if b = 0xF0 then 0x90 \<le> c \<and> c \<le> 0xBF
      else if b = 0xF4 then 0x80 \<le> c \<and> c \<le> 0x8F
      else utf8_cont c)"

text \<open>Whether the bytes start with a well-formed character, and how many they start with.\<close>

fun utf8_seq :: "bytes \<Rightarrow> bool \<times> nat" where
  "utf8_seq [] = (True, 0)"
| "utf8_seq (b # r) =
     (if b < 0x80 then (True, 1)
      else if 0xC2 \<le> b \<and> b \<le> 0xDF then
        (case r of c # _ \<Rightarrow> if utf8_cont c then (True, 2) else (False, 1) | [] \<Rightarrow> (False, 1))
      else if 0xE0 \<le> b \<and> b \<le> 0xEF then
        (case r of
           c # r' \<Rightarrow>
             if utf8_second3 b c
             then case r' of d # _ \<Rightarrow> if utf8_cont d then (True, 3) else (False, 2) | [] \<Rightarrow> (False, 2)
             else (False, 1)
         | [] \<Rightarrow> (False, 1))
      else if 0xF0 \<le> b \<and> b \<le> 0xF4 then
        (case r of
           c # r' \<Rightarrow>
             if utf8_second4 b c
             then case r' of
                 d # r'' \<Rightarrow>
                   if utf8_cont d
                   then case r'' of e # _ \<Rightarrow> if utf8_cont e then (True, 4) else (False, 3) | [] \<Rightarrow> (False, 3)
                   else (False, 2)
               | [] \<Rightarrow> (False, 2)
             else (False, 1)
         | [] \<Rightarrow> (False, 1))
      else (False, 1))"

lemma utf8_seq_pos: "0 < snd (utf8_seq (b # r))"
  by (simp split: list.split)

declare utf8_seq.simps [simp del]

function valid_utf8 :: "bytes \<Rightarrow> bool" where
  "valid_utf8 [] = True"
| "valid_utf8 (b # r) = (fst (utf8_seq (b # r)) \<and> valid_utf8 (drop (snd (utf8_seq (b # r))) (b # r)))"
  by pat_completeness auto
termination
  by (relation "measure length") (use utf8_seq_pos in \<open>auto simp: less_diff_conv2\<close>)

function from_utf8_lossy :: "bytes \<Rightarrow> bytes" where
  "from_utf8_lossy [] = []"
| "from_utf8_lossy (b # r) =
     (if fst (utf8_seq (b # r)) then take (snd (utf8_seq (b # r))) (b # r) else [0xEF, 0xBF, 0xBD]) @
     from_utf8_lossy (drop (snd (utf8_seq (b # r))) (b # r))"
  by pat_completeness auto
termination
  by (relation "measure length") (use utf8_seq_pos in \<open>auto simp: less_diff_conv2\<close>)

section \<open>Lemmas\<close>

lemma take_bit_of_char: "take_bit 8 (of_char c :: nat) = of_char c"
  by (simp add: take_bit_nat_eq_self)

lemma as_bytes_inj [simp]: "as_bytes a = as_bytes b \<longleftrightarrow> a = b"
proof
  assume "as_bytes a = as_bytes b"
  then show "a = b"
    unfolding as_bytes_def
    by (rule map_injective) (auto simp: inj_def word_of_nat_eq_iff take_bit_of_char)
qed simp

lemma length_as_bytes [simp]: "length (as_bytes s) = length s"
  by (simp add: as_bytes_def)

lemma of_as_bytes [simp]: "of_bytes (as_bytes k) = k"
  by (simp add: of_bytes_def as_bytes_def comp_def unat_of_nat)

lemma c_str_nul [simp]: "0 \<notin> set bs \<Longrightarrow> c_str (bs @ 0 # cs) = bs"
  unfolding c_str_def by (subst takeWhile_append2) auto

lemma CString_new_eq_Some: "CString_new s = Some b \<longleftrightarrow> 0 \<notin> set (as_bytes s) \<and> b = as_bytes s @ [0]"
  by (auto simp: CString_new_def)

lemma from_bytes_with_nul_snoc [simp]: "0 \<notin> set bs \<Longrightarrow> from_bytes_with_nul (bs @ [0]) = Some bs"
  by (simp add: from_bytes_with_nul_def)

definition decimal_value :: "string \<Rightarrow> nat" where
  "decimal_value s = foldl (\<lambda>n c. 10 * n + (of_char c - 48)) 0 s"

lemma decimal_value_display [simp]: "decimal_value (display_nat n) = n"
proof (induction n rule: display_nat.induct)
  case (1 n)
  show ?case
  proof (cases "n < 10")
    case True
    then show ?thesis by (simp add: display_nat.simps[of n] decimal_value_def)
  next
    case False
    with 1 have "decimal_value (display_nat (n div 10)) = n div 10" by simp
    with False show ?thesis by (simp add: display_nat.simps[of n] decimal_value_def)
  qed
qed

lemma display_nat_inj [simp]: "display_nat m = display_nat n \<longleftrightarrow> m = n"
  by (metis decimal_value_display)

text \<open>Well-formed text is not changed.\<close>

lemma from_utf8_lossy_valid: "valid_utf8 bs \<Longrightarrow> from_utf8_lossy bs = bs"
  by (induction bs rule: valid_utf8.induct) (simp_all del: append_Cons)

text \<open>Text of ASCII bytes is well-formed.\<close>

lemma valid_utf8_ascii: "\<forall>b \<in> set bs. b < 0x80 \<Longrightarrow> valid_utf8 bs"
proof (induction bs)
  case (Cons b bs)
  then have "utf8_seq (b # bs) = (True, 1)" by (simp add: utf8_seq.simps)
  with Cons show ?case by simp
qed simp

text \<open>Well-formed text stays well-formed when it is joined.\<close>

lemma utf8_seq_append: "fst (utf8_seq (b # r)) \<Longrightarrow> utf8_seq ((b # r) @ c) = utf8_seq (b # r) \<and> snd (utf8_seq (b # r)) \<le> length (b # r)"
  by (cases r; cases "tl r"; cases "tl (tl r)") (simp_all add: utf8_seq.simps split: if_splits)

lemma valid_utf8_append: "valid_utf8 a \<Longrightarrow> valid_utf8 c \<Longrightarrow> valid_utf8 (a @ c)"
proof (induction a rule: valid_utf8.induct)
  case (2 b r)
  then have f: "fst (utf8_seq (b # r))" and v: "valid_utf8 (drop (snd (utf8_seq (b # r))) (b # r))" by simp_all
  note s = utf8_seq_append[OF f, of c]
  have "valid_utf8 (drop (snd (utf8_seq (b # r))) (b # r) @ c)" using 2 v by blast
  moreover have "drop (snd (utf8_seq (b # r))) (b # r @ c) = drop (snd (utf8_seq (b # r))) (b # r) @ c"
    using s by (metis append_Cons append_Nil diff_is_0_eq drop0 drop_append)
  ultimately show ?case using f s valid_utf8.simps(2)[of b "r @ c"] by (simp del: valid_utf8.simps)
qed simp

end
