(* ===== verification/SecureDb.thy ===== *)
theory SecureDb
  imports Objects RustString "HOL-Library.Sublist" "HOL-Library.List_Lexorder" "HOL-Library.Char_ord"
begin

text \<open>
  The key-value store over secure storage, \<^verbatim>\<open>crates/secure_db/src/\<close>: the backend that
  saves, loads and deletes one object (\<^verbatim>\<open>backend.rs\<close>), the database that keeps its key
  list in an object of its own (\<^verbatim>\<open>db.rs\<close>), the naming scheme of stored values
  (\<^verbatim>\<open>storable.rs\<close>) and the client (\<^verbatim>\<open>client.rs\<close>).

  Third-party code is a parameter: \<^verbatim>\<open>bincode\<close> is a
  pair of functions \<open>ser\<close>/\<open>de\<close>, the iteration order of a \<^verbatim>\<open>HashSet\<close> is a function \<open>iter\<close>
  from the set to a list.  The values of \<open>anyhow\<close> record which message is built and
  from what; the text is not modelled.
\<close>

section \<open>Definitions\<close>

subsection \<open>Backend\<close>

datatype anyhow =
    FailedToCreate bytes Error
  | FailedToOpen bytes Error
  | FailedToRead bytes
  | FromTee Error
  | FromBincode
  | SaveError anyhow
  | LoadError anyhow
  | DeleteError anyhow
  | KeyNotInList
  | NotFoundInDb
  | LockPoisoned

definition save_in_secure_storage :: "'w obj_api \<Rightarrow> bytes \<Rightarrow> bytes \<Rightarrow> 'w \<Rightarrow> (anyhow + unit) \<times> 'w" where
  "save_in_secure_storage T obj_id data w =
     (let obj_data_flag =
            or (or (or DataFlag_ACCESS_READ DataFlag_ACCESS_WRITE) DataFlag_ACCESS_WRITE_META)
              DataFlag_OVERWRITE
      in case PersistentObject_create T Private obj_id obj_data_flag None data w of
           (Inl e, w1) \<Rightarrow> (Inl (FailedToCreate obj_id e), w1)
         | (Inr object, w1) \<Rightarrow> (Inr (), PersistentObject_drop T object w1))"

definition load_from_secure_storage :: "'w obj_api \<Rightarrow> bytes \<Rightarrow> 'w \<Rightarrow> (anyhow + bytes option) \<times> 'w" where
  "load_from_secure_storage T obj_id w =
     (case PersistentObject_open T Private obj_id (or DataFlag_ACCESS_READ DataFlag_SHARE_READ) w of
        (Inl e, w1) \<Rightarrow>
          (case kind e of
             ItemNotFound \<Rightarrow> (Inr None, w1)
           | _ \<Rightarrow> (Inl (FailedToOpen obj_id e), w1))
      | (Inr object, w1) \<Rightarrow>
          (case obj_info T (po_raw object) w1 of
             (Inl e, w2) \<Rightarrow> (Inl (FromTee e), PersistentObject_drop T object w2)
           | (Inr info, w2) \<Rightarrow>
               (case po_read T object (replicate (data_size info) 0) w2 of
                  (Inl e, _, w3) \<Rightarrow> (Inl (FromTee e), PersistentObject_drop T object w3)
                | (Inr read_bytes, buf, w3) \<Rightarrow>
                    if read_bytes \<noteq> of_nat (data_size info)
                    then (Inl (FailedToRead obj_id), PersistentObject_drop T object w3)
                    else (Inr (Some buf), PersistentObject_drop T object w3))))"

definition delete_from_secure_storage :: "'w obj_api \<Rightarrow> bytes \<Rightarrow> 'w \<Rightarrow> (anyhow + unit) \<times> 'w" where
  "delete_from_secure_storage T obj_id w =
     (case PersistentObject_open T Private obj_id (or DataFlag_ACCESS_READ DataFlag_ACCESS_WRITE_META) w of
        (Inl e, w1) \<Rightarrow> (Inl (FailedToOpen obj_id e), w1)
      | (Inr object, w1) \<Rightarrow>
          (case close_and_delete T object w1 of
             (Inl e, w2) \<Rightarrow> (Inl (FromTee e), w2)
           | (Inr _, w2) \<Rightarrow> (Inr (), w2)))"

subsection \<open>SecureStorageDb\<close>

record SecureStorageDb =
  db_name :: string
  db_key_list :: "string set"

record bincode =
  bc_ser :: "string set \<Rightarrow> bytes option"
  bc_de :: "bytes \<Rightarrow> string set option"

definition bincode_ok :: "bincode \<Rightarrow> bool" where
  "bincode_ok B \<longleftrightarrow> (\<forall>S b. bc_ser B S = Some b \<longrightarrow> bc_de B b = Some S)"

definition iter_ok :: "(string set \<Rightarrow> string list) \<Rightarrow> bool" where
  "iter_ok iter \<longleftrightarrow> (\<forall>S. finite S \<longrightarrow> set (iter S) = S \<and> distinct (iter S))"

definition SecureStorageDb_open ::
    "'w obj_api \<Rightarrow> bincode \<Rightarrow> string \<Rightarrow> 'w \<Rightarrow> (anyhow + SecureStorageDb) \<times> 'w" where
  "SecureStorageDb_open T B name w =
     (case load_from_secure_storage T (as_bytes name) w of
        (Inl e, w1) \<Rightarrow> (Inl e, w1)
      | (Inr (Some data), w1) \<Rightarrow>
          (case bc_de B data of
             None \<Rightarrow> (Inl FromBincode, w1)
           | Some key_list \<Rightarrow> (Inr \<lparr>db_name = name, db_key_list = key_list\<rparr>, w1))
      | (Inr None, w1) \<Rightarrow> (Inr \<lparr>db_name = name, db_key_list = {}\<rparr>, w1))"

definition store_key_list :: "'w obj_api \<Rightarrow> bincode \<Rightarrow> SecureStorageDb \<Rightarrow> 'w \<Rightarrow> (anyhow + unit) \<times> 'w" where
  "store_key_list T B self w =
     (case bc_ser B (db_key_list self) of
        None \<Rightarrow> (Inl FromBincode, w)
      | Some key_list \<Rightarrow> save_in_secure_storage T (as_bytes (db_name self)) key_list w)"

definition db_put ::
    "'w obj_api \<Rightarrow> bincode \<Rightarrow> SecureStorageDb \<Rightarrow> string \<Rightarrow> bytes \<Rightarrow> 'w \<Rightarrow>
     (anyhow + unit) \<times> SecureStorageDb \<times> 'w" where
  "db_put T B self key v w =
     (case save_in_secure_storage T (as_bytes key) v w of
        (Inl e, w1) \<Rightarrow> (Inl (SaveError e), self, w1)
      | (Inr _, w1) \<Rightarrow>
          (let self' = self\<lparr>db_key_list := insert key (db_key_list self)\<rparr>
           in case store_key_list T B self' w1 of (r, w2) \<Rightarrow> (r, self', w2)))"

definition db_get :: "'w obj_api \<Rightarrow> SecureStorageDb \<Rightarrow> string \<Rightarrow> 'w \<Rightarrow> (anyhow + bytes) \<times> 'w" where
  "db_get T self key w =
     (if key \<notin> db_key_list self then (Inl KeyNotInList, w)
      else case load_from_secure_storage T (as_bytes key) w of
             (Inl e, w1) \<Rightarrow> (Inl (LoadError e), w1)
           | (Inr x, w1) \<Rightarrow> (ok_or x NotFoundInDb, w1))"

definition db_delete ::
    "'w obj_api \<Rightarrow> bincode \<Rightarrow> SecureStorageDb \<Rightarrow> string \<Rightarrow> 'w \<Rightarrow> (anyhow + unit) \<times> SecureStorageDb \<times> 'w" where
  "db_delete T B self key w =
     (if key \<notin> db_key_list self then (Inl KeyNotInList, self, w)
      else case delete_from_secure_storage T (as_bytes key) w of
             (Inl e, w1) \<Rightarrow> (Inl (DeleteError e), self, w1)
           | (Inr _, w1) \<Rightarrow>
               (let self' = self\<lparr>db_key_list := db_key_list self - {key}\<rparr>
                in case store_key_list T B self' w1 of (r, w2) \<Rightarrow> (r, self', w2)))"

fun db_clear_loop ::
    "'w obj_api \<Rightarrow> bincode \<Rightarrow> SecureStorageDb \<Rightarrow> string list \<Rightarrow> 'w \<Rightarrow> (anyhow + unit) \<times> SecureStorageDb \<times> 'w" where
  "db_clear_loop T B self [] w = (Inr (), self, w)"
| "db_clear_loop T B self (key # keys) w =
     (case db_delete T B self key w of
        (Inl e, self', w1) \<Rightarrow> (Inl e, self', w1)
      | (Inr _, self', w1) \<Rightarrow> db_clear_loop T B self' keys w1)"

definition db_clear ::
    "'w obj_api \<Rightarrow> bincode \<Rightarrow> (string set \<Rightarrow> string list) \<Rightarrow> SecureStorageDb \<Rightarrow> 'w \<Rightarrow>
     (anyhow + unit) \<times> SecureStorageDb \<times> 'w" where
  "db_clear T B iter self w = db_clear_loop T B self (iter (db_key_list self)) w"

fun db_list_loop ::
    "'w obj_api \<Rightarrow> SecureStorageDb \<Rightarrow> string \<Rightarrow> string list \<Rightarrow> (string \<rightharpoonup> bytes) \<Rightarrow> 'w \<Rightarrow>
     (anyhow + (string \<rightharpoonup> bytes)) \<times> 'w" where
  "db_list_loop T self pre [] result w = (Inr result, w)"
| "db_list_loop T self pre (key # keys) result w =
     (if prefix pre key then
        (case db_get T self key w of
           (Inl e, w1) \<Rightarrow> (Inl e, w1)
         | (Inr v, w1) \<Rightarrow> db_list_loop T self pre keys (result(key \<mapsto> v)) w1)
      else db_list_loop T self pre keys result w)"

definition list_entries_with_prefix ::
    "'w obj_api \<Rightarrow> (string set \<Rightarrow> string list) \<Rightarrow> SecureStorageDb \<Rightarrow> string \<Rightarrow> 'w \<Rightarrow>
     (anyhow + (string \<rightharpoonup> bytes)) \<times> 'w" where
  "list_entries_with_prefix T iter self pre w =
     db_list_loop T self pre (iter (db_key_list self)) Map.empty w"

subsection \<open>Storable and SecureStorageClient\<close>

text \<open>\<^verbatim>\<open>split("::")\<close> cuts from left to right; \<open>cur\<close> is the piece being read, reversed.\<close>

fun split_colons :: "string \<Rightarrow> string \<Rightarrow> string list" where
  "split_colons cur [] = [rev cur]"
| "split_colons cur [c] = [rev (c # cur)]"
| "split_colons cur (c # d # s) =
     (if c = CHR '':'' \<and> d = CHR '':'' then rev cur # split_colons [] s else split_colons (c # cur) (d # s))"

record ('k, 'v) storable =
  sb_type_name :: string
  sb_unique_id :: "'v \<Rightarrow> 'k"
  sb_to_string :: "'k \<Rightarrow> string"
  sb_ser :: "'v \<Rightarrow> bytes option"
  sb_de :: "bytes \<Rightarrow> 'v option"

definition CONCAT :: string where
  "CONCAT = ''#''"

definition table_name :: "('k, 'v) storable \<Rightarrow> string" where
  "table_name V = last (split_colons [] (sb_type_name V))"

definition storage_key :: "('k, 'v) storable \<Rightarrow> 'v \<Rightarrow> string" where
  "storage_key V v = table_name V @ CONCAT @ sb_to_string V (sb_unique_id V v)"

definition concat_key :: "('k, 'v) storable \<Rightarrow> string \<Rightarrow> string" where
  "concat_key V key = table_name V @ CONCAT @ key"

text \<open>The client shares the database behind a lock, which can be poisoned.\<close>

record SecureStorageClient =
  client_db :: SecureStorageDb
  client_poisoned :: bool

definition SecureStorageClient_open ::
    "'w obj_api \<Rightarrow> bincode \<Rightarrow> string \<Rightarrow> 'w \<Rightarrow> (anyhow + SecureStorageClient) \<times> 'w" where
  "SecureStorageClient_open T B name w =
     (case SecureStorageDb_open T B name w of
        (Inl e, w1) \<Rightarrow> (Inl e, w1)
      | (Inr d, w1) \<Rightarrow> (Inr \<lparr>client_db = d, client_poisoned = False\<rparr>, w1))"

definition client_get ::
    "'w obj_api \<Rightarrow> ('k, 'v) storable \<Rightarrow> SecureStorageClient \<Rightarrow> 'k \<Rightarrow> 'w \<Rightarrow> (anyhow + 'v) \<times> 'w" where
  "client_get T V self key w =
     (if client_poisoned self then (Inl LockPoisoned, w)
      else case db_get T (client_db self) (concat_key V (sb_to_string V key)) w of
             (Inl e, w1) \<Rightarrow> (Inl e, w1)
           | (Inr v, w1) \<Rightarrow> (ok_or (sb_de V v) FromBincode, w1))"

definition client_put ::
    "'w obj_api \<Rightarrow> bincode \<Rightarrow> ('k, 'v) storable \<Rightarrow> SecureStorageClient \<Rightarrow> 'v \<Rightarrow> 'w \<Rightarrow>
     (anyhow + unit) \<times> SecureStorageClient \<times> 'w" where
  "client_put T B V self v w =
     (case sb_ser V v of
        None \<Rightarrow> (Inl FromBincode, self, w)
      | Some b \<Rightarrow>
          if client_poisoned self then (Inl LockPoisoned, self, w)
          else case db_put T B (client_db self) (storage_key V v) b w of
                 (r, d, w1) \<Rightarrow> (r, self\<lparr>client_db := d\<rparr>, w1))"

definition client_delete_entry ::
    "'w obj_api \<Rightarrow> bincode \<Rightarrow> ('k, 'v) storable \<Rightarrow> SecureStorageClient \<Rightarrow> 'k \<Rightarrow> 'w \<Rightarrow>
     (anyhow + unit) \<times> SecureStorageClient \<times> 'w" where
  "client_delete_entry T B V self key w =
     (if client_poisoned self then (Inl LockPoisoned, self, w)
      else case db_delete T B (client_db self) (concat_key V (sb_to_string V key)) w of
             (r, d, w1) \<Rightarrow> (r, self\<lparr>client_db := d\<rparr>, w1))"

text \<open>The loop of \<^verbatim>\<open>list_entries\<close> over the map, in the order \<open>ks\<close> in which it is visited.\<close>

fun client_list_loop ::
    "('k, 'v) storable \<Rightarrow> (string \<rightharpoonup> bytes) \<Rightarrow> string list \<Rightarrow> ('k \<rightharpoonup> 'v) \<Rightarrow> anyhow + ('k \<rightharpoonup> 'v)" where
  "client_list_loop V m [] result = Inr result"
| "client_list_loop V m (k # ks) result =
     (case m k of
        None \<Rightarrow> client_list_loop V m ks result
      | Some b \<Rightarrow>
          (case sb_de V b of
             None \<Rightarrow> Inl FromBincode
           | Some v \<Rightarrow> client_list_loop V m ks (result(sb_unique_id V v \<mapsto> v))))"

definition client_list_entries ::
    "'w obj_api \<Rightarrow> (string set \<Rightarrow> string list) \<Rightarrow> ('k, 'v) storable \<Rightarrow> SecureStorageClient \<Rightarrow> 'w \<Rightarrow>
     (anyhow + ('k \<rightharpoonup> 'v)) \<times> 'w" where
  "client_list_entries T iter V self w =
     (if client_poisoned self then (Inl LockPoisoned, w)
      else case list_entries_with_prefix T iter (client_db self) (table_name V) w of
             (Inl e, w1) \<Rightarrow> (Inl e, w1)
           | (Inr m, w1) \<Rightarrow> (client_list_loop V m (iter (dom m)) Map.empty, w1))"

subsection \<open>The abstract store\<close>

text \<open>
  What the database promises: a finite map from keys to values.  \<open>kv_step\<close> gives the
  answer and the new map of each operation; \<open>db_exec\<close> runs the operation on the real
  database, where reopening it discards the in-memory state and loads it again.
\<close>

datatype db_op =
    Op_put string bytes
  | Op_get string
  | Op_delete string
  | Op_clear
  | Op_list string
  | Op_reopen

datatype db_answer = Done | Value bytes | Entries "string \<rightharpoonup> bytes"

fun kv_step :: "db_op \<Rightarrow> (string \<rightharpoonup> bytes) \<Rightarrow> db_answer option \<times> (string \<rightharpoonup> bytes)" where
  "kv_step (Op_put k v) M = (Some Done, M(k \<mapsto> v))"
| "kv_step (Op_get k) M = (map_option Value (M k), M)"
| "kv_step (Op_delete k) M = (if k \<in> dom M then Some Done else None, M(k := None))"
| "kv_step Op_clear M = (Some Done, Map.empty)"
| "kv_step (Op_list pre) M = (Some (Entries (M |` {k. prefix pre k})), M)"
| "kv_step Op_reopen M = (Some Done, M)"

fun kv_run :: "db_op list \<Rightarrow> (string \<rightharpoonup> bytes) \<Rightarrow> db_answer option list \<times> (string \<rightharpoonup> bytes)" where
  "kv_run [] M = ([], M)"
| "kv_run (x # xs) M = (case kv_step x M of (a, M1) \<Rightarrow> case kv_run xs M1 of (as, M2) \<Rightarrow> (a # as, M2))"

fun db_exec ::
    "'w obj_api \<Rightarrow> bincode \<Rightarrow> (string set \<Rightarrow> string list) \<Rightarrow> db_op \<Rightarrow> SecureStorageDb \<Rightarrow> 'w \<Rightarrow>
     (anyhow + db_answer) \<times> SecureStorageDb \<times> 'w" where
  "db_exec T B iter (Op_put k v) d w =
     (case db_put T B d k v w of (r, d', w') \<Rightarrow> (try_bind r (\<lambda>_. Inr Done), d', w'))"
| "db_exec T B iter (Op_get k) d w =
     (case db_get T d k w of (r, w') \<Rightarrow> (try_bind r (\<lambda>v. Inr (Value v)), d, w'))"
| "db_exec T B iter (Op_delete k) d w =
     (case db_delete T B d k w of (r, d', w') \<Rightarrow> (try_bind r (\<lambda>_. Inr Done), d', w'))"
| "db_exec T B iter Op_clear d w =
     (case db_clear T B iter d w of (r, d', w') \<Rightarrow> (try_bind r (\<lambda>_. Inr Done), d', w'))"
| "db_exec T B iter (Op_list pre) d w =
     (case list_entries_with_prefix T iter d pre w of (r, w') \<Rightarrow> (try_bind r (\<lambda>m. Inr (Entries m)), d, w'))"
| "db_exec T B iter Op_reopen d w =
     (case SecureStorageDb_open T B (db_name d) w of
        (Inl e, w') \<Rightarrow> (Inl e, d, w')
      | (Inr d', w') \<Rightarrow> (Inr Done, d', w'))"

text \<open>Running a list of operations until one fails.\<close>

fun db_run ::
    "'w obj_api \<Rightarrow> bincode \<Rightarrow> (string set \<Rightarrow> string list) \<Rightarrow> db_op list \<Rightarrow> SecureStorageDb \<Rightarrow> 'w \<Rightarrow>
     (anyhow + db_answer list) \<times> SecureStorageDb \<times> 'w" where
  "db_run T B iter [] d w = (Inr [], d, w)"
| "db_run T B iter (x # xs) d w =
     (case db_exec T B iter x d w of
        (Inl e, d', w') \<Rightarrow> (Inl e, d', w')
      | (Inr a, d', w') \<Rightarrow>
          (case db_run T B iter xs d' w' of
             (Inl e, d2, w2) \<Rightarrow> (Inl e, d2, w2)
           | (Inr as, d2, w2) \<Rightarrow> (Inr (a # as), d2, w2)))"

text \<open>The object named like the database holds its key list, so that name is not a key.\<close>

fun db_op_ok :: "string \<Rightarrow> db_op \<Rightarrow> bool" where
  "db_op_ok name (Op_put k v) = (k \<noteq> name)"
| "db_op_ok name _ = True"

text \<open>The abstraction relation.\<close>

definition db_rel ::
    "('w \<Rightarrow> bytes \<Rightarrow> bytes option) \<Rightarrow> bincode \<Rightarrow> 'w \<Rightarrow> SecureStorageDb \<Rightarrow> (string \<rightharpoonup> bytes) \<Rightarrow> bool" where
  "db_rel objs B w d M \<longleftrightarrow>
     finite (dom M) \<and> db_key_list d = dom M \<and> db_name d \<notin> dom M \<and>
     (\<forall>k v. M k = Some v \<longrightarrow> objs w (as_bytes k) = Some v) \<and>
     (case objs w (as_bytes (db_name d)) of
        None \<Rightarrow> dom M = {}
      | Some b \<Rightarrow> bc_de B b = Some (dom M))"

section \<open>Lemmas\<close>

text \<open>The three backend functions close what they open, and act on their object only.\<close>

lemma overwrite_flag:
  "or (or (or DataFlag_ACCESS_READ DataFlag_ACCESS_WRITE) DataFlag_ACCESS_WRITE_META) DataFlag_OVERWRITE
     AND TEE_DATA_FLAG_OVERWRITE \<noteq> 0"
  by (simp add: raw_consts)

lemma save_effect:
  assumes S: "obj_store_ok T objs hnd" and "save_in_secure_storage T i d w = (r, w')"
  shows "hnd w' = hnd w \<and> (case r of Inl _ \<Rightarrow> objs w' = objs w | Inr _ \<Rightarrow> objs w' = (objs w)(i \<mapsto> d))"
proof -
  let ?f = "or (or (or DataFlag_ACCESS_READ DataFlag_ACCESS_WRITE) DataFlag_ACCESS_WRITE_META) DataFlag_OVERWRITE"
  obtain code h w1 where c: "TEE_CreatePersistentObject T TEE_STORAGE_PRIVATE i ?f 0 d w = ((code, h), w1)"
    by (metis surj_pair)
  note C = obj_store_createD[OF S c overwrite_flag]
  show ?thesis
  proof (cases "code = TEE_SUCCESS")
    case True
    with C have h: "h \<noteq> 0" "hnd w h = None" "objs w1 = (objs w)(i \<mapsto> d)" "hnd w1 = (hnd w)(h \<mapsto> (i, 0))"
      by simp_all
    have "r = Inr ()" "w' = TEE_CloseObject T h w1"
      using assms(2) c[unfolded TEE_STORAGE_PRIVATE_def] True h(1)
      by (auto simp: save_in_secure_storage_def Let_def PersistentObject_create_def drop_attributes_def tee_check_def ObjectHandle_from_raw_def PersistentObject_drop_def
          ObjectHandle_drop_def ObjectHandle_is_null_def)
    with h obj_store_closeD[OF S, of h w1] show ?thesis by (simp add: fun_upd_idem)
  next
    case False
    with C assms(2) c[unfolded TEE_STORAGE_PRIVATE_def] show ?thesis
      by (auto simp: save_in_secure_storage_def Let_def PersistentObject_create_def drop_attributes_def tee_check_def)
  qed
qed

lemma kind_not_found: "kind (from_raw_error c) = ItemNotFound \<longleftrightarrow> c = TEE_ERROR_ITEM_NOT_FOUND"
proof -
  have "kind (from_raw_error c) = ItemNotFound \<longleftrightarrow> ErrorKind_from c = ItemNotFound"
    by (simp add: from_raw_error_def Error_from_def)
  also have "\<dots> \<longleftrightarrow> c = ErrorKind_into ItemNotFound"
    using ErrorKind_from_into_iff[of ItemNotFound] by (metis ErrorKind.distinct ErrorKind_into_from)
  finally show ?thesis by simp
qed

lemma open_effect:
  assumes S: "obj_store_ok T objs hnd" and "PersistentObject_open T Private i f w = (r, w1)"
  shows "objs w1 = objs w \<and>
    (case r of
       Inl e \<Rightarrow> hnd w1 = hnd w \<and> (kind e = ItemNotFound \<longrightarrow> objs w i = None)
     | Inr p \<Rightarrow> po_raw p \<noteq> 0 \<and> hnd w (po_raw p) = None \<and> objs w i \<noteq> None \<and>
         hnd w1 = (hnd w)(po_raw p \<mapsto> (i, 0)))"
proof -
  obtain code h w2 where o: "TEE_OpenPersistentObject T TEE_STORAGE_PRIVATE i f w = ((code, h), w2)"
    by (metis surj_pair)
  from obj_store_openD[OF S o] assms(2) o[unfolded TEE_STORAGE_PRIVATE_def] show ?thesis
    by (auto simp: PersistentObject_open_def tee_check_def ObjectHandle_from_raw_def
        po_raw_def kind_not_found split: if_splits)
qed

lemma drop_effect:
  assumes "obj_store_ok T objs hnd" and "po_raw p \<noteq> 0"
  shows "objs (PersistentObject_drop T p w) = objs w"
    and "hnd (PersistentObject_drop T p w) = (hnd w)(po_raw p := None)"
  using assms(2) obj_store_closeD[OF assms(1)]
  by (simp_all add: PersistentObject_drop_def ObjectHandle_drop_def ObjectHandle_is_null_def po_raw_def)

lemma load_effect:
  assumes S: "obj_store_ok T objs hnd" and l: "load_from_secure_storage T i w = (r, w')"
  shows "objs w' = objs w \<and> hnd w' = hnd w \<and> (\<forall>x. r = Inr x \<longrightarrow> x = objs w i)"
proof -
  obtain ro w1 where o: "PersistentObject_open T Private i (or DataFlag_ACCESS_READ DataFlag_SHARE_READ) w = (ro, w1)"
    by (metis surj_pair)
  note O = open_effect[OF S o]
  show ?thesis
  proof (cases ro)
    case (Inl e)
    then show ?thesis using l o O
      by (auto simp: load_from_secure_storage_def split: ErrorKind.splits)
  next
    case (Inr p)
    with O obtain data where d: "objs w1 i = Some data" and h: "hnd w1 (po_raw p) = Some (i, 0)"
      and p: "po_raw p \<noteq> 0" "hnd w (po_raw p) = None" "hnd w1 = (hnd w)(po_raw p \<mapsto> (i, 0))" by auto
    obtain c2 info w2 where g: "TEE_GetObjectInfo1 T (po_raw p) w1 = ((c2, info), w2)" by (metis surj_pair)
    note I = obj_store_infoD[OF S g]
    have d2: "objs w2 i = Some data" and h2: "hnd w2 (po_raw p) = Some (i, 0)" using I d h by simp_all
    obtain c3 stored count w3 where
      rd: "TEE_ReadObjectData T (po_raw p) (dataSize info) w2 = ((c3, stored, count), w3)" by (metis surj_pair)
    note R = obj_store_readD[OF S rd h2 d2]
    have res: "w' = PersistentObject_drop T p w2 \<and> (\<exists>e. r = Inl e) \<or>
        w' = PersistentObject_drop T p w3 \<and> (\<forall>x. r = Inr x \<longrightarrow> x = Some data)"
      using l o Inr g rd R I(3)[OF _ h d]
      by (auto simp: load_from_secure_storage_def obj_info_def tee_check_def po_read_def data_size_def
          ObjectInfo_from_raw_def overwrite_def split: if_splits)
    have "(hnd w)(po_raw p := None) = hnd w" using p(2) by (simp add: fun_upd_idem)
    moreover have "hnd w2 = (hnd w)(po_raw p \<mapsto> (i, 0))" using I(2) p(3) by (rule trans)
    moreover have "hnd w3 = (hnd w2)(po_raw p \<mapsto> (i, count)) \<or> hnd w3 = hnd w2"
      using R by (auto split: if_splits)
    ultimately have "hnd (PersistentObject_drop T p w2) = hnd w" "hnd (PersistentObject_drop T p w3) = hnd w"
      using drop_effect(2)[OF S p(1)] by (metis fun_upd_upd)+
    moreover have "objs w1 = objs w" using O by simp
    ultimately show ?thesis using drop_effect(1)[OF S p(1)] I(1) R d res by auto
  qed
qed

lemma delete_effect:
  assumes S: "obj_store_ok T objs hnd" and l: "delete_from_secure_storage T i w = (r, w')"
  shows "hnd w' = hnd w \<and> (case r of Inl _ \<Rightarrow> \<forall>j. j \<noteq> i \<longrightarrow> objs w' j = objs w j | Inr _ \<Rightarrow> objs w' = (objs w)(i := None))"
proof -
  obtain ro w1 where
    o: "PersistentObject_open T Private i (or DataFlag_ACCESS_READ DataFlag_ACCESS_WRITE_META) w = (ro, w1)"
    by (metis surj_pair)
  note O = open_effect[OF S o]
  show ?thesis
  proof (cases ro)
    case (Inl e)
    then show ?thesis using l o O by (auto simp: delete_from_secure_storage_def)
  next
    case (Inr p)
    with O have h: "hnd w1 (po_raw p) = Some (i, 0)" by simp
    obtain code w2 where c: "TEE_CloseAndDeletePersistentObject1 T (po_raw p) w1 = (code, w2)" by fastforce
    from obj_store_deleteD[OF S c h] l o Inr c O show ?thesis
      by (auto simp: delete_from_secure_storage_def close_and_delete_def tee_check_def fun_upd_idem split: if_splits)
  qed
qed

text \<open>Each operation of the database keeps the abstraction relation and leaks no handle.\<close>

lemma db_relD:
  assumes "db_rel objs B w d M"
  shows "finite (dom M)" and "db_key_list d = dom M" and "db_name d \<notin> dom M"
    and "M k = Some v \<Longrightarrow> objs w (as_bytes k) = Some v"
  using assms by (auto simp: db_rel_def)

lemma db_rel_cong:
  assumes "objs w' = objs w"
  shows "db_rel objs B w' d M = db_rel objs B w d M"
  using assms by (simp add: db_rel_def)

lemma store_key_list_effect:
  assumes "obj_store_ok T objs hnd" and "store_key_list T B d w = (r, w')"
  shows "hnd w' = hnd w" and "r = Inr () \<Longrightarrow>
    \<exists>b. bc_ser B (db_key_list d) = Some b \<and> objs w' = (objs w)(as_bytes (db_name d) \<mapsto> b)"
  using assms(2) save_effect[OF assms(1)]
  by (fastforce simp: store_key_list_def split: option.splits)+

lemma store_key_list_rel:
  assumes S: "obj_store_ok T objs hnd" and B: "bincode_ok B"
    and s: "store_key_list T B d w = (Inr (), w')"
    and M: "finite (dom M)" "db_key_list d = dom M" "db_name d \<notin> dom M"
    and v: "\<And>k v. M k = Some v \<Longrightarrow> objs w (as_bytes k) = Some v"
  shows "db_rel objs B w' d M"
proof -
  obtain b where b: "bc_ser B (dom M) = Some b" "objs w' = (objs w)(as_bytes (db_name d) \<mapsto> b)"
    using store_key_list_effect(2)[OF S s] M(2) by auto
  then have "bc_de B b = Some (dom M)" using B by (simp add: bincode_ok_def)
  then show ?thesis using b M v by (auto simp: db_rel_def)
qed

lemma db_put_rel:
  assumes S: "obj_store_ok T objs hnd" and B: "bincode_ok B" and R: "db_rel objs B w d M"
    and p: "db_put T B d k v w = (r, d', w')"
  shows "hnd w' = hnd w" and "db_name d' = db_name d"
    and "r = Inr () \<Longrightarrow> k \<noteq> db_name d \<Longrightarrow> db_rel objs B w' d' (M(k \<mapsto> v))"
proof -
  obtain r1 w1 where s: "save_in_secure_storage T (as_bytes k) v w = (r1, w1)" by fastforce
  note E = save_effect[OF S s]
  let ?d = "d\<lparr>db_key_list := insert k (db_key_list d)\<rparr>"
  obtain r2 w2 where k: "store_key_list T B ?d w1 = (r2, w2)" by fastforce
  have out: "(r, d', w') = (case r1 of Inl e \<Rightarrow> (Inl (SaveError e), d, w1) | Inr _ \<Rightarrow> (r2, ?d, w2))"
    using p s k by (auto simp: db_put_def Let_def split: sum.splits)
  show "hnd w' = hnd w" using out E store_key_list_effect(1)[OF S k] by (auto split: sum.splits)
  show "db_name d' = db_name d" using out by (auto split: sum.splits)
  assume "r = Inr ()" and n: "k \<noteq> db_name d"
  then have d': "d' = ?d" "w' = w2" and r2: "r2 = Inr ()" and o: "objs w1 = (objs w)(as_bytes k \<mapsto> v)"
    using out E by (auto split: sum.splits)
  show "db_rel objs B w' d' (M(k \<mapsto> v))" unfolding d'
    using n db_relD[OF R] o by (intro store_key_list_rel[OF S B k[unfolded r2]]) (auto split: if_splits)
qed

lemma db_get_rel:
  assumes S: "obj_store_ok T objs hnd" and R: "db_rel objs B w d M" and g: "db_get T d k w = (r, w')"
  shows "objs w' = objs w \<and> hnd w' = hnd w \<and>
    (case r of Inr v \<Rightarrow> M k = Some v | Inl e \<Rightarrow> e = KeyNotInList \<longrightarrow> M k = None)"
proof (cases "k \<in> dom M")
  case True
  then obtain v where v: "M k = Some v" by auto
  obtain r1 w1 where l: "load_from_secure_storage T (as_bytes k) w = (r1, w1)" by fastforce
  from load_effect[OF S l] g l True v db_relD[OF R] show ?thesis
    by (auto simp: db_get_def ok_or_def split: sum.splits option.splits)
next
  case False
  with g db_relD(2)[OF R] show ?thesis by (auto simp: db_get_def)
qed

lemma db_get_absent: "k \<notin> db_key_list d \<Longrightarrow> db_get T d k w = (Inl KeyNotInList, w)"
  by (simp add: db_get_def)

lemma db_delete_rel:
  assumes S: "obj_store_ok T objs hnd" and B: "bincode_ok B" and R: "db_rel objs B w d M"
    and p: "db_delete T B d k w = (r, d', w')"
  shows "hnd w' = hnd w" and "db_name d' = db_name d"
    and "r = Inr () \<Longrightarrow> k \<in> dom M \<and> db_rel objs B w' d' (M(k := None))"
proof -
  obtain r1 w1 where s: "delete_from_secure_storage T (as_bytes k) w = (r1, w1)" by fastforce
  note E = delete_effect[OF S s]
  let ?d = "d\<lparr>db_key_list := db_key_list d - {k}\<rparr>"
  obtain r2 w2 where k: "store_key_list T B ?d w1 = (r2, w2)" by fastforce
  have out: "(r, d', w') = (if k \<notin> dom M then (Inl KeyNotInList, d, w) else
      case r1 of Inl e \<Rightarrow> (Inl (DeleteError e), d, w1) | Inr _ \<Rightarrow> (r2, ?d, w2))"
    unfolding p[symmetric] db_delete_def db_relD(2)[OF R]
    using s k db_relD(2)[OF R] by (simp add: Let_def split: sum.splits)
  show "hnd w' = hnd w" using out E store_key_list_effect(1)[OF S k] by (auto split: sum.splits if_splits)
  show "db_name d' = db_name d" using out by (auto split: sum.splits if_splits)
  assume "r = Inr ()"
  then have d': "d' = ?d" "w' = w2" and r2: "r2 = Inr ()" and m: "k \<in> dom M"
    and o: "objs w1 = (objs w)(as_bytes k := None)"
    using out E by (auto split: sum.splits if_splits)
  have "db_rel objs B w' d' (M(k := None))" unfolding d'
    using db_relD[OF R] o by (intro store_key_list_rel[OF S B k[unfolded r2]]) (auto split: if_splits)
  with m show "k \<in> dom M \<and> db_rel objs B w' d' (M(k := None))" by simp
qed

lemma db_clear_loop_rel:
  assumes S: "obj_store_ok T objs hnd" and B: "bincode_ok B"
  shows "db_rel objs B w d M \<Longrightarrow> db_clear_loop T B d ks w = (r, d', w') \<Longrightarrow>
    hnd w' = hnd w \<and> db_name d' = db_name d \<and> (r = Inr () \<longrightarrow> db_rel objs B w' d' (M |` (- set ks)))"
proof (induction ks arbitrary: d w M)
  case Nil
  then show ?case by (simp add: restrict_map_def)
next
  case (Cons k ks)
  obtain r1 d1 w1 where e: "db_delete T B d k w = (r1, d1, w1)" by (metis surj_pair)
  note D = db_delete_rel[OF S B Cons.prems(1) e]
  show ?case
  proof (cases r1)
    case (Inl x)
    with Cons.prems(2) e D(1,2) show ?thesis by auto
  next
    case (Inr u)
    have M: "M(k := None) |` (- set ks) = M |` (- set (k # ks))" by (auto simp: restrict_map_def)
    have "db_rel objs B w1 d1 (M(k := None))" using D(3) Inr by simp
    moreover have "db_clear_loop T B d1 ks w1 = (r, d', w')" using Cons.prems(2) e Inr by simp
    ultimately have "hnd w' = hnd w1 \<and> db_name d' = db_name d1 \<and>
        (r = Inr () \<longrightarrow> db_rel objs B w' d' (M(k := None) |` (- set ks)))"
      by (rule Cons.IH)
    with D(1,2) show ?thesis unfolding M by simp
  qed
qed

lemma db_list_loop_rel:
  assumes S: "obj_store_ok T objs hnd"
  shows "db_rel objs B w d M \<Longrightarrow> db_list_loop T d pre ks acc w = (r, w') \<Longrightarrow> set ks \<subseteq> dom M \<Longrightarrow>
    objs w' = objs w \<and> hnd w' = hnd w \<and>
    (\<forall>m. r = Inr m \<longrightarrow> m = acc ++ M |` {k \<in> set ks. prefix pre k})"
proof (induction ks arbitrary: acc w)
  case Nil
  have "M |` {} = Map.empty" by simp
  with Nil show ?case by auto
next
  case (Cons k ks)
  show ?case
  proof (cases "prefix pre k")
    case False
    then have "{x. (x = k \<or> x \<in> set ks) \<and> prefix pre x} = {x \<in> set ks. prefix pre x}" by auto
    with Cons False show ?thesis by simp
  next
    case True
    obtain r1 w1 where g: "db_get T d k w = (r1, w1)" by fastforce
    note G = db_get_rel[OF S Cons.prems(1) g]
    show ?thesis
    proof (cases r1)
      case (Inl e)
      with Cons.prems(2) G g True show ?thesis by auto
    next
      case (Inr v)
      with G have v: "M k = Some v" and o: "objs w1 = objs w" "hnd w1 = hnd w" by auto
      have acc: "acc(k \<mapsto> v) ++ M |` {x \<in> set ks. prefix pre x} = acc ++ M |` {x \<in> set (k # ks). prefix pre x}"
        using v True by (auto simp: map_add_def restrict_map_def fun_eq_iff split: option.splits)
      have "db_rel objs B w1 d M" using Cons.prems(1) db_rel_cong[where objs = objs, OF o(1)] by simp
      moreover have "db_list_loop T d pre ks (acc(k \<mapsto> v)) w1 = (r, w')" using Cons.prems(2) g True Inr by simp
      moreover have "set ks \<subseteq> dom M" using Cons.prems(3) by simp
      ultimately have "objs w' = objs w1 \<and> hnd w' = hnd w1 \<and>
          (\<forall>m. r = Inr m \<longrightarrow> m = acc(k \<mapsto> v) ++ M |` {k \<in> set ks. prefix pre k})"
        by (rule Cons.IH)
      then show ?thesis unfolding acc o .
    qed
  qed
qed

lemma db_open_rel:
  assumes S: "obj_store_ok T objs hnd" and R: "db_rel objs B w d M"
    and p: "SecureStorageDb_open T B (db_name d) w = (r, w')"
  shows "objs w' = objs w \<and> hnd w' = hnd w \<and> (\<forall>d'. r = Inr d' \<longrightarrow> d' = d)"
proof -
  obtain r1 w1 where l: "load_from_secure_storage T (as_bytes (db_name d)) w = (r1, w1)" by fastforce
  from load_effect[OF S l] l p R show ?thesis
    by (auto simp: SecureStorageDb_open_def db_rel_def split: sum.splits option.splits)
qed

text \<open>One operation, and a run of operations, against the abstract store.\<close>

lemma db_exec_refines:
  assumes S: "obj_store_ok T objs hnd" and B: "bincode_ok B" and I: "iter_ok iter"
    and R: "db_rel objs B w d M" and ok: "db_op_ok (db_name d) x"
    and e: "db_exec T B iter x d w = (r, d', w')"
  shows "hnd w' = hnd w \<and> db_name d' = db_name d \<and>
    (\<forall>a. r = Inr a \<longrightarrow> fst (kv_step x M) = Some a \<and> db_rel objs B w' d' (snd (kv_step x M)))"
proof (cases x)
  case (Op_put k v)
  obtain r1 d1 w1 where p: "db_put T B d k v w = (r1, d1, w1)" by (metis surj_pair)
  from db_put_rel[OF S B R p] p e ok Op_put show ?thesis by (cases r1) auto
next
  case (Op_get k)
  obtain r1 w1 where g: "db_get T d k w = (r1, w1)" by (metis surj_pair)
  from db_get_rel[OF S R g] g e Op_get R show ?thesis
    by (cases r1) (auto simp: db_rel_cong[where objs = objs and w' = w' and w = w])
next
  case (Op_delete k)
  obtain r1 d1 w1 where p: "db_delete T B d k w = (r1, d1, w1)" by (metis surj_pair)
  from db_delete_rel[OF S B R p] p e Op_delete show ?thesis by (cases r1) auto
next
  case Op_clear
  obtain r1 d1 w1 where c: "db_clear_loop T B d (iter (dom M)) w = (r1, d1, w1)" by (metis surj_pair)
  have "set (iter (dom M)) = dom M" using I db_relD(1)[OF R] by (simp add: iter_ok_def)
  then have "M |` (- set (iter (dom M))) = Map.empty" by (auto simp: restrict_map_def fun_eq_iff domIff)
  with db_clear_loop_rel[OF S B R c] c e Op_clear db_relD(2)[OF R] show ?thesis
    by (cases r1) (auto simp: db_clear_def)
next
  case (Op_list pre)
  obtain r1 w1 where c: "db_list_loop T d pre (iter (dom M)) Map.empty w = (r1, w1)" by (metis surj_pair)
  have i: "set (iter (dom M)) = dom M" using I db_relD(1)[OF R] by (simp add: iter_ok_def)
  then have "M |` {k \<in> set (iter (dom M)). prefix pre k} = M |` {k. prefix pre k}"
    by (auto simp: restrict_map_def fun_eq_iff domIff)
  with db_list_loop_rel[OF S R c] i c e Op_list db_relD(2)[OF R] R show ?thesis
    by (cases r1) (auto simp: list_entries_with_prefix_def db_rel_cong[where objs = objs and w' = w' and w = w])
next
  case Op_reopen
  obtain r1 w1 where p: "SecureStorageDb_open T B (db_name d) w = (r1, w1)" by (metis surj_pair)
  from db_open_rel[OF S R p] p e Op_reopen R show ?thesis
    by (cases r1) (auto simp: db_rel_cong[where objs = objs and w' = w' and w = w])
qed

lemma db_run_refines:
  assumes S: "obj_store_ok T objs hnd" and B: "bincode_ok B" and I: "iter_ok iter"
  shows "db_rel objs B w d M \<Longrightarrow> list_all (db_op_ok (db_name d)) xs \<Longrightarrow>
    db_run T B iter xs d w = (r, d', w') \<Longrightarrow>
    hnd w' = hnd w \<and>
    (\<forall>as. r = Inr as \<longrightarrow> fst (kv_run xs M) = map Some as \<and> db_rel objs B w' d' (snd (kv_run xs M)))"
proof (induction xs arbitrary: d w M r)
  case Nil
  then show ?case by auto
next
  case (Cons x xs)
  obtain r1 d1 w1 where e: "db_exec T B iter x d w = (r1, d1, w1)" by (metis surj_pair)
  have ok: "db_op_ok (db_name d) x" using Cons.prems(2) by simp
  note E = db_exec_refines[OF S B I Cons.prems(1) ok e]
  show ?case
  proof (cases r1)
    case (Inl y)
    with Cons.prems(3) e E show ?thesis by auto
  next
    case (Inr a)
    obtain M1 where k: "kv_step x M = (Some a, M1)" and R1: "db_rel objs B w1 d1 M1"
      using E Inr by (metis prod.collapse)
    obtain r2 d2 w2 where n: "db_run T B iter xs d1 w1 = (r2, d2, w2)" by (metis surj_pair)
    have ok': "list_all (db_op_ok (db_name d1)) xs" using Cons.prems(2) E by simp
    note F = Cons.IH[OF R1 ok']
    show ?thesis using Cons.prems(3) e Inr n F k E by (auto split: sum.splits prod.splits)
  qed
qed

lemma db_open_fresh:
  assumes S: "obj_store_ok T objs hnd" and f: "objs w (as_bytes name) = None"
    and p: "SecureStorageDb_open T B name w = (Inr d, w1)"
  shows "hnd w1 = hnd w" and "db_name d = name" and "db_rel objs B w1 d Map.empty"
proof -
  obtain r1 w2 where l: "load_from_secure_storage T (as_bytes name) w = (r1, w2)" by fastforce
  from load_effect[OF S l] l p f
  show "hnd w1 = hnd w" and "db_name d = name" and "db_rel objs B w1 d Map.empty"
    by (auto simp: SecureStorageDb_open_def db_rel_def split: sum.splits option.splits)
qed

lemma storage_key_concat: "storage_key V v = concat_key V (sb_to_string V (sb_unique_id V v))"
  by (simp add: storage_key_def concat_key_def)

lemma concat_key_inj [simp]: "concat_key V a = concat_key V b \<longleftrightarrow> a = b"
  by (simp add: concat_key_def)

lemma client_get_rel:
  assumes S: "obj_store_ok T objs hnd" and R: "db_rel objs B w (client_db c) M"
    and g: "client_get T V c key w = (Inr v, w')"
  shows "Option.bind (M (concat_key V (sb_to_string V key))) (sb_de V) = Some v \<and> objs w' = objs w \<and> hnd w' = hnd w"
proof -
  obtain r1 w1 where d: "db_get T (client_db c) (concat_key V (sb_to_string V key)) w = (r1, w1)" by fastforce
  from db_get_rel[OF S R d] d g show ?thesis
    by (auto simp: client_get_def ok_or_def split: if_splits sum.splits option.splits)
qed

section \<open>Concrete instances\<close>

text \<open>
  A serialiser that handles sets of at most one key, its length first, and the visiting
  order of a sorted set.
\<close>

definition small_bincode :: bincode where
  "small_bincode =
     \<lparr>bc_ser = (\<lambda>S. case sorted_list_of_set S of
                   [] \<Rightarrow> if S = {} then Some [0] else None
                 | [k] \<Rightarrow> Some (1 # as_bytes k)
                 | _ \<Rightarrow> None),
      bc_de = (\<lambda>b. case b of
                   [] \<Rightarrow> None
                 | n # k \<Rightarrow> Some (if n = 0 then {} else {of_bytes k}))\<rparr>"

lemma small_bincode_ok: "bincode_ok small_bincode"
  unfolding bincode_ok_def
proof (intro allI impI)
  fix S b
  assume a: "bc_ser small_bincode S = Some b"
  show "bc_de small_bincode b = Some S"
  proof (cases "sorted_list_of_set S")
    case Nil
    with a show ?thesis by (auto simp: small_bincode_def split: if_splits)
  next
    case (Cons k ks)
    with a have "ks = []" and b: "b = 1 # as_bytes k"
      by (auto simp: small_bincode_def split: list.splits)
    moreover have "finite S" using Cons by (metis list.distinct(1) sorted_list_of_set.fold_insort_key.infinite)
    ultimately have "S = {k}" using Cons set_sorted_list_of_set[of S] by simp
    with b show ?thesis by (simp add: small_bincode_def of_as_bytes)
  qed
qed

lemma sorted_iter_ok: "iter_ok sorted_list_of_set"
  by (simp add: iter_ok_def)

text \<open>The rules that evaluate a run on the reference store.\<close>

lemma small_bincode_simps:
  "bc_ser small_bincode {} = Some [0]"
  "bc_ser small_bincode {k} = Some (1 # as_bytes k)"
  "bc_de small_bincode (n # b) = Some (if n = 0 then {} else {map (\<lambda>x. char_of (unat x)) b})"
  by (simp_all add: small_bincode_def of_bytes_def)

lemma not_found_kind: "kind (from_raw_error 0xFFFF0008) = ItemNotFound"
  by (simp add: kind_not_found raw_consts)

lemmas db_eval = SecureStorageDb_open_def load_from_secure_storage_def save_in_secure_storage_def
  delete_from_secure_storage_def store_key_list_def db_put_def db_get_def db_delete_def db_clear_def
  list_entries_with_prefix_def PersistentObject_open_def PersistentObject_create_def drop_attributes_def
  tee_check_def ObjectHandle_from_raw_def PersistentObject_drop_def ObjectHandle_drop_def
  ObjectHandle_is_null_def po_raw_def obj_info_def po_read_def data_size_def ObjectInfo_from_raw_def
  overwrite_def ok_or_def ref_obj_api_def rs_hand_out_def ref_info_def rs_empty_def as_bytes_def
  small_bincode_simps not_found_kind char_of_def bit_Suc_0_iff raw_consts

text \<open>A table of single bytes, identified by themselves.\<close>

definition byte_table :: "(u8, u8) storable" where
  "byte_table = \<lparr>sb_type_name = ''app::B'', sb_unique_id = (\<lambda>v. v), sb_to_string = (\<lambda>k. [char_of (unat k)]),
     sb_ser = (\<lambda>v. Some [v]), sb_de = (\<lambda>b. case b of [v] \<Rightarrow> Some v | _ \<Rightarrow> None)\<rparr>"

section \<open>Properties\<close>





text \<open>
  C39.  The key that equals the name of the database is not protected: after putting it,
  a \<^verbatim>\<open>get\<close> does not return the value that was put but the serialised key list, which
  \<^verbatim>\<open>store_key_list\<close> writes over it.
\<close>

theorem key_list_clobbers_value:
  assumes S: "obj_store_ok T objs hnd"
    and put: "db_put T B d (db_name d) v w = (Inr (), d', w')"
    and got: "db_get T d' (db_name d) w' = (Inr x, w'')"
  shows "bc_ser B (insert (db_name d) (db_key_list d)) = Some x"
proof -
  from put obtain w1 where
    k: "store_key_list T B (d\<lparr>db_key_list := insert (db_name d) (db_key_list d)\<rparr>) w1 = (Inr (), w')"
    by (auto simp: db_put_def Let_def split: sum.splits prod.splits)
  obtain r2 w2 where l: "load_from_secure_storage T (as_bytes (db_name d)) w' = (r2, w2)" by fastforce
  from store_key_list_effect(2)[OF S k] load_effect[OF S l] l got show ?thesis
    by (auto simp: db_get_def ok_or_def split: if_splits sum.splits option.splits)
qed

theorem key_list_clobbers_value_witness:
  "\<exists>d' w' w''. db_put ref_obj_api small_bincode \<lparr>db_name = ''d'', db_key_list = {}\<rparr> ''d'' [5] rs_empty = (Inr (), d', w') \<and>
     db_get ref_obj_api d' ''d'' w' = (Inr [1, 100], w'')"
proof -
  let ?d = "\<lparr>db_name = ''d'', db_key_list = {}\<rparr>"
  have "\<exists>d' w' x w''. db_put ref_obj_api small_bincode ?d ''d'' [5] rs_empty = (Inr (), d', w') \<and>
      db_get ref_obj_api d' ''d'' w' = (Inr x, w'')"
    by (simp add: db_eval)
  then obtain d' w' x w'' where p: "db_put ref_obj_api small_bincode ?d ''d'' [5] rs_empty = (Inr (), d', w')"
    and g: "db_get ref_obj_api d' ''d'' w' = (Inr x, w'')" by blast
  have "x = [1, 100]"
    using key_list_clobbers_value[OF ref_obj_store_ok, of small_bincode ?d "[5]" rs_empty d' w' x w''] p g
    by (simp add: small_bincode_simps as_bytes_def)
  with p g show ?thesis by blast
qed

text \<open>
  Listing a table also lists the tables whose name extends its name: the prefix
  that \<^verbatim>\<open>list_entries\<close> looks for is the table name without the separator, so the key of a
  value of the longer table is selected whatever the identifier is.
\<close>

lemma list_selects_longer_tables:
  assumes S: "obj_store_ok T objs hnd" and I: "iter_ok iter" and R: "db_rel objs B w d M"
    and t: "table_name V2 = table_name V @ ext"
    and m: "M (storage_key V2 v) = Some b"
    and l: "list_entries_with_prefix T iter d (table_name V) w = (Inr entries, w')"
  shows "entries (storage_key V2 v) = Some b"
proof -
  have i: "set (iter (dom M)) = dom M" using I db_relD(1)[OF R] by (simp add: iter_ok_def)
  have "prefix (table_name V) (storage_key V2 v)" by (simp add: storage_key_def t)
  with db_list_loop_rel[OF S R, of "table_name V" "iter (dom M)" Map.empty] l i m db_relD(2)[OF R]
  show ?thesis by (auto simp: list_entries_with_prefix_def restrict_map_def)
qed

lemma list_selects_longer_tables_witness:
  "\<exists>entries w'. list_entries_with_prefix ref_obj_api sorted_list_of_set \<lparr>db_name = ''d'', db_key_list = {''B2#A''}\<rparr>
       (table_name byte_table) (rs_empty\<lparr>rs_objs := [as_bytes ''B2#A'' \<mapsto> [65], as_bytes ''d'' \<mapsto> 1 # as_bytes ''B2#A'']\<rparr>)
       = (Inr entries, w') \<and> entries ''B2#A'' = Some [65]"
proof -
  let ?d = "\<lparr>db_name = ''d'', db_key_list = {''B2#A''}\<rparr>"
  let ?w = "rs_empty\<lparr>rs_objs := [as_bytes ''B2#A'' \<mapsto> [65], as_bytes ''d'' \<mapsto> 1 # as_bytes ''B2#A'']\<rparr>"
  let ?V2 = "byte_table\<lparr>sb_type_name := ''app::B2''\<rparr>"
  have t: "table_name ?V2 = table_name byte_table @ ''2''" by (simp add: table_name_def byte_table_def)
  have k: "storage_key ?V2 65 = ''B2#A''"
    by (simp add: storage_key_def table_name_def byte_table_def CONCAT_def char_of_def bit_Suc_0_iff)
  have "\<exists>entries w'. list_entries_with_prefix ref_obj_api sorted_list_of_set ?d (table_name byte_table) ?w = (Inr entries, w')"
    by (simp add: table_name_def byte_table_def db_eval)
  then obtain entries w' where
    l: "list_entries_with_prefix ref_obj_api sorted_list_of_set ?d (table_name byte_table) ?w = (Inr entries, w')" by blast
  have "db_rel rs_objs small_bincode ?w ?d [''B2#A'' \<mapsto> [65]]"
    by (simp add: db_rel_def small_bincode_simps of_as_bytes[unfolded of_bytes_def])
  from list_selects_longer_tables[OF ref_obj_store_ok sorted_iter_ok this t, of 65 "[65]" entries w', unfolded k] l
  show ?thesis by simp
qed

end
