(* ===== verification/Boxes.thy ===== *)
theory Boxes
  imports Objects
begin

text \<open>
  Heap cells.  The wrappers of operations and of enumerators store the
  handle they got from the TEE in a \<^verbatim>\<open>Box\<close>, turned into a raw pointer with
  \<^verbatim>\<open>Box::into_raw\<close>; each use reads the cell, and dropping the wrapper turns the pointer
  back with \<^verbatim>\<open>Box::from_raw\<close> and frees it; the session context of a trusted application is
  kept in the same way.  The cells form a partial map from addresses;
  reading or freeing an address that holds none is undefined behaviour.  The allocator
  is a parameter, which aborts the program when it has no memory left.
\<close>

section \<open>Definitions\<close>

type_synonym 'a cells = "u64 \<rightharpoonup> 'a"
type_synonym 'a cell_allocator = "'a cells \<Rightarrow> u64 option"
type_synonym boxes = "raw_handle cells"
type_synonym allocator = "raw_handle cell_allocator"

datatype 'a run = Undefined | Aborts | Finishes 'a

fun run_map :: "('a \<Rightarrow> 'b) \<Rightarrow> 'a run \<Rightarrow> 'b run" where
  "run_map f Undefined = Undefined"
| "run_map f Aborts = Aborts"
| "run_map f (Finishes a) = Finishes (f a)"

fun run_bind :: "'a run \<Rightarrow> ('a \<Rightarrow> 'b run) \<Rightarrow> 'b run" where
  "run_bind Undefined f = Undefined"
| "run_bind Aborts f = Aborts"
| "run_bind (Finishes a) f = f a"

definition box_new :: "'a cell_allocator \<Rightarrow> 'a \<Rightarrow> 'a cells \<Rightarrow> (u64 \<times> 'a cells) run" where
  "box_new alloc h b = (case alloc b of None \<Rightarrow> Aborts | Some a \<Rightarrow> Finishes (a, b(a \<mapsto> h)))"

definition box_read :: "'a cells \<Rightarrow> u64 \<Rightarrow> 'a run" where
  "box_read b a = (case b a of None \<Rightarrow> Undefined | Some h \<Rightarrow> Finishes h)"

definition box_free :: "u64 \<Rightarrow> 'a cells \<Rightarrow> 'a cells run" where
  "box_free a b = (case b a of None \<Rightarrow> Undefined | Some h \<Rightarrow> Finishes (b(a := None)))"

text \<open>What is documented of the allocator: a new cell is not null and not in use.\<close>

definition allocator_ok :: "'a cell_allocator \<Rightarrow> bool" where
  "allocator_ok alloc \<longleftrightarrow> (\<forall>b a. alloc b = Some a \<longrightarrow> a \<noteq> 0 \<and> b a = None)"

text \<open>A concrete allocator with two cells.\<close>

definition two_cells :: "'a cell_allocator" where
  "two_cells b = (if b 8 = None then Some 8 else if b 16 = None then Some 16 else None)"

text \<open>The wrappers at the addresses \<open>as\<close> own their cells and the handles in them.\<close>

definition owns_boxes ::
    "('w \<Rightarrow> raw_handle set) \<Rightarrow> raw_handle set \<Rightarrow> u64 list \<Rightarrow> 'w \<Rightarrow> boxes \<Rightarrow> bool" where
  "owns_boxes live L as w b \<longleftrightarrow>
     distinct as \<and> set as \<subseteq> dom b \<and> b 0 = None \<and> owns live L (map (\<lambda>a. the (b a)) as) w"

section \<open>Lemmas\<close>

lemma run_map_eq_simps [simp]:
  "run_map f r = Undefined \<longleftrightarrow> r = Undefined"
  "run_map f r = Finishes c \<longleftrightarrow> (\<exists>a. r = Finishes a \<and> c = f a)"
  "Finishes c = run_map f r \<longleftrightarrow> (\<exists>a. r = Finishes a \<and> c = f a)"
  by (cases r; auto)+

lemma run_bind_Finishes [simp]:
  "run_bind r f = Finishes c \<longleftrightarrow> (\<exists>a. r = Finishes a \<and> f a = Finishes c)"
  by (cases r) auto

lemma box_read_eq [simp]:
  "box_read b a = Finishes h \<longleftrightarrow> b a = Some h"
  "box_read b a = Undefined \<longleftrightarrow> b a = None"
  by (auto simp: box_read_def split: option.splits)

lemma box_free_eq [simp]:
  "box_free a b = Finishes b' \<longleftrightarrow> a \<in> dom b \<and> b' = b(a := None)"
  "box_free a b = Undefined \<longleftrightarrow> b a = None"
  by (auto simp: box_free_def split: option.splits)

lemma box_new_Finishes [simp]:
  "box_new alloc h b = Finishes (a, b') \<longleftrightarrow> alloc b = Some a \<and> b' = b(a \<mapsto> h)"
  by (auto simp: box_new_def split: option.splits)

lemma two_cells_ok: "allocator_ok two_cells"
  by (simp add: allocator_ok_def two_cells_def)

lemma owns_boxes_start: "b 0 = None \<Longrightarrow> owns_boxes live (live w) [] w b"
  by (simp add: owns_boxes_def owns_start)

lemma owns_boxes_neutral:
  assumes "owns_boxes live L as w b" and "live w' = live w" and "b \<subseteq>\<^sub>m b'" and "b' 0 = None"
  shows "owns_boxes live L as w' b'"
proof -
  have dom: "set as \<subseteq> dom b" using assms(1) by (simp add: owns_boxes_def)
  have "b' a = b a" if "a \<in> set as" for a
  proof -
    have "a \<in> dom b" using dom that by blast
    then show ?thesis using assms(3) unfolding map_le_def by metis
  qed
  then have m: "map (\<lambda>a. the (b' a)) as = map (\<lambda>a. the (b a)) as" by simp
  have "set as \<subseteq> dom b'" using dom map_le_implies_dom_le[OF assms(3)] by blast
  moreover have "owns live L (map (\<lambda>a. the (b a)) as) w" using assms(1) by (simp add: owns_boxes_def)
  then have "owns live L (map (\<lambda>a. the (b a)) as) w'" using assms(2) by (rule owns_neutral)
  ultimately show ?thesis using assms(1,4) unfolding owns_boxes_def m by blast
qed

lemma owns_boxes_acquire:
  assumes O: "owns_boxes live L as w b" and a: "a \<noteq> 0" "b a = None"
    and h: "h \<notin> live w" "live w' = insert h (live w)"
  shows "owns_boxes live L (a # as) w' (b(a \<mapsto> h))"
proof -
  have n: "a \<notin> set as" using O a by (auto simp: owns_boxes_def)
  have m: "map (\<lambda>x. the ((b(a \<mapsto> h)) x)) (a # as) = h # map (\<lambda>x. the (b x)) as" using n by auto
  have "owns live L (map (\<lambda>x. the ((b(a \<mapsto> h)) x)) (a # as)) w'"
    unfolding m using O h by (intro owns_acquire) (auto simp: owns_boxes_def)
  with O n a show ?thesis unfolding owns_boxes_def by (intro conjI) auto
qed

lemma owns_boxes_release:
  assumes O: "owns_boxes live L as w b" and a: "a \<in> set as" and w: "live w' = live w - {the (b a)}"
  shows "owns_boxes live L (remove1 a as) w' (b(a := None))"
proof -
  let ?f = "\<lambda>x. the (b x)"
  have d: "distinct as" and dm: "distinct (map ?f as)" and L: "live w = L \<union> ?f ` set as" "L \<inter> ?f ` set as = {}"
    using O by (simp_all add: owns_boxes_def owns_def)
  have inj: "inj_on ?f (set as)" using dm by (simp add: distinct_map)
  have s: "set (remove1 a as) = set as - {a}" using d by simp
  have m: "map (\<lambda>x. the ((b(a := None)) x)) (remove1 a as) = map ?f (remove1 a as)" using s by auto
  have "?f ` (set as - {a}) = ?f ` set as - {?f a}"
    using inj_on_image_set_diff[OF inj, of "set as" "{a}"] a by auto
  then have "owns live L (map (\<lambda>x. the ((b(a := None)) x)) (remove1 a as)) w'"
    unfolding m using L w a inj_on_subset[OF inj, of "set as - {a}"] d s
    by (auto simp: owns_def distinct_map)
  with O s d show ?thesis unfolding owns_boxes_def by (intro conjI) auto
qed

end
