(* ===== verification/ObjectEnum.thy ===== *)
theory ObjectEnum
  imports Boxes
begin

text \<open>
  Enumerators of persistent objects, \<^verbatim>\<open>optee-utee/src/object/enum_handle.rs\<close>.  The functions
  of the TEE are a parameter; \<open>enum_api_ok\<close> states what is relied on.
\<close>

section \<open>Definitions\<close>

record 'w enum_api =
  TEE_AllocatePersistentObjectEnumerator :: "'w \<Rightarrow> (u32 \<times> raw_handle) \<times> 'w"
  TEE_FreePersistentObjectEnumerator :: "raw_handle \<Rightarrow> 'w \<Rightarrow> 'w"
  TEE_ResetPersistentObjectEnumerator :: "raw_handle \<Rightarrow> 'w \<Rightarrow> 'w"
  TEE_StartPersistentObjectEnumerator :: "raw_handle \<Rightarrow> u32 \<Rightarrow> 'w \<Rightarrow> u32 \<times> 'w"
  TEE_GetNextPersistentObject :: "raw_handle \<Rightarrow> usize \<Rightarrow> 'w \<Rightarrow> (u32 \<times> TEE_ObjectInfo \<times> bytes \<times> usize) \<times> 'w"

definition enum_api_ok :: "'w enum_api \<Rightarrow> ('w \<Rightarrow> raw_handle set) \<Rightarrow> bool" where
  "enum_api_ok T live \<longleftrightarrow>
     (\<forall>w. gives_handle live w (TEE_AllocatePersistentObjectEnumerator T w)) \<and>
     (\<forall>h w. live (TEE_FreePersistentObjectEnumerator T h w) = live w - {h}) \<and>
     (\<forall>h w. live (TEE_ResetPersistentObjectEnumerator T h w) = live w) \<and>
     (\<forall>h s w. live (snd (TEE_StartPersistentObjectEnumerator T h s w)) = live w) \<and>
     (\<forall>h n w. live (snd (TEE_GetNextPersistentObject T h n w)) = live w)"

record ObjectEnumHandle =
  oe_raw :: u64

definition ObjectEnumHandle_allocate ::
    "'w enum_api \<Rightarrow> allocator \<Rightarrow> 'w \<Rightarrow> boxes \<Rightarrow> ((Error + ObjectEnumHandle) \<times> 'w \<times> boxes) run" where
  "ObjectEnumHandle_allocate T alloc w b =
     run_bind (box_new alloc 0 b) (\<lambda>(raw, b1).
       case TEE_AllocatePersistentObjectEnumerator T w of
         ((code, h), w1) \<Rightarrow>
           if code = TEE_SUCCESS then Finishes (Inr \<lparr>oe_raw = raw\<rparr>, w1, b1(raw \<mapsto> h))
           else run_map (\<lambda>b2. (Inl (from_raw_error code), w1, b2)) (box_free raw b1))"

definition ObjectEnumHandle_reset :: "'w enum_api \<Rightarrow> boxes \<Rightarrow> ObjectEnumHandle \<Rightarrow> 'w \<Rightarrow> 'w run" where
  "ObjectEnumHandle_reset T b self w =
     run_map (\<lambda>h. TEE_ResetPersistentObjectEnumerator T h w) (box_read b (oe_raw self))"

definition ObjectEnumHandle_start ::
    "'w enum_api \<Rightarrow> boxes \<Rightarrow> ObjectEnumHandle \<Rightarrow> u32 \<Rightarrow> 'w \<Rightarrow> ((Error + unit) \<times> 'w) run" where
  "ObjectEnumHandle_start T b self storage_id w =
     run_map (\<lambda>h. case TEE_StartPersistentObjectEnumerator T h storage_id w of
                    (code, w1) \<Rightarrow> (tee_check code, w1))
       (box_read b (oe_raw self))"

text \<open>
  The caller's \<^verbatim>\<open>object_info\<close> and \<^verbatim>\<open>object_id\<close> are returned updated; the length is an
  in-out argument whose final value is narrowed to 32 bits.
\<close>

definition ObjectEnumHandle_get_next ::
    "'w enum_api \<Rightarrow> boxes \<Rightarrow> ObjectEnumHandle \<Rightarrow> ObjectInfo option \<Rightarrow> bytes \<Rightarrow> 'w \<Rightarrow>
     ((Error + u32) \<times> ObjectInfo option \<times> bytes \<times> 'w) run" where
  "ObjectEnumHandle_get_next T b self object_info object_id w =
     run_map (\<lambda>h. case TEE_GetNextPersistentObject T h (length object_id) w of
                    ((code, info, out, n), w1) \<Rightarrow>
                      (try_bind (tee_check code) (\<lambda>_. Inr (of_nat n)),
                       map_option (\<lambda>_. ObjectInfo_from_raw info) object_info,
                       overwrite object_id 0 out, w1))
       (box_read b (oe_raw self))"

definition ObjectEnumHandle_drop ::
    "'w enum_api \<Rightarrow> ObjectEnumHandle \<Rightarrow> 'w \<Rightarrow> boxes \<Rightarrow> ('w \<times> boxes) run" where
  "ObjectEnumHandle_drop T self w b =
     run_bind (box_read b (oe_raw self)) (\<lambda>h.
       run_map (\<lambda>b1. (TEE_FreePersistentObjectEnumerator T h w, b1)) (box_free (oe_raw self) b))"

text \<open>A program that allocates, uses and drops enumerators; \<open>as\<close> are the ones it owns.\<close>

inductive enum_step ::
    "'w enum_api \<Rightarrow> allocator \<Rightarrow> u64 list \<times> 'w \<times> boxes \<Rightarrow> u64 list \<times> 'w \<times> boxes \<Rightarrow> bool" for T alloc where
  enum_allocated: "ObjectEnumHandle_allocate T alloc w b = Finishes (Inr e, w', b') \<Longrightarrow>
    enum_step T alloc (as, w, b) (oe_raw e # as, w', b')"
| enum_not_allocated: "ObjectEnumHandle_allocate T alloc w b = Finishes (Inl err, w', b') \<Longrightarrow>
    enum_step T alloc (as, w, b) (as, w', b')"
| enum_reset: "a \<in> set as \<Longrightarrow> ObjectEnumHandle_reset T b \<lparr>oe_raw = a\<rparr> w = Finishes w' \<Longrightarrow>
    enum_step T alloc (as, w, b) (as, w', b)"
| enum_start: "a \<in> set as \<Longrightarrow> ObjectEnumHandle_start T b \<lparr>oe_raw = a\<rparr> s w = Finishes (r, w') \<Longrightarrow>
    enum_step T alloc (as, w, b) (as, w', b)"
| enum_next: "a \<in> set as \<Longrightarrow> ObjectEnumHandle_get_next T b \<lparr>oe_raw = a\<rparr> info buf w = Finishes (r, info', buf', w') \<Longrightarrow>
    enum_step T alloc (as, w, b) (as, w', b)"
| enum_dropped: "a \<in> set as \<Longrightarrow> ObjectEnumHandle_drop T \<lparr>oe_raw = a\<rparr> w b = Finishes (w', b') \<Longrightarrow>
    enum_step T alloc (as, w, b) (remove1 a as, w', b')"

text \<open>The books: the cells and handles in use are the owned ones and those of the start.\<close>

definition enum_books :: "('w \<Rightarrow> raw_handle set) \<Rightarrow> 'w \<Rightarrow> boxes \<Rightarrow> u64 list \<times> 'w \<times> boxes \<Rightarrow> bool" where
  "enum_books live w0 b0 st \<longleftrightarrow>
     (case st of (as, w, b) \<Rightarrow> owns_boxes live (live w0) as w b \<and> dom b0 \<inter> set as = {} \<and>
        (\<forall>a. a \<notin> set as \<longrightarrow> b a = b0 a))"

section \<open>Lemmas\<close>

lemma enum_api_okD:
  assumes "enum_api_ok T live"
  shows "gives_handle live w (TEE_AllocatePersistentObjectEnumerator T w)"
    and "live (TEE_FreePersistentObjectEnumerator T h w) = live w - {h}"
    and "live (TEE_ResetPersistentObjectEnumerator T h w) = live w"
    and "live (snd (TEE_StartPersistentObjectEnumerator T h s w)) = live w"
    and "live (snd (TEE_GetNextPersistentObject T h n w)) = live w"
  using assms by (simp_all add: enum_api_ok_def)

lemma enum_allocate_cases:
  assumes "allocator_ok alloc" and "enum_api_ok T live"
    and "ObjectEnumHandle_allocate T alloc w b = Finishes (r, w', b')"
  shows "case r of
      Inl err \<Rightarrow> b' = b \<and> live w' = live w
    | Inr e \<Rightarrow> oe_raw e \<noteq> 0 \<and> b (oe_raw e) = None \<and>
        (\<exists>h. b' = b(oe_raw e \<mapsto> h) \<and> h \<notin> live w \<and> live w' = insert h (live w))"
proof -
  obtain code h w1 where t: "TEE_AllocatePersistentObjectEnumerator T w = ((code, h), w1)" by (metis surj_pair)
  from enum_api_okD(1)[OF assms(2), of w] assms(1,3) t show ?thesis
    by (auto simp: ObjectEnumHandle_allocate_def gives_handle_def allocator_ok_def fun_upd_idem split: if_splits)
qed

lemma enum_books_neutral:
  assumes "enum_books live w0 b0 (as, w, b)" and "live w' = live w"
  shows "enum_books live w0 b0 (as, w', b)"
  using assms owns_boxes_neutral[of live _ as w b w' b] by (simp add: enum_books_def owns_boxes_def)

lemma enum_books_acquire:
  assumes B: "enum_books live w0 b0 (as, w, b)" and a: "a \<noteq> 0" "b a = None"
    and h: "h \<notin> live w" "live w' = insert h (live w)"
  shows "enum_books live w0 b0 (a # as, w', b(a \<mapsto> h))"
proof -
  have O: "owns_boxes live (live w0) as w b" and e: "\<And>x. x \<notin> set as \<Longrightarrow> b x = b0 x" and n: "dom b0 \<inter> set as = {}"
    using B by (simp_all add: enum_books_def)
  have "a \<notin> set as" using O a by (auto simp: owns_boxes_def)
  then have "b0 a = None" using e a by simp
  with owns_boxes_acquire[OF O a h] e n show ?thesis by (auto simp: enum_books_def)
qed

lemma enum_books_release:
  assumes B: "enum_books live w0 b0 (as, w, b)" and a: "a \<in> set as" and w: "live w' = live w - {the (b a)}"
  shows "enum_books live w0 b0 (remove1 a as, w', b(a := None))"
proof -
  have O: "owns_boxes live (live w0) as w b" and e: "\<And>x. x \<notin> set as \<Longrightarrow> b x = b0 x" and n: "dom b0 \<inter> set as = {}"
    using B by (simp_all add: enum_books_def)
  have d: "distinct as" using O by (simp add: owns_boxes_def)
  have "b0 a = None" using n a by auto
  with owns_boxes_release[OF O a w] e n d show ?thesis by (auto simp: enum_books_def)
qed

lemma enum_step_books:
  assumes A: "allocator_ok alloc" and T: "enum_api_ok T live"
    and "enum_step T alloc st st'" and "enum_books live w0 b0 st"
  shows "enum_books live w0 b0 st'"
  using assms(3)
proof cases
  case (enum_allocated w b e w' b' as)
  from enum_allocate_cases[OF A T enum_allocated(3)] obtain h where
    a: "oe_raw e \<noteq> 0" "b (oe_raw e) = None" and b': "b' = b(oe_raw e \<mapsto> h)"
    and h: "h \<notin> live w" "live w' = insert h (live w)" by auto
  show ?thesis unfolding enum_allocated(2) b'
    by (rule enum_books_acquire[OF assms(4)[unfolded enum_allocated(1)] a h])
next
  case (enum_not_allocated w b err w' b' as)
  from enum_allocate_cases[OF A T enum_not_allocated(3)] have b': "b' = b" and w: "live w' = live w" by simp_all
  show ?thesis unfolding enum_not_allocated(2) b'
    by (rule enum_books_neutral[OF assms(4)[unfolded enum_not_allocated(1)] w])
next
  case (enum_reset a as b w w')
  then have "live w' = live w" using enum_api_okD(3)[OF T] by (auto simp: ObjectEnumHandle_reset_def)
  then show ?thesis unfolding enum_reset(2)
    by (rule enum_books_neutral[OF assms(4)[unfolded enum_reset(1)]])
next
  case (enum_start a as b s w r w')
  then obtain h where "(r, w') = (case TEE_StartPersistentObjectEnumerator T h s w of (code, w1) \<Rightarrow> (tee_check code, w1))"
    unfolding ObjectEnumHandle_start_def run_map_eq_simps by blast
  then have "live w' = live w" using enum_api_okD(4)[OF T, of h s w] by (simp split: prod.splits)
  then show ?thesis unfolding enum_start(2)
    by (rule enum_books_neutral[OF assms(4)[unfolded enum_start(1)]])
next
  case (enum_next a as b info buf w r info' buf' w')
  then obtain h where "w' = snd (TEE_GetNextPersistentObject T h (length buf) w)"
    unfolding ObjectEnumHandle_get_next_def run_map_eq_simps by (auto simp: split_beta)
  then have "live w' = live w" using enum_api_okD(5)[OF T] by simp
  then show ?thesis unfolding enum_next(2)
    by (rule enum_books_neutral[OF assms(4)[unfolded enum_next(1)]])
next
  case (enum_dropped a as w b w' b')
  then have w: "live w' = live w - {the (b a)}" and b': "b' = b(a := None)"
    using enum_api_okD(2)[OF T] by (auto simp: ObjectEnumHandle_drop_def)
  show ?thesis unfolding enum_dropped(2) b'
    by (rule enum_books_release[OF assms(4)[unfolded enum_dropped(1)] enum_dropped(3) w])
qed

interpretation enums: bookkeeping "enum_step T alloc"
  "\<lambda>st. allocator_ok alloc \<and> enum_api_ok T live \<and> enum_books live w0 b0 st" for T alloc live w0 b0
  by unfold_locales (blast intro: enum_step_books)

lemma enum_run_books:
  assumes "allocator_ok alloc" and "enum_api_ok T live"
    and "(enum_step T alloc)\<^sup>*\<^sup>* ([], w0, b0) st" and "b0 0 = None"
  shows "enum_books live w0 b0 st"
  using enums.run_keeps[OF assms(3), of live w0 b0] assms(1,2,4) by (simp add: enum_books_def owns_boxes_start)

lemma enum_drop_finishes:
  "a \<in> dom b \<Longrightarrow> \<exists>w' b'. ObjectEnumHandle_drop T \<lparr>oe_raw = a\<rparr> w b = Finishes (w', b')"
  by (auto simp: ObjectEnumHandle_drop_def box_read_def box_free_def)

section \<open>A reference implementation\<close>

text \<open>A TEE with a limited number of enumerators, all over an empty storage.\<close>

definition ref_enum_api :: "raw_handle set enum_api" where
  "ref_enum_api = \<lparr>
     TEE_AllocatePersistentObjectEnumerator = (\<lambda>w.
       if 1 \<notin> w then ((TEE_SUCCESS, 1), insert 1 w) else ((TEE_ERROR_OUT_OF_MEMORY, 0), w)),
     TEE_FreePersistentObjectEnumerator = (\<lambda>h w. w - {h}),
     TEE_ResetPersistentObjectEnumerator = (\<lambda>h w. w),
     TEE_StartPersistentObjectEnumerator = (\<lambda>h s w. (TEE_ERROR_ITEM_NOT_FOUND, w)),
     TEE_GetNextPersistentObject = (\<lambda>h n w. ((TEE_ERROR_ITEM_NOT_FOUND, ref_info 0 0, [], 0), w))\<rparr>"

lemma ref_enum_api_ok: "enum_api_ok ref_enum_api (\<lambda>w. w)"
  by (simp add: enum_api_ok_def ref_enum_api_def gives_handle_def raw_consts)

section \<open>Properties\<close>

text \<open>
  C24.  Enumerators leak neither handles nor memory.  However a program allocates, resets,
  starts, reads and drops enumerators, with failing calls included, the heap cells in use
  are those of the start and the ones its enumerators own, the same holds for the live
  enumerators in the TEE, and every owned enumerator can be dropped without undefined
  behaviour.  When all are dropped, heap and TEE are as at the start.
\<close>

theorem enumerators_balanced:
  assumes "allocator_ok alloc" and "enum_api_ok T live" and "b0 0 = None"
    and "(enum_step T alloc)\<^sup>*\<^sup>* ([], w0, b0) (as, w, b)"
  shows "distinct as \<and> dom b = dom b0 \<union> set as \<and> dom b0 \<inter> set as = {} \<and>
    live w = live w0 \<union> (\<lambda>a. the (b a)) ` set as \<and> live w0 \<inter> (\<lambda>a. the (b a)) ` set as = {} \<and>
    (\<forall>a. a \<in> set as \<longrightarrow> (\<exists>w' b'. ObjectEnumHandle_drop T \<lparr>oe_raw = a\<rparr> w b = Finishes (w', b'))) \<and>
    (as = [] \<longrightarrow> b = b0 \<and> live w = live w0)"
proof -
  have I: "enum_books live w0 b0 (as, w, b)" by (rule enum_run_books[OF assms(1,2,4,3)])
  have d: "set as \<subseteq> dom b" and e: "\<And>a. a \<notin> set as \<Longrightarrow> b a = b0 a" and n: "dom b0 \<inter> set as = {}"
    and o: "distinct as" "owns live (live w0) (map (\<lambda>a. the (b a)) as) w"
    using I by (auto simp: enum_books_def owns_boxes_def)
  have "dom b = dom b0 \<union> set as"
  proof (rule set_eqI)
    show "x \<in> dom b \<longleftrightarrow> x \<in> dom b0 \<union> set as" for x
      using d e[of x] by (cases "x \<in> set as") (auto simp: domIff)
  qed
  moreover have "as = [] \<longrightarrow> b = b0" using e by auto
  ultimately show ?thesis using n o d enum_drop_finishes[of _ b T w] by (auto simp: owns_def)
qed

theorem enumerators_balanced_witness:
  "\<exists>w b. (enum_step ref_enum_api two_cells)\<^sup>*\<^sup>* ([], {}, Map.empty) ([8], w, b) \<and> dom b = {8} \<and> w = {1}"
proof -
  have a: "ObjectEnumHandle_allocate ref_enum_api two_cells {} Map.empty =
      Finishes (Inr \<lparr>oe_raw = 8\<rparr>, {1}, [8 \<mapsto> 1])"
    by (simp add: ObjectEnumHandle_allocate_def ref_enum_api_def box_new_def two_cells_def)
  have run: "(enum_step ref_enum_api two_cells)\<^sup>*\<^sup>* ([], {}, Map.empty) ([8], {1}, [8 \<mapsto> 1])"
    using enum_allocated[OF a, of "[]"] by (simp add: r_into_rtranclp)
  from enumerators_balanced[OF two_cells_ok ref_enum_api_ok _ run]
  have "dom [8 \<mapsto> 1 :: raw_handle] = {8 :: u64}" by simp
  with run show ?thesis by blast
qed

end
