(* ===== verification/CryptoIds.thy ===== *)
theory CryptoIds
  imports TeeApiDefines
begin

text \<open>
  The numbers by which the cryptographic wrappers name things: operation modes, states
  and classes, algorithms, curve elements, object types and attributes
  (\<^verbatim>\<open>optee-utee/src/crypto_op.rs\<close>, \<^verbatim>\<open>object/transient_object.rs\<close>, \<^verbatim>\<open>object/attribute.rs\<close>),
  and the bit flags of \<^verbatim>\<open>object/object_define.rs\<close>.  The conversion of an enum to its number
  is Rust's \<^verbatim>\<open>as u32\<close>.  \<open>*_named\<close> lists the variants for which the binding crate has a
  constant of the same name.
\<close>

section \<open>Enumerations\<close>

datatype OperationMode =
    Mode_Encrypt
  | Mode_Decrypt
  | Mode_Sign
  | Mode_Verify
  | Mode_Mac
  | Mode_Digest
  | Mode_Derive
  | Mode_IllegalValue

primrec OperationMode_code :: "OperationMode \<Rightarrow> u32" where
  "OperationMode_code Mode_Encrypt = 0"
| "OperationMode_code Mode_Decrypt = 1"
| "OperationMode_code Mode_Sign = 2"
| "OperationMode_code Mode_Verify = 3"
| "OperationMode_code Mode_Mac = 4"
| "OperationMode_code Mode_Digest = 5"
| "OperationMode_code Mode_Derive = 6"
| "OperationMode_code Mode_IllegalValue = 0x7fffffff"

definition OperationMode_named :: "(OperationMode \<times> u32) list" where
  "OperationMode_named =
     [(Mode_Encrypt, TEE_MODE_ENCRYPT),
      (Mode_Decrypt, TEE_MODE_DECRYPT),
      (Mode_Sign, TEE_MODE_SIGN),
      (Mode_Verify, TEE_MODE_VERIFY),
      (Mode_Mac, TEE_MODE_MAC),
      (Mode_Digest, TEE_MODE_DIGEST),
      (Mode_Derive, TEE_MODE_DERIVE),
      (Mode_IllegalValue, TEE_MODE_ILLEGAL_VALUE)]"

datatype OperationStates =
    State_Initial
  | State_Active

primrec OperationStates_code :: "OperationStates \<Rightarrow> u32" where
  "OperationStates_code State_Initial = 0x00000000"
| "OperationStates_code State_Active = 0x00000001"

definition OperationStates_named :: "(OperationStates \<times> u32) list" where
  "OperationStates_named =
     [(State_Initial, TEE_OPERATION_STATE_INITIAL),
      (State_Active, TEE_OPERATION_STATE_ACTIVE)]"

datatype OperationConstant =
    Class_Cipher
  | Class_Mac
  | Class_Ae
  | Class_Digest
  | Class_AsymmetricCipher
  | Class_AsymmetricSignature
  | Class_KeyDerivation

primrec OperationConstant_code :: "OperationConstant \<Rightarrow> u32" where
  "OperationConstant_code Class_Cipher = 1"
| "OperationConstant_code Class_Mac = 3"
| "OperationConstant_code Class_Ae = 4"
| "OperationConstant_code Class_Digest = 5"
| "OperationConstant_code Class_AsymmetricCipher = 6"
| "OperationConstant_code Class_AsymmetricSignature = 7"
| "OperationConstant_code Class_KeyDerivation = 8"

definition OperationConstant_named :: "(OperationConstant \<times> u32) list" where
  "OperationConstant_named =
     [(Class_Cipher, TEE_OPERATION_CIPHER),
      (Class_Mac, TEE_OPERATION_MAC),
      (Class_Ae, TEE_OPERATION_AE),
      (Class_Digest, TEE_OPERATION_DIGEST),
      (Class_AsymmetricCipher, TEE_OPERATION_ASYMMETRIC_CIPHER),
      (Class_AsymmetricSignature, TEE_OPERATION_ASYMMETRIC_SIGNATURE),
      (Class_KeyDerivation, TEE_OPERATION_KEY_DERIVATION)]"

datatype (plugins only: size) AlgorithmId =
    Alg_AesEcbNopad
  | Alg_AesCbcNopad
  | Alg_AesCtr
  | Alg_AesCts
  | Alg_AesXts
  | Alg_AesCbcMacNopad
  | Alg_AesCbcMacPkcs5
  | Alg_AesCmac
  | Alg_AesCcm
  | Alg_AesGcm
  | Alg_DesEcbNopad
  | Alg_DesCbcNopad
  | Alg_DesCbcMacNopad
  | Alg_DesCbcMacPkcs5
  | Alg_Des3EcbNopad
  | Alg_Des3CbcNopad
  | Alg_Des3CbcMacNopad
  | Alg_Des3CbcMacPkcs5
  | Alg_RsassaPkcs1V15
  | Alg_RsassaPkcs1V15MD5
  | Alg_RsassaPkcs1V15Sha1
  | Alg_RsassaPkcs1V15Sha224
  | Alg_RsassaPkcs1V15Sha256
  | Alg_RsassaPkcs1V15Sha384
  | Alg_RsassaPkcs1V15Sha512
  | Alg_RsassaPkcs1V15MD5Sha1
  | Alg_RsassaPkcs1PssMgf1MD5
  | Alg_RsassaPkcs1PssMgf1Sha1
  | Alg_RsassaPkcs1PssMgf1Sha224
  | Alg_RsassaPkcs1PssMgf1Sha256
  | Alg_RsassaPkcs1PssMgf1Sha384
  | Alg_RsassaPkcs1PssMgf1Sha512
  | Alg_RsaesPkcs1V15
  | Alg_RsaesPkcs1OAepMgf1MD5
  | Alg_RsaesPkcs1OAepMgf1Sha1
  | Alg_RsaesPkcs1OAepMgf1Sha224
  | Alg_RsaesPkcs1OAepMgf1Sha256
  | Alg_RsaesPkcs1OAepMgf1Sha384
  | Alg_RsaesPkcs1OAepMgf1Sha512
  | Alg_RsaNopad
  | Alg_DSASha1
  | Alg_DSASha224
  | Alg_DSASha256
  | Alg_DhDeriveSharedSecret
  | Alg_EcDhDeriveSharedSecret
  | Alg_Pbkdf2HmacSha1
  | Alg_Pbkdf2HmacSha224
  | Alg_Pbkdf2HmacSha256
  | Alg_Pbkdf2HmacSha384
  | Alg_Pbkdf2HmacSha512
  | Alg_Pbkdf2HmacSm3
  | Alg_EcDsaSha1
  | Alg_EcDsaSha224
  | Alg_EcDsaSha256
  | Alg_EcDsaSha384
  | Alg_EcDsaSha512
  | Alg_Ed25519
  | Alg_X25519
  | Alg_Md5
  | Alg_Sha1
  | Alg_Sha224
  | Alg_Sha256
  | Alg_Sha384
  | Alg_Sha512
  | Alg_Md5Sha1
  | Alg_HmacMd5
  | Alg_HmacSha1
  | Alg_HmacSha224
  | Alg_HmacSha256
  | Alg_HmacSha384
  | Alg_HmacSha512
  | Alg_IllegalValue

primrec AlgorithmId_code :: "AlgorithmId \<Rightarrow> u32" where
  "AlgorithmId_code Alg_AesEcbNopad = 0x10000010"
| "AlgorithmId_code Alg_AesCbcNopad = 0x10000110"
| "AlgorithmId_code Alg_AesCtr = 0x10000210"
| "AlgorithmId_code Alg_AesCts = 0x10000310"
| "AlgorithmId_code Alg_AesXts = 0x10000410"
| "AlgorithmId_code Alg_AesCbcMacNopad = 0x30000110"
| "AlgorithmId_code Alg_AesCbcMacPkcs5 = 0x30000510"
| "AlgorithmId_code Alg_AesCmac = 0x30000610"
| "AlgorithmId_code Alg_AesCcm = 0x40000710"
| "AlgorithmId_code Alg_AesGcm = 0x40000810"
| "AlgorithmId_code Alg_DesEcbNopad = 0x10000011"
| "AlgorithmId_code Alg_DesCbcNopad = 0x10000111"
| "AlgorithmId_code Alg_DesCbcMacNopad = 0x30000111"
| "AlgorithmId_code Alg_DesCbcMacPkcs5 = 0x30000511"
| "AlgorithmId_code Alg_Des3EcbNopad = 0x10000013"
| "AlgorithmId_code Alg_Des3CbcNopad = 0x10000113"
| "AlgorithmId_code Alg_Des3CbcMacNopad = 0x30000113"
| "AlgorithmId_code Alg_Des3CbcMacPkcs5 = 0x30000513"
| "AlgorithmId_code Alg_RsassaPkcs1V15 = 0xF0000830"
| "AlgorithmId_code Alg_RsassaPkcs1V15MD5 = 0x70001830"
| "AlgorithmId_code Alg_RsassaPkcs1V15Sha1 = 0x70002830"
| "AlgorithmId_code Alg_RsassaPkcs1V15Sha224 = 0x70003830"
| "AlgorithmId_code Alg_RsassaPkcs1V15Sha256 = 0x70004830"
| "AlgorithmId_code Alg_RsassaPkcs1V15Sha384 = 0x70005830"
| "AlgorithmId_code Alg_RsassaPkcs1V15Sha512 = 0x70006830"
| "AlgorithmId_code Alg_RsassaPkcs1V15MD5Sha1 = 0x7000F830"
| "AlgorithmId_code Alg_RsassaPkcs1PssMgf1MD5 = 0xF0111930"
| "AlgorithmId_code Alg_RsassaPkcs1PssMgf1Sha1 = 0x70212930"
| "AlgorithmId_code Alg_RsassaPkcs1PssMgf1Sha224 = 0x70313930"
| "AlgorithmId_code Alg_RsassaPkcs1PssMgf1Sha256 = 0x70414930"
| "AlgorithmId_code Alg_RsassaPkcs1PssMgf1Sha384 = 0x70515930"
| "AlgorithmId_code Alg_RsassaPkcs1PssMgf1Sha512 = 0x70616930"
| "AlgorithmId_code Alg_RsaesPkcs1V15 = 0x60000130"
| "AlgorithmId_code Alg_RsaesPkcs1OAepMgf1MD5 = 0xF0110230"
| "AlgorithmId_code Alg_RsaesPkcs1OAepMgf1Sha1 = 0x60210230"
| "AlgorithmId_code Alg_RsaesPkcs1OAepMgf1Sha224 = 0x60310230"
| "AlgorithmId_code Alg_RsaesPkcs1OAepMgf1Sha256 = 0x60410230"
| "AlgorithmId_code Alg_RsaesPkcs1OAepMgf1Sha384 = 0x60510230"
| "AlgorithmId_code Alg_RsaesPkcs1OAepMgf1Sha512 = 0x60610230"
| "AlgorithmId_code Alg_RsaNopad = 0x60000030"
| "AlgorithmId_code Alg_DSASha1 = 0x70002131"
| "AlgorithmId_code Alg_DSASha224 = 0x70003131"
| "AlgorithmId_code Alg_DSASha256 = 0x70004131"
| "AlgorithmId_code Alg_DhDeriveSharedSecret = 0x80000032"
| "AlgorithmId_code Alg_EcDhDeriveSharedSecret = 0x80000042"
| "AlgorithmId_code Alg_Pbkdf2HmacSha1 = 0x800020C2"
| "AlgorithmId_code Alg_Pbkdf2HmacSha224 = 0x800030C2"
| "AlgorithmId_code Alg_Pbkdf2HmacSha256 = 0x800040C2"
| "AlgorithmId_code Alg_Pbkdf2HmacSha384 = 0x800050C2"
| "AlgorithmId_code Alg_Pbkdf2HmacSha512 = 0x800060C2"
| "AlgorithmId_code Alg_Pbkdf2HmacSm3 = 0x800070C2"
| "AlgorithmId_code Alg_EcDsaSha1 = 0x70001042"
| "AlgorithmId_code Alg_EcDsaSha224 = 0x70002042"
| "AlgorithmId_code Alg_EcDsaSha256 = 0x70003042"
| "AlgorithmId_code Alg_EcDsaSha384 = 0x70004042"
| "AlgorithmId_code Alg_EcDsaSha512 = 0x70005042"
| "AlgorithmId_code Alg_Ed25519 = 0x70006043"
| "AlgorithmId_code Alg_X25519 = 0x80000044"
| "AlgorithmId_code Alg_Md5 = 0x50000001"
| "AlgorithmId_code Alg_Sha1 = 0x50000002"
| "AlgorithmId_code Alg_Sha224 = 0x50000003"
| "AlgorithmId_code Alg_Sha256 = 0x50000004"
| "AlgorithmId_code Alg_Sha384 = 0x50000005"
| "AlgorithmId_code Alg_Sha512 = 0x50000006"
| "AlgorithmId_code Alg_Md5Sha1 = 0x5000000F"
| "AlgorithmId_code Alg_HmacMd5 = 0x30000001"
| "AlgorithmId_code Alg_HmacSha1 = 0x30000002"
| "AlgorithmId_code Alg_HmacSha224 = 0x30000003"
| "AlgorithmId_code Alg_HmacSha256 = 0x30000004"
| "AlgorithmId_code Alg_HmacSha384 = 0x30000005"
| "AlgorithmId_code Alg_HmacSha512 = 0x30000006"
| "AlgorithmId_code Alg_IllegalValue = 0xefffffff"

definition AlgorithmId_named :: "(AlgorithmId \<times> u32) list" where
  "AlgorithmId_named =
     [(Alg_AesEcbNopad, TEE_ALG_AES_ECB_NOPAD),
      (Alg_AesCbcNopad, TEE_ALG_AES_CBC_NOPAD),
      (Alg_AesCtr, TEE_ALG_AES_CTR),
      (Alg_AesCts, TEE_ALG_AES_CTS),
      (Alg_AesXts, TEE_ALG_AES_XTS),
      (Alg_AesCbcMacNopad, TEE_ALG_AES_CBC_MAC_NOPAD),
      (Alg_AesCbcMacPkcs5, TEE_ALG_AES_CBC_MAC_PKCS5),
      (Alg_AesCmac, TEE_ALG_AES_CMAC),
      (Alg_AesCcm, TEE_ALG_AES_CCM),
      (Alg_AesGcm, TEE_ALG_AES_GCM),
      (Alg_DesEcbNopad, TEE_ALG_DES_ECB_NOPAD),
      (Alg_DesCbcNopad, TEE_ALG_DES_CBC_NOPAD),
      (Alg_DesCbcMacNopad, TEE_ALG_DES_CBC_MAC_NOPAD),
      (Alg_DesCbcMacPkcs5, TEE_ALG_DES_CBC_MAC_PKCS5),
      (Alg_Des3EcbNopad, TEE_ALG_DES3_ECB_NOPAD),
      (Alg_Des3CbcNopad, TEE_ALG_DES3_CBC_NOPAD),
      (Alg_Des3CbcMacNopad, TEE_ALG_DES3_CBC_MAC_NOPAD),
      (Alg_Des3CbcMacPkcs5, TEE_ALG_DES3_CBC_MAC_PKCS5),
      (Alg_RsassaPkcs1V15MD5, TEE_ALG_RSASSA_PKCS1_V1_5_MD5),
      (Alg_RsassaPkcs1V15Sha1, TEE_ALG_RSASSA_PKCS1_V1_5_SHA1),
      (Alg_RsassaPkcs1V15Sha224, TEE_ALG_RSASSA_PKCS1_V1_5_SHA224),
      (Alg_RsassaPkcs1V15Sha256, TEE_ALG_RSASSA_PKCS1_V1_5_SHA256),
      (Alg_RsassaPkcs1V15Sha384, TEE_ALG_RSASSA_PKCS1_V1_5_SHA384),
      (Alg_RsassaPkcs1V15Sha512, TEE_ALG_RSASSA_PKCS1_V1_5_SHA512),
      (Alg_RsassaPkcs1V15MD5Sha1, TEE_ALG_RSASSA_PKCS1_V1_5_MD5SHA1),
      (Alg_RsassaPkcs1PssMgf1Sha1, TEE_ALG_RSASSA_PKCS1_PSS_MGF1_SHA1),
      (Alg_RsassaPkcs1PssMgf1Sha224, TEE_ALG_RSASSA_PKCS1_PSS_MGF1_SHA224),
      (Alg_RsassaPkcs1PssMgf1Sha256, TEE_ALG_RSASSA_PKCS1_PSS_MGF1_SHA256),
      (Alg_RsassaPkcs1PssMgf1Sha384, TEE_ALG_RSASSA_PKCS1_PSS_MGF1_SHA384),
      (Alg_RsassaPkcs1PssMgf1Sha512, TEE_ALG_RSASSA_PKCS1_PSS_MGF1_SHA512),
      (Alg_RsaesPkcs1V15, TEE_ALG_RSAES_PKCS1_V1_5),
      (Alg_RsaesPkcs1OAepMgf1Sha1, TEE_ALG_RSAES_PKCS1_OAEP_MGF1_SHA1),
      (Alg_RsaesPkcs1OAepMgf1Sha224, TEE_ALG_RSAES_PKCS1_OAEP_MGF1_SHA224),
      (Alg_RsaesPkcs1OAepMgf1Sha256, TEE_ALG_RSAES_PKCS1_OAEP_MGF1_SHA256),
      (Alg_RsaesPkcs1OAepMgf1Sha384, TEE_ALG_RSAES_PKCS1_OAEP_MGF1_SHA384),
      (Alg_RsaesPkcs1OAepMgf1Sha512, TEE_ALG_RSAES_PKCS1_OAEP_MGF1_SHA512),
      (Alg_RsaNopad, TEE_ALG_RSA_NOPAD),
      (Alg_DSASha1, TEE_ALG_DSA_SHA1),
      (Alg_DSASha224, TEE_ALG_DSA_SHA224),
      (Alg_DSASha256, TEE_ALG_DSA_SHA256),
      (Alg_DhDeriveSharedSecret, TEE_ALG_DH_DERIVE_SHARED_SECRET),
      (Alg_Pbkdf2HmacSha1, TEE_ALG_PBKDF2_HMAC_SHA1_DERIVE_KEY),
      (Alg_Pbkdf2HmacSha224, TEE_ALG_PBKDF2_HMAC_SHA224_DERIVE_KEY),
      (Alg_Pbkdf2HmacSha256, TEE_ALG_PBKDF2_HMAC_SHA256_DERIVE_KEY),
      (Alg_Pbkdf2HmacSha384, TEE_ALG_PBKDF2_HMAC_SHA384_DERIVE_KEY),
      (Alg_Pbkdf2HmacSha512, TEE_ALG_PBKDF2_HMAC_SHA512_DERIVE_KEY),
      (Alg_Pbkdf2HmacSm3, TEE_ALG_PBKDF2_HMAC_SM3_DERIVE_KEY),
      (Alg_Md5, TEE_ALG_MD5),
      (Alg_Sha1, TEE_ALG_SHA1),
      (Alg_Sha224, TEE_ALG_SHA224),
      (Alg_Sha256, TEE_ALG_SHA256),
      (Alg_Sha384, TEE_ALG_SHA384),
      (Alg_Sha512, TEE_ALG_SHA512),
      (Alg_Md5Sha1, TEE_ALG_MD5SHA1),
      (Alg_HmacMd5, TEE_ALG_HMAC_MD5),
      (Alg_HmacSha1, TEE_ALG_HMAC_SHA1),
      (Alg_HmacSha224, TEE_ALG_HMAC_SHA224),
      (Alg_HmacSha256, TEE_ALG_HMAC_SHA256),
      (Alg_HmacSha384, TEE_ALG_HMAC_SHA384),
      (Alg_HmacSha512, TEE_ALG_HMAC_SHA512),
      (Alg_IllegalValue, TEE_ALG_ILLEGAL_VALUE)]"

datatype ElementId =
    Element_ElementNone
  | Element_EccCurveNistP192
  | Element_EccCurveNistP224
  | Element_EccCurveNistP256
  | Element_EccCurveNistP384
  | Element_EccCurveNistP521
  | Element_EccCurve25519

primrec ElementId_code :: "ElementId \<Rightarrow> u32" where
  "ElementId_code Element_ElementNone = 0x00000000"
| "ElementId_code Element_EccCurveNistP192 = 0x00000001"
| "ElementId_code Element_EccCurveNistP224 = 0x00000002"
| "ElementId_code Element_EccCurveNistP256 = 0x00000003"
| "ElementId_code Element_EccCurveNistP384 = 0x00000004"
| "ElementId_code Element_EccCurveNistP521 = 0x00000005"
| "ElementId_code Element_EccCurve25519 = 0x00000300"

definition ElementId_named :: "(ElementId \<times> u32) list" where
  "ElementId_named =
     [(Element_EccCurveNistP192, TEE_ECC_CURVE_NIST_P192),
      (Element_EccCurveNistP224, TEE_ECC_CURVE_NIST_P224),
      (Element_EccCurveNistP256, TEE_ECC_CURVE_NIST_P256),
      (Element_EccCurveNistP384, TEE_ECC_CURVE_NIST_P384),
      (Element_EccCurveNistP521, TEE_ECC_CURVE_NIST_P521)]"

datatype (plugins only: size) TransientObjectType =
    Type_Aes
  | Type_Des
  | Type_Des3
  | Type_HmacMd5
  | Type_HmacSha1
  | Type_HmacSha224
  | Type_HmacSha256
  | Type_HmacSha384
  | Type_HmacSha512
  | Type_RsaPublicKey
  | Type_RsaKeypair
  | Type_DsaPublicKey
  | Type_DsaKeypair
  | Type_DhKeypair
  | Type_Pbkdf2Password
  | Type_EcdsaPublicKey
  | Type_EcdsaKeypair
  | Type_EcdhPublicKey
  | Type_EcdhKeypair
  | Type_Ed25519PublicKey
  | Type_Ed25519Keypair
  | Type_X25519PublicKey
  | Type_X25519Keypair
  | Type_GenericSecret
  | Type_CorruptedObject
  | Type_Data

primrec TransientObjectType_code :: "TransientObjectType \<Rightarrow> u32" where
  "TransientObjectType_code Type_Aes = 0xA0000010"
| "TransientObjectType_code Type_Des = 0xA0000011"
| "TransientObjectType_code Type_Des3 = 0xA0000013"
| "TransientObjectType_code Type_HmacMd5 = 0xA0000001"
| "TransientObjectType_code Type_HmacSha1 = 0xA0000002"
| "TransientObjectType_code Type_HmacSha224 = 0xA0000003"
| "TransientObjectType_code Type_HmacSha256 = 0xA0000004"
| "TransientObjectType_code Type_HmacSha384 = 0xA0000005"
| "TransientObjectType_code Type_HmacSha512 = 0xA0000006"
| "TransientObjectType_code Type_RsaPublicKey = 0xA0000030"
| "TransientObjectType_code Type_RsaKeypair = 0xA1000030"
| "TransientObjectType_code Type_DsaPublicKey = 0xA0000031"
| "TransientObjectType_code Type_DsaKeypair = 0xA1000031"
| "TransientObjectType_code Type_DhKeypair = 0xA1000032"
| "TransientObjectType_code Type_Pbkdf2Password = 0xA10000C2"
| "TransientObjectType_code Type_EcdsaPublicKey = 0xA0000041"
| "TransientObjectType_code Type_EcdsaKeypair = 0xA1000041"
| "TransientObjectType_code Type_EcdhPublicKey = 0xA0000042"
| "TransientObjectType_code Type_EcdhKeypair = 0xA1000042"
| "TransientObjectType_code Type_Ed25519PublicKey = 0xA0000043"
| "TransientObjectType_code Type_Ed25519Keypair = 0xA1000043"
| "TransientObjectType_code Type_X25519PublicKey = 0xA0000044"
| "TransientObjectType_code Type_X25519Keypair = 0xA1000044"
| "TransientObjectType_code Type_GenericSecret = 0xA0000000"
| "TransientObjectType_code Type_CorruptedObject = 0xA00000BE"
| "TransientObjectType_code Type_Data = 0xA00000BF"

definition TransientObjectType_named :: "(TransientObjectType \<times> u32) list" where
  "TransientObjectType_named =
     [(Type_Aes, TEE_TYPE_AES),
      (Type_Des, TEE_TYPE_DES),
      (Type_Des3, TEE_TYPE_DES3),
      (Type_HmacMd5, TEE_TYPE_HMAC_MD5),
      (Type_HmacSha1, TEE_TYPE_HMAC_SHA1),
      (Type_HmacSha224, TEE_TYPE_HMAC_SHA224),
      (Type_HmacSha256, TEE_TYPE_HMAC_SHA256),
      (Type_HmacSha384, TEE_TYPE_HMAC_SHA384),
      (Type_HmacSha512, TEE_TYPE_HMAC_SHA512),
      (Type_RsaPublicKey, TEE_TYPE_RSA_PUBLIC_KEY),
      (Type_RsaKeypair, TEE_TYPE_RSA_KEYPAIR),
      (Type_DsaPublicKey, TEE_TYPE_DSA_PUBLIC_KEY),
      (Type_DsaKeypair, TEE_TYPE_DSA_KEYPAIR),
      (Type_DhKeypair, TEE_TYPE_DH_KEYPAIR),
      (Type_Pbkdf2Password, TEE_TYPE_PBKDF2_PASSWORD),
      (Type_EcdsaPublicKey, TEE_TYPE_ECDSA_PUBLIC_KEY),
      (Type_EcdsaKeypair, TEE_TYPE_ECDSA_KEYPAIR),
      (Type_EcdhPublicKey, TEE_TYPE_ECDH_PUBLIC_KEY),
      (Type_EcdhKeypair, TEE_TYPE_ECDH_KEYPAIR),
      (Type_GenericSecret, TEE_TYPE_GENERIC_SECRET),
      (Type_CorruptedObject, TEE_TYPE_CORRUPTED_OBJECT),
      (Type_Data, TEE_TYPE_DATA)]"

datatype (plugins only: size) AttributeId =
    Attr_SecretValue
  | Attr_RsaModulus
  | Attr_RsaPublicExponent
  | Attr_RsaPrivateExponent
  | Attr_RsaPrime1
  | Attr_RsaPrime2
  | Attr_RsaExponent1
  | Attr_RsaExponent2
  | Attr_RsaCoefficient
  | Attr_DsaPrime
  | Attr_DsaSubprime
  | Attr_DsaBase
  | Attr_DsaPublicValue
  | Attr_DsaPrivateValue
  | Attr_DhPrime
  | Attr_DhSubprime
  | Attr_DhBase
  | Attr_DhXBits
  | Attr_DhPublicValue
  | Attr_DhPrivateValue
  | Attr_Pbkdf2Password
  | Attr_Pbkdf2Salt
  | Attr_Pbkdf2IterationCount
  | Attr_Pbkdf2DkmLength
  | Attr_RsaOaepLabel
  | Attr_RsaOaepMgf1Hash
  | Attr_RsaPssSaltLength
  | Attr_EccPublicValueX
  | Attr_EccPublicValueY
  | Attr_EccPrivateValue
  | Attr_Ed25519PublicValue
  | Attr_Ed25519PrivateValue
  | Attr_X25519PublicValue
  | Attr_X25519PrivateValue
  | Attr_EccCurve
  | Attr_BitProtected
  | Attr_BitValue

primrec AttributeId_code :: "AttributeId \<Rightarrow> u32" where
  "AttributeId_code Attr_SecretValue = 0xC0000000"
| "AttributeId_code Attr_RsaModulus = 0xD0000130"
| "AttributeId_code Attr_RsaPublicExponent = 0xD0000230"
| "AttributeId_code Attr_RsaPrivateExponent = 0xC0000330"
| "AttributeId_code Attr_RsaPrime1 = 0xC0000430"
| "AttributeId_code Attr_RsaPrime2 = 0xC0000530"
| "AttributeId_code Attr_RsaExponent1 = 0xC0000630"
| "AttributeId_code Attr_RsaExponent2 = 0xC0000730"
| "AttributeId_code Attr_RsaCoefficient = 0xC0000830"
| "AttributeId_code Attr_DsaPrime = 0xD0001031"
| "AttributeId_code Attr_DsaSubprime = 0xD0001131"
| "AttributeId_code Attr_DsaBase = 0xD0001231"
| "AttributeId_code Attr_DsaPublicValue = 0xD0000131"
| "AttributeId_code Attr_DsaPrivateValue = 0xC0000231"
| "AttributeId_code Attr_DhPrime = 0xD0001032"
| "AttributeId_code Attr_DhSubprime = 0xD0001132"
| "AttributeId_code Attr_DhBase = 0xD0001232"
| "AttributeId_code Attr_DhXBits = 0xF0001332"
| "AttributeId_code Attr_DhPublicValue = 0xD0000132"
| "AttributeId_code Attr_DhPrivateValue = 0xC0000232"
| "AttributeId_code Attr_Pbkdf2Password = 0xC00001C2"
| "AttributeId_code Attr_Pbkdf2Salt = 0xD00002C2"
| "AttributeId_code Attr_Pbkdf2IterationCount = 0xF00003C2"
| "AttributeId_code Attr_Pbkdf2DkmLength = 0xF00004C2"
| "AttributeId_code Attr_RsaOaepLabel = 0xD0000930"
| "AttributeId_code Attr_RsaOaepMgf1Hash = 0xD0000931"
| "AttributeId_code Attr_RsaPssSaltLength = 0xF0000A30"
| "AttributeId_code Attr_EccPublicValueX = 0xD0000141"
| "AttributeId_code Attr_EccPublicValueY = 0xD0000241"
| "AttributeId_code Attr_EccPrivateValue = 0xC0000341"
| "AttributeId_code Attr_Ed25519PublicValue = 0xD0000743"
| "AttributeId_code Attr_Ed25519PrivateValue = 0xC0000843"
| "AttributeId_code Attr_X25519PublicValue = 0xD0000944"
| "AttributeId_code Attr_X25519PrivateValue = 0xC0000A44"
| "AttributeId_code Attr_EccCurve = 0xF0000441"
| "AttributeId_code Attr_BitProtected = 0x10000000"
| "AttributeId_code Attr_BitValue = 0x20000000"

definition AttributeId_named :: "(AttributeId \<times> u32) list" where
  "AttributeId_named =
     [(Attr_SecretValue, TEE_ATTR_SECRET_VALUE),
      (Attr_RsaModulus, TEE_ATTR_RSA_MODULUS),
      (Attr_RsaPublicExponent, TEE_ATTR_RSA_PUBLIC_EXPONENT),
      (Attr_RsaPrivateExponent, TEE_ATTR_RSA_PRIVATE_EXPONENT),
      (Attr_RsaPrime1, TEE_ATTR_RSA_PRIME1),
      (Attr_RsaPrime2, TEE_ATTR_RSA_PRIME2),
      (Attr_RsaExponent1, TEE_ATTR_RSA_EXPONENT1),
      (Attr_RsaExponent2, TEE_ATTR_RSA_EXPONENT2),
      (Attr_RsaCoefficient, TEE_ATTR_RSA_COEFFICIENT),
      (Attr_DsaPrime, TEE_ATTR_DSA_PRIME),
      (Attr_DsaSubprime, TEE_ATTR_DSA_SUBPRIME),
      (Attr_DsaBase, TEE_ATTR_DSA_BASE),
      (Attr_DsaPublicValue, TEE_ATTR_DSA_PUBLIC_VALUE),
      (Attr_DsaPrivateValue, TEE_ATTR_DSA_PRIVATE_VALUE),
      (Attr_DhPrime, TEE_ATTR_DH_PRIME),
      (Attr_DhSubprime, TEE_ATTR_DH_SUBPRIME),
      (Attr_DhBase, TEE_ATTR_DH_BASE),
      (Attr_DhXBits, TEE_ATTR_DH_X_BITS),
      (Attr_DhPublicValue, TEE_ATTR_DH_PUBLIC_VALUE),
      (Attr_DhPrivateValue, TEE_ATTR_DH_PRIVATE_VALUE),
      (Attr_Pbkdf2Password, TEE_ATTR_PBKDF2_PASSWORD),
      (Attr_Pbkdf2Salt, TEE_ATTR_PBKDF2_SALT),
      (Attr_Pbkdf2IterationCount, TEE_ATTR_PBKDF2_ITERATION_COUNT),
      (Attr_Pbkdf2DkmLength, TEE_ATTR_PBKDF2_DKM_LENGTH),
      (Attr_RsaOaepLabel, TEE_ATTR_RSA_OAEP_LABEL),
      (Attr_RsaPssSaltLength, TEE_ATTR_RSA_PSS_SALT_LENGTH),
      (Attr_EccPublicValueX, TEE_ATTR_ECC_PUBLIC_VALUE_X),
      (Attr_EccPublicValueY, TEE_ATTR_ECC_PUBLIC_VALUE_Y),
      (Attr_EccPrivateValue, TEE_ATTR_ECC_PRIVATE_VALUE),
      (Attr_EccCurve, TEE_ATTR_ECC_CURVE),
      (Attr_BitProtected, TEE_ATTR_BIT_PROTECTED),
      (Attr_BitValue, TEE_ATTR_BIT_VALUE)]"

section \<open>Flags and limits\<close>

definition UsageFlag_EXTRACTABLE :: u32 where [raw_consts]: "UsageFlag_EXTRACTABLE = 0x00000001"
definition UsageFlag_ENCRYPT :: u32 where [raw_consts]: "UsageFlag_ENCRYPT = 0x00000002"
definition UsageFlag_DECRYPT :: u32 where [raw_consts]: "UsageFlag_DECRYPT = 0x00000004"
definition UsageFlag_MAC :: u32 where [raw_consts]: "UsageFlag_MAC = 0x00000008"
definition UsageFlag_SIGN :: u32 where [raw_consts]: "UsageFlag_SIGN = 0x00000010"
definition UsageFlag_VERIFY :: u32 where [raw_consts]: "UsageFlag_VERIFY = 0x00000020"
definition UsageFlag_DERIVE :: u32 where [raw_consts]: "UsageFlag_DERIVE = 0x00000040"

definition HandleFlag_PERSISTENT :: u32 where [raw_consts]: "HandleFlag_PERSISTENT = 0x00010000"
definition HandleFlag_INITIALIZED :: u32 where [raw_consts]: "HandleFlag_INITIALIZED = 0x00020000"
definition HandleFlag_KEY_SET :: u32 where [raw_consts]: "HandleFlag_KEY_SET = 0x00040000"
definition HandleFlag_EXPECT_TWO_KEYS :: u32 where [raw_consts]: "HandleFlag_EXPECT_TWO_KEYS = 0x00080000"

definition TeeDataMaxPosition :: u32 where [raw_consts]: "TeeDataMaxPosition = 0xFFFFFFFF"
definition TeeObjectIdMaxLen :: u32 where [raw_consts]: "TeeObjectIdMaxLen = 64"

section \<open>Lemmas\<close>

lemma OperationMode_code_inj: "OperationMode_code a = OperationMode_code b \<longleftrightarrow> a = b"
  by (cases a; cases b) simp_all

lemma OperationStates_code_inj: "OperationStates_code a = OperationStates_code b \<longleftrightarrow> a = b"
  by (cases a; cases b) simp_all

lemma OperationConstant_code_inj: "OperationConstant_code a = OperationConstant_code b \<longleftrightarrow> a = b"
  by (cases a; cases b) simp_all

definition AlgorithmId_all :: "AlgorithmId list" where
  "AlgorithmId_all =
     [Alg_AesEcbNopad, Alg_AesCbcNopad, Alg_AesCtr, Alg_AesCts, Alg_AesXts,
      Alg_AesCbcMacNopad, Alg_AesCbcMacPkcs5, Alg_AesCmac, Alg_AesCcm, Alg_AesGcm,
      Alg_DesEcbNopad, Alg_DesCbcNopad, Alg_DesCbcMacNopad, Alg_DesCbcMacPkcs5, Alg_Des3EcbNopad,
      Alg_Des3CbcNopad, Alg_Des3CbcMacNopad, Alg_Des3CbcMacPkcs5, Alg_RsassaPkcs1V15, Alg_RsassaPkcs1V15MD5,
      Alg_RsassaPkcs1V15Sha1, Alg_RsassaPkcs1V15Sha224, Alg_RsassaPkcs1V15Sha256, Alg_RsassaPkcs1V15Sha384, Alg_RsassaPkcs1V15Sha512,
      Alg_RsassaPkcs1V15MD5Sha1, Alg_RsassaPkcs1PssMgf1MD5, Alg_RsassaPkcs1PssMgf1Sha1, Alg_RsassaPkcs1PssMgf1Sha224, Alg_RsassaPkcs1PssMgf1Sha256,
      Alg_RsassaPkcs1PssMgf1Sha384, Alg_RsassaPkcs1PssMgf1Sha512, Alg_RsaesPkcs1V15, Alg_RsaesPkcs1OAepMgf1MD5, Alg_RsaesPkcs1OAepMgf1Sha1,
      Alg_RsaesPkcs1OAepMgf1Sha224, Alg_RsaesPkcs1OAepMgf1Sha256, Alg_RsaesPkcs1OAepMgf1Sha384, Alg_RsaesPkcs1OAepMgf1Sha512, Alg_RsaNopad,
      Alg_DSASha1, Alg_DSASha224, Alg_DSASha256, Alg_DhDeriveSharedSecret, Alg_EcDhDeriveSharedSecret,
      Alg_Pbkdf2HmacSha1, Alg_Pbkdf2HmacSha224, Alg_Pbkdf2HmacSha256, Alg_Pbkdf2HmacSha384, Alg_Pbkdf2HmacSha512,
      Alg_Pbkdf2HmacSm3, Alg_EcDsaSha1, Alg_EcDsaSha224, Alg_EcDsaSha256, Alg_EcDsaSha384,
      Alg_EcDsaSha512, Alg_Ed25519, Alg_X25519, Alg_Md5, Alg_Sha1,
      Alg_Sha224, Alg_Sha256, Alg_Sha384, Alg_Sha512, Alg_Md5Sha1,
      Alg_HmacMd5, Alg_HmacSha1, Alg_HmacSha224, Alg_HmacSha256, Alg_HmacSha384,
      Alg_HmacSha512, Alg_IllegalValue]"

lemma AlgorithmId_all_complete: "a \<in> set AlgorithmId_all"
  by (cases a) (simp_all add: AlgorithmId_all_def)

lemma AlgorithmId_codes:
  "map AlgorithmId_code AlgorithmId_all =
     [0x10000010, 0x10000110, 0x10000210, 0x10000310, 0x10000410, 0x30000110, 0x30000510, 0x30000610,
      0x40000710, 0x40000810, 0x10000011, 0x10000111, 0x30000111, 0x30000511, 0x10000013, 0x10000113,
      0x30000113, 0x30000513, 0xF0000830, 0x70001830, 0x70002830, 0x70003830, 0x70004830, 0x70005830,
      0x70006830, 0x7000F830, 0xF0111930, 0x70212930, 0x70313930, 0x70414930, 0x70515930, 0x70616930,
      0x60000130, 0xF0110230, 0x60210230, 0x60310230, 0x60410230, 0x60510230, 0x60610230, 0x60000030,
      0x70002131, 0x70003131, 0x70004131, 0x80000032, 0x80000042, 0x800020C2, 0x800030C2, 0x800040C2,
      0x800050C2, 0x800060C2, 0x800070C2, 0x70001042, 0x70002042, 0x70003042, 0x70004042, 0x70005042,
      0x70006043, 0x80000044, 0x50000001, 0x50000002, 0x50000003, 0x50000004, 0x50000005, 0x50000006,
      0x5000000F, 0x30000001, 0x30000002, 0x30000003, 0x30000004, 0x30000005, 0x30000006, 0xefffffff]"
  by (simp add: AlgorithmId_all_def)

lemma AlgorithmId_codes_distinct: "distinct (map AlgorithmId_code AlgorithmId_all)"
  unfolding AlgorithmId_codes by code_simp

lemma AlgorithmId_code_inj: "AlgorithmId_code a = AlgorithmId_code b \<longleftrightarrow> a = b"
  using AlgorithmId_codes_distinct AlgorithmId_all_complete by (auto simp: distinct_map inj_on_def)

lemma ElementId_code_inj: "ElementId_code a = ElementId_code b \<longleftrightarrow> a = b"
  by (cases a; cases b) simp_all

definition TransientObjectType_all :: "TransientObjectType list" where
  "TransientObjectType_all =
     [Type_Aes, Type_Des, Type_Des3, Type_HmacMd5, Type_HmacSha1,
      Type_HmacSha224, Type_HmacSha256, Type_HmacSha384, Type_HmacSha512, Type_RsaPublicKey,
      Type_RsaKeypair, Type_DsaPublicKey, Type_DsaKeypair, Type_DhKeypair, Type_Pbkdf2Password,
      Type_EcdsaPublicKey, Type_EcdsaKeypair, Type_EcdhPublicKey, Type_EcdhKeypair, Type_Ed25519PublicKey,
      Type_Ed25519Keypair, Type_X25519PublicKey, Type_X25519Keypair, Type_GenericSecret, Type_CorruptedObject,
      Type_Data]"

lemma TransientObjectType_all_complete: "a \<in> set TransientObjectType_all"
  by (cases a) (simp_all add: TransientObjectType_all_def)

lemma TransientObjectType_codes:
  "map TransientObjectType_code TransientObjectType_all =
     [0xA0000010, 0xA0000011, 0xA0000013, 0xA0000001, 0xA0000002, 0xA0000003, 0xA0000004, 0xA0000005,
      0xA0000006, 0xA0000030, 0xA1000030, 0xA0000031, 0xA1000031, 0xA1000032, 0xA10000C2, 0xA0000041,
      0xA1000041, 0xA0000042, 0xA1000042, 0xA0000043, 0xA1000043, 0xA0000044, 0xA1000044, 0xA0000000,
      0xA00000BE, 0xA00000BF]"
  by (simp add: TransientObjectType_all_def)

lemma TransientObjectType_codes_distinct: "distinct (map TransientObjectType_code TransientObjectType_all)"
  unfolding TransientObjectType_codes by code_simp

lemma TransientObjectType_code_inj: "TransientObjectType_code a = TransientObjectType_code b \<longleftrightarrow> a = b"
  using TransientObjectType_codes_distinct TransientObjectType_all_complete by (auto simp: distinct_map inj_on_def)

definition AttributeId_all :: "AttributeId list" where
  "AttributeId_all =
     [Attr_SecretValue, Attr_RsaModulus, Attr_RsaPublicExponent, Attr_RsaPrivateExponent, Attr_RsaPrime1,
      Attr_RsaPrime2, Attr_RsaExponent1, Attr_RsaExponent2, Attr_RsaCoefficient, Attr_DsaPrime,
      Attr_DsaSubprime, Attr_DsaBase, Attr_DsaPublicValue, Attr_DsaPrivateValue, Attr_DhPrime,
      Attr_DhSubprime, Attr_DhBase, Attr_DhXBits, Attr_DhPublicValue, Attr_DhPrivateValue,
      Attr_Pbkdf2Password, Attr_Pbkdf2Salt, Attr_Pbkdf2IterationCount, Attr_Pbkdf2DkmLength, Attr_RsaOaepLabel,
      Attr_RsaOaepMgf1Hash, Attr_RsaPssSaltLength, Attr_EccPublicValueX, Attr_EccPublicValueY, Attr_EccPrivateValue,
      Attr_Ed25519PublicValue, Attr_Ed25519PrivateValue, Attr_X25519PublicValue, Attr_X25519PrivateValue, Attr_EccCurve,
      Attr_BitProtected, Attr_BitValue]"

lemma AttributeId_all_complete: "a \<in> set AttributeId_all"
  by (cases a) (simp_all add: AttributeId_all_def)

lemma AttributeId_codes:
  "map AttributeId_code AttributeId_all =
     [0xC0000000, 0xD0000130, 0xD0000230, 0xC0000330, 0xC0000430, 0xC0000530, 0xC0000630, 0xC0000730,
      0xC0000830, 0xD0001031, 0xD0001131, 0xD0001231, 0xD0000131, 0xC0000231, 0xD0001032, 0xD0001132,
      0xD0001232, 0xF0001332, 0xD0000132, 0xC0000232, 0xC00001C2, 0xD00002C2, 0xF00003C2, 0xF00004C2,
      0xD0000930, 0xD0000931, 0xF0000A30, 0xD0000141, 0xD0000241, 0xC0000341, 0xD0000743, 0xC0000843,
      0xD0000944, 0xC0000A44, 0xF0000441, 0x10000000, 0x20000000]"
  by (simp add: AttributeId_all_def)

lemma AttributeId_codes_distinct: "distinct (map AttributeId_code AttributeId_all)"
  unfolding AttributeId_codes by code_simp

lemma AttributeId_code_inj: "AttributeId_code a = AttributeId_code b \<longleftrightarrow> a = b"
  using AttributeId_codes_distinct AttributeId_all_complete by (auto simp: distinct_map inj_on_def)

text \<open>
  The number of the curve \<^verbatim>\<open>EccCurve25519\<close> is the one that the binding crate gives to
  another curve, SM2.
\<close>

lemma curve25519_is_sm2:
  "ElementId_code Element_EccCurve25519 = TEE_ECC_CURVE_SM2"
  by (simp add: raw_consts)

section \<open>Properties\<close>


end
