(* ===== verification/CryptoOp.thy ===== *)
theory CryptoOp
  imports CryptoIds Boxes
begin

text \<open>
  Cryptographic operations, \<^verbatim>\<open>optee-utee/src/crypto_op.rs\<close>: the handle that all of them own
  (\<open>OperationHandle\<close>) and the wrappers for digests, ciphers, message authentication,
  authenticated encryption, asymmetric operations and key derivation, method by method.

  The functions of the TEE are a parameter.  A function that fills a caller's buffer gets
  the length of the buffer and answers with a code, the bytes it stored at its start and
  the length it reports.  A method that reads the heap cell of its handle returns a
  \<open>run\<close>: it is undefined when there is no such cell.  Allocating the vectors of
  \<^verbatim>\<open>encrypt\<close> and \<^verbatim>\<open>decrypt\<close>, which aborts when memory runs out, is assumed to succeed.
\<close>

section \<open>Definitions\<close>

record TEE_OperationInfo =
  algorithm :: u32
  operationClass :: u32
  operation_mode :: u32
  digestLength :: u32
  maxKeySize :: u32
  keySize :: u32
  requiredKeyUsage :: u32
  handleState :: u32

record 'w crypto_api =
  TEE_AllocateOperation :: "u32 \<Rightarrow> u32 \<Rightarrow> u32 \<Rightarrow> 'w \<Rightarrow> (u32 \<times> raw_handle) \<times> 'w"
  TEE_FreeOperation :: "raw_handle \<Rightarrow> 'w \<Rightarrow> 'w"
  TEE_GetOperationInfo :: "raw_handle \<Rightarrow> 'w \<Rightarrow> TEE_OperationInfo \<times> 'w"
  TEE_GetOperationInfoMultiple :: "raw_handle \<Rightarrow> usize \<Rightarrow> 'w \<Rightarrow> (u32 \<times> bytes \<times> usize) \<times> 'w"
  TEE_ResetOperation :: "raw_handle \<Rightarrow> 'w \<Rightarrow> 'w"
  TEE_SetOperationKey :: "raw_handle \<Rightarrow> raw_handle \<Rightarrow> 'w \<Rightarrow> u32 \<times> 'w"
  TEE_SetOperationKey2 :: "raw_handle \<Rightarrow> raw_handle \<Rightarrow> raw_handle \<Rightarrow> 'w \<Rightarrow> u32 \<times> 'w"
  TEE_CopyOperation :: "raw_handle \<Rightarrow> raw_handle \<Rightarrow> 'w \<Rightarrow> 'w"
  TEE_IsAlgorithmSupported :: "u32 \<Rightarrow> u32 \<Rightarrow> 'w \<Rightarrow> u32 \<times> 'w"
  TEE_DigestUpdate :: "raw_handle \<Rightarrow> bytes \<Rightarrow> 'w \<Rightarrow> 'w"
  TEE_DigestDoFinal :: "raw_handle \<Rightarrow> bytes \<Rightarrow> usize \<Rightarrow> 'w \<Rightarrow> (u32 \<times> bytes \<times> usize) \<times> 'w"
  TEE_CipherInit :: "raw_handle \<Rightarrow> bytes \<Rightarrow> 'w \<Rightarrow> 'w"
  TEE_CipherUpdate :: "raw_handle \<Rightarrow> bytes \<Rightarrow> usize \<Rightarrow> 'w \<Rightarrow> (u32 \<times> bytes \<times> usize) \<times> 'w"
  TEE_CipherDoFinal :: "raw_handle \<Rightarrow> bytes \<Rightarrow> usize \<Rightarrow> 'w \<Rightarrow> (u32 \<times> bytes \<times> usize) \<times> 'w"
  TEE_MACInit :: "raw_handle \<Rightarrow> bytes \<Rightarrow> 'w \<Rightarrow> 'w"
  TEE_MACUpdate :: "raw_handle \<Rightarrow> bytes \<Rightarrow> 'w \<Rightarrow> 'w"
  TEE_MACComputeFinal :: "raw_handle \<Rightarrow> bytes \<Rightarrow> usize \<Rightarrow> 'w \<Rightarrow> (u32 \<times> bytes \<times> usize) \<times> 'w"
  TEE_MACCompareFinal :: "raw_handle \<Rightarrow> bytes \<Rightarrow> bytes \<Rightarrow> 'w \<Rightarrow> u32 \<times> 'w"
  TEE_AEInit :: "raw_handle \<Rightarrow> bytes \<Rightarrow> u32 \<Rightarrow> usize \<Rightarrow> usize \<Rightarrow> 'w \<Rightarrow> u32 \<times> 'w"
  TEE_AEUpdateAAD :: "raw_handle \<Rightarrow> bytes \<Rightarrow> 'w \<Rightarrow> 'w"
  TEE_AEUpdate :: "raw_handle \<Rightarrow> bytes \<Rightarrow> usize \<Rightarrow> 'w \<Rightarrow> (u32 \<times> bytes \<times> usize) \<times> 'w"
  TEE_AEEncryptFinal ::
    "raw_handle \<Rightarrow> bytes \<Rightarrow> usize \<Rightarrow> usize \<Rightarrow> 'w \<Rightarrow> (u32 \<times> (bytes \<times> usize) \<times> bytes \<times> usize) \<times> 'w"
  TEE_AEDecryptFinal :: "raw_handle \<Rightarrow> bytes \<Rightarrow> usize \<Rightarrow> bytes \<Rightarrow> 'w \<Rightarrow> (u32 \<times> bytes \<times> usize) \<times> 'w"
  TEE_AsymmetricEncrypt ::
    "raw_handle \<Rightarrow> TEE_Attribute list \<Rightarrow> u32 \<Rightarrow> bytes \<Rightarrow> usize \<Rightarrow> 'w \<Rightarrow> (u32 \<times> bytes \<times> usize) \<times> 'w"
  TEE_AsymmetricDecrypt ::
    "raw_handle \<Rightarrow> TEE_Attribute list \<Rightarrow> u32 \<Rightarrow> bytes \<Rightarrow> usize \<Rightarrow> 'w \<Rightarrow> (u32 \<times> bytes \<times> usize) \<times> 'w"
  TEE_AsymmetricSignDigest ::
    "raw_handle \<Rightarrow> TEE_Attribute list \<Rightarrow> u32 \<Rightarrow> bytes \<Rightarrow> usize \<Rightarrow> 'w \<Rightarrow> (u32 \<times> bytes \<times> usize) \<times> 'w"
  TEE_AsymmetricVerifyDigest ::
    "raw_handle \<Rightarrow> TEE_Attribute list \<Rightarrow> u32 \<Rightarrow> bytes \<Rightarrow> bytes \<Rightarrow> 'w \<Rightarrow> u32 \<times> 'w"
  TEE_DeriveKey :: "raw_handle \<Rightarrow> TEE_Attribute list \<Rightarrow> u32 \<Rightarrow> raw_handle \<Rightarrow> 'w \<Rightarrow> 'w"
  TEE_GenerateRandom :: "usize \<Rightarrow> 'w \<Rightarrow> bytes \<times> 'w"

subsection \<open>Results of the TEE\<close>

text \<open>
  A code as a \<^verbatim>\<open>Result\<close>, and a call that stores into a buffer: the \<^verbatim>\<open>Result\<close> with the
  reported length, the buffer after the call, and the world.
\<close>

definition checked :: "u32 \<times> 'w \<Rightarrow> (Error + unit) \<times> 'w" where
  "checked r = (case r of (code, w) \<Rightarrow> (tee_check code, w))"

definition into_buffer :: "bytes \<Rightarrow> (u32 \<times> bytes \<times> usize) \<times> 'w \<Rightarrow> (Error + usize) \<times> bytes \<times> 'w" where
  "into_buffer dest r =
     (case r of ((code, out, n), w) \<Rightarrow>
        (try_bind (tee_check code) (\<lambda>_. Inr n), overwrite dest 0 out, w))"

subsection \<open>OperationInfo and OperationHandle\<close>

record OperationInfo =
  operation_info_raw :: TEE_OperationInfo

definition OperationInfo_from_raw :: "TEE_OperationInfo \<Rightarrow> OperationInfo" where
  "OperationInfo_from_raw raw = \<lparr>operation_info_raw = raw\<rparr>"

definition key_size :: "OperationInfo \<Rightarrow> u32" where
  "key_size self = keySize (operation_info_raw self)"

definition max_key_size :: "OperationInfo \<Rightarrow> u32" where
  "max_key_size self = maxKeySize (operation_info_raw self)"

text \<open>A view of the caller's buffer: its content and the size that was reported.\<close>

record OperationInfoMultiple =
  oim_raw :: bytes
  oim_size :: usize

record OperationHandle =
  oph_raw :: u64

definition OperationHandle_handle :: "boxes \<Rightarrow> OperationHandle \<Rightarrow> raw_handle run" where
  "OperationHandle_handle b self = box_read b (oph_raw self)"

definition OperationHandle_null :: OperationHandle where
  "OperationHandle_null = \<lparr>oph_raw = 0\<rparr>"

definition OperationHandle_allocate ::
    "'w crypto_api \<Rightarrow> allocator \<Rightarrow> AlgorithmId \<Rightarrow> OperationMode \<Rightarrow> usize \<Rightarrow> 'w \<Rightarrow> boxes \<Rightarrow>
     ((Error + OperationHandle) \<times> 'w \<times> boxes) run" where
  "OperationHandle_allocate T alloc algo mode key_max w b =
     run_map (\<lambda>(raw, b1).
         case TEE_AllocateOperation T (AlgorithmId_code algo) (OperationMode_code mode) (of_nat key_max) w of
           ((code, h), w1) \<Rightarrow>
             (try_bind (tee_check code) (\<lambda>_. Inr \<lparr>oph_raw = raw\<rparr>), w1,
              if code = TEE_SUCCESS then b1(raw \<mapsto> h) else b1))
       (box_new alloc 0 b)"

definition OperationHandle_info ::
    "'w crypto_api \<Rightarrow> boxes \<Rightarrow> OperationHandle \<Rightarrow> 'w \<Rightarrow> (OperationInfo \<times> 'w) run" where
  "OperationHandle_info T b self w =
     run_map (\<lambda>h. case TEE_GetOperationInfo T h w of (raw, w1) \<Rightarrow> (OperationInfo_from_raw raw, w1))
       (OperationHandle_handle b self)"

definition OperationHandle_info_multiple ::
    "'w crypto_api \<Rightarrow> boxes \<Rightarrow> OperationHandle \<Rightarrow> bytes \<Rightarrow> 'w \<Rightarrow> ((Error + OperationInfoMultiple) \<times> bytes \<times> 'w) run" where
  "OperationHandle_info_multiple T b self info_buf w =
     run_map (\<lambda>h. let tmp_size = 0
                  in case into_buffer info_buf (TEE_GetOperationInfoMultiple T h tmp_size w) of
                       (r, buf, w1) \<Rightarrow> (try_bind r (\<lambda>n. Inr \<lparr>oim_raw = buf, oim_size = n\<rparr>), buf, w1))
       (OperationHandle_handle b self)"

definition OperationHandle_reset :: "'w crypto_api \<Rightarrow> boxes \<Rightarrow> OperationHandle \<Rightarrow> 'w \<Rightarrow> 'w run" where
  "OperationHandle_reset T b self w = run_map (\<lambda>h. TEE_ResetOperation T h w) (OperationHandle_handle b self)"

definition OperationHandle_set_key ::
    "'w crypto_api \<Rightarrow> boxes \<Rightarrow> OperationHandle \<Rightarrow> raw_handle \<Rightarrow> 'w \<Rightarrow> ((Error + unit) \<times> 'w) run" where
  "OperationHandle_set_key T b self obj w =
     run_map (\<lambda>h. checked (TEE_SetOperationKey T h obj w)) (OperationHandle_handle b self)"

definition OperationHandle_set_key_2 ::
    "'w crypto_api \<Rightarrow> boxes \<Rightarrow> OperationHandle \<Rightarrow> raw_handle \<Rightarrow> raw_handle \<Rightarrow> 'w \<Rightarrow> ((Error + unit) \<times> 'w) run" where
  "OperationHandle_set_key_2 T b self object1 object2 w =
     run_map (\<lambda>h. checked (TEE_SetOperationKey2 T h object1 object2 w)) (OperationHandle_handle b self)"

definition OperationHandle_copy ::
    "'w crypto_api \<Rightarrow> boxes \<Rightarrow> OperationHandle \<Rightarrow> OperationHandle \<Rightarrow> 'w \<Rightarrow> 'w run" where
  "OperationHandle_copy T b self src w =
     run_bind (OperationHandle_handle b self) (\<lambda>h.
       run_map (\<lambda>s. TEE_CopyOperation T h s w) (OperationHandle_handle b src))"

text \<open>The test for null guards the call to the TEE only; the cell is freed in any case.\<close>

definition OperationHandle_drop ::
    "'w crypto_api \<Rightarrow> OperationHandle \<Rightarrow> 'w \<Rightarrow> boxes \<Rightarrow> ('w \<times> boxes) run" where
  "OperationHandle_drop T self w b =
     run_bind (if oph_raw self \<noteq> 0
               then run_map (\<lambda>h. TEE_FreeOperation T h w) (OperationHandle_handle b self)
               else Finishes w)
       (\<lambda>w1. run_map (\<lambda>b1. (w1, b1)) (box_free (oph_raw self) b))"

definition is_algorithm_supported :: "'w crypto_api \<Rightarrow> u32 \<Rightarrow> u32 \<Rightarrow> 'w \<Rightarrow> (Error + unit) \<times> 'w" where
  "is_algorithm_supported T alg_id element w = checked (TEE_IsAlgorithmSupported T alg_id element w)"

subsection \<open>Digest\<close>

record Digest =
  digest_op :: OperationHandle

definition Digest_handle :: "boxes \<Rightarrow> Digest \<Rightarrow> raw_handle run" where
  "Digest_handle b self = OperationHandle_handle b (digest_op self)"

definition Digest_null :: Digest where
  "Digest_null = \<lparr>digest_op = OperationHandle_null\<rparr>"

definition Digest_allocate ::
    "'w crypto_api \<Rightarrow> allocator \<Rightarrow> AlgorithmId \<Rightarrow> 'w \<Rightarrow> boxes \<Rightarrow> ((Error + Digest) \<times> 'w \<times> boxes) run" where
  "Digest_allocate T alloc algo w b =
     run_map (\<lambda>(r, w1, b1). (case r of Inr handle \<Rightarrow> Inr \<lparr>digest_op = handle\<rparr> | Inl e \<Rightarrow> Inl e, w1, b1))
       (OperationHandle_allocate T alloc algo Mode_Digest 0 w b)"

definition Digest_update :: "'w crypto_api \<Rightarrow> boxes \<Rightarrow> Digest \<Rightarrow> bytes \<Rightarrow> 'w \<Rightarrow> 'w run" where
  "Digest_update T b self data w = run_map (\<lambda>h. TEE_DigestUpdate T h data w) (Digest_handle b self)"

definition Digest_do_final ::
    "'w crypto_api \<Rightarrow> boxes \<Rightarrow> Digest \<Rightarrow> bytes \<Rightarrow> bytes \<Rightarrow> 'w \<Rightarrow> ((Error + usize) \<times> bytes \<times> 'w) run" where
  "Digest_do_final T b self src dest w =
     run_map (\<lambda>h. into_buffer dest (TEE_DigestDoFinal T h src (length dest) w)) (Digest_handle b self)"

definition Digest_info :: "'w crypto_api \<Rightarrow> boxes \<Rightarrow> Digest \<Rightarrow> 'w \<Rightarrow> (OperationInfo \<times> 'w) run" where
  "Digest_info T b self w = OperationHandle_info T b (digest_op self) w"

definition Digest_info_multiple ::
    "'w crypto_api \<Rightarrow> boxes \<Rightarrow> Digest \<Rightarrow> bytes \<Rightarrow> 'w \<Rightarrow> ((Error + OperationInfoMultiple) \<times> bytes \<times> 'w) run" where
  "Digest_info_multiple T b self info_buf w = OperationHandle_info_multiple T b (digest_op self) info_buf w"

definition Digest_reset :: "'w crypto_api \<Rightarrow> boxes \<Rightarrow> Digest \<Rightarrow> 'w \<Rightarrow> 'w run" where
  "Digest_reset T b self w = OperationHandle_reset T b (digest_op self) w"

definition Digest_copy :: "'w crypto_api \<Rightarrow> boxes \<Rightarrow> Digest \<Rightarrow> OperationHandle \<Rightarrow> 'w \<Rightarrow> 'w run" where
  "Digest_copy T b self src w = OperationHandle_copy T b (digest_op self) src w"

subsection \<open>Cipher\<close>

record Cipher =
  cipher_op :: OperationHandle

definition Cipher_handle :: "boxes \<Rightarrow> Cipher \<Rightarrow> raw_handle run" where
  "Cipher_handle b self = OperationHandle_handle b (cipher_op self)"

definition Cipher_null :: Cipher where
  "Cipher_null = \<lparr>cipher_op = OperationHandle_null\<rparr>"

definition Cipher_allocate ::
    "'w crypto_api \<Rightarrow> allocator \<Rightarrow> AlgorithmId \<Rightarrow> OperationMode \<Rightarrow> usize \<Rightarrow> 'w \<Rightarrow> boxes \<Rightarrow> ((Error + Cipher) \<times> 'w \<times> boxes) run" where
  "Cipher_allocate T alloc algo mode key_max w b =
     run_map (\<lambda>(r, w1, b1). (case r of Inr handle \<Rightarrow> Inr \<lparr>cipher_op = handle\<rparr> | Inl e \<Rightarrow> Inl e, w1, b1))
       (OperationHandle_allocate T alloc algo mode key_max w b)"

definition Cipher_init :: "'w crypto_api \<Rightarrow> boxes \<Rightarrow> Cipher \<Rightarrow> bytes \<Rightarrow> 'w \<Rightarrow> 'w run" where
  "Cipher_init T b self data w = run_map (\<lambda>h. TEE_CipherInit T h data w) (Cipher_handle b self)"

definition Cipher_update ::
    "'w crypto_api \<Rightarrow> boxes \<Rightarrow> Cipher \<Rightarrow> bytes \<Rightarrow> bytes \<Rightarrow> 'w \<Rightarrow> ((Error + usize) \<times> bytes \<times> 'w) run" where
  "Cipher_update T b self src dest w =
     run_map (\<lambda>h. into_buffer dest (TEE_CipherUpdate T h src (length dest) w)) (Cipher_handle b self)"

definition Cipher_do_final ::
    "'w crypto_api \<Rightarrow> boxes \<Rightarrow> Cipher \<Rightarrow> bytes \<Rightarrow> bytes \<Rightarrow> 'w \<Rightarrow> ((Error + usize) \<times> bytes \<times> 'w) run" where
  "Cipher_do_final T b self src dest w =
     run_map (\<lambda>h. into_buffer dest (TEE_CipherDoFinal T h src (length dest) w)) (Cipher_handle b self)"

definition Cipher_info :: "'w crypto_api \<Rightarrow> boxes \<Rightarrow> Cipher \<Rightarrow> 'w \<Rightarrow> (OperationInfo \<times> 'w) run" where
  "Cipher_info T b self w = OperationHandle_info T b (cipher_op self) w"

definition Cipher_info_multiple ::
    "'w crypto_api \<Rightarrow> boxes \<Rightarrow> Cipher \<Rightarrow> bytes \<Rightarrow> 'w \<Rightarrow> ((Error + OperationInfoMultiple) \<times> bytes \<times> 'w) run" where
  "Cipher_info_multiple T b self info_buf w = OperationHandle_info_multiple T b (cipher_op self) info_buf w"

definition Cipher_set_key :: "'w crypto_api \<Rightarrow> boxes \<Rightarrow> Cipher \<Rightarrow> raw_handle \<Rightarrow> 'w \<Rightarrow> ((Error + unit) \<times> 'w) run" where
  "Cipher_set_key T b self obj w = OperationHandle_set_key T b (cipher_op self) obj w"

definition Cipher_set_key_2 ::
    "'w crypto_api \<Rightarrow> boxes \<Rightarrow> Cipher \<Rightarrow> raw_handle \<Rightarrow> raw_handle \<Rightarrow> 'w \<Rightarrow> ((Error + unit) \<times> 'w) run" where
  "Cipher_set_key_2 T b self object1 object2 w = OperationHandle_set_key_2 T b (cipher_op self) object1 object2 w"

definition Cipher_copy :: "'w crypto_api \<Rightarrow> boxes \<Rightarrow> Cipher \<Rightarrow> OperationHandle \<Rightarrow> 'w \<Rightarrow> 'w run" where
  "Cipher_copy T b self src w = OperationHandle_copy T b (cipher_op self) src w"

subsection \<open>Mac\<close>

record Mac =
  mac_op :: OperationHandle

definition Mac_handle :: "boxes \<Rightarrow> Mac \<Rightarrow> raw_handle run" where
  "Mac_handle b self = OperationHandle_handle b (mac_op self)"

definition Mac_null :: Mac where
  "Mac_null = \<lparr>mac_op = OperationHandle_null\<rparr>"

definition Mac_allocate ::
    "'w crypto_api \<Rightarrow> allocator \<Rightarrow> AlgorithmId \<Rightarrow> usize \<Rightarrow> 'w \<Rightarrow> boxes \<Rightarrow> ((Error + Mac) \<times> 'w \<times> boxes) run" where
  "Mac_allocate T alloc algo key_max w b =
     run_map (\<lambda>(r, w1, b1). (case r of Inr handle \<Rightarrow> Inr \<lparr>mac_op = handle\<rparr> | Inl e \<Rightarrow> Inl e, w1, b1))
       (OperationHandle_allocate T alloc algo Mode_Mac key_max w b)"

definition Mac_init :: "'w crypto_api \<Rightarrow> boxes \<Rightarrow> Mac \<Rightarrow> bytes \<Rightarrow> 'w \<Rightarrow> 'w run" where
  "Mac_init T b self data w = run_map (\<lambda>h. TEE_MACInit T h data w) (Mac_handle b self)"

definition Mac_update :: "'w crypto_api \<Rightarrow> boxes \<Rightarrow> Mac \<Rightarrow> bytes \<Rightarrow> 'w \<Rightarrow> 'w run" where
  "Mac_update T b self data w = run_map (\<lambda>h. TEE_MACUpdate T h data w) (Mac_handle b self)"

definition Mac_compute_final ::
    "'w crypto_api \<Rightarrow> boxes \<Rightarrow> Mac \<Rightarrow> bytes \<Rightarrow> bytes \<Rightarrow> 'w \<Rightarrow> ((Error + usize) \<times> bytes \<times> 'w) run" where
  "Mac_compute_final T b self src dest w =
     run_map (\<lambda>h. into_buffer dest (TEE_MACComputeFinal T h src (length dest) w)) (Mac_handle b self)"

definition Mac_compare_final ::
    "'w crypto_api \<Rightarrow> boxes \<Rightarrow> Mac \<Rightarrow> bytes \<Rightarrow> bytes \<Rightarrow> 'w \<Rightarrow> ((Error + unit) \<times> 'w) run" where
  "Mac_compare_final T b self msg mac w =
     run_map (\<lambda>h. checked (TEE_MACCompareFinal T h msg mac w)) (Mac_handle b self)"

definition Mac_info :: "'w crypto_api \<Rightarrow> boxes \<Rightarrow> Mac \<Rightarrow> 'w \<Rightarrow> (OperationInfo \<times> 'w) run" where
  "Mac_info T b self w = OperationHandle_info T b (mac_op self) w"

definition Mac_info_multiple ::
    "'w crypto_api \<Rightarrow> boxes \<Rightarrow> Mac \<Rightarrow> bytes \<Rightarrow> 'w \<Rightarrow> ((Error + OperationInfoMultiple) \<times> bytes \<times> 'w) run" where
  "Mac_info_multiple T b self info_buf w = OperationHandle_info_multiple T b (mac_op self) info_buf w"

definition Mac_reset :: "'w crypto_api \<Rightarrow> boxes \<Rightarrow> Mac \<Rightarrow> 'w \<Rightarrow> 'w run" where
  "Mac_reset T b self w = OperationHandle_reset T b (mac_op self) w"

definition Mac_set_key :: "'w crypto_api \<Rightarrow> boxes \<Rightarrow> Mac \<Rightarrow> raw_handle \<Rightarrow> 'w \<Rightarrow> ((Error + unit) \<times> 'w) run" where
  "Mac_set_key T b self obj w = OperationHandle_set_key T b (mac_op self) obj w"

definition Mac_copy :: "'w crypto_api \<Rightarrow> boxes \<Rightarrow> Mac \<Rightarrow> OperationHandle \<Rightarrow> 'w \<Rightarrow> 'w run" where
  "Mac_copy T b self src w = OperationHandle_copy T b (mac_op self) src w"

subsection \<open>AE\<close>

record AE =
  ae_op :: OperationHandle

definition AE_handle :: "boxes \<Rightarrow> AE \<Rightarrow> raw_handle run" where
  "AE_handle b self = OperationHandle_handle b (ae_op self)"

definition AE_null :: AE where
  "AE_null = \<lparr>ae_op = OperationHandle_null\<rparr>"

definition AE_allocate ::
    "'w crypto_api \<Rightarrow> allocator \<Rightarrow> AlgorithmId \<Rightarrow> OperationMode \<Rightarrow> usize \<Rightarrow> 'w \<Rightarrow> boxes \<Rightarrow> ((Error + AE) \<times> 'w \<times> boxes) run" where
  "AE_allocate T alloc algo mode key_max w b =
     run_map (\<lambda>(r, w1, b1). (case r of Inr handle \<Rightarrow> Inr \<lparr>ae_op = handle\<rparr> | Inl e \<Rightarrow> Inl e, w1, b1))
       (OperationHandle_allocate T alloc algo mode key_max w b)"

definition AE_init ::
    "'w crypto_api \<Rightarrow> boxes \<Rightarrow> AE \<Rightarrow> bytes \<Rightarrow> usize \<Rightarrow> usize \<Rightarrow> usize \<Rightarrow> 'w \<Rightarrow> ((Error + unit) \<times> 'w) run" where
  "AE_init T b self nonce tag_len aad_len pay_load_len w =
     run_map (\<lambda>h. checked (TEE_AEInit T h nonce (of_nat tag_len) aad_len pay_load_len w)) (AE_handle b self)"

definition AE_update_aad :: "'w crypto_api \<Rightarrow> boxes \<Rightarrow> AE \<Rightarrow> bytes \<Rightarrow> 'w \<Rightarrow> 'w run" where
  "AE_update_aad T b self data w = run_map (\<lambda>h. TEE_AEUpdateAAD T h data w) (AE_handle b self)"

definition AE_update ::
    "'w crypto_api \<Rightarrow> boxes \<Rightarrow> AE \<Rightarrow> bytes \<Rightarrow> bytes \<Rightarrow> 'w \<Rightarrow> ((Error + usize) \<times> bytes \<times> 'w) run" where
  "AE_update T b self src dest w =
     run_map (\<lambda>h. into_buffer dest (TEE_AEUpdate T h src (length dest) w)) (AE_handle b self)"

definition AE_encrypt_final ::
    "'w crypto_api \<Rightarrow> boxes \<Rightarrow> AE \<Rightarrow> bytes \<Rightarrow> bytes \<Rightarrow> bytes \<Rightarrow> 'w \<Rightarrow>
     ((Error + usize \<times> usize) \<times> bytes \<times> bytes \<times> 'w) run" where
  "AE_encrypt_final T b self src dest tag w =
     run_map (\<lambda>h. case TEE_AEEncryptFinal T h src (length dest) (length tag) w of
                    ((code, (out, n), (tag_out, m)), w1) \<Rightarrow>
                      (try_bind (tee_check code) (\<lambda>_. Inr (n, m)),
                       overwrite dest 0 out, overwrite tag 0 tag_out, w1))
       (AE_handle b self)"

definition AE_decrypt_final ::
    "'w crypto_api \<Rightarrow> boxes \<Rightarrow> AE \<Rightarrow> bytes \<Rightarrow> bytes \<Rightarrow> bytes \<Rightarrow> 'w \<Rightarrow> ((Error + usize) \<times> bytes \<times> 'w) run" where
  "AE_decrypt_final T b self src dest tag w =
     run_map (\<lambda>h. into_buffer dest (TEE_AEDecryptFinal T h src (length dest) tag w)) (AE_handle b self)"

definition AE_info :: "'w crypto_api \<Rightarrow> boxes \<Rightarrow> AE \<Rightarrow> 'w \<Rightarrow> (OperationInfo \<times> 'w) run" where
  "AE_info T b self w = OperationHandle_info T b (ae_op self) w"

definition AE_info_multiple ::
    "'w crypto_api \<Rightarrow> boxes \<Rightarrow> AE \<Rightarrow> bytes \<Rightarrow> 'w \<Rightarrow> ((Error + OperationInfoMultiple) \<times> bytes \<times> 'w) run" where
  "AE_info_multiple T b self info_buf w = OperationHandle_info_multiple T b (ae_op self) info_buf w"

definition AE_reset :: "'w crypto_api \<Rightarrow> boxes \<Rightarrow> AE \<Rightarrow> 'w \<Rightarrow> 'w run" where
  "AE_reset T b self w = OperationHandle_reset T b (ae_op self) w"

definition AE_set_key :: "'w crypto_api \<Rightarrow> boxes \<Rightarrow> AE \<Rightarrow> raw_handle \<Rightarrow> 'w \<Rightarrow> ((Error + unit) \<times> 'w) run" where
  "AE_set_key T b self obj w = OperationHandle_set_key T b (ae_op self) obj w"

definition AE_copy :: "'w crypto_api \<Rightarrow> boxes \<Rightarrow> AE \<Rightarrow> OperationHandle \<Rightarrow> 'w \<Rightarrow> 'w run" where
  "AE_copy T b self src w = OperationHandle_copy T b (ae_op self) src w"

subsection \<open>Asymmetric\<close>

record Asymmetric =
  asymmetric_op :: OperationHandle

definition Asymmetric_handle :: "boxes \<Rightarrow> Asymmetric \<Rightarrow> raw_handle run" where
  "Asymmetric_handle b self = OperationHandle_handle b (asymmetric_op self)"

definition Asymmetric_null :: Asymmetric where
  "Asymmetric_null = \<lparr>asymmetric_op = OperationHandle_null\<rparr>"

definition Asymmetric_allocate ::
    "'w crypto_api \<Rightarrow> allocator \<Rightarrow> AlgorithmId \<Rightarrow> OperationMode \<Rightarrow> usize \<Rightarrow> 'w \<Rightarrow> boxes \<Rightarrow> ((Error + Asymmetric) \<times> 'w \<times> boxes) run" where
  "Asymmetric_allocate T alloc algo mode key_max w b =
     run_map (\<lambda>(r, w1, b1). (case r of Inr handle \<Rightarrow> Inr \<lparr>asymmetric_op = handle\<rparr> | Inl e \<Rightarrow> Inl e, w1, b1))
       (OperationHandle_allocate T alloc algo mode key_max w b)"

definition Asymmetric_encrypt ::
    "'w crypto_api \<Rightarrow> boxes \<Rightarrow> Asymmetric \<Rightarrow> Attribute list \<Rightarrow> bytes \<Rightarrow> 'w \<Rightarrow> ((Error + bytes) \<times> 'w) run" where
  "Asymmetric_encrypt T b self params src w =
     run_bind (OperationHandle_info T b (asymmetric_op self) w) (\<lambda>(info, w1).
       let res_size = unat (key_size info);
           res_vec = replicate res_size 0
       in run_map (\<lambda>h.
              case into_buffer res_vec
                     (TEE_AsymmetricEncrypt T h (map attribute_raw params) (of_nat (length params)) src res_size w1) of
                (r, vec, w2) \<Rightarrow> (try_bind r (\<lambda>n. Inr (take n vec)), w2))
            (Asymmetric_handle b self))"

definition Asymmetric_decrypt ::
    "'w crypto_api \<Rightarrow> boxes \<Rightarrow> Asymmetric \<Rightarrow> Attribute list \<Rightarrow> bytes \<Rightarrow> 'w \<Rightarrow> ((Error + bytes) \<times> 'w) run" where
  "Asymmetric_decrypt T b self params src w =
     run_bind (OperationHandle_info T b (asymmetric_op self) w) (\<lambda>(info, w1).
       let res_size = unat (key_size info);
           res_vec = replicate res_size 0
       in run_map (\<lambda>h.
              case into_buffer res_vec
                     (TEE_AsymmetricDecrypt T h (map attribute_raw params) (of_nat (length params)) src res_size w1) of
                (r, vec, w2) \<Rightarrow> (try_bind r (\<lambda>n. Inr (take n vec)), w2))
            (Asymmetric_handle b self))"

definition Asymmetric_sign_digest ::
    "'w crypto_api \<Rightarrow> boxes \<Rightarrow> Asymmetric \<Rightarrow> Attribute list \<Rightarrow> bytes \<Rightarrow> bytes \<Rightarrow> 'w \<Rightarrow>
     ((Error + usize) \<times> bytes \<times> 'w) run" where
  "Asymmetric_sign_digest T b self params digest signature w =
     run_map (\<lambda>h. into_buffer signature
                    (TEE_AsymmetricSignDigest T h (map attribute_raw params) (of_nat (length params)) digest
                       (length signature) w))
       (Asymmetric_handle b self)"

definition Asymmetric_verify_digest ::
    "'w crypto_api \<Rightarrow> boxes \<Rightarrow> Asymmetric \<Rightarrow> Attribute list \<Rightarrow> bytes \<Rightarrow> bytes \<Rightarrow> 'w \<Rightarrow> ((Error + unit) \<times> 'w) run" where
  "Asymmetric_verify_digest T b self params digest signature w =
     run_map (\<lambda>h. checked (TEE_AsymmetricVerifyDigest T h (map attribute_raw params) (of_nat (length params))
                    digest signature w))
       (Asymmetric_handle b self)"

definition Asymmetric_info :: "'w crypto_api \<Rightarrow> boxes \<Rightarrow> Asymmetric \<Rightarrow> 'w \<Rightarrow> (OperationInfo \<times> 'w) run" where
  "Asymmetric_info T b self w = OperationHandle_info T b (asymmetric_op self) w"

definition Asymmetric_info_multiple ::
    "'w crypto_api \<Rightarrow> boxes \<Rightarrow> Asymmetric \<Rightarrow> bytes \<Rightarrow> 'w \<Rightarrow> ((Error + OperationInfoMultiple) \<times> bytes \<times> 'w) run" where
  "Asymmetric_info_multiple T b self info_buf w = OperationHandle_info_multiple T b (asymmetric_op self) info_buf w"

definition Asymmetric_set_key :: "'w crypto_api \<Rightarrow> boxes \<Rightarrow> Asymmetric \<Rightarrow> raw_handle \<Rightarrow> 'w \<Rightarrow> ((Error + unit) \<times> 'w) run" where
  "Asymmetric_set_key T b self obj w = OperationHandle_set_key T b (asymmetric_op self) obj w"

definition Asymmetric_copy :: "'w crypto_api \<Rightarrow> boxes \<Rightarrow> Asymmetric \<Rightarrow> OperationHandle \<Rightarrow> 'w \<Rightarrow> 'w run" where
  "Asymmetric_copy T b self src w = OperationHandle_copy T b (asymmetric_op self) src w"

subsection \<open>DeriveKey\<close>

record DeriveKey =
  derive_op :: OperationHandle

definition DeriveKey_handle :: "boxes \<Rightarrow> DeriveKey \<Rightarrow> raw_handle run" where
  "DeriveKey_handle b self = OperationHandle_handle b (derive_op self)"

definition DeriveKey_null :: DeriveKey where
  "DeriveKey_null = \<lparr>derive_op = OperationHandle_null\<rparr>"

definition DeriveKey_allocate ::
    "'w crypto_api \<Rightarrow> allocator \<Rightarrow> AlgorithmId \<Rightarrow> usize \<Rightarrow> 'w \<Rightarrow> boxes \<Rightarrow> ((Error + DeriveKey) \<times> 'w \<times> boxes) run" where
  "DeriveKey_allocate T alloc algo key_max w b =
     run_map (\<lambda>(r, w1, b1). (case r of Inr handle \<Rightarrow> Inr \<lparr>derive_op = handle\<rparr> | Inl e \<Rightarrow> Inl e, w1, b1))
       (OperationHandle_allocate T alloc algo Mode_Derive key_max w b)"

definition DeriveKey_derive ::
    "'w crypto_api \<Rightarrow> boxes \<Rightarrow> DeriveKey \<Rightarrow> Attribute list \<Rightarrow> TransientObject \<Rightarrow> 'w \<Rightarrow> 'w run" where
  "DeriveKey_derive T b self params obj w =
     run_map (\<lambda>h. TEE_DeriveKey T h (map attribute_raw params) (of_nat (length params)) (to_raw obj) w)
       (DeriveKey_handle b self)"

definition DeriveKey_info :: "'w crypto_api \<Rightarrow> boxes \<Rightarrow> DeriveKey \<Rightarrow> 'w \<Rightarrow> (OperationInfo \<times> 'w) run" where
  "DeriveKey_info T b self w = OperationHandle_info T b (derive_op self) w"

definition DeriveKey_info_multiple ::
    "'w crypto_api \<Rightarrow> boxes \<Rightarrow> DeriveKey \<Rightarrow> bytes \<Rightarrow> 'w \<Rightarrow> ((Error + OperationInfoMultiple) \<times> bytes \<times> 'w) run" where
  "DeriveKey_info_multiple T b self info_buf w = OperationHandle_info_multiple T b (derive_op self) info_buf w"

definition DeriveKey_set_key :: "'w crypto_api \<Rightarrow> boxes \<Rightarrow> DeriveKey \<Rightarrow> raw_handle \<Rightarrow> 'w \<Rightarrow> ((Error + unit) \<times> 'w) run" where
  "DeriveKey_set_key T b self obj w = OperationHandle_set_key T b (derive_op self) obj w"

definition DeriveKey_set_key_2 ::
    "'w crypto_api \<Rightarrow> boxes \<Rightarrow> DeriveKey \<Rightarrow> raw_handle \<Rightarrow> raw_handle \<Rightarrow> 'w \<Rightarrow> ((Error + unit) \<times> 'w) run" where
  "DeriveKey_set_key_2 T b self object1 object2 w = OperationHandle_set_key_2 T b (derive_op self) object1 object2 w"

definition DeriveKey_copy :: "'w crypto_api \<Rightarrow> boxes \<Rightarrow> DeriveKey \<Rightarrow> OperationHandle \<Rightarrow> 'w \<Rightarrow> 'w run" where
  "DeriveKey_copy T b self src w = OperationHandle_copy T b (derive_op self) src w"

subsection \<open>Random\<close>

definition Random_generate :: "'w crypto_api \<Rightarrow> bytes \<Rightarrow> 'w \<Rightarrow> bytes \<times> 'w" where
  "Random_generate T res_buffer w =
     (case TEE_GenerateRandom T (length res_buffer) w of (out, w1) \<Rightarrow> (overwrite res_buffer 0 out, w1))"

end
