(* ===== verification/CryptoLifecycle.thy ===== *)
theory CryptoLifecycle
  imports CryptoOp
begin

text \<open>
  Programs that own cryptographic operations.  \<open>crypto_call\<close> lists the methods of the six
  wrappers that neither create nor consume an operation; \<open>crypto_step\<close> is a step of a
  program that allocates, uses and drops operations; \<open>crypto_api_ok\<close> states what is relied
  on about handles, \<open>crypto_out_ok\<close> what is relied on about buffers.
\<close>

section \<open>Definitions\<close>

definition crypto_api_ok :: "'w crypto_api \<Rightarrow> ('w \<Rightarrow> raw_handle set) \<Rightarrow> bool" where
  "crypto_api_ok T live \<longleftrightarrow>
     (\<forall>a m k w. gives_handle live w (TEE_AllocateOperation T a m k w)) \<and>
     (\<forall>h w. live (TEE_FreeOperation T h w) = live w - {h}) \<and>
     (\<forall>h w. live (snd (TEE_GetOperationInfo T h w)) = live w) \<and>
     (\<forall>h n w. live (snd (TEE_GetOperationInfoMultiple T h n w)) = live w) \<and>
     (\<forall>h w. live (TEE_ResetOperation T h w) = live w) \<and>
     (\<forall>h k w. live (snd (TEE_SetOperationKey T h k w)) = live w) \<and>
     (\<forall>h j k w. live (snd (TEE_SetOperationKey2 T h j k w)) = live w) \<and>
     (\<forall>h s w. live (TEE_CopyOperation T h s w) = live w) \<and>
     (\<forall>h d w. live (TEE_DigestUpdate T h d w) = live w) \<and>
     (\<forall>h d n w. live (snd (TEE_DigestDoFinal T h d n w)) = live w) \<and>
     (\<forall>h d w. live (TEE_CipherInit T h d w) = live w) \<and>
     (\<forall>h d n w. live (snd (TEE_CipherUpdate T h d n w)) = live w) \<and>
     (\<forall>h d n w. live (snd (TEE_CipherDoFinal T h d n w)) = live w) \<and>
     (\<forall>h d w. live (TEE_MACInit T h d w) = live w) \<and>
     (\<forall>h d w. live (TEE_MACUpdate T h d w) = live w) \<and>
     (\<forall>h d n w. live (snd (TEE_MACComputeFinal T h d n w)) = live w) \<and>
     (\<forall>h d m w. live (snd (TEE_MACCompareFinal T h d m w)) = live w) \<and>
     (\<forall>h d t a p w. live (snd (TEE_AEInit T h d t a p w)) = live w) \<and>
     (\<forall>h d w. live (TEE_AEUpdateAAD T h d w) = live w) \<and>
     (\<forall>h d n w. live (snd (TEE_AEUpdate T h d n w)) = live w) \<and>
     (\<forall>h d n m w. live (snd (TEE_AEEncryptFinal T h d n m w)) = live w) \<and>
     (\<forall>h d n t w. live (snd (TEE_AEDecryptFinal T h d n t w)) = live w) \<and>
     (\<forall>h a k d n w. live (snd (TEE_AsymmetricEncrypt T h a k d n w)) = live w) \<and>
     (\<forall>h a k d n w. live (snd (TEE_AsymmetricDecrypt T h a k d n w)) = live w) \<and>
     (\<forall>h a k d n w. live (snd (TEE_AsymmetricSignDigest T h a k d n w)) = live w) \<and>
     (\<forall>h a k d s w. live (snd (TEE_AsymmetricVerifyDigest T h a k d s w)) = live w) \<and>
     (\<forall>h a k j w. live (TEE_DeriveKey T h a k j w) = live w)"

text \<open>
  A call that fills a buffer of length \<open>n\<close> stores no more than that, and when it succeeds
  it reports the number of bytes it stored.
\<close>

definition fills :: "usize \<Rightarrow> (u32 \<times> bytes \<times> usize) \<times> 'w \<Rightarrow> bool" where
  "fills n r \<longleftrightarrow> (case r of ((code, out, m), w) \<Rightarrow> length out \<le> n \<and> (code = TEE_SUCCESS \<longrightarrow> m = length out))"

definition crypto_out_ok :: "'w crypto_api \<Rightarrow> bool" where
  "crypto_out_ok T \<longleftrightarrow>
     (\<forall>h d n w. fills n (TEE_DigestDoFinal T h d n w)) \<and>
     (\<forall>h d n w. fills n (TEE_CipherUpdate T h d n w)) \<and>
     (\<forall>h d n w. fills n (TEE_CipherDoFinal T h d n w)) \<and>
     (\<forall>h d n w. fills n (TEE_MACComputeFinal T h d n w)) \<and>
     (\<forall>h d n w. fills n (TEE_AEUpdate T h d n w)) \<and>
     (\<forall>h d n t w. fills n (TEE_AEDecryptFinal T h d n t w)) \<and>
     (\<forall>h a k d n w. fills n (TEE_AsymmetricEncrypt T h a k d n w)) \<and>
     (\<forall>h a k d n w. fills n (TEE_AsymmetricDecrypt T h a k d n w)) \<and>
     (\<forall>h a k d n w. fills n (TEE_AsymmetricSignDigest T h a k d n w))"

datatype crypto_call =
    Op_info
  | Op_info_multiple bytes
  | Op_reset
  | Op_set_key raw_handle
  | Op_set_key_2 raw_handle raw_handle
  | Op_copy u64
  | Op_digest_update bytes
  | Op_digest_final bytes bytes
  | Op_cipher_init bytes
  | Op_cipher_update bytes bytes
  | Op_cipher_final bytes bytes
  | Op_mac_init bytes
  | Op_mac_update bytes
  | Op_mac_compute bytes bytes
  | Op_mac_compare bytes bytes
  | Op_ae_init bytes usize usize usize
  | Op_ae_update_aad bytes
  | Op_ae_update bytes bytes
  | Op_ae_encrypt bytes bytes bytes
  | Op_ae_decrypt bytes bytes bytes
  | Op_encrypt "Attribute list" bytes
  | Op_decrypt "Attribute list" bytes
  | Op_sign "Attribute list" bytes bytes
  | Op_verify "Attribute list" bytes bytes
  | Op_derive "Attribute list" TransientObject

text \<open>The world after a method is called on the operation whose cell is at \<open>a\<close>.\<close>

fun crypto_call_world :: "'w crypto_api \<Rightarrow> boxes \<Rightarrow> u64 \<Rightarrow> crypto_call \<Rightarrow> 'w \<Rightarrow> 'w run" where
  "crypto_call_world T b a Op_info w = run_map snd (OperationHandle_info T b \<lparr>oph_raw = a\<rparr> w)"
| "crypto_call_world T b a (Op_info_multiple buf) w =
     run_map (\<lambda>(r, buf', w'). w') (OperationHandle_info_multiple T b \<lparr>oph_raw = a\<rparr> buf w)"
| "crypto_call_world T b a Op_reset w = OperationHandle_reset T b \<lparr>oph_raw = a\<rparr> w"
| "crypto_call_world T b a (Op_set_key k) w = run_map snd (OperationHandle_set_key T b \<lparr>oph_raw = a\<rparr> k w)"
| "crypto_call_world T b a (Op_set_key_2 k l) w = run_map snd (OperationHandle_set_key_2 T b \<lparr>oph_raw = a\<rparr> k l w)"
| "crypto_call_world T b a (Op_copy s) w = OperationHandle_copy T b \<lparr>oph_raw = a\<rparr> \<lparr>oph_raw = s\<rparr> w"
| "crypto_call_world T b a (Op_digest_update d) w = Digest_update T b \<lparr>digest_op = \<lparr>oph_raw = a\<rparr>\<rparr> d w"
| "crypto_call_world T b a (Op_digest_final d e) w =
     run_map (\<lambda>(r, e', w'). w') (Digest_do_final T b \<lparr>digest_op = \<lparr>oph_raw = a\<rparr>\<rparr> d e w)"
| "crypto_call_world T b a (Op_cipher_init d) w = Cipher_init T b \<lparr>cipher_op = \<lparr>oph_raw = a\<rparr>\<rparr> d w"
| "crypto_call_world T b a (Op_cipher_update d e) w =
     run_map (\<lambda>(r, e', w'). w') (Cipher_update T b \<lparr>cipher_op = \<lparr>oph_raw = a\<rparr>\<rparr> d e w)"
| "crypto_call_world T b a (Op_cipher_final d e) w =
     run_map (\<lambda>(r, e', w'). w') (Cipher_do_final T b \<lparr>cipher_op = \<lparr>oph_raw = a\<rparr>\<rparr> d e w)"
| "crypto_call_world T b a (Op_mac_init d) w = Mac_init T b \<lparr>mac_op = \<lparr>oph_raw = a\<rparr>\<rparr> d w"
| "crypto_call_world T b a (Op_mac_update d) w = Mac_update T b \<lparr>mac_op = \<lparr>oph_raw = a\<rparr>\<rparr> d w"
| "crypto_call_world T b a (Op_mac_compute d e) w =
     run_map (\<lambda>(r, e', w'). w') (Mac_compute_final T b \<lparr>mac_op = \<lparr>oph_raw = a\<rparr>\<rparr> d e w)"
| "crypto_call_world T b a (Op_mac_compare d e) w =
     run_map snd (Mac_compare_final T b \<lparr>mac_op = \<lparr>oph_raw = a\<rparr>\<rparr> d e w)"
| "crypto_call_world T b a (Op_ae_init d t l p) w =
     run_map snd (AE_init T b \<lparr>ae_op = \<lparr>oph_raw = a\<rparr>\<rparr> d t l p w)"
| "crypto_call_world T b a (Op_ae_update_aad d) w = AE_update_aad T b \<lparr>ae_op = \<lparr>oph_raw = a\<rparr>\<rparr> d w"
| "crypto_call_world T b a (Op_ae_update d e) w =
     run_map (\<lambda>(r, e', w'). w') (AE_update T b \<lparr>ae_op = \<lparr>oph_raw = a\<rparr>\<rparr> d e w)"
| "crypto_call_world T b a (Op_ae_encrypt d e t) w =
     run_map (\<lambda>(r, e', t', w'). w') (AE_encrypt_final T b \<lparr>ae_op = \<lparr>oph_raw = a\<rparr>\<rparr> d e t w)"
| "crypto_call_world T b a (Op_ae_decrypt d e t) w =
     run_map (\<lambda>(r, e', w'). w') (AE_decrypt_final T b \<lparr>ae_op = \<lparr>oph_raw = a\<rparr>\<rparr> d e t w)"
| "crypto_call_world T b a (Op_encrypt p d) w =
     run_map snd (Asymmetric_encrypt T b \<lparr>asymmetric_op = \<lparr>oph_raw = a\<rparr>\<rparr> p d w)"
| "crypto_call_world T b a (Op_decrypt p d) w =
     run_map snd (Asymmetric_decrypt T b \<lparr>asymmetric_op = \<lparr>oph_raw = a\<rparr>\<rparr> p d w)"
| "crypto_call_world T b a (Op_sign p d e) w =
     run_map (\<lambda>(r, e', w'). w') (Asymmetric_sign_digest T b \<lparr>asymmetric_op = \<lparr>oph_raw = a\<rparr>\<rparr> p d e w)"
| "crypto_call_world T b a (Op_verify p d e) w =
     run_map snd (Asymmetric_verify_digest T b \<lparr>asymmetric_op = \<lparr>oph_raw = a\<rparr>\<rparr> p d e w)"
| "crypto_call_world T b a (Op_derive p t) w = DeriveKey_derive T b \<lparr>derive_op = \<lparr>oph_raw = a\<rparr>\<rparr> p t w"

text \<open>The operations a call refers to, apart from its own.\<close>

fun call_sources :: "crypto_call \<Rightarrow> u64 set" where
  "call_sources (Op_copy s) = {s}"
| "call_sources _ = {}"

inductive crypto_step ::
    "'w crypto_api \<Rightarrow> allocator \<Rightarrow> u64 list \<times> 'w \<times> boxes \<Rightarrow> u64 list \<times> 'w \<times> boxes \<Rightarrow> bool" for T alloc where
  op_allocated: "OperationHandle_allocate T alloc algo mode n w b = Finishes (Inr p, w', b') \<Longrightarrow>
    crypto_step T alloc (as, w, b) (oph_raw p # as, w', b')"
| op_not_allocated: "OperationHandle_allocate T alloc algo mode n w b = Finishes (Inl err, w', b') \<Longrightarrow>
    crypto_step T alloc (as, w, b) (as, w', b')"
| op_called: "a \<in> set as \<Longrightarrow> call_sources c \<subseteq> set as \<Longrightarrow> crypto_call_world T b a c w = Finishes w' \<Longrightarrow>
    crypto_step T alloc (as, w, b) (as, w', b)"
| op_dropped: "a \<in> set as \<Longrightarrow> OperationHandle_drop T \<lparr>oph_raw = a\<rparr> w b = Finishes (w', b') \<Longrightarrow>
    crypto_step T alloc (as, w, b) (remove1 a as, w', b')"

text \<open>The books of such a program: what it owns, and what was there before.\<close>

definition crypto_books :: "('w \<Rightarrow> raw_handle set) \<Rightarrow> 'w \<Rightarrow> boxes \<Rightarrow> u64 list \<times> 'w \<times> boxes \<Rightarrow> bool" where
  "crypto_books live w0 b0 st \<longleftrightarrow>
     (case st of (as, w, b) \<Rightarrow>
        owns_boxes live (live w0) as w b \<and> b0 \<subseteq>\<^sub>m b \<and> dom b0 \<inter> set as = {})"

section \<open>Lemmas\<close>

lemmas crypto_method_defs = OperationHandle_handle_def OperationHandle_info_def OperationHandle_info_multiple_def
  OperationHandle_reset_def OperationHandle_set_key_def OperationHandle_set_key_2_def OperationHandle_copy_def
  Digest_handle_def Digest_update_def Digest_do_final_def
  Cipher_handle_def Cipher_init_def Cipher_update_def Cipher_do_final_def
  Mac_handle_def Mac_init_def Mac_update_def Mac_compute_final_def Mac_compare_final_def
  AE_handle_def AE_init_def AE_update_aad_def AE_update_def AE_encrypt_final_def AE_decrypt_final_def
  Asymmetric_handle_def Asymmetric_encrypt_def Asymmetric_decrypt_def Asymmetric_sign_digest_def
  Asymmetric_verify_digest_def DeriveKey_handle_def DeriveKey_derive_def

lemma crypto_free_live: "crypto_api_ok T live \<Longrightarrow> live (TEE_FreeOperation T h w) = live w - {h}"
  by (simp add: crypto_api_ok_def)

lemma crypto_call_live:
  assumes T: "crypto_api_ok T live" and c: "crypto_call_world T b a c w = Finishes w'"
  shows "live w' = live w"
proof -
  note T' = T[unfolded crypto_api_ok_def]
  show ?thesis using c
    by (cases c) (auto simp: T' crypto_method_defs checked_def into_buffer_def Let_def split_beta)
qed

lemma crypto_call_finishes:
  assumes "a \<in> dom b" and "call_sources c \<subseteq> dom b"
  shows "\<exists>w'. crypto_call_world T b a c w = Finishes w'"
proof -
  obtain h where h: "b a = Some h" using assms(1) by auto
  show ?thesis
    using h assms(2)
    by (cases c) (auto simp: crypto_method_defs box_read_def Let_def split_beta)
qed

lemma crypto_allocate_cases:
  assumes "allocator_ok alloc" and "crypto_api_ok T live"
    and "OperationHandle_allocate T alloc algo mode n w b = Finishes (r, w', b')"
  shows "case r of
      Inl err \<Rightarrow> live w' = live w \<and> (\<exists>a. a \<noteq> 0 \<and> b a = None \<and> b' = b(a \<mapsto> 0))
    | Inr p \<Rightarrow> oph_raw p \<noteq> 0 \<and> b (oph_raw p) = None \<and>
        (\<exists>h. b' = b(oph_raw p \<mapsto> h) \<and> h \<notin> live w \<and> live w' = insert h (live w))"
proof -
  obtain code h w1 where
    t: "TEE_AllocateOperation T (AlgorithmId_code algo) (OperationMode_code mode) (of_nat n) w = ((code, h), w1)"
    by (metis surj_pair)
  have g: "gives_handle live w ((code, h), w1)" using assms(2) t unfolding crypto_api_ok_def by metis
  from assms(3) t obtain raw where a: "alloc b = Some raw"
    and r: "r = try_bind (tee_check code) (\<lambda>_. Inr \<lparr>oph_raw = raw\<rparr>)" "w' = w1"
      "b' = (if code = TEE_SUCCESS then b(raw \<mapsto> h) else b(raw \<mapsto> 0))"
    by (auto simp: OperationHandle_allocate_def)
  have "raw \<noteq> 0" "b raw = None" using assms(1) a by (auto simp: allocator_ok_def)
  with g r show ?thesis by (auto simp: tee_check_def gives_handle_def)
qed

lemma crypto_books_neutral:
  assumes "crypto_books live w0 b0 (as, w, b)" and "live w' = live w" and "b \<subseteq>\<^sub>m b'" and "b' 0 = None"
  shows "crypto_books live w0 b0 (as, w', b')"
proof -
  have "owns_boxes live (live w0) as w b" "b0 \<subseteq>\<^sub>m b" "dom b0 \<inter> set as = {}"
    using assms(1) by (simp_all add: crypto_books_def)
  then show ?thesis
    using owns_boxes_neutral[of live "live w0" as w b w' b'] assms(2-4) map_le_trans[of b0 b b']
    by (simp add: crypto_books_def)
qed

lemma crypto_books_acquire:
  assumes B: "crypto_books live w0 b0 (as, w, b)" and a: "a \<noteq> 0" "b a = None"
    and h: "h \<notin> live w" "live w' = insert h (live w)"
  shows "crypto_books live w0 b0 (a # as, w', b(a \<mapsto> h))"
proof -
  have O: "owns_boxes live (live w0) as w b" and le: "b0 \<subseteq>\<^sub>m b" and n: "dom b0 \<inter> set as = {}"
    using B by (simp_all add: crypto_books_def)
  have "a \<notin> dom b0" using le a(2) by (metis domIff map_le_def)
  moreover have "b0 \<subseteq>\<^sub>m b(a \<mapsto> h)" using le a(2) by (simp add: map_le_def)  (metis domIff)
  ultimately show ?thesis using owns_boxes_acquire[OF O a h] n by (simp add: crypto_books_def)
qed

lemma crypto_books_release:
  assumes B: "crypto_books live w0 b0 (as, w, b)" and a: "a \<in> set as" and w: "live w' = live w - {the (b a)}"
  shows "crypto_books live w0 b0 (remove1 a as, w', b(a := None))"
proof -
  have O: "owns_boxes live (live w0) as w b" and le: "b0 \<subseteq>\<^sub>m b" and n: "dom b0 \<inter> set as = {}"
    using B by (simp_all add: crypto_books_def)
  have "distinct as" using O by (simp add: owns_boxes_def)
  moreover have "b0 \<subseteq>\<^sub>m b(a := None)" using le a n by (auto simp: map_le_def)
  ultimately show ?thesis using owns_boxes_release[OF O a w] n by (auto simp: crypto_books_def)
qed

lemma crypto_step_books:
  assumes A: "allocator_ok alloc" and T: "crypto_api_ok T live"
    and "crypto_step T alloc st st'" and B: "crypto_books live w0 b0 st"
  shows "crypto_books live w0 b0 st'"
  using assms(3)
proof cases
  case (op_allocated algo mode n w b p w' b' as)
  from crypto_allocate_cases[OF A T op_allocated(3)] obtain h where
    a: "oph_raw p \<noteq> 0" "b (oph_raw p) = None" and b': "b' = b(oph_raw p \<mapsto> h)"
    and h: "h \<notin> live w" "live w' = insert h (live w)" by auto
  show ?thesis unfolding op_allocated(2) b' by (rule crypto_books_acquire[OF B[unfolded op_allocated(1)] a h])
next
  case (op_not_allocated algo mode n w b err w' b' as)
  from crypto_allocate_cases[OF A T op_not_allocated(3)] obtain a where
    w: "live w' = live w" and a: "a \<noteq> 0" "b a = None" and b': "b' = b(a \<mapsto> 0)" by auto
  have "b 0 = None" using B op_not_allocated(1) by (simp add: crypto_books_def owns_boxes_def)
  with a have "b \<subseteq>\<^sub>m b'" "b' 0 = None" unfolding b' by (auto simp: map_le_def)
  then show ?thesis unfolding op_not_allocated(2) by (rule crypto_books_neutral[OF B[unfolded op_not_allocated(1)] w])
next
  case (op_called a as c b w w')
  have "b 0 = None" using B op_called(1) by (simp add: crypto_books_def owns_boxes_def)
  then show ?thesis unfolding op_called(2)
    by (intro crypto_books_neutral[OF B[unfolded op_called(1)]] crypto_call_live[OF T op_called(5)]) simp_all
next
  case (op_dropped a as w b w' b')
  have "a \<noteq> 0" using B op_dropped(1,3) by (auto simp: crypto_books_def owns_boxes_def)
  then have w: "live w' = live w - {the (b a)}" and b': "b' = b(a := None)"
    using op_dropped(4) crypto_free_live[OF T] by (auto simp: OperationHandle_drop_def OperationHandle_handle_def)
  show ?thesis unfolding op_dropped(2) b'
    by (rule crypto_books_release[OF B[unfolded op_dropped(1)] op_dropped(3) w])
qed

interpretation crypto: bookkeeping "crypto_step T alloc"
  "\<lambda>st. allocator_ok alloc \<and> crypto_api_ok T live \<and> crypto_books live w0 b0 st" for T alloc live w0 b0
  by unfold_locales (blast intro: crypto_step_books)

lemma crypto_run_books:
  assumes "allocator_ok alloc" and "crypto_api_ok T live"
    and "(crypto_step T alloc)\<^sup>*\<^sup>* ([], w0, b0) st" and "b0 0 = None"
  shows "crypto_books live w0 b0 st"
  using crypto.run_keeps[OF assms(3), of live w0 b0] assms(1,2,4) by (simp add: crypto_books_def owns_boxes_start)

lemma operation_drop_finishes:
  "a \<in> dom b \<Longrightarrow> \<exists>w' b'. OperationHandle_drop T \<lparr>oph_raw = a\<rparr> w b = Finishes (w', b')"
  by (auto simp: OperationHandle_drop_def OperationHandle_handle_def box_read_def box_free_def)

text \<open>Storing into a caller's buffer.\<close>

lemma into_buffer_fills:
  assumes "fills (length dest) r" and "into_buffer dest r = (x, dest', w')"
  shows "length dest' = length dest \<and> (\<forall>n. x = Inr n \<longrightarrow>
    n \<le> length dest \<and> drop n dest' = drop n dest \<and> take n dest' = fst (snd (fst r)))"
  using assms
  by (cases r) (auto simp: fills_def into_buffer_def tee_check_def overwrite_def split: if_splits)

section \<open>A reference implementation\<close>

text \<open>A TEE with one operation, which echoes its input as far as the buffer allows.\<close>

definition echo :: "bytes \<Rightarrow> usize \<Rightarrow> 'w \<Rightarrow> (u32 \<times> bytes \<times> usize) \<times> 'w" where
  "echo d n w = (if length d \<le> n then ((TEE_SUCCESS, d, length d), w)
                 else ((TEE_ERROR_SHORT_BUFFER, [], length d), w))"

definition ref_operation_info :: TEE_OperationInfo where
  "ref_operation_info = \<lparr>algorithm = 0, operationClass = 0, operation_mode = 0, digestLength = 0,
     maxKeySize = 256, keySize = 256, requiredKeyUsage = 0, handleState = 0\<rparr>"

definition ref_crypto_api :: "raw_handle set crypto_api" where
  "ref_crypto_api = \<lparr>
     TEE_AllocateOperation = (\<lambda>a m k w.
       if 1 \<notin> w then ((TEE_SUCCESS, 1), insert 1 w) else ((TEE_ERROR_OUT_OF_MEMORY, 0), w)),
     TEE_FreeOperation = (\<lambda>h w. w - {h}),
     TEE_GetOperationInfo = (\<lambda>h w. (ref_operation_info, w)),
     TEE_GetOperationInfoMultiple = (\<lambda>h n w. echo (replicate 32 0) n w),
     TEE_ResetOperation = (\<lambda>h w. w),
     TEE_SetOperationKey = (\<lambda>h k w. (TEE_SUCCESS, w)),
     TEE_SetOperationKey2 = (\<lambda>h j k w. (TEE_SUCCESS, w)),
     TEE_CopyOperation = (\<lambda>h s w. w),
     TEE_IsAlgorithmSupported = (\<lambda>a e w. (TEE_SUCCESS, w)),
     TEE_DigestUpdate = (\<lambda>h d w. w),
     TEE_DigestDoFinal = (\<lambda>h. echo),
     TEE_CipherInit = (\<lambda>h d w. w),
     TEE_CipherUpdate = (\<lambda>h. echo),
     TEE_CipherDoFinal = (\<lambda>h. echo),
     TEE_MACInit = (\<lambda>h d w. w),
     TEE_MACUpdate = (\<lambda>h d w. w),
     TEE_MACComputeFinal = (\<lambda>h. echo),
     TEE_MACCompareFinal = (\<lambda>h d m w. (if d = m then TEE_SUCCESS else TEE_ERROR_MAC_INVALID, w)),
     TEE_AEInit = (\<lambda>h d t a p w. (TEE_SUCCESS, w)),
     TEE_AEUpdateAAD = (\<lambda>h d w. w),
     TEE_AEUpdate = (\<lambda>h. echo),
     TEE_AEEncryptFinal = (\<lambda>h d n m w. ((TEE_SUCCESS, ([], 0), ([], 0)), w)),
     TEE_AEDecryptFinal = (\<lambda>h d n t. echo d n),
     TEE_AsymmetricEncrypt = (\<lambda>h a k. echo),
     TEE_AsymmetricDecrypt = (\<lambda>h a k. echo),
     TEE_AsymmetricSignDigest = (\<lambda>h a k. echo),
     TEE_AsymmetricVerifyDigest = (\<lambda>h a k d s w. (TEE_SUCCESS, w)),
     TEE_DeriveKey = (\<lambda>h a k j w. w),
     TEE_GenerateRandom = (\<lambda>n w. (replicate n 4, w))\<rparr>"

lemma snd_echo [simp]: "snd (echo d n w) = w"
  by (simp add: echo_def)

lemma fills_echo [simp]: "fills n (echo d n w)"
  by (simp add: echo_def fills_def raw_consts)

lemma ref_crypto_api_ok: "crypto_api_ok ref_crypto_api (\<lambda>w. w)"
  by (simp add: crypto_api_ok_def ref_crypto_api_def gives_handle_def raw_consts)

lemma ref_crypto_out_ok: "crypto_out_ok ref_crypto_api"
  by (simp add: crypto_out_ok_def ref_crypto_api_def)

section \<open>Properties\<close>





text \<open>
  C33.  Asymmetric encryption and decryption return exactly what the TEE produced: a
  vector returned with \<^verbatim>\<open>Ok\<close> is the output of a successful call, neither padded with the
  zeros of the buffer it was produced in nor cut, and the buffer had as many bytes as the
  key size the TEE reports for the operation.
\<close>

theorem asymmetric_result_exact:
  assumes O: "crypto_out_ok T"
    and p: "(meth, raw) \<in> {(Asymmetric_encrypt T, TEE_AsymmetricEncrypt T), (Asymmetric_decrypt T, TEE_AsymmetricDecrypt T)}"
    and r: "meth b self params src w = Finishes (Inr v, w')"
  shows "\<exists>h info w1 m. b (oph_raw (asymmetric_op self)) = Some h \<and> TEE_GetOperationInfo T h w = (info, w1) \<and>
    raw h (map attribute_raw params) (of_nat (length params)) src (unat (keySize info)) w1
      = ((TEE_SUCCESS, v, m), w') \<and> m = length v \<and> length v \<le> unat (keySize info)"
proof -
  obtain h where h: "b (oph_raw (asymmetric_op self)) = Some h" using p r
    by (auto simp: crypto_method_defs box_read_def split: option.splits)
  obtain info w1 where i: "TEE_GetOperationInfo T h w = (info, w1)" by fastforce
  let ?n = "unat (keySize info)"
  obtain code out m w2 where
    c: "raw h (map attribute_raw params) (of_nat (length params)) src ?n w1 = ((code, out, m), w2)"
    by (metis surj_pair)
  have "fills ?n ((code, out, m), w2)" using O p c[symmetric] by (auto simp: crypto_out_ok_def)
  moreover have "(Inr v, w') = (try_bind (try_bind (tee_check code) (\<lambda>_. Inr m))
      (\<lambda>k. Inr (take k (overwrite (replicate ?n 0) 0 out))), w2)"
    using p r h i c
    by (auto simp: crypto_method_defs box_read_def OperationInfo_from_raw_def key_size_def into_buffer_def Let_def)
  ultimately have "code = TEE_SUCCESS" "v = out" "m = length out" "w' = w2" "length out \<le> ?n"
    by (auto simp: fills_def tee_check_def overwrite_def split: if_splits)
  with h i c show ?thesis by auto
qed

theorem asymmetric_result_exact_witness:
  "Asymmetric_encrypt ref_crypto_api [8 \<mapsto> 1] \<lparr>asymmetric_op = \<lparr>oph_raw = 8\<rparr>\<rparr> [] [5, 6] {1} = Finishes (Inr [5, 6], {1}) \<and>
     length [5 :: u8, 6] \<le> 256"
proof -
  have r: "Asymmetric_encrypt ref_crypto_api [8 \<mapsto> 1] \<lparr>asymmetric_op = \<lparr>oph_raw = 8\<rparr>\<rparr> [] [5, 6] {1} = Finishes (Inr [5, 6], {1})"
    by (simp add: crypto_method_defs box_read_def OperationInfo_from_raw_def key_size_def into_buffer_def Let_def
        ref_crypto_api_def echo_def tee_check_def ref_operation_info_def overwrite_def)
  from asymmetric_result_exact[where meth = "Asymmetric_encrypt ref_crypto_api", OF ref_crypto_out_ok _ r,
      of "TEE_AsymmetricEncrypt ref_crypto_api"]
  have "length [5 :: u8, 6] \<le> 256" by (auto simp: ref_crypto_api_def ref_operation_info_def)
  with r show ?thesis by simp
qed

text \<open>
  A failed allocation loses its heap cell: when \<^verbatim>\<open>allocate\<close> returns an error, one more
  cell is in use than before, and no value refers to it.
\<close>

lemma failed_allocation_leaks_cell:
  assumes "allocator_ok alloc" and "crypto_api_ok T live"
    and "OperationHandle_allocate T alloc algo mode n w b = Finishes (Inl err, w', b')"
  shows "\<exists>a. a \<notin> dom b \<and> dom b' = insert a (dom b) \<and> live w' = live w"
proof -
  from crypto_allocate_cases[OF assms] obtain a where "b a = None" "b' = b(a \<mapsto> 0)" "live w' = live w" by auto
  then show ?thesis by (intro exI[of _ a]) auto
qed

lemma failed_allocation_leaks_cell_witness:
  "\<exists>b'. OperationHandle_allocate ref_crypto_api two_cells Alg_Sha256 Mode_Digest 0 {1} Map.empty =
       Finishes (Inl (from_raw_error TEE_ERROR_OUT_OF_MEMORY), {1}, b') \<and> dom b' \<noteq> {}"
proof -
  have a: "OperationHandle_allocate ref_crypto_api two_cells Alg_Sha256 Mode_Digest 0 {1} Map.empty =
      Finishes (Inl (from_raw_error TEE_ERROR_OUT_OF_MEMORY), {1}, [8 \<mapsto> 0])"
    by (simp add: OperationHandle_allocate_def ref_crypto_api_def box_new_def two_cells_def tee_check_def raw_consts)
  from failed_allocation_leaks_cell[OF two_cells_ok ref_crypto_api_ok a] a show ?thesis by blast
qed

text \<open>
  C37.  A null operation cannot be dropped.  \<^verbatim>\<open>Digest::null()\<close>, \<^verbatim>\<open>Cipher::null()\<close> and the
  others are safe constructors, but as there is never a cell at the null address,
  dropping such a value, and calling any method on it, is undefined behaviour.
\<close>

theorem null_operation_undefined:
  assumes "b 0 = None"
  shows "OperationHandle_drop T (digest_op Digest_null) w b = Undefined \<and>
    OperationHandle_drop T (cipher_op Cipher_null) w b = Undefined \<and>
    OperationHandle_drop T (mac_op Mac_null) w b = Undefined \<and>
    OperationHandle_drop T (ae_op AE_null) w b = Undefined \<and>
    OperationHandle_drop T (asymmetric_op Asymmetric_null) w b = Undefined \<and>
    OperationHandle_drop T (derive_op DeriveKey_null) w b = Undefined \<and>
    crypto_call_world T b (oph_raw OperationHandle_null) c w = Undefined"
  using assms
  by (cases c) (simp_all add: OperationHandle_drop_def OperationHandle_null_def Digest_null_def Cipher_null_def
      Mac_null_def AE_null_def Asymmetric_null_def DeriveKey_null_def crypto_method_defs box_read_def box_free_def)

theorem null_operation_undefined_witness:
  "OperationHandle_drop ref_crypto_api (digest_op Digest_null) {} Map.empty = Undefined"
  using null_operation_undefined[of Map.empty ref_crypto_api "{}" Op_reset] by simp

text \<open>
  C36.  \<^verbatim>\<open>info_multiple\<close> cannot succeed.  It tells the TEE that the buffer has length zero;
  on a TEE that answers a buffer smaller than the fixed part of the structure (eight
  32-bit words) with \<^verbatim>\<open>TEE_ERROR_SHORT_BUFFER\<close>, every call on every operation returns that
  error, however large the buffer of the caller is.
\<close>

theorem info_multiple_always_short:
  assumes "\<And>h n w. n < 32 \<Longrightarrow> fst (fst (TEE_GetOperationInfoMultiple T h n w)) = TEE_ERROR_SHORT_BUFFER"
    and "OperationHandle_info_multiple T b self info_buf w = Finishes (r, buf, w')"
  shows "r = Inl (from_raw_error TEE_ERROR_SHORT_BUFFER)"
proof -
  obtain h where "(r, buf, w') = (case into_buffer info_buf (TEE_GetOperationInfoMultiple T h 0 w) of
      (r, buf, w1) \<Rightarrow> (try_bind r (\<lambda>n. Inr \<lparr>oim_raw = buf, oim_size = n\<rparr>), buf, w1))"
    using assms(2) by (auto simp: OperationHandle_info_multiple_def)
  with assms(1)[of 0 h w] show ?thesis
    by (cases "TEE_GetOperationInfoMultiple T h 0 w") (auto simp: into_buffer_def tee_check_def raw_consts)
qed

theorem info_multiple_always_short_witness:
  "\<exists>buf w'. OperationHandle_info_multiple ref_crypto_api [8 \<mapsto> 1] \<lparr>oph_raw = 8\<rparr> (replicate 64 0) {1} =
     Finishes (Inl (from_raw_error TEE_ERROR_SHORT_BUFFER), buf, w')"
proof -
  have "\<exists>r buf w'. OperationHandle_info_multiple ref_crypto_api [8 \<mapsto> 1] \<lparr>oph_raw = 8\<rparr> (replicate 64 0) {1} =
      Finishes (r, buf, w')"
    by (auto simp: OperationHandle_info_multiple_def OperationHandle_handle_def box_read_def Let_def split_beta)
  then obtain r buf w' where
    m: "OperationHandle_info_multiple ref_crypto_api [8 \<mapsto> 1] \<lparr>oph_raw = 8\<rparr> (replicate 64 0) {1} = Finishes (r, buf, w')"
    by blast
  have s: "n < 32 \<Longrightarrow> fst (fst (TEE_GetOperationInfoMultiple ref_crypto_api h n w)) = TEE_ERROR_SHORT_BUFFER" for h n w
    by (simp add: ref_crypto_api_def echo_def)
  from info_multiple_always_short[OF s m] m show ?thesis by blast
qed

end
