(* ===== verification/TaEntry.thy ===== *)
theory TaEntry
  imports Boxes Parameters
begin

text \<open>
  The entry points of a trusted application, \<^verbatim>\<open>crates/optee-utee-macros/src/lib.rs\<close>.

  The first part is what the attribute macros do at compile time: they check the
  signature of the annotated function, choose the variant of the entry point by the
  number of its arguments, and emit a type-level check that the session context is the
  same in all three session functions.  The second part is what the generated functions
  do when the TEE calls them.  The functions of the application are parameters; the
  session context is a value of a type with a size, kept in a heap cell between calls.
\<close>

section \<open>Definitions\<close>

subsection \<open>The attribute macros\<close>

datatype rust_type = PathType string | RefType bool rust_type

datatype fn_arg = Receiver | Typed rust_type

record fn_sig =
  sig_constness :: bool
  sig_vis_inherited :: bool
  sig_abi :: bool
  sig_inputs :: "fn_arg list"
  sig_where_clause :: bool
  sig_variadic :: bool
  sig_output_default :: bool

datatype macro_error = BadSignature string | BadArgument fn_arg

definition c_void :: rust_type where
  "c_void = PathType ''core::ffi::c_void''"

fun extract_fn_arg_mut_ref_type :: "fn_arg \<Rightarrow> macro_error + rust_type" where
  "extract_fn_arg_mut_ref_type (Typed (RefType True elem)) = Inr elem"
| "extract_fn_arg_mut_ref_type a = Inl (BadArgument a)"

definition plain_signature :: "fn_sig \<Rightarrow> bool" where
  "plain_signature f \<longleftrightarrow> \<not> sig_constness f \<and> sig_vis_inherited f \<and> \<not> sig_abi f \<and>
     \<not> sig_where_clause f \<and> \<not> sig_variadic f"

definition ta_create :: "fn_sig \<Rightarrow> macro_error + unit" where
  "ta_create f =
     (if plain_signature f \<and> sig_inputs f = [] then Inr ()
      else Inl (BadSignature ''`#[ta_crate]` function must have signature `fn() -> optee_utee::Result<()>`''))"

definition ta_destroy :: "fn_sig \<Rightarrow> macro_error + unit" where
  "ta_destroy f =
     (if plain_signature f \<and> sig_inputs f = [] \<and> sig_output_default f then Inr ()
      else Inl (BadSignature ''`#[ta_destroy]` function must have signature `fn()`''))"

text \<open>A session macro chooses its variant and fixes, or requires, the type of the context.\<close>

datatype session_entry = WithoutContext | WithContext rust_type

fun context_type :: "session_entry \<Rightarrow> rust_type" where
  "context_type WithoutContext = c_void"
| "context_type (WithContext t) = t"

definition ta_open_session :: "fn_sig \<Rightarrow> macro_error + session_entry" where
  "ta_open_session f =
     (if plain_signature f \<and> (length (sig_inputs f) = 1 \<or> length (sig_inputs f) = 2)
      then if length (sig_inputs f) = 1 then Inr WithoutContext
           else try_bind (extract_fn_arg_mut_ref_type (sig_inputs f ! 1)) (\<lambda>t. Inr (WithContext t))
      else Inl (BadSignature ''`#[ta_open_session]` function must have signature `fn(&mut P) -> Result<()>` or `fn(&mut P, &mut T) -> Result<()>`''))"

definition ta_close_session :: "fn_sig \<Rightarrow> macro_error + session_entry" where
  "ta_close_session f =
     (if plain_signature f \<and> (sig_inputs f = [] \<or> length (sig_inputs f) = 1) \<and> sig_output_default f
      then if sig_inputs f = [] then Inr WithoutContext
           else try_bind (extract_fn_arg_mut_ref_type (sig_inputs f ! 0)) (\<lambda>t. Inr (WithContext t))
      else Inl (BadSignature ''`#[ta_close_session]` function must have signature `fn(&mut T)` or `fn()`''))"

definition ta_invoke_command :: "fn_sig \<Rightarrow> macro_error + session_entry" where
  "ta_invoke_command f =
     (if plain_signature f \<and> (length (sig_inputs f) = 2 \<or> length (sig_inputs f) = 3)
      then if length (sig_inputs f) = 2 then Inr WithoutContext
           else try_bind (extract_fn_arg_mut_ref_type (sig_inputs f ! 0)) (\<lambda>t. Inr (WithContext t))
      else Inl (BadSignature ''`#[ta_invoke_command]` function must have signature `fn(u32, &mut P) -> Result<()>` or `fn(&mut T, u32, &mut P) -> Result<()>`''))"

text \<open>
  The emitted check: the closing and the invoking function name a bound
  \<^verbatim>\<open>__OpteeUteeSessionContext<Context = T>\<close> on the type that the opening one declares.
\<close>

definition session_contexts_match :: "session_entry \<Rightarrow> session_entry \<Rightarrow> session_entry \<Rightarrow> bool" where
  "session_contexts_match opn ivk cls \<longleftrightarrow>
     context_type ivk = context_type opn \<and> context_type cls = context_type opn"

subsection \<open>The generated functions\<close>

text \<open>
  The functions of an application.  \<open>tp_from_raw\<close> is the \<^verbatim>\<open>FromRawParameters\<close> implementation
  of the parameter type it chose, \<open>tp_release\<close> the contents of the four slots once the
  borrow has ended.
\<close>

record ('p, 'c, 'w) ta_program =
  tp_from_raw :: "RawParamTypes \<Rightarrow> RawParams \<Rightarrow> Error + 'p"
  tp_release :: "RawParams \<Rightarrow> 'p \<Rightarrow> RawParams"
  tp_create :: "'w \<Rightarrow> (Error + unit) \<times> 'w"
  tp_destroy :: "'w \<Rightarrow> 'w"
  tp_default :: 'c
  tp_open :: "'p \<Rightarrow> 'c \<Rightarrow> 'w \<Rightarrow> (Error + unit) \<times> 'p \<times> 'c \<times> 'w"
  tp_invoke :: "'c \<Rightarrow> u32 \<Rightarrow> 'p \<Rightarrow> 'w \<Rightarrow> (Error + unit) \<times> 'c \<times> 'p \<times> 'w"
  tp_close :: "'c \<Rightarrow> 'w \<Rightarrow> 'c \<times> 'w"

definition result_code :: "Error + unit \<Rightarrow> u32" where
  "result_code r = (case r of Inr _ \<Rightarrow> TEE_SUCCESS | Inl e \<Rightarrow> raw_code e)"

definition TA_CreateEntryPoint :: "('p, 'c, 'w) ta_program \<Rightarrow> 'w \<Rightarrow> u32 \<times> 'w" where
  "TA_CreateEntryPoint P w = (case tp_create P w of (r, w') \<Rightarrow> (result_code r, w'))"

definition TA_DestroyEntryPoint :: "('p, 'c, 'w) ta_program \<Rightarrow> 'w \<Rightarrow> 'w" where
  "TA_DestroyEntryPoint P w = tp_destroy P w"

text \<open>The variants without a session context.\<close>

definition TA_OpenSessionEntryPoint_plain ::
    "(RawParamTypes \<Rightarrow> RawParams \<Rightarrow> Error + 'p) \<Rightarrow> (RawParams \<Rightarrow> 'p \<Rightarrow> RawParams) \<Rightarrow>
     ('p \<Rightarrow> 'w \<Rightarrow> (Error + unit) \<times> 'p \<times> 'w) \<Rightarrow> RawParamTypes \<Rightarrow> RawParams \<Rightarrow> 'w \<Rightarrow> u32 \<times> RawParams \<times> 'w" where
  "TA_OpenSessionEntryPoint_plain from_raw release f param_types params w =
     (case from_raw param_types params of
        Inl e \<Rightarrow> (raw_code e, params, w)
      | Inr p \<Rightarrow> (case f p w of (r, p', w') \<Rightarrow> (result_code r, release params p', w')))"

definition TA_InvokeCommandEntryPoint_plain ::
    "(RawParamTypes \<Rightarrow> RawParams \<Rightarrow> Error + 'p) \<Rightarrow> (RawParams \<Rightarrow> 'p \<Rightarrow> RawParams) \<Rightarrow>
     (u32 \<Rightarrow> 'p \<Rightarrow> 'w \<Rightarrow> (Error + unit) \<times> 'p \<times> 'w) \<Rightarrow> u32 \<Rightarrow> RawParamTypes \<Rightarrow> RawParams \<Rightarrow> 'w \<Rightarrow>
     u32 \<times> RawParams \<times> 'w" where
  "TA_InvokeCommandEntryPoint_plain from_raw release f cmd_id param_types params w =
     (case from_raw param_types params of
        Inl e \<Rightarrow> (raw_code e, params, w)
      | Inr p \<Rightarrow> (case f cmd_id p w of (r, p', w') \<Rightarrow> (result_code r, release params p', w')))"

definition TA_CloseSessionEntryPoint_plain :: "('w \<Rightarrow> 'w) \<Rightarrow> u64 \<Rightarrow> 'w \<Rightarrow> 'w" where
  "TA_CloseSessionEntryPoint_plain f sess_ctx w = f w"

text \<open>The variants with one; \<open>slot\<close> is the location \<^verbatim>\<open>*sess_ctx\<close> that the TEE provides.\<close>

definition TA_OpenSessionEntryPoint ::
    "('p, 'c, 'w) ta_program \<Rightarrow> 'c cell_allocator \<Rightarrow> RawParamTypes \<Rightarrow> RawParams \<Rightarrow> u64 \<Rightarrow> 'w \<Rightarrow> 'c cells \<Rightarrow>
     (u32 \<times> RawParams \<times> u64 \<times> 'w \<times> 'c cells) run" where
  "TA_OpenSessionEntryPoint P alloc param_types params slot w cells =
     (case tp_from_raw P param_types params of
        Inl e \<Rightarrow> Finishes (raw_code e, params, slot, w, cells)
      | Inr p \<Rightarrow>
          (case tp_open P p (tp_default P) w of
             (Inr _, p', ctx, w') \<Rightarrow>
               run_map (\<lambda>(a, cells'). (TEE_SUCCESS, tp_release P params p', a, w', cells'))
                 (box_new alloc ctx cells)
           | (Inl e, p', ctx, w') \<Rightarrow> Finishes (raw_code e, tp_release P params p', slot, w', cells)))"

definition TA_InvokeCommandEntryPoint ::
    "('p, 'c, 'w) ta_program \<Rightarrow> u64 \<Rightarrow> u32 \<Rightarrow> RawParamTypes \<Rightarrow> RawParams \<Rightarrow> 'w \<Rightarrow> 'c cells \<Rightarrow>
     (u32 \<times> RawParams \<times> 'w \<times> 'c cells) run" where
  "TA_InvokeCommandEntryPoint P sess_ctx cmd_id param_types params w cells =
     (if sess_ctx = 0 then Finishes (TEE_ERROR_SECURITY, params, w, cells)
      else case tp_from_raw P param_types params of
             Inl e \<Rightarrow> Finishes (raw_code e, params, w, cells)
           | Inr p \<Rightarrow>
               run_map (\<lambda>ctx. case tp_invoke P ctx cmd_id p w of
                            (r, ctx', p', w') \<Rightarrow>
                              (result_code r, tp_release P params p', w', cells(sess_ctx \<mapsto> ctx')))
                 (box_read cells sess_ctx))"

definition TA_CloseSessionEntryPoint ::
    "('p, 'c, 'w) ta_program \<Rightarrow> u64 \<Rightarrow> 'w \<Rightarrow> 'c cells \<Rightarrow> ('w \<times> 'c cells) run" where
  "TA_CloseSessionEntryPoint P sess_ctx w cells =
     (if sess_ctx = 0 then Aborts
      else run_bind (box_read cells sess_ctx) (\<lambda>ctx.
             case tp_close P ctx w of
               (ctx', w') \<Rightarrow> run_map (\<lambda>cells'. (w', cells')) (box_free sess_ctx cells)))"

subsection \<open>The calls of the TEE\<close>

text \<open>
  The TEE names a session by a number and remembers the pointer that the application
  stored.  It opens a session under a number not in use, and invokes and closes open
  sessions only.
\<close>

datatype ta_event =
    Ev_open nat RawParamTypes RawParams
  | Ev_invoke nat u32 RawParamTypes RawParams
  | Ev_close nat

record ('c, 'w) ta_state =
  ts_ptrs :: "nat \<rightharpoonup> u64"
  ts_cells :: "'c cells"
  ts_world :: 'w

fun ta_exec ::
    "('p, 'c, 'w) ta_program \<Rightarrow> 'c cell_allocator \<Rightarrow> ta_event \<Rightarrow> ('c, 'w) ta_state \<Rightarrow>
     ((u32 \<times> RawParams) option \<times> ('c, 'w) ta_state) run" where
  "ta_exec P alloc (Ev_open s pt ps) st =
     run_map (\<lambda>(code, ps', slot, w', cells').
         (Some (code, ps'),
          \<lparr>ts_ptrs = (if code = TEE_SUCCESS then (ts_ptrs st)(s \<mapsto> slot) else ts_ptrs st),
           ts_cells = cells', ts_world = w'\<rparr>))
       (TA_OpenSessionEntryPoint P alloc pt ps 0 (ts_world st) (ts_cells st))"
| "ta_exec P alloc (Ev_invoke s cmd pt ps) st =
     run_map (\<lambda>(code, ps', w', cells'). (Some (code, ps'), st\<lparr>ts_cells := cells', ts_world := w'\<rparr>))
       (TA_InvokeCommandEntryPoint P (the (ts_ptrs st s)) cmd pt ps (ts_world st) (ts_cells st))"
| "ta_exec P alloc (Ev_close s) st =
     run_map (\<lambda>(w', cells'). (None, \<lparr>ts_ptrs = (ts_ptrs st)(s := None), ts_cells = cells', ts_world = w'\<rparr>))
       (TA_CloseSessionEntryPoint P (the (ts_ptrs st s)) (ts_world st) (ts_cells st))"

fun ta_run ::
    "('p, 'c, 'w) ta_program \<Rightarrow> 'c cell_allocator \<Rightarrow> ta_event list \<Rightarrow> ('c, 'w) ta_state \<Rightarrow>
     ((u32 \<times> RawParams) option list \<times> ('c, 'w) ta_state) run" where
  "ta_run P alloc [] st = Finishes ([], st)"
| "ta_run P alloc (e # es) st =
     run_bind (ta_exec P alloc e st) (\<lambda>(x, st').
       run_map (\<lambda>(xs, st''). (x # xs, st'')) (ta_run P alloc es st'))"

text \<open>
  The specification: each open session has a context of its own, and the functions of
  the application are applied to it.
\<close>

fun ta_spec ::
    "('p, 'c, 'w) ta_program \<Rightarrow> ta_event \<Rightarrow> (nat \<rightharpoonup> 'c) \<times> 'w \<Rightarrow> (u32 \<times> RawParams) option \<times> (nat \<rightharpoonup> 'c) \<times> 'w" where
  "ta_spec P (Ev_open s pt ps) (C, w) =
     (case tp_from_raw P pt ps of
        Inl e \<Rightarrow> (Some (raw_code e, ps), C, w)
      | Inr p \<Rightarrow>
          (case tp_open P p (tp_default P) w of
             (r, p', ctx, w') \<Rightarrow>
               (Some (result_code r, tp_release P ps p'), if r = Inr () then C(s \<mapsto> ctx) else C, w')))"
| "ta_spec P (Ev_invoke s cmd pt ps) (C, w) =
     (case tp_from_raw P pt ps of
        Inl e \<Rightarrow> (Some (raw_code e, ps), C, w)
      | Inr p \<Rightarrow>
          (case tp_invoke P (the (C s)) cmd p w of
             (r, ctx, p', w') \<Rightarrow> (Some (result_code r, tp_release P ps p'), C(s \<mapsto> ctx), w')))"
| "ta_spec P (Ev_close s) (C, w) = (None, C(s := None), snd (tp_close P (the (C s)) w))"

fun ta_spec_run ::
    "('p, 'c, 'w) ta_program \<Rightarrow> ta_event list \<Rightarrow> (nat \<rightharpoonup> 'c) \<times> 'w \<Rightarrow>
     (u32 \<times> RawParams) option list \<times> (nat \<rightharpoonup> 'c) \<times> 'w" where
  "ta_spec_run P [] S = ([], S)"
| "ta_spec_run P (e # es) S =
     (case ta_spec P e S of (x, S') \<Rightarrow> case ta_spec_run P es S' of (xs, S'') \<Rightarrow> (x # xs, S''))"

text \<open>The protocol of the TEE, along the specification.\<close>

fun ta_allowed :: "ta_event \<Rightarrow> (nat \<rightharpoonup> 'c) \<Rightarrow> bool" where
  "ta_allowed (Ev_open s pt ps) C = (s \<notin> dom C)"
| "ta_allowed (Ev_invoke s cmd pt ps) C = (s \<in> dom C)"
| "ta_allowed (Ev_close s) C = (s \<in> dom C)"

fun ta_protocol :: "('p, 'c, 'w) ta_program \<Rightarrow> ta_event list \<Rightarrow> (nat \<rightharpoonup> 'c) \<times> 'w \<Rightarrow> bool" where
  "ta_protocol P [] S = True"
| "ta_protocol P (e # es) S = (ta_allowed e (fst S) \<and> ta_protocol P es (snd (ta_spec P e S)))"

text \<open>
  An error that carries the code of success would be taken for success by the TEE; an
  application that makes up no such error is well behaved.
\<close>

definition no_fake_success :: "('p, 'c, 'w) ta_program \<Rightarrow> bool" where
  "no_fake_success P \<longleftrightarrow>
     (\<forall>pt ps e. tp_from_raw P pt ps = Inl e \<longrightarrow> raw_code e \<noteq> TEE_SUCCESS) \<and>
     (\<forall>p c w e x. tp_open P p c w = (Inl e, x) \<longrightarrow> raw_code e \<noteq> TEE_SUCCESS)"

text \<open>The heap holds exactly the contexts of the open sessions, besides what \<open>cells0\<close> holds.\<close>

definition ta_rel :: "'c cells \<Rightarrow> ('c, 'w) ta_state \<Rightarrow> (nat \<rightharpoonup> 'c) \<times> 'w \<Rightarrow> bool" where
  "ta_rel cells0 st S \<longleftrightarrow>
     (case S of (C, w) \<Rightarrow>
        ts_world st = w \<and> dom (ts_ptrs st) = dom C \<and> inj_on (ts_ptrs st) (dom C) \<and>
        0 \<notin> ran (ts_ptrs st) \<and> dom cells0 \<inter> ran (ts_ptrs st) = {} \<and>
        (\<forall>s a. ts_ptrs st s = Some a \<longrightarrow> ts_cells st a = C s) \<and>
        (\<forall>a. a \<notin> ran (ts_ptrs st) \<longrightarrow> ts_cells st a = cells0 a))"

section \<open>Lemmas\<close>

lemma result_code_success: "(\<And>e. r = Inl e \<Longrightarrow> raw_code e \<noteq> TEE_SUCCESS) \<Longrightarrow> result_code r = TEE_SUCCESS \<longleftrightarrow> r = Inr ()"
  by (cases r) (auto simp: result_code_def)

lemma ta_relD:
  assumes "ta_rel cells0 st (C, w)"
  shows "ts_world st = w" and "dom (ts_ptrs st) = dom C" and "inj_on (ts_ptrs st) (dom C)"
    and "0 \<notin> ran (ts_ptrs st)" and "dom cells0 \<inter> ran (ts_ptrs st) = {}"
    and "\<And>s a. ts_ptrs st s = Some a \<Longrightarrow> ts_cells st a = C s"
    and "\<And>a. a \<notin> ran (ts_ptrs st) \<Longrightarrow> ts_cells st a = cells0 a"
  using assms by (simp_all add: ta_rel_def)

lemma ta_rel_fresh:
  assumes R: "ta_rel cells0 st (C, w)" and a: "ts_cells st a = None"
  shows "a \<notin> ran (ts_ptrs st)" and "cells0 a = None"
proof -
  show r: "a \<notin> ran (ts_ptrs st)"
  proof
    assume "a \<in> ran (ts_ptrs st)"
    then obtain s where s: "ts_ptrs st s = Some a" by (auto simp: ran_def)
    then have "C s = None" using ta_relD(6)[OF R s] a by simp
    moreover have "s \<in> dom C" using s ta_relD(2)[OF R] by auto
    ultimately show False by auto
  qed
  then show "cells0 a = None" using ta_relD(7)[OF R] a by simp
qed

lemma ta_rel_open:
  assumes R: "ta_rel cells0 st (C, w)" and a: "ts_cells st a = None" "a \<noteq> 0" and s: "s \<notin> dom C"
  shows "ta_rel cells0 \<lparr>ts_ptrs = (ts_ptrs st)(s \<mapsto> a), ts_cells = (ts_cells st)(a \<mapsto> c), ts_world = w'\<rparr>
           (C(s \<mapsto> c), w')"
proof -
  note D = ta_relD[OF R]
  have sp: "ts_ptrs st s = None" using s D(2) by auto
  have ran: "ran ((ts_ptrs st)(s \<mapsto> a)) = insert a (ran (ts_ptrs st))" using sp by simp
  have ptr: "t \<noteq> s \<Longrightarrow> ts_ptrs st t = Some b \<Longrightarrow> b \<noteq> a" for t b
    using ta_rel_fresh(1)[OF R a(1)] by (auto simp: ran_def)
  have "inj_on ((ts_ptrs st)(s \<mapsto> a)) (dom (C(s \<mapsto> c)))"
  proof (rule inj_onI)
    fix x y
    assume xy: "x \<in> dom (C(s \<mapsto> c))" "y \<in> dom (C(s \<mapsto> c))"
      and e: "((ts_ptrs st)(s \<mapsto> a)) x = ((ts_ptrs st)(s \<mapsto> a)) y"
    show "x = y"
    proof (cases "x = s \<or> y = s")
      case True
      then show ?thesis using e ptr by (metis fun_upd_apply)
    next
      case False
      then show ?thesis using e xy inj_onD[OF D(3)] by auto
    qed
  qed
  then show ?thesis
    using D ran ptr a(2) ta_rel_fresh[OF R a(1)] by (auto simp: ta_rel_def)
qed

lemma ta_rel_invoke:
  assumes R: "ta_rel cells0 st (C, w)" and a: "ts_ptrs st s = Some a"
  shows "ta_rel cells0 (st\<lparr>ts_cells := (ts_cells st)(a \<mapsto> c), ts_world := w'\<rparr>) (C(s \<mapsto> c), w')"
proof -
  note D = ta_relD[OF R]
  have s: "s \<in> dom C" using a D(2) by auto
  have other: "t = s" if "ts_ptrs st t = Some a" for t
  proof -
    have "t \<in> dom C" using that D(2) by auto
    then show ?thesis using inj_onD[OF D(3), of t s] that a s by simp
  qed
  have "a \<in> ran (ts_ptrs st)" using a by (auto simp: ran_def)
  moreover have "insert s (dom C) = dom C" using s by auto
  moreover have "\<forall>t b. ts_ptrs st t = Some b \<longrightarrow> ((ts_cells st)(a \<mapsto> c)) b = (C(s \<mapsto> c)) t"
    using D(6) a other by (metis fun_upd_apply option.inject)
  ultimately show ?thesis using D by (simp add: ta_rel_def)
qed

lemma ta_rel_close:
  assumes R: "ta_rel cells0 st (C, w)" and a: "ts_ptrs st s = Some a"
  shows "ta_rel cells0 \<lparr>ts_ptrs = (ts_ptrs st)(s := None), ts_cells = (ts_cells st)(a := None), ts_world = w'\<rparr>
           (C(s := None), w')"
proof -
  note D = ta_relD[OF R]
  have s: "s \<in> dom C" using a D(2) by auto
  have other: "t = s" if "ts_ptrs st t = Some a" for t
  proof -
    have "t \<in> dom C" using that D(2) by auto
    then show ?thesis using inj_onD[OF D(3), of t s] that a s by simp
  qed
  have r: "ran ((ts_ptrs st)(s := None)) = ran (ts_ptrs st) - {a}"
  proof (intro set_eqI iffI)
    fix x assume "x \<in> ran ((ts_ptrs st)(s := None))"
    then obtain t where t: "t \<noteq> s" "ts_ptrs st t = Some x" by (auto simp: ran_def split: if_splits)
    then have "x \<noteq> a" using other[of t] by blast
    then show "x \<in> ran (ts_ptrs st) - {a}" using ranI[of "ts_ptrs st", OF t(2)] by simp
  next
    fix x assume "x \<in> ran (ts_ptrs st) - {a}"
    then obtain t where "ts_ptrs st t = Some x" "x \<noteq> a" by (auto simp: ran_def)
    then have "((ts_ptrs st)(s := None)) t = Some x" using a by auto
    then show "x \<in> ran ((ts_ptrs st)(s := None))" by (rule ranI)
  qed
  have "a \<in> ran (ts_ptrs st)" using a by (auto simp: ran_def)
  then have "cells0 a = None" using D(5) by auto
  moreover have "inj_on ((ts_ptrs st)(s := None)) (dom C - {s})"
    using D(3) by (auto simp: inj_on_def)
  moreover have "\<forall>t b. ((ts_ptrs st)(s := None)) t = Some b \<longrightarrow> ((ts_cells st)(a := None)) b = (C(s := None)) t"
    using D(6) other by (metis fun_upd_apply option.distinct(1))
  moreover have "\<forall>b. b \<notin> ran (ts_ptrs st) - {a} \<longrightarrow> ((ts_cells st)(a := None)) b = cells0 b"
    using D(7) \<open>cells0 a = None\<close> by simp
  moreover have "dom cells0 \<inter> (ran (ts_ptrs st) - {a}) = {}" using D(5) by blast
  ultimately show ?thesis using D(1,2,4) unfolding ta_rel_def prod.case ta_state.simps r
    by (intro conjI) simp_all
qed

lemma ta_exec_refines:
  assumes A: "allocator_ok alloc" and N: "no_fake_success P"
    and R: "ta_rel cells0 st (C, w)" and ok: "ta_allowed e C"
  shows "ta_exec P alloc e st = Aborts \<or>
    (\<exists>st'. ta_exec P alloc e st = Finishes (fst (ta_spec P e (C, w)), st') \<and>
       ta_rel cells0 st' (snd (ta_spec P e (C, w))))"
proof (cases e)
  case (Ev_open s pt ps)
  show ?thesis
  proof (cases "tp_from_raw P pt ps")
    case (Inl err)
    moreover have "raw_code err \<noteq> TEE_SUCCESS" using N Inl unfolding no_fake_success_def by blast
    ultimately show ?thesis using Ev_open R ta_relD(1)[OF R]
      by (simp add: TA_OpenSessionEntryPoint_def ta_rel_def)
  next
    case (Inr p)
    obtain r p' c w' where o: "tp_open P p (tp_default P) w = (r, p', c, w')" by (metis surj_pair)
    show ?thesis
    proof (cases r)
      case (Inl err)
      then have "raw_code err \<noteq> TEE_SUCCESS" using N o unfolding no_fake_success_def by blast
      then show ?thesis using Ev_open R ta_relD(1)[OF R] Inr Inl o
        by (simp add: TA_OpenSessionEntryPoint_def result_code_def ta_rel_def)
    next
      case r: (Inr u)
      show ?thesis
      proof (cases "alloc (ts_cells st)")
        case None
        then show ?thesis using Ev_open ta_relD(1)[OF R] Inr r o
          by (simp add: TA_OpenSessionEntryPoint_def box_new_def)
      next
        case (Some a)
        then have "ts_cells st a = None" "a \<noteq> 0" using A by (auto simp: allocator_ok_def)
        from ta_rel_open[OF R this] ok Ev_open show ?thesis
          using Some ta_relD(1)[OF R] Inr r o
          by (simp add: TA_OpenSessionEntryPoint_def box_new_def result_code_def)
      qed
    qed
  qed
next
  case (Ev_invoke s cmd pt ps)
  then have "s \<in> dom (ts_ptrs st)" using ok ta_relD(2)[OF R] by simp
  then obtain a where a: "ts_ptrs st s = Some a" by auto
  have a0: "a \<noteq> 0" using ta_relD(4)[OF R] a by (auto simp: ran_def)
  have "s \<in> dom C" using ok Ev_invoke by simp
  then obtain c where c: "C s = Some c" by auto
  then have cell: "ts_cells st a = Some c" using ta_relD(6)[OF R a] by simp
  show ?thesis
  proof (cases "tp_from_raw P pt ps")
    case (Inl err)
    then show ?thesis using Ev_invoke R ta_relD(1)[OF R] a a0
      by (simp add: TA_InvokeCommandEntryPoint_def ta_rel_def)
  next
    case (Inr p)
    obtain r c' p' w' where "tp_invoke P c cmd p w = (r, c', p', w')" by (metis surj_pair)
    then show ?thesis using Ev_invoke ta_relD(1)[OF R] a a0 c cell Inr ta_rel_invoke[OF R a, where c = c' and w' = w']
      by (simp add: TA_InvokeCommandEntryPoint_def box_read_def)
  qed
next
  case (Ev_close s)
  then have "s \<in> dom (ts_ptrs st)" using ok ta_relD(2)[OF R] by simp
  then obtain a where a: "ts_ptrs st s = Some a" by auto
  have a0: "a \<noteq> 0" using ta_relD(4)[OF R] a by (auto simp: ran_def)
  have "s \<in> dom C" using ok Ev_close by simp
  then obtain c where c: "C s = Some c" by auto
  then have cell: "ts_cells st a = Some c" using ta_relD(6)[OF R a] by simp
  obtain c' w' where "tp_close P c w = (c', w')" by fastforce
  then show ?thesis using Ev_close ta_relD(1)[OF R] a a0 c cell ta_rel_close[OF R a, of w']
    by (simp add: TA_CloseSessionEntryPoint_def box_read_def box_free_def)
qed

lemma ta_run_refines:
  assumes A: "allocator_ok alloc" and N: "no_fake_success P"
  shows "ta_rel cells0 st S \<Longrightarrow> ta_protocol P es S \<Longrightarrow>
    ta_run P alloc es st = Aborts \<or>
    (\<exists>st'. ta_run P alloc es st = Finishes (fst (ta_spec_run P es S), st') \<and>
       ta_rel cells0 st' (snd (ta_spec_run P es S)))"
proof (induction es arbitrary: st S)
  case Nil
  then show ?case by simp
next
  case (Cons e es)
  obtain C w where S: "S = (C, w)" by fastforce
  obtain x S' where x: "ta_spec P e (C, w) = (x, S')" by (metis surj_pair)
  from ta_exec_refines[OF A N, of cells0 st C w e] Cons.prems S
  consider "ta_exec P alloc e st = Aborts"
    | st' where "ta_exec P alloc e st = Finishes (x, st')" "ta_rel cells0 st' S'"
    using x by auto
  then show ?case
  proof cases
    case 1
    then show ?thesis by simp
  next
    case (2 st')
    have "ta_protocol P es S'" using Cons.prems(2) S x by simp
    from Cons.IH[OF 2(2) this] show ?thesis
      using 2(1) x S by (auto split: prod.splits)
  qed
qed

section \<open>A reference application\<close>

text \<open>
  An application that counts its invocations per session, reports the count in the first
  parameter and adds it to a global total when the session is closed.
\<close>

definition count_program :: "(RawParams, u32, u32) ta_program" where
  "count_program = \<lparr>
     tp_from_raw = (\<lambda>pt ps. Inr ps),
     tp_release = (\<lambda>old ps. ps),
     tp_create = (\<lambda>w. (Inr (), w)),
     tp_destroy = (\<lambda>w. w),
     tp_default = 0,
     tp_open = (\<lambda>p c w. (Inr (), p, c, w)),
     tp_invoke = (\<lambda>c cmd (p0, ps) w. (Inr (), c + 1, (Param_of_value (c + 1) 0 0, ps), w)),
     tp_close = (\<lambda>c w. (c, w + c))\<rparr>"

lemma count_program_honest: "no_fake_success count_program"
  by (simp add: no_fake_success_def count_program_def)

section \<open>Properties\<close>





text \<open>
  An error that carries the code of success is taken for success.  If the opening
  function returns such an error, the entry point reports success without storing a
  context; every later command on that session is refused with \<^verbatim>\<open>TEE_ERROR_SECURITY\<close>, and
  closing it panics.
\<close>

lemma fake_success_session:
  assumes "tp_from_raw P pt ps = Inr p" and "tp_open P p (tp_default P) (ts_world st) = (Inl e, p', c, w')"
    and "raw_code e = TEE_SUCCESS"
  shows "\<exists>st'. ta_exec P alloc (Ev_open s pt ps) st = Finishes (Some (TEE_SUCCESS, tp_release P ps p'), st') \<and>
    ta_exec P alloc (Ev_invoke s cmd pt2 ps2) st' = Finishes (Some (TEE_ERROR_SECURITY, ps2), st') \<and>
    ta_exec P alloc (Ev_close s) st' = Aborts"
  using assms
  by (cases ps2) (auto simp: TA_OpenSessionEntryPoint_def TA_InvokeCommandEntryPoint_def TA_CloseSessionEntryPoint_def)

lemma fake_success_session_witness:
  "let P = count_program\<lparr>tp_open := \<lambda>p c w. (Inl (Error_new (Unknown 0)), p, c, w)\<rparr>;
       p = Param_of_value 0 0 0
   in \<exists>st'. ta_exec P two_cells (Ev_open 3 0 (p, p, p, p)) \<lparr>ts_ptrs = Map.empty, ts_cells = Map.empty, ts_world = 0\<rparr>
        = Finishes (Some (TEE_SUCCESS, p, p, p, p), st') \<and> ta_exec P two_cells (Ev_close 3) st' = Aborts"
proof -
  let ?P = "count_program\<lparr>tp_open := \<lambda>p c w. (Inl (Error_new (Unknown 0)), p, c, w)\<rparr>"
  let ?p = "Param_of_value 0 0 0"
  let ?ps = "(?p, ?p, ?p, ?p)"
  let ?st = "\<lparr>ts_ptrs = Map.empty, ts_cells = Map.empty, ts_world = 0\<rparr>"
  have "tp_from_raw ?P 0 ?ps = Inr ?ps" "tp_open ?P ?ps (tp_default ?P) (ts_world ?st) = (Inl (Error_new (Unknown 0)), ?ps, 0, 0)"
    "raw_code (Error_new (Unknown 0)) = TEE_SUCCESS" "tp_release ?P ?ps ?ps = ?ps"
    by (simp_all add: count_program_def TEE_SUCCESS_def)
  from fake_success_session[OF this(1-3), of two_cells 3 0 0 ?ps] this(4) show ?thesis
    unfolding Let_def by metis
qed

end
