(* ===== verification/Identity.thy ===== *)
theory Identity
  imports TeeUuid
begin

text \<open>
  The identity of a client, \<^verbatim>\<open>crates/optee-utee/src/identity.rs\<close>: the raw structure that
  the TEE fills in, and the login type it carries.
\<close>

section \<open>Definitions\<close>

record TEE_Identity =
  id_login :: u32
  id_uuid :: TEE_UUID

datatype LoginType =
    Public
  | User
  | Group
  | Application
  | ApplicationUser
  | ApplicationGroup
  | TrustedApp
  | Login_Unknown u32

fun LoginType_into :: "LoginType \<Rightarrow> u32" where
  "LoginType_into Public = TEE_LOGIN_PUBLIC"
| "LoginType_into User = TEE_LOGIN_USER"
| "LoginType_into Group = TEE_LOGIN_GROUP"
| "LoginType_into Application = TEE_LOGIN_APPLICATION"
| "LoginType_into ApplicationUser = TEE_LOGIN_APPLICATION_USER"
| "LoginType_into ApplicationGroup = TEE_LOGIN_APPLICATION_GROUP"
| "LoginType_into TrustedApp = TEE_LOGIN_TRUSTED_APP"
| "LoginType_into (Login_Unknown code) = code"

definition LoginType_variants :: "LoginType list" where
  "LoginType_variants =
     [Public, User, Group, Application, ApplicationUser, ApplicationGroup, TrustedApp]"

definition LoginType_from :: "u32 \<Rightarrow> LoginType" where
  "LoginType_from = from_primitive LoginType_into LoginType_variants Login_Unknown"

record Identity =
  identity_raw :: TEE_Identity

definition Identity_from :: "TEE_Identity \<Rightarrow> Identity" where
  "Identity_from raw = \<lparr>identity_raw = raw\<rparr>"

definition Uuid_from_raw :: "TEE_UUID \<Rightarrow> Uuid" where
  "Uuid_from_raw raw = \<lparr>uuid_raw = raw\<rparr>"

definition Identity_login_type :: "Identity \<Rightarrow> LoginType" where
  "Identity_login_type self = LoginType_from (id_login (identity_raw self))"

definition Identity_uuid :: "Identity \<Rightarrow> Uuid" where
  "Identity_uuid self = Uuid_from_raw (id_uuid (identity_raw self))"

section \<open>Lemmas\<close>

interpretation logins: num_enum LoginType_into LoginType_variants Login_Unknown
  by unfold_locales (simp_all add: LoginType_variants_def raw_consts)

text \<open>No login value is lost, and the seven named values give their variants.\<close>

lemma LoginType_into_from [simp]: "LoginType_into (LoginType_from c) = c"
  by (simp add: LoginType_from_def logins.into_from)

lemma LoginType_from_named: "t \<in> set LoginType_variants \<Longrightarrow> LoginType_from (LoginType_into t) = t"
  by (simp add: LoginType_from_def logins.from_variant)

lemma Identity_eqI:
  assumes "LoginType_into (Identity_login_type a) = LoginType_into (Identity_login_type b)"
    and "Identity_uuid a = Identity_uuid b"
  shows "a = b"
  using assms
  by (cases a; cases b; simp add: Identity_login_type_def Identity_uuid_def Uuid_from_raw_def)

end
