(* ===== verification/TaHeader.thy ===== *)
theory TaHeader
  imports Identity RustString
begin

text \<open>
  The header of a trusted application.  A build script describes the application with a
  \<^verbatim>\<open>TaConfig\<close> (\<^verbatim>\<open>crates/optee-utee-build/src/ta_config.rs\<close>); the \<^verbatim>\<open>HeaderFileGenerator\<close>
  (\<^verbatim>\<open>code_generator.rs\<close>) turns it into the items of a Rust source file, which hold the
  property table and the header that the TEE reads from the linked image
  (\<^verbatim>\<open>crates/optee-utee-sys/src/user_ta_header.rs\<close>).

  The generated code is a list of items over a small abstract syntax, one constructor per
  form that the \<^verbatim>\<open>quote!\<close> templates use; parsing and printing the tokens is left to the
  \<^verbatim>\<open>syn\<close> and \<^verbatim>\<open>prettyplease\<close> crates.  What the TEE sees of the items is the evaluation of
  the property table at the end of the definitions: a pointer is followed to the constant
  it names, and read at the type that the entry announces.
\<close>

section \<open>Definitions\<close>

subsection \<open>The interface to the TEE\<close>

definition TA_FLAG_SINGLE_INSTANCE :: u32 where [raw_consts]: "TA_FLAG_SINGLE_INSTANCE = push_bit 2 1"
definition TA_FLAG_MULTI_SESSION :: u32 where [raw_consts]: "TA_FLAG_MULTI_SESSION = push_bit 3 1"
definition TA_FLAG_INSTANCE_KEEP_ALIVE :: u32 where [raw_consts]: "TA_FLAG_INSTANCE_KEEP_ALIVE = push_bit 4 1"
definition TA_FLAG_SECURE_DATA_PATH :: u32 where [raw_consts]: "TA_FLAG_SECURE_DATA_PATH = push_bit 5 1"
definition TA_FLAG_REMAP_SUPPORT :: u32 where [raw_consts]: "TA_FLAG_REMAP_SUPPORT = push_bit 6 1"
definition TA_FLAG_CACHE_MAINTENANCE :: u32 where [raw_consts]: "TA_FLAG_CACHE_MAINTENANCE = push_bit 7 1"
definition TA_FLAG_CONCURRENT :: u32 where [raw_consts]: "TA_FLAG_CONCURRENT = push_bit 8 1"
definition TA_FLAG_DEVICE_ENUM :: u32 where [raw_consts]: "TA_FLAG_DEVICE_ENUM = push_bit 9 1"
definition TA_FLAG_DEVICE_ENUM_SUPP :: u32 where [raw_consts]: "TA_FLAG_DEVICE_ENUM_SUPP = push_bit 10 1"
definition TA_FLAG_DONT_CLOSE_HANDLE_ON_CORRUPT_OBJECT :: u32 where [raw_consts]:
  "TA_FLAG_DONT_CLOSE_HANDLE_ON_CORRUPT_OBJECT = push_bit 11 1"
definition TA_FLAG_DEVICE_ENUM_TEE_STORAGE_PRIVATE :: u32 where [raw_consts]:
  "TA_FLAG_DEVICE_ENUM_TEE_STORAGE_PRIVATE = push_bit 12 1"
definition TA_FLAG_INSTANCE_KEEP_CRASHED :: u32 where [raw_consts]: "TA_FLAG_INSTANCE_KEEP_CRASHED = push_bit 13 1"
definition TA_FLAG_EXEC_DDR :: u32 where [raw_consts]: "TA_FLAG_EXEC_DDR = 0"
definition TA_FLAG_USER_MODE :: u32 where [raw_consts]: "TA_FLAG_USER_MODE = 0"

definition c_literal :: "string \<Rightarrow> bytes" where
  "c_literal s = as_bytes s @ [0]"

definition TA_PROP_STR_SINGLE_INSTANCE :: bytes where
  "TA_PROP_STR_SINGLE_INSTANCE = c_literal ''gpd.ta.singleInstance''"
definition TA_PROP_STR_MULTI_SESSION :: bytes where
  "TA_PROP_STR_MULTI_SESSION = c_literal ''gpd.ta.multiSession''"
definition TA_PROP_STR_KEEP_ALIVE :: bytes where
  "TA_PROP_STR_KEEP_ALIVE = c_literal ''gpd.ta.instanceKeepAlive''"
definition TA_PROP_STR_KEEP_CRASHED :: bytes where
  "TA_PROP_STR_KEEP_CRASHED = c_literal ''gpd.ta.instanceKeepCrashed''"
definition TA_PROP_STR_DATA_SIZE :: bytes where
  "TA_PROP_STR_DATA_SIZE = c_literal ''gpd.ta.dataSize''"
definition TA_PROP_STR_STACK_SIZE :: bytes where
  "TA_PROP_STR_STACK_SIZE = c_literal ''gpd.ta.stackSize''"
definition TA_PROP_STR_VERSION :: bytes where
  "TA_PROP_STR_VERSION = c_literal ''gpd.ta.version''"
definition TA_PROP_STR_DESCRIPTION :: bytes where
  "TA_PROP_STR_DESCRIPTION = c_literal ''gpd.ta.description''"
definition TA_PROP_STR_ENDIAN :: bytes where
  "TA_PROP_STR_ENDIAN = c_literal ''gpd.ta.endian''"
definition TA_PROP_STR_DOES_NOT_CLOSE_HANDLE_ON_CORRUPT_OBJECT :: bytes where
  "TA_PROP_STR_DOES_NOT_CLOSE_HANDLE_ON_CORRUPT_OBJECT = c_literal ''gpd.ta.doesNotCloseHandleOnCorruptObject''"

datatype user_ta_prop_type =
    USER_TA_PROP_TYPE_BOOL
  | USER_TA_PROP_TYPE_U32
  | USER_TA_PROP_TYPE_UUID
  | USER_TA_PROP_TYPE_IDENTITY
  | USER_TA_PROP_TYPE_STRING
  | USER_TA_PROP_TYPE_BINARY_BLOCK
  | USER_TA_PROP_TYPE_U64
  | USER_TA_PROP_TYPE_INVALID

subsection \<open>TaConfig\<close>

datatype 'u PropertyValue =
    Prop_Bool bool
  | Prop_U32 u32
  | Prop_Uuid 'u
  | Prop_Identity u32 'u
  | Prop_Str string
  | Prop_BinaryBlock string
  | Prop_U64 u64

record 'u Property =
  prop_name :: string
  prop_value :: "'u PropertyValue"

record 'u TaConfig =
  tc_uuid :: 'u
  tc_ta_flags :: u32
  tc_ta_data_size :: u32
  tc_ta_stack_size :: u32
  tc_ta_version :: string
  tc_ta_description :: string
  tc_trace_level :: i32
  tc_trace_ext_prefix :: string
  tc_ta_framework_stack_size :: u32
  tc_ext_properties :: "'u Property list"

datatype build_error =
    EnvError string
  | IoError
  | UuidError
  | PropertyNotFound string
  | InvalidVersion string
  | UtfError

definition Property_new :: "string \<Rightarrow> 'u PropertyValue \<Rightarrow> 'u Property" where
  "Property_new name v = \<lparr>prop_name = name, prop_value = v\<rparr>"

definition TaConfig_new_default :: "'u uuid_crate \<Rightarrow> string \<Rightarrow> string \<Rightarrow> string \<Rightarrow> build_error + 'u TaConfig" where
  "TaConfig_new_default U uuid_str ta_version ta_description =
     try_bind (ok_or (uc_parse_str U uuid_str) UuidError) (\<lambda>uuid.
       Inr \<lparr>tc_uuid = uuid, tc_ta_flags = 0, tc_ta_data_size = 32 * 1024, tc_ta_stack_size = 2 * 1024,
            tc_ta_version = ta_version, tc_ta_description = ta_description, tc_trace_level = 4,
            tc_trace_ext_prefix = ''TA'', tc_ta_framework_stack_size = 2048, tc_ext_properties = []\<rparr>)"

definition TaConfig_new_default_with_cargo_env ::
    "'u uuid_crate \<Rightarrow> (string \<rightharpoonup> string) \<Rightarrow> string \<Rightarrow> build_error + 'u TaConfig" where
  "TaConfig_new_default_with_cargo_env U env uuid_str =
     try_bind (ok_or (env ''CARGO_PKG_VERSION'') (EnvError ''CARGO_PKG_VERSION'')) (\<lambda>version.
     try_bind (ok_or (env ''CARGO_PKG_DESCRIPTION'') (EnvError ''CARGO_PKG_DESCRIPTION'')) (\<lambda>description.
       TaConfig_new_default U uuid_str version description))"

definition TaConfig_ta_flags :: "u32 \<Rightarrow> 'u TaConfig \<Rightarrow> 'u TaConfig" where
  "TaConfig_ta_flags flags self = self\<lparr>tc_ta_flags := flags\<rparr>"

definition TaConfig_ta_stack_size :: "u32 \<Rightarrow> 'u TaConfig \<Rightarrow> 'u TaConfig" where
  "TaConfig_ta_stack_size stack_size self = self\<lparr>tc_ta_stack_size := stack_size\<rparr>"

definition TaConfig_ta_data_size :: "u32 \<Rightarrow> 'u TaConfig \<Rightarrow> 'u TaConfig" where
  "TaConfig_ta_data_size sz self = self\<lparr>tc_ta_data_size := sz\<rparr>"

definition TaConfig_trace_level :: "i32 \<Rightarrow> 'u TaConfig \<Rightarrow> 'u TaConfig" where
  "TaConfig_trace_level level self = self\<lparr>tc_trace_level := level\<rparr>"

definition TaConfig_trace_ext_prefix :: "string \<Rightarrow> 'u TaConfig \<Rightarrow> 'u TaConfig" where
  "TaConfig_trace_ext_prefix pre self = self\<lparr>tc_trace_ext_prefix := pre\<rparr>"

definition TaConfig_ta_framework_stack_size :: "u32 \<Rightarrow> 'u TaConfig \<Rightarrow> 'u TaConfig" where
  "TaConfig_ta_framework_stack_size stack_size self = self\<lparr>tc_ta_framework_stack_size := stack_size\<rparr>"

definition TaConfig_add_ext_property :: "string \<Rightarrow> 'u PropertyValue \<Rightarrow> 'u TaConfig \<Rightarrow> 'u TaConfig" where
  "TaConfig_add_ext_property name v self =
     self\<lparr>tc_ext_properties := tc_ext_properties self @ [Property_new name v]\<rparr>"

subsection \<open>The generated items\<close>

datatype gen_type =
    Ty_bool | Ty_u32 | Ty_u64 | Ty_c_int | Ty_usize | Ty_bytes | Ty_TEE_UUID | Ty_TEE_Identity
  | Ty_props nat | Ty_ta_head | Ty_heap string

text \<open>\<open>Ptr T c\<close> is \<^verbatim>\<open>&c as *const T as _\<close>, without the borrow for a slice.\<close>

datatype gen_ptr = Ptr gen_type string

record user_ta_property =
  utp_name :: bytes
  utp_type :: user_ta_prop_type
  utp_value :: gen_ptr

text \<open>
  \<open>E_flag_set f\<close> is \<^verbatim>\<open>(TA_FLAGS & f) != 0\<close>, \<open>E_zeros c\<close> is \<^verbatim>\<open>[0; c as usize]\<close>,
  \<open>E_size_of_heap c\<close> is \<^verbatim>\<open>mem::size_of::<u8>() * c as usize\<close>.
\<close>

datatype gen_expr =
    E_bool bool | E_u32 u32 | E_u64 u64 | E_i32 i32 | E_usize nat | E_bytes bytes
  | E_uuid TEE_UUID | E_identity TEE_Identity
  | E_flag_set u32
  | E_props "user_ta_property list"
  | E_ta_head gen_expr u32 string u64
  | E_zeros string
  | E_size_of_heap string

datatype gen_item =
    Use string
  | Const string gen_type gen_expr
  | Static "string option" bool string gen_type gen_expr
  | TraceLevelFn string string

subsection \<open>HeaderFileGenerator\<close>

definition string_to_binary_codes :: "string \<Rightarrow> gen_expr" where
  "string_to_binary_codes s = E_bytes (as_bytes s @ [0])"

definition tee_uuid_value :: "'u uuid_crate \<Rightarrow> 'u \<Rightarrow> TEE_UUID" where
  "tee_uuid_value U uuid =
     (case uc_as_fields U uuid of
        (time_low, time_mid, time_hi_and_version, clock_seq_and_node) \<Rightarrow>
          \<lparr>timeLow = time_low, timeMid = time_mid, timeHiAndVersion = time_hi_and_version,
           clockSeqAndNode = clock_seq_and_node\<rparr>)"

definition uuid_to_tee_uuid_value_codes :: "'u uuid_crate \<Rightarrow> 'u \<Rightarrow> build_error + gen_expr" where
  "uuid_to_tee_uuid_value_codes U uuid = Inr (E_uuid (tee_uuid_value U uuid))"

definition identity_to_tee_identity_value_codes ::
    "'u uuid_crate \<Rightarrow> u32 \<Rightarrow> 'u \<Rightarrow> build_error + gen_expr" where
  "identity_to_tee_identity_value_codes U login uuid =
     try_bind (uuid_to_tee_uuid_value_codes U uuid) (\<lambda>_.
       Inr (E_identity \<lparr>id_login = login, id_uuid = tee_uuid_value U uuid\<rparr>))"

fun property_value_data_codes :: "'u uuid_crate \<Rightarrow> 'u PropertyValue \<Rightarrow> build_error + gen_expr" where
  "property_value_data_codes U (Prop_U32 v) = Inr (E_u32 v)"
| "property_value_data_codes U (Prop_U64 v) = Inr (E_u64 v)"
| "property_value_data_codes U (Prop_Bool v) = Inr (E_bool v)"
| "property_value_data_codes U (Prop_Uuid v) = uuid_to_tee_uuid_value_codes U v"
| "property_value_data_codes U (Prop_Str v) = Inr (string_to_binary_codes v)"
| "property_value_data_codes U (Prop_BinaryBlock v) = Inr (string_to_binary_codes v)"
| "property_value_data_codes U (Prop_Identity login uuid) = identity_to_tee_identity_value_codes U login uuid"

fun property_value_rust_type_declaration_codes :: "'u PropertyValue \<Rightarrow> gen_type" where
  "property_value_rust_type_declaration_codes (Prop_U32 _) = Ty_u32"
| "property_value_rust_type_declaration_codes (Prop_U64 _) = Ty_u64"
| "property_value_rust_type_declaration_codes (Prop_Bool _) = Ty_bool"
| "property_value_rust_type_declaration_codes (Prop_Uuid _) = Ty_TEE_UUID"
| "property_value_rust_type_declaration_codes (Prop_Str _) = Ty_bytes"
| "property_value_rust_type_declaration_codes (Prop_BinaryBlock _) = Ty_bytes"
| "property_value_rust_type_declaration_codes (Prop_Identity _ _) = Ty_TEE_Identity"

fun property_value_as_utee_value_codes :: "string \<Rightarrow> 'u PropertyValue \<Rightarrow> gen_ptr" where
  "property_value_as_utee_value_codes var_name (Prop_U32 _) = Ptr Ty_u32 var_name"
| "property_value_as_utee_value_codes var_name (Prop_U64 _) = Ptr Ty_u64 var_name"
| "property_value_as_utee_value_codes var_name (Prop_Bool _) = Ptr Ty_bool var_name"
| "property_value_as_utee_value_codes var_name (Prop_Uuid _) = Ptr Ty_TEE_UUID var_name"
| "property_value_as_utee_value_codes var_name (Prop_Str _) = Ptr Ty_bytes var_name"
| "property_value_as_utee_value_codes var_name (Prop_BinaryBlock _) = Ptr Ty_bytes var_name"
| "property_value_as_utee_value_codes var_name (Prop_Identity _ _) = Ptr Ty_TEE_Identity var_name"

fun property_value_utee_type_codes :: "'u PropertyValue \<Rightarrow> user_ta_prop_type" where
  "property_value_utee_type_codes (Prop_U32 _) = USER_TA_PROP_TYPE_U32"
| "property_value_utee_type_codes (Prop_U64 _) = USER_TA_PROP_TYPE_U64"
| "property_value_utee_type_codes (Prop_Bool _) = USER_TA_PROP_TYPE_BOOL"
| "property_value_utee_type_codes (Prop_Uuid _) = USER_TA_PROP_TYPE_UUID"
| "property_value_utee_type_codes (Prop_Str _) = USER_TA_PROP_TYPE_STRING"
| "property_value_utee_type_codes (Prop_BinaryBlock _) = USER_TA_PROP_TYPE_BINARY_BLOCK"
| "property_value_utee_type_codes (Prop_Identity _ _) = USER_TA_PROP_TYPE_IDENTITY"

definition write_includes :: "gen_item list \<Rightarrow> gen_item list" where
  "write_includes code = code @ [Use ''core::ffi::*'', Use ''core::mem'', Use ''core::primitive::u64'']"

definition write_trace :: "'u TaConfig \<Rightarrow> gen_item list \<Rightarrow> gen_item list" where
  "write_trace conf code = code @
     [Static None True ''trace_level'' Ty_c_int (E_i32 (tc_trace_level conf)),
      Static None False ''trace_ext_prefix'' Ty_bytes (string_to_binary_codes (tc_trace_ext_prefix conf)),
      TraceLevelFn ''tahead_get_trace_level'' ''trace_level'']"

definition write_configurations :: "'u TaConfig \<Rightarrow> gen_item list \<Rightarrow> gen_item list" where
  "write_configurations conf code = code @
     [Const ''TA_FLAGS'' Ty_u32 (E_u32 (tc_ta_flags conf)),
      Const ''TA_DATA_SIZE'' Ty_u32 (E_u32 (tc_ta_data_size conf)),
      Const ''TA_STACK_SIZE'' Ty_u32 (E_u32 (tc_ta_stack_size conf)),
      Const ''TA_VERSION'' Ty_bytes (string_to_binary_codes (tc_ta_version conf)),
      Const ''TA_DESCRIPTION'' Ty_bytes (string_to_binary_codes (tc_ta_description conf))]"

definition ext_var_name :: "nat \<Rightarrow> string" where
  "ext_var_name index = ''EXT_PROP_VALUE_'' @ display_nat (index + 1)"

fun ext_properties_loop ::
    "'u uuid_crate \<Rightarrow> nat \<Rightarrow> 'u Property list \<Rightarrow> gen_item list \<Rightarrow> user_ta_property list \<Rightarrow>
     build_error + gen_item list \<times> user_ta_property list" where
  "ext_properties_loop U index [] code acc = Inr (code, acc)"
| "ext_properties_loop U index (prop # props) code acc =
     try_bind (property_value_data_codes U (prop_value prop)) (\<lambda>value_codes.
       ext_properties_loop U (index + 1) props
         (code @ [Const (ext_var_name index) (property_value_rust_type_declaration_codes (prop_value prop)) value_codes])
         (acc @ [\<lparr>utp_name = as_bytes (prop_name prop) @ [0],
                  utp_type = property_value_utee_type_codes (prop_value prop),
                  utp_value = property_value_as_utee_value_codes (ext_var_name index) (prop_value prop)\<rparr>]))"

definition ORIGIN_PROPERTY_LEN :: nat where
  "ORIGIN_PROPERTY_LEN = 10"

definition origin_properties :: "user_ta_property list" where
  "origin_properties =
     [\<lparr>utp_name = TA_PROP_STR_SINGLE_INSTANCE, utp_type = USER_TA_PROP_TYPE_BOOL, utp_value = Ptr Ty_bool ''IS_SINGLE_INSTANCE''\<rparr>,
      \<lparr>utp_name = TA_PROP_STR_MULTI_SESSION, utp_type = USER_TA_PROP_TYPE_BOOL, utp_value = Ptr Ty_bool ''IS_MULTI_SESSION''\<rparr>,
      \<lparr>utp_name = TA_PROP_STR_KEEP_ALIVE, utp_type = USER_TA_PROP_TYPE_BOOL, utp_value = Ptr Ty_bool ''IS_KEEP_ALIVE''\<rparr>,
      \<lparr>utp_name = TA_PROP_STR_KEEP_CRASHED, utp_type = USER_TA_PROP_TYPE_BOOL, utp_value = Ptr Ty_bool ''IS_KEEP_CRASHED''\<rparr>,
      \<lparr>utp_name = TA_PROP_STR_DATA_SIZE, utp_type = USER_TA_PROP_TYPE_U32, utp_value = Ptr Ty_u32 ''TA_DATA_SIZE''\<rparr>,
      \<lparr>utp_name = TA_PROP_STR_STACK_SIZE, utp_type = USER_TA_PROP_TYPE_U32, utp_value = Ptr Ty_u32 ''TA_STACK_SIZE''\<rparr>,
      \<lparr>utp_name = TA_PROP_STR_VERSION, utp_type = USER_TA_PROP_TYPE_STRING, utp_value = Ptr Ty_bytes ''TA_VERSION''\<rparr>,
      \<lparr>utp_name = TA_PROP_STR_DESCRIPTION, utp_type = USER_TA_PROP_TYPE_STRING, utp_value = Ptr Ty_bytes ''TA_DESCRIPTION''\<rparr>,
      \<lparr>utp_name = TA_PROP_STR_ENDIAN, utp_type = USER_TA_PROP_TYPE_U32, utp_value = Ptr Ty_u32 ''TA_ENDIAN''\<rparr>,
      \<lparr>utp_name = TA_PROP_STR_DOES_NOT_CLOSE_HANDLE_ON_CORRUPT_OBJECT, utp_type = USER_TA_PROP_TYPE_BOOL,
       utp_value = Ptr Ty_bool ''DONT_CLOSE_HANDLE_ON_CORRUPT_OBJECT''\<rparr>]"

definition write_properties :: "'u uuid_crate \<Rightarrow> 'u TaConfig \<Rightarrow> gen_item list \<Rightarrow> build_error + gen_item list" where
  "write_properties U conf code =
     try_bind (ext_properties_loop U 0 (tc_ext_properties conf) code []) (\<lambda>(code, ext_property_codes).
       let property_len = ORIGIN_PROPERTY_LEN + length (tc_ext_properties conf) in
       Inr (code @
         [Const ''IS_SINGLE_INSTANCE'' Ty_bool (E_flag_set TA_FLAG_SINGLE_INSTANCE),
          Const ''IS_MULTI_SESSION'' Ty_bool (E_flag_set TA_FLAG_MULTI_SESSION),
          Const ''IS_KEEP_ALIVE'' Ty_bool (E_flag_set TA_FLAG_INSTANCE_KEEP_ALIVE),
          Const ''IS_KEEP_CRASHED'' Ty_bool (E_flag_set TA_FLAG_INSTANCE_KEEP_CRASHED),
          Const ''TA_ENDIAN'' Ty_u32 (E_u32 0),
          Const ''DONT_CLOSE_HANDLE_ON_CORRUPT_OBJECT'' Ty_bool (E_flag_set TA_FLAG_DONT_CLOSE_HANDLE_ON_CORRUPT_OBJECT),
          Static None False ''ta_num_props'' Ty_usize (E_usize property_len),
          Static None False ''ta_props'' (Ty_props property_len) (E_props (origin_properties @ ext_property_codes))]))"

definition write_ta_head ::
    "'u uuid_crate \<Rightarrow> bool \<Rightarrow> 'u TaConfig \<Rightarrow> gen_item list \<Rightarrow> (build_error + gen_item list) outcome" where
  "write_ta_head U overflow_checks conf code =
     (case uuid_to_tee_uuid_value_codes U (tc_uuid conf) of
        Inl e \<Rightarrow> Returns (Inl e)
      | Inr uuid_value_codes \<Rightarrow>
          (case add_u32 overflow_checks (tc_ta_stack_size conf) (tc_ta_framework_stack_size conf) of
             Panics \<Rightarrow> Panics
           | Returns stack_size \<Rightarrow>
               Returns (Inr (code @
                 [Static (Some ''.ta_head'') False ''ta_head'' Ty_ta_head
                    (E_ta_head uuid_value_codes stack_size ''TA_FLAGS'' (- 1))]))))"

definition write_ta_heap :: "gen_item list \<Rightarrow> gen_item list" where
  "write_ta_heap code = code @
     [Static (Some ''.bss'') False ''ta_heap'' (Ty_heap ''TA_DATA_SIZE'') (E_zeros ''TA_DATA_SIZE''),
      Static None False ''ta_heap_size'' Ty_usize (E_size_of_heap ''TA_DATA_SIZE'')]"

definition HeaderFileGenerator_generate ::
    "'u uuid_crate \<Rightarrow> bool \<Rightarrow> 'u TaConfig \<Rightarrow> (build_error + gen_item list) outcome" where
  "HeaderFileGenerator_generate U overflow_checks conf =
     (case write_properties U conf (write_trace conf (write_configurations conf (write_includes []))) of
        Inl e \<Rightarrow> Returns (Inl e)
      | Inr code \<Rightarrow>
          (case write_ta_head U overflow_checks conf code of
             Panics \<Rightarrow> Panics
           | Returns (Inl e) \<Rightarrow> Returns (Inl e)
           | Returns (Inr code) \<Rightarrow> Returns (Inr (write_ta_heap code))))"

subsection \<open>What the TEE reads\<close>

datatype prop_data =
    PD_bool bool | PD_u32 u32 | PD_u64 u64 | PD_uuid TEE_UUID | PD_identity TEE_Identity
  | PD_string bytes | PD_block bytes

record ta_head =
  th_uuid :: TEE_UUID
  th_stack_size :: u32
  th_flags :: u32
  th_depr_entry :: u64

fun item_names :: "gen_item \<Rightarrow> string list" where
  "item_names (Use p) = []"
| "item_names (Const n t e) = [n]"
| "item_names (Static s m n t e) = [n]"
| "item_names (TraceLevelFn n v) = [n]"

fun const_decl :: "gen_item list \<Rightarrow> string \<Rightarrow> (gen_type \<times> gen_expr) option" where
  "const_decl [] c = None"
| "const_decl (Const n t e # items) c = (if n = c then Some (t, e) else const_decl items c)"
| "const_decl (item # items) c = const_decl items c"

fun static_init :: "gen_item list \<Rightarrow> string \<Rightarrow> gen_expr option" where
  "static_init [] n = None"
| "static_init (Static s m n' t e # items) n = (if n' = n then Some e else static_init items n)"
| "static_init (item # items) n = static_init items n"

definition const_u32 :: "gen_item list \<Rightarrow> string \<Rightarrow> u32 option" where
  "const_u32 items c = (case const_decl items c of Some (_, E_u32 v) \<Rightarrow> Some v | _ \<Rightarrow> None)"

definition eval_const :: "gen_item list \<Rightarrow> string \<Rightarrow> (gen_type \<times> gen_expr) option" where
  "eval_const items c =
     (case const_decl items c of
        Some (t, E_flag_set f) \<Rightarrow>
          map_option (\<lambda>flags. (t, E_bool (and flags f \<noteq> 0))) (const_u32 items ''TA_FLAGS'')
      | x \<Rightarrow> x)"

fun read_as :: "user_ta_prop_type \<Rightarrow> gen_expr \<Rightarrow> prop_data option" where
  "read_as USER_TA_PROP_TYPE_BOOL (E_bool b) = Some (PD_bool b)"
| "read_as USER_TA_PROP_TYPE_U32 (E_u32 v) = Some (PD_u32 v)"
| "read_as USER_TA_PROP_TYPE_U64 (E_u64 v) = Some (PD_u64 v)"
| "read_as USER_TA_PROP_TYPE_UUID (E_uuid u) = Some (PD_uuid u)"
| "read_as USER_TA_PROP_TYPE_IDENTITY (E_identity i) = Some (PD_identity i)"
| "read_as USER_TA_PROP_TYPE_STRING (E_bytes bs) = Some (PD_string (c_str bs))"
| "read_as USER_TA_PROP_TYPE_BINARY_BLOCK (E_bytes bs) = Some (PD_block (c_str bs))"
| "read_as _ _ = None"

fun deref :: "gen_item list \<Rightarrow> user_ta_prop_type \<Rightarrow> gen_ptr \<Rightarrow> prop_data option" where
  "deref items ty (Ptr t c) =
     (case eval_const items c of
        Some (t', e) \<Rightarrow> if t' = t then read_as ty e else None
      | None \<Rightarrow> None)"

definition property_table :: "gen_item list \<Rightarrow> (bytes \<times> prop_data option) list" where
  "property_table items =
     (case static_init items ''ta_props'' of
        Some (E_props ps) \<Rightarrow> map (\<lambda>p. (c_str (utp_name p), deref items (utp_type p) (utp_value p))) ps
      | _ \<Rightarrow> [])"

definition num_props :: "gen_item list \<Rightarrow> nat option" where
  "num_props items = (case static_init items ''ta_num_props'' of Some (E_usize n) \<Rightarrow> Some n | _ \<Rightarrow> None)"

definition head_of :: "gen_item list \<Rightarrow> ta_head option" where
  "head_of items =
     (case static_init items ''ta_head'' of
        Some (E_ta_head (E_uuid u) stack_size c depr_entry) \<Rightarrow>
          map_option (\<lambda>flags. \<lparr>th_uuid = u, th_stack_size = stack_size, th_flags = flags, th_depr_entry = depr_entry\<rparr>)
            (const_u32 items c)
      | _ \<Rightarrow> None)"

text \<open>The table that a configuration asks for.\<close>

fun value_view :: "'u uuid_crate \<Rightarrow> 'u PropertyValue \<Rightarrow> prop_data" where
  "value_view U (Prop_Bool b) = PD_bool b"
| "value_view U (Prop_U32 v) = PD_u32 v"
| "value_view U (Prop_Uuid u) = PD_uuid (tee_uuid_value U u)"
| "value_view U (Prop_Identity l u) = PD_identity \<lparr>id_login = l, id_uuid = tee_uuid_value U u\<rparr>"
| "value_view U (Prop_Str s) = PD_string (as_bytes s)"
| "value_view U (Prop_BinaryBlock s) = PD_block (as_bytes s)"
| "value_view U (Prop_U64 v) = PD_u64 v"

definition origin_table :: "'u TaConfig \<Rightarrow> (bytes \<times> prop_data) list" where
  "origin_table conf =
     [(as_bytes ''gpd.ta.singleInstance'', PD_bool (bit (tc_ta_flags conf) 2)),
      (as_bytes ''gpd.ta.multiSession'', PD_bool (bit (tc_ta_flags conf) 3)),
      (as_bytes ''gpd.ta.instanceKeepAlive'', PD_bool (bit (tc_ta_flags conf) 4)),
      (as_bytes ''gpd.ta.instanceKeepCrashed'', PD_bool (bit (tc_ta_flags conf) 13)),
      (as_bytes ''gpd.ta.dataSize'', PD_u32 (tc_ta_data_size conf)),
      (as_bytes ''gpd.ta.stackSize'', PD_u32 (tc_ta_stack_size conf)),
      (as_bytes ''gpd.ta.version'', PD_string (as_bytes (tc_ta_version conf))),
      (as_bytes ''gpd.ta.description'', PD_string (as_bytes (tc_ta_description conf))),
      (as_bytes ''gpd.ta.endian'', PD_u32 0),
      (as_bytes ''gpd.ta.doesNotCloseHandleOnCorruptObject'', PD_bool (bit (tc_ta_flags conf) 11))]"

definition configured_table :: "'u uuid_crate \<Rightarrow> 'u TaConfig \<Rightarrow> (bytes \<times> prop_data) list" where
  "configured_table U conf =
     origin_table conf @ map (\<lambda>p. (as_bytes (prop_name p), value_view U (prop_value p))) (tc_ext_properties conf)"

text \<open>Text that a C string can carry.\<close>

definition nul_free :: "string \<Rightarrow> bool" where
  "nul_free s \<longleftrightarrow> 0 \<notin> set (as_bytes s)"

fun value_nul_free :: "'u PropertyValue \<Rightarrow> bool" where
  "value_nul_free (Prop_Str s) = nul_free s"
| "value_nul_free (Prop_BinaryBlock s) = nul_free s"
| "value_nul_free _ = True"

definition conf_nul_free :: "'u TaConfig \<Rightarrow> bool" where
  "conf_nul_free conf \<longleftrightarrow> nul_free (tc_ta_version conf) \<and> nul_free (tc_ta_description conf) \<and>
     (\<forall>p \<in> set (tc_ext_properties conf). nul_free (prop_name p) \<and> value_nul_free (prop_value p))"

end
