(* ===== verification/TaHeaderTable.thy ===== *)
theory TaHeaderTable
  imports TaHeader
begin

text \<open>
  What the generated header means to the TEE: the items of \<open>TaHeader\<close> in closed form, the
  names and types of the constants that the property table points to, and the table that
  is read through those pointers.
\<close>

section \<open>Lemmas\<close>

lemma c_str_nul_free [simp]: "nul_free s \<Longrightarrow> c_str (as_bytes s @ [0]) = as_bytes s"
  by (simp add: nul_free_def)

lemma const_decl_append:
  "const_decl (a @ b) c = (case const_decl a c of Some x \<Rightarrow> Some x | None \<Rightarrow> const_decl b c)"
  by (induction a c rule: const_decl.induct) simp_all

lemma static_init_append:
  "static_init (a @ b) c = (case static_init a c of Some x \<Rightarrow> Some x | None \<Rightarrow> static_init b c)"
  by (induction a c rule: static_init.induct) simp_all

text \<open>What the loop over the extra properties emits.\<close>

definition value_codes :: "'u uuid_crate \<Rightarrow> 'u PropertyValue \<Rightarrow> gen_expr" where
  "value_codes U v = (case property_value_data_codes U v of Inr e \<Rightarrow> e | Inl _ \<Rightarrow> E_bool False)"

fun ext_consts :: "'u uuid_crate \<Rightarrow> nat \<Rightarrow> 'u Property list \<Rightarrow> gen_item list" where
  "ext_consts U i [] = []"
| "ext_consts U i (p # ps) =
     Const (ext_var_name i) (property_value_rust_type_declaration_codes (prop_value p)) (value_codes U (prop_value p)) #
     ext_consts U (Suc i) ps"

fun ext_entries :: "nat \<Rightarrow> 'u Property list \<Rightarrow> user_ta_property list" where
  "ext_entries i [] = []"
| "ext_entries i (p # ps) =
     \<lparr>utp_name = as_bytes (prop_name p) @ [0], utp_type = property_value_utee_type_codes (prop_value p),
      utp_value = property_value_as_utee_value_codes (ext_var_name i) (prop_value p)\<rparr> # ext_entries (Suc i) ps"

lemma property_value_data_codes_eq: "property_value_data_codes U v = Inr (value_codes U v)"
  by (cases v) (simp_all add: value_codes_def uuid_to_tee_uuid_value_codes_def identity_to_tee_identity_value_codes_def)

lemma ext_properties_loop_eq:
  "ext_properties_loop U i ps code acc = Inr (code @ ext_consts U i ps, acc @ ext_entries i ps)"
  by (induction ps arbitrary: i code acc) (simp_all add: property_value_data_codes_eq)

lemma ext_var_name_inj [simp]: "ext_var_name i = ext_var_name j \<longleftrightarrow> i = j"
  by (simp add: ext_var_name_def)

lemma ext_var_name_prefix: "take 4 (ext_var_name i) = ''EXT_''"
  by (simp add: ext_var_name_def)

lemma ext_consts_other: "take 4 c \<noteq> ''EXT_'' \<Longrightarrow> const_decl (ext_consts U i ps) c = None"
  by (induction ps arbitrary: i) (use ext_var_name_prefix in auto)

lemma ext_consts_decl:
  "k < length ps \<Longrightarrow> const_decl (ext_consts U i ps) (ext_var_name (i + k)) =
     Some (property_value_rust_type_declaration_codes (prop_value (ps ! k)), value_codes U (prop_value (ps ! k)))"
proof (induction ps arbitrary: i k)
  case (Cons p ps)
  show ?case
  proof (cases k)
    case (Suc k')
    with Cons show ?thesis using Cons.IH[of k' "Suc i"] by simp
  qed simp
qed simp

lemma ext_consts_static [simp]: "static_init (ext_consts U i ps) n = None"
  by (induction ps arbitrary: i) simp_all

lemma ext_consts_names: "concat (map item_names (ext_consts U i ps)) = map ext_var_name [i..<i + length ps]"
  by (induction ps arbitrary: i) (simp_all add: upt_conv_Cons del: upt_Suc)

lemma length_ext_entries [simp]: "length (ext_entries i ps) = length ps"
  by (induction ps arbitrary: i) simp_all

lemma nth_ext_entries:
  "k < length ps \<Longrightarrow> ext_entries i ps ! k =
     \<lparr>utp_name = as_bytes (prop_name (ps ! k)) @ [0], utp_type = property_value_utee_type_codes (prop_value (ps ! k)),
      utp_value = property_value_as_utee_value_codes (ext_var_name (i + k)) (prop_value (ps ! k))\<rparr>"
proof (induction ps arbitrary: i k)
  case (Cons p ps)
  then show ?case by (cases k) simp_all
qed simp

text \<open>The items of a header as one list.\<close>

definition header_items :: "'u uuid_crate \<Rightarrow> 'u TaConfig \<Rightarrow> u32 \<Rightarrow> gen_item list" where
  "header_items U conf stack_size =
     write_trace conf (write_configurations conf (write_includes [])) @
     ext_consts U 0 (tc_ext_properties conf) @
     [Const ''IS_SINGLE_INSTANCE'' Ty_bool (E_flag_set TA_FLAG_SINGLE_INSTANCE),
      Const ''IS_MULTI_SESSION'' Ty_bool (E_flag_set TA_FLAG_MULTI_SESSION),
      Const ''IS_KEEP_ALIVE'' Ty_bool (E_flag_set TA_FLAG_INSTANCE_KEEP_ALIVE),
      Const ''IS_KEEP_CRASHED'' Ty_bool (E_flag_set TA_FLAG_INSTANCE_KEEP_CRASHED),
      Const ''TA_ENDIAN'' Ty_u32 (E_u32 0),
      Const ''DONT_CLOSE_HANDLE_ON_CORRUPT_OBJECT'' Ty_bool (E_flag_set TA_FLAG_DONT_CLOSE_HANDLE_ON_CORRUPT_OBJECT),
      Static None False ''ta_num_props'' Ty_usize (E_usize (ORIGIN_PROPERTY_LEN + length (tc_ext_properties conf))),
      Static None False ''ta_props'' (Ty_props (ORIGIN_PROPERTY_LEN + length (tc_ext_properties conf)))
        (E_props (origin_properties @ ext_entries 0 (tc_ext_properties conf))),
      Static (Some ''.ta_head'') False ''ta_head'' Ty_ta_head
        (E_ta_head (E_uuid (tee_uuid_value U (tc_uuid conf))) stack_size ''TA_FLAGS'' (- 1)),
      Static (Some ''.bss'') False ''ta_heap'' (Ty_heap ''TA_DATA_SIZE'') (E_zeros ''TA_DATA_SIZE''),
      Static None False ''ta_heap_size'' Ty_usize (E_size_of_heap ''TA_DATA_SIZE'')]"

lemma generate_eq:
  "HeaderFileGenerator_generate U checks conf =
     (case add_u32 checks (tc_ta_stack_size conf) (tc_ta_framework_stack_size conf) of
        Panics \<Rightarrow> Panics
      | Returns stack_size \<Rightarrow> Returns (Inr (header_items U conf stack_size)))"
  by (simp add: HeaderFileGenerator_generate_def write_properties_def ext_properties_loop_eq Let_def
      write_ta_head_def uuid_to_tee_uuid_value_codes_def write_ta_heap_def header_items_def split: outcome.split)

lemmas header_lookup = header_items_def write_trace_def write_configurations_def write_includes_def
  const_decl_append static_init_append ext_consts_other

lemma header_consts:
  "const_decl (header_items U conf s) ''TA_FLAGS'' = Some (Ty_u32, E_u32 (tc_ta_flags conf))"
  "const_decl (header_items U conf s) ''TA_DATA_SIZE'' = Some (Ty_u32, E_u32 (tc_ta_data_size conf))"
  "const_decl (header_items U conf s) ''TA_STACK_SIZE'' = Some (Ty_u32, E_u32 (tc_ta_stack_size conf))"
  "const_decl (header_items U conf s) ''TA_VERSION'' = Some (Ty_bytes, string_to_binary_codes (tc_ta_version conf))"
  "const_decl (header_items U conf s) ''TA_DESCRIPTION'' = Some (Ty_bytes, string_to_binary_codes (tc_ta_description conf))"
  "const_decl (header_items U conf s) ''TA_ENDIAN'' = Some (Ty_u32, E_u32 0)"
  "const_decl (header_items U conf s) ''IS_SINGLE_INSTANCE'' = Some (Ty_bool, E_flag_set TA_FLAG_SINGLE_INSTANCE)"
  "const_decl (header_items U conf s) ''IS_MULTI_SESSION'' = Some (Ty_bool, E_flag_set TA_FLAG_MULTI_SESSION)"
  "const_decl (header_items U conf s) ''IS_KEEP_ALIVE'' = Some (Ty_bool, E_flag_set TA_FLAG_INSTANCE_KEEP_ALIVE)"
  "const_decl (header_items U conf s) ''IS_KEEP_CRASHED'' = Some (Ty_bool, E_flag_set TA_FLAG_INSTANCE_KEEP_CRASHED)"
  "const_decl (header_items U conf s) ''DONT_CLOSE_HANDLE_ON_CORRUPT_OBJECT'' =
     Some (Ty_bool, E_flag_set TA_FLAG_DONT_CLOSE_HANDLE_ON_CORRUPT_OBJECT)"
  by (simp_all add: header_lookup)

lemma header_ext_const:
  assumes "k < length (tc_ext_properties conf)"
  shows "const_decl (header_items U conf s) (ext_var_name k) =
     Some (property_value_rust_type_declaration_codes (prop_value (tc_ext_properties conf ! k)),
           value_codes U (prop_value (tc_ext_properties conf ! k)))"
proof -
  have "const_decl (write_trace conf (write_configurations conf (write_includes []))) (ext_var_name k) = None"
    by (simp add: write_trace_def write_configurations_def write_includes_def ext_var_name_def)
  then show ?thesis
    using ext_consts_decl[OF assms, of U 0] by (simp add: header_items_def const_decl_append)
qed

lemma header_statics:
  "static_init (header_items U conf s) ''ta_props'' = Some (E_props (origin_properties @ ext_entries 0 (tc_ext_properties conf)))"
  "static_init (header_items U conf s) ''ta_num_props'' = Some (E_usize (ORIGIN_PROPERTY_LEN + length (tc_ext_properties conf)))"
  "static_init (header_items U conf s) ''ta_head'' =
     Some (E_ta_head (E_uuid (tee_uuid_value U (tc_uuid conf))) s ''TA_FLAGS'' (- 1))"
  by (simp_all add: header_lookup)

lemma and_push_bit_1: "and (x :: u32) (push_bit n 1) = 0 \<longleftrightarrow> \<not> bit x n"
  by (simp add: push_bit_of_1 and_exp_eq_0_iff_not_bit)

lemmas flag_bits =
  and_push_bit_1[of _ 2, simplified] and_push_bit_1[of _ 3, simplified] and_push_bit_1[of _ 4, simplified]
  and_push_bit_1[of _ 11, simplified] and_push_bit_1[of _ 13, simplified]

text \<open>An extra property is read back as configured, whatever its type.\<close>

lemma deref_ext:
  assumes k: "k < length (tc_ext_properties conf)"
    and nf: "value_nul_free (prop_value (tc_ext_properties conf ! k))"
  shows "deref (header_items U conf s) (property_value_utee_type_codes (prop_value (tc_ext_properties conf ! k)))
      (property_value_as_utee_value_codes (ext_var_name k) (prop_value (tc_ext_properties conf ! k))) =
    Some (value_view U (prop_value (tc_ext_properties conf ! k)))"
  using nf header_ext_const[OF k, of U s]
  by (cases "prop_value (tc_ext_properties conf ! k)")
    (simp_all add: eval_const_def value_codes_def string_to_binary_codes_def uuid_to_tee_uuid_value_codes_def
      identity_to_tee_identity_value_codes_def)

lemma c_str_literal [simp]: "nul_free s \<Longrightarrow> c_str (c_literal s) = as_bytes s"
  by (simp add: c_literal_def)

lemma of_char_word_zero: "of_nat (of_char c) = (0 :: u8) \<longleftrightarrow> c = CHR 0x00"
proof -
  have "of_nat (of_char c) = (0 :: u8) \<longleftrightarrow> 256 dvd (of_char c :: nat)"
    by (simp add: word_of_nat_eq_0_iff)
  also have "\<dots> \<longleftrightarrow> of_char c = (0 :: nat)"
    using take_bit_of_char[of c] by (simp add: take_bit_eq_mod dvd_eq_mod_eq_0)
  also have "\<dots> \<longleftrightarrow> c = CHR 0x00"
  proof
    assume "of_char c = (0 :: nat)"
    then have "c = char_of (0 :: nat)" by (metis char_of_char)
    also have "char_of (0 :: nat) = CHR 0x00" by (simp add: char_of_def)
    finally show "c = CHR 0x00" .
  qed simp
  finally show ?thesis .
qed

lemma nul_free_iff: "nul_free s \<longleftrightarrow> CHR 0x00 \<notin> set s"
  by (auto simp: nul_free_def as_bytes_def of_char_word_zero)

lemma origin_entries_read:
  assumes "conf_nul_free conf"
  shows "map (\<lambda>p. (c_str (utp_name p), deref (header_items U conf s) (utp_type p) (utp_value p))) origin_properties =
    map (\<lambda>(n, v). (n, Some v)) (origin_table conf)"
  using assms
  by (simp add: origin_properties_def origin_table_def TA_PROP_STR_SINGLE_INSTANCE_def TA_PROP_STR_MULTI_SESSION_def
      TA_PROP_STR_KEEP_ALIVE_def TA_PROP_STR_KEEP_CRASHED_def TA_PROP_STR_DATA_SIZE_def TA_PROP_STR_STACK_SIZE_def
      TA_PROP_STR_VERSION_def TA_PROP_STR_DESCRIPTION_def TA_PROP_STR_ENDIAN_def
      TA_PROP_STR_DOES_NOT_CLOSE_HANDLE_ON_CORRUPT_OBJECT_def nul_free_iff eval_const_def const_u32_def header_consts
      string_to_binary_codes_def conf_nul_free_def raw_consts flag_bits)

lemma ext_entries_read:
  assumes "conf_nul_free conf"
  shows "map (\<lambda>p. (c_str (utp_name p), deref (header_items U conf s) (utp_type p) (utp_value p)))
      (ext_entries 0 (tc_ext_properties conf)) =
    map (\<lambda>p. (as_bytes (prop_name p), Some (value_view U (prop_value p)))) (tc_ext_properties conf)"
proof (rule nth_equalityI)
  fix k
  assume "k < length (map (\<lambda>p. (c_str (utp_name p), deref (header_items U conf s) (utp_type p) (utp_value p)))
      (ext_entries 0 (tc_ext_properties conf)))"
  then have k: "k < length (tc_ext_properties conf)" by simp
  with assms have "nul_free (prop_name (tc_ext_properties conf ! k))"
      "value_nul_free (prop_value (tc_ext_properties conf ! k))"
    by (auto simp: conf_nul_free_def)
  with k deref_ext[OF k, of U s]
  show "map (\<lambda>p. (c_str (utp_name p), deref (header_items U conf s) (utp_type p) (utp_value p)))
      (ext_entries 0 (tc_ext_properties conf)) ! k =
    map (\<lambda>p. (as_bytes (prop_name p), Some (value_view U (prop_value p)))) (tc_ext_properties conf) ! k"
    by (simp add: nth_ext_entries)
qed simp

lemma property_table_eq:
  assumes "conf_nul_free conf"
  shows "property_table (header_items U conf s) = map (\<lambda>(n, v). (n, Some v)) (configured_table U conf)"
  using origin_entries_read[OF assms, of U s] ext_entries_read[OF assms, of U s]
  by (simp add: property_table_def header_statics configured_table_def)

lemma header_names_distinct: "distinct (concat (map item_names (header_items U conf s)))"
proof -
  define A where "A = [''TA_FLAGS'', ''TA_DATA_SIZE'', ''TA_STACK_SIZE'', ''TA_VERSION'', ''TA_DESCRIPTION'',
    ''trace_level'', ''trace_ext_prefix'', ''tahead_get_trace_level'']"
  define B where "B = [''IS_SINGLE_INSTANCE'', ''IS_MULTI_SESSION'', ''IS_KEEP_ALIVE'', ''IS_KEEP_CRASHED'',
    ''TA_ENDIAN'', ''DONT_CLOSE_HANDLE_ON_CORRUPT_OBJECT'', ''ta_num_props'', ''ta_props'', ''ta_head'', ''ta_heap'',
    ''ta_heap_size'']"
  let ?E = "map ext_var_name [0..<length (tc_ext_properties conf)]"
  have eq: "concat (map item_names (header_items U conf s)) = A @ ?E @ B"
    by (simp add: A_def B_def header_items_def write_trace_def write_configurations_def write_includes_def ext_consts_names)
  have "distinct (A @ B)" by (simp add: A_def B_def)
  moreover have "distinct ?E" by (simp add: distinct_map inj_on_def)
  moreover have "take 4 x \<noteq> ''EXT_''" if "x \<in> set (A @ B)" for x
    using that by (auto simp: A_def B_def)
  moreover have "take 4 x = ''EXT_''" if "x \<in> set ?E" for x
    using that by (auto simp: ext_var_name_prefix)
  ultimately show ?thesis unfolding eq distinct_append by auto
qed

section \<open>Properties\<close>

text \<open>
  C11.  The generated header says what the configuration says.  If the stack sizes add up
  within 32 bits and the texts contain no NUL, a header is generated whose items have
  distinct names, and in which the TEE finds: a table of exactly the announced length,
  with the ten standard properties and then the extra ones in order, every pointer leading
  to a constant of the type the entry announces and the value configured; and a header with
  the UUID, the flags and the sum of the two stack sizes.
\<close>

theorem header_faithful:
  assumes nf: "conf_nul_free conf"
    and st: "unat (tc_ta_stack_size conf) + unat (tc_ta_framework_stack_size conf) < 2 ^ 32"
  shows "\<exists>items. HeaderFileGenerator_generate U checks conf = Returns (Inr items) \<and>
    distinct (concat (map item_names items)) \<and>
    property_table items = map (\<lambda>(n, v). (n, Some v)) (configured_table U conf) \<and>
    num_props items = Some (length (configured_table U conf)) \<and>
    (\<exists>h. head_of items = Some h \<and> th_uuid h = tee_uuid_value U (tc_uuid conf) \<and> th_flags h = tc_ta_flags conf \<and>
       unat (th_stack_size h) = unat (tc_ta_stack_size conf) + unat (tc_ta_framework_stack_size conf))"
proof -
  let ?s = "tc_ta_stack_size conf + tc_ta_framework_stack_size conf"
  let ?items = "header_items U conf ?s"
  have "HeaderFileGenerator_generate U checks conf = Returns (Inr ?items)"
    using add_u32_exact[OF st, of checks] by (simp add: generate_eq)
  moreover have "num_props ?items = Some (length (configured_table U conf))"
    by (simp add: num_props_def header_statics configured_table_def origin_table_def ORIGIN_PROPERTY_LEN_def)
  moreover have "head_of ?items = Some \<lparr>th_uuid = tee_uuid_value U (tc_uuid conf), th_stack_size = ?s,
      th_flags = tc_ta_flags conf, th_depr_entry = - 1\<rparr>"
    by (simp add: head_of_def header_statics const_u32_def header_consts)
  ultimately show ?thesis
    using header_names_distinct property_table_eq[OF nf] add_u32_exact[OF st, of checks] by auto
qed

definition sample_config :: "bytes TaConfig" where
  "sample_config =
     TaConfig_add_ext_property ''retries'' (Prop_U64 3) (TaConfig_ta_flags TA_FLAG_MULTI_SESSION
       \<lparr>tc_uuid = replicate 16 7, tc_ta_flags = 0, tc_ta_data_size = 32 * 1024, tc_ta_stack_size = 2 * 1024,
        tc_ta_version = ''0.1.0'', tc_ta_description = ''sample'', tc_trace_level = 4,
        tc_trace_ext_prefix = ''TA'', tc_ta_framework_stack_size = 2048, tc_ext_properties = []\<rparr>)"

lemma sample_config_nul_free: "conf_nul_free sample_config"
  by (simp add: sample_config_def TaConfig_add_ext_property_def TaConfig_ta_flags_def Property_new_def
      conf_nul_free_def nul_free_iff)

theorem header_faithful_witness:
  "\<exists>items. HeaderFileGenerator_generate uuid_ref True sample_config = Returns (Inr items) \<and>
     (as_bytes ''gpd.ta.multiSession'', Some (PD_bool True)) \<in> set (property_table items) \<and>
     (as_bytes ''retries'', Some (PD_u64 3)) \<in> set (property_table items) \<and> num_props items = Some 11"
proof -
  have "unat (tc_ta_stack_size sample_config) + unat (tc_ta_framework_stack_size sample_config) < 2 ^ 32"
    by (simp add: sample_config_def TaConfig_add_ext_property_def TaConfig_ta_flags_def)
  from header_faithful[OF sample_config_nul_free this, of uuid_ref True] show ?thesis
    by (auto simp: sample_config_def TaConfig_add_ext_property_def TaConfig_ta_flags_def Property_new_def
        configured_table_def origin_table_def raw_consts)
qed

end
