(* ===== verification/TaProperty.thy ===== *)
theory TaProperty
  imports TaHeaderTable
begin

text \<open>
  Reading properties at run time, \<^verbatim>\<open>crates/optee-utee/src/property.rs\<close>: one reader per
  result type over the \<^verbatim>\<open>TEE_GetPropertyAs\<close> functions, and the keys that the SDK names.

  The TEE functions are a parameter.  A function that fills a buffer of \<open>n\<close> bytes returns
  the code, the size it reports and the bytes it stored; a key is the C string that its
  pointer designates.
\<close>

section \<open>Definitions\<close>

definition TEE_PROPSET_TEE_IMPLEMENTATION :: u64 where [raw_consts]: "TEE_PROPSET_TEE_IMPLEMENTATION = 0xFFFFFFFD"
definition TEE_PROPSET_CURRENT_CLIENT :: u64 where [raw_consts]: "TEE_PROPSET_CURRENT_CLIENT = 0xFFFFFFFE"
definition TEE_PROPSET_CURRENT_TA :: u64 where [raw_consts]: "TEE_PROPSET_CURRENT_TA = 0xFFFFFFFF"

record prop_api =
  pa_string :: "u64 \<Rightarrow> bytes \<Rightarrow> usize \<Rightarrow> u32 \<times> usize \<times> bytes"
  pa_block :: "u64 \<Rightarrow> bytes \<Rightarrow> usize \<Rightarrow> u32 \<times> usize \<times> bytes"
  pa_bool :: "u64 \<Rightarrow> bytes \<Rightarrow> u32 \<times> bool"
  pa_u32 :: "u64 \<Rightarrow> bytes \<Rightarrow> u32 \<times> u32"
  pa_u64 :: "u64 \<Rightarrow> bytes \<Rightarrow> u32 \<times> u64"
  pa_uuid :: "u64 \<Rightarrow> bytes \<Rightarrow> u32 \<times> TEE_UUID"
  pa_identity :: "u64 \<Rightarrow> bytes \<Rightarrow> u32 \<times> TEE_Identity"

datatype PropertySet = TeeImplementation | CurrentClient | CurrentTa

fun PropertySet_as_raw :: "PropertySet \<Rightarrow> u64" where
  "PropertySet_as_raw TeeImplementation = TEE_PROPSET_TEE_IMPLEMENTATION"
| "PropertySet_as_raw CurrentClient = TEE_PROPSET_CURRENT_CLIENT"
| "PropertySet_as_raw CurrentTa = TEE_PROPSET_CURRENT_TA"

text \<open>A buffer of \<open>n\<close> zeroes after the given bytes were stored at its start.\<close>

definition filled :: "usize \<Rightarrow> bytes \<Rightarrow> bytes" where
  "filled n written = take n written @ replicate (n - length written) 0"

definition String_from_raw :: "prop_api \<Rightarrow> u64 \<Rightarrow> bytes \<Rightarrow> Error + string" where
  "String_from_raw A h key =
     (case pa_string A h (c_str key) 0 of
        (res, out_size, _) \<Rightarrow>
          if res = TEE_SUCCESS then if out_size = 0 then Inr [] else Inl (Error_new Generic)
          else if res = TEE_ERROR_SHORT_BUFFER then
            (case pa_string A h (c_str key) out_size of
               (res, _, written) \<Rightarrow>
                 try_bind (tee_check res) (\<lambda>_.
                 try_bind (ok_or (from_bytes_with_nul (filled out_size written)) (Error_new BadFormat)) (\<lambda>c_str.
                   Inr (of_bytes (from_utf8_lossy c_str)))))
          else Inl (from_raw_error res))"

definition bool_from_raw :: "prop_api \<Rightarrow> u64 \<Rightarrow> bytes \<Rightarrow> Error + bool" where
  "bool_from_raw A h key =
     (case pa_bool A h (c_str key) of (res, b) \<Rightarrow> try_bind (tee_check res) (\<lambda>_. Inr b))"

definition u32_from_raw :: "prop_api \<Rightarrow> u64 \<Rightarrow> bytes \<Rightarrow> Error + u32" where
  "u32_from_raw A h key =
     (case pa_u32 A h (c_str key) of (res, v) \<Rightarrow> try_bind (tee_check res) (\<lambda>_. Inr v))"

definition u64_from_raw :: "prop_api \<Rightarrow> u64 \<Rightarrow> bytes \<Rightarrow> Error + u64" where
  "u64_from_raw A h key =
     (case pa_u64 A h (c_str key) of (res, v) \<Rightarrow> try_bind (tee_check res) (\<lambda>_. Inr v))"

definition Vec_from_raw :: "prop_api \<Rightarrow> u64 \<Rightarrow> bytes \<Rightarrow> Error + bytes" where
  "Vec_from_raw A h key =
     (case pa_block A h (c_str key) 0 of
        (res, out_size, _) \<Rightarrow>
          if res = TEE_SUCCESS then if out_size = 0 then Inr [] else Inl (Error_new Generic)
          else if res = TEE_ERROR_SHORT_BUFFER then
            (case pa_block A h (c_str key) out_size of
               (res, _, written) \<Rightarrow> try_bind (tee_check res) (\<lambda>_. Inr (filled out_size written)))
          else Inl (from_raw_error res))"

definition Uuid_prop_from_raw :: "prop_api \<Rightarrow> u64 \<Rightarrow> bytes \<Rightarrow> Error + Uuid" where
  "Uuid_prop_from_raw A h key =
     (case pa_uuid A h (c_str key) of
        (res, raw_uuid) \<Rightarrow> try_bind (tee_check res) (\<lambda>_. Inr (Uuid_from_raw raw_uuid)))"

definition Identity_from_raw :: "prop_api \<Rightarrow> u64 \<Rightarrow> bytes \<Rightarrow> Error + Identity" where
  "Identity_from_raw A h key =
     (case pa_identity A h (c_str key) of
        (res, raw_id) \<Rightarrow> try_bind (tee_check res) (\<lambda>_. Inr (Identity_from raw_id)))"

text \<open>The trait with its associated result type.\<close>

datatype prop_output = Out_String | Out_bool | Out_u32 | Out_u64 | Out_Vec | Out_Uuid | Out_Identity

datatype prop_result =
    R_String string | R_bool bool | R_u32 u32 | R_u64 u64 | R_Vec bytes | R_Uuid Uuid | R_Identity Identity

fun PropertyValue_from_raw :: "prop_api \<Rightarrow> prop_output \<Rightarrow> u64 \<Rightarrow> bytes \<Rightarrow> Error + prop_result" where
  "PropertyValue_from_raw A Out_String h key = map_sum id R_String (String_from_raw A h key)"
| "PropertyValue_from_raw A Out_bool h key = map_sum id R_bool (bool_from_raw A h key)"
| "PropertyValue_from_raw A Out_u32 h key = map_sum id R_u32 (u32_from_raw A h key)"
| "PropertyValue_from_raw A Out_u64 h key = map_sum id R_u64 (u64_from_raw A h key)"
| "PropertyValue_from_raw A Out_Vec h key = map_sum id R_Vec (Vec_from_raw A h key)"
| "PropertyValue_from_raw A Out_Uuid h key = map_sum id R_Uuid (Uuid_prop_from_raw A h key)"
| "PropertyValue_from_raw A Out_Identity h key = map_sum id R_Identity (Identity_from_raw A h key)"

record property_key =
  pk_set :: PropertySet
  pk_key :: string
  pk_output :: prop_output

definition PropertyKey_key :: "property_key \<Rightarrow> bytes" where
  "PropertyKey_key k = (case CString_new (pk_key k) of Some b \<Rightarrow> b | None \<Rightarrow> [0])"

definition PropertyKey_get :: "prop_api \<Rightarrow> property_key \<Rightarrow> Error + prop_result" where
  "PropertyKey_get A k =
     PropertyValue_from_raw A (pk_output k) (PropertySet_as_raw (pk_set k)) (PropertyKey_key k)"

text \<open>The keys that the SDK names.\<close>


definition TaAppId :: property_key where
  "TaAppId = \<lparr>pk_set = CurrentTa, pk_key = ''gpd.ta.appID'', pk_output = Out_Uuid\<rparr>"

definition TaSingleInstance :: property_key where
  "TaSingleInstance = \<lparr>pk_set = CurrentTa, pk_key = ''gpd.ta.singleInstance'', pk_output = Out_bool\<rparr>"

definition TaMultiSession :: property_key where
  "TaMultiSession = \<lparr>pk_set = CurrentTa, pk_key = ''gpd.ta.multiSession'', pk_output = Out_bool\<rparr>"

definition TaInstanceKeepAlive :: property_key where
  "TaInstanceKeepAlive = \<lparr>pk_set = CurrentTa, pk_key = ''gpd.ta.instanceKeepAlive'', pk_output = Out_bool\<rparr>"

definition TaInstanceKeepCrashed :: property_key where
  "TaInstanceKeepCrashed = \<lparr>pk_set = CurrentTa, pk_key = ''gpd.ta.instanceKeepCrashed'', pk_output = Out_bool\<rparr>"

definition TaDataSize :: property_key where
  "TaDataSize = \<lparr>pk_set = CurrentTa, pk_key = ''gpd.ta.dataSize'', pk_output = Out_u32\<rparr>"

definition TaStackSize :: property_key where
  "TaStackSize = \<lparr>pk_set = CurrentTa, pk_key = ''gpd.ta.stackSize'', pk_output = Out_u32\<rparr>"

definition TaVersion :: property_key where
  "TaVersion = \<lparr>pk_set = CurrentTa, pk_key = ''gpd.ta.version'', pk_output = Out_String\<rparr>"

definition TaDescription :: property_key where
  "TaDescription = \<lparr>pk_set = CurrentTa, pk_key = ''gpd.ta.description'', pk_output = Out_String\<rparr>"

definition TaEndian :: property_key where
  "TaEndian = \<lparr>pk_set = CurrentTa, pk_key = ''gpd.ta.endian'', pk_output = Out_u32\<rparr>"

definition TaDoesNotCloseHandleOnCorruptObject :: property_key where
  "TaDoesNotCloseHandleOnCorruptObject = \<lparr>pk_set = CurrentTa, pk_key = ''gpd.ta.doesNotCloseHandleOnCorruptObject'', pk_output = Out_bool\<rparr>"

definition ClientIdentity :: property_key where
  "ClientIdentity = \<lparr>pk_set = CurrentClient, pk_key = ''gpd.client.identity'', pk_output = Out_Identity\<rparr>"

definition ClientEndian :: property_key where
  "ClientEndian = \<lparr>pk_set = CurrentClient, pk_key = ''gpd.client.endian'', pk_output = Out_u32\<rparr>"

definition TeeApiVersion :: property_key where
  "TeeApiVersion = \<lparr>pk_set = TeeImplementation, pk_key = ''gpd.tee.apiversion'', pk_output = Out_String\<rparr>"

definition TeeInternalCoreVersion :: property_key where
  "TeeInternalCoreVersion = \<lparr>pk_set = TeeImplementation, pk_key = ''gpd.tee.internalCore.version'', pk_output = Out_u32\<rparr>"

definition TeeDescription :: property_key where
  "TeeDescription = \<lparr>pk_set = TeeImplementation, pk_key = ''gpd.tee.description'', pk_output = Out_String\<rparr>"

definition TeeDeviceId :: property_key where
  "TeeDeviceId = \<lparr>pk_set = TeeImplementation, pk_key = ''gpd.tee.deviceID'', pk_output = Out_Uuid\<rparr>"

definition TeeSystemTimeProtectionLevel :: property_key where
  "TeeSystemTimeProtectionLevel = \<lparr>pk_set = TeeImplementation, pk_key = ''gpd.tee.systemTime.protectionLevel'', pk_output = Out_u32\<rparr>"

definition TeeTaPersistentTimeProtectionLevel :: property_key where
  "TeeTaPersistentTimeProtectionLevel = \<lparr>pk_set = TeeImplementation, pk_key = ''gpd.tee.TAPersistentTime.protectionLevel'', pk_output = Out_u32\<rparr>"

definition TeeArithMaxBigIntSize :: property_key where
  "TeeArithMaxBigIntSize = \<lparr>pk_set = TeeImplementation, pk_key = ''gpd.tee.arith.maxBigIntSize'', pk_output = Out_u32\<rparr>"

definition TeeCryptographyEcc :: property_key where
  "TeeCryptographyEcc = \<lparr>pk_set = TeeImplementation, pk_key = ''gpd.tee.cryptography.ecc'', pk_output = Out_bool\<rparr>"

definition TeeCryptographyNist :: property_key where
  "TeeCryptographyNist = \<lparr>pk_set = TeeImplementation, pk_key = ''gpd.tee.cryptography.nist'', pk_output = Out_bool\<rparr>"

definition TeeCryptographyBsiR :: property_key where
  "TeeCryptographyBsiR = \<lparr>pk_set = TeeImplementation, pk_key = ''gpd.tee.cryptography.bsi-r'', pk_output = Out_bool\<rparr>"

definition TeeCryptographyBsiT :: property_key where
  "TeeCryptographyBsiT = \<lparr>pk_set = TeeImplementation, pk_key = ''gpd.tee.cryptography.bsi-t'', pk_output = Out_bool\<rparr>"

definition TeeCryptographyIetf :: property_key where
  "TeeCryptographyIetf = \<lparr>pk_set = TeeImplementation, pk_key = ''gpd.tee.cryptography.ietf'', pk_output = Out_bool\<rparr>"

definition TeeCryptographyOcta :: property_key where
  "TeeCryptographyOcta = \<lparr>pk_set = TeeImplementation, pk_key = ''gpd.tee.cryptography.octa'', pk_output = Out_bool\<rparr>"

definition TeeTrustedStoragePrivateRollbackProtection :: property_key where
  "TeeTrustedStoragePrivateRollbackProtection = \<lparr>pk_set = TeeImplementation, pk_key = ''gpd.tee.trustedStorage.private.rollbackProtection'', pk_output = Out_u32\<rparr>"

definition TeeTrustedStoragePersoRollbackProtection :: property_key where
  "TeeTrustedStoragePersoRollbackProtection = \<lparr>pk_set = TeeImplementation, pk_key = ''gpd.tee.trustedStorage.perso.rollbackProtection'', pk_output = Out_u32\<rparr>"

definition TeeTrustedStorageProtectedRollbackProtection :: property_key where
  "TeeTrustedStorageProtectedRollbackProtection = \<lparr>pk_set = TeeImplementation, pk_key = ''gpd.tee.trustedStorage.protected.rollbackProtection'', pk_output = Out_u32\<rparr>"

definition TeeTrustedStorageAntiRollbackProtectionLevel :: property_key where
  "TeeTrustedStorageAntiRollbackProtectionLevel = \<lparr>pk_set = TeeImplementation, pk_key = ''gpd.tee.trustedStorage.antiRollback.protectionLevel'', pk_output = Out_u32\<rparr>"

definition TeeTrustedStorageRollbackDetectionProtectionLevel :: property_key where
  "TeeTrustedStorageRollbackDetectionProtectionLevel = \<lparr>pk_set = TeeImplementation, pk_key = ''gpd.tee.trustedStorage.rollbackDetection.protectionLevel'', pk_output = Out_u32\<rparr>"

definition TeeTrustedOsImplementationVersion :: property_key where
  "TeeTrustedOsImplementationVersion = \<lparr>pk_set = TeeImplementation, pk_key = ''gpd.tee.trustedos.implementation.version'', pk_output = Out_String\<rparr>"

definition TeeTrustedOsImplementationBinaryVersion :: property_key where
  "TeeTrustedOsImplementationBinaryVersion = \<lparr>pk_set = TeeImplementation, pk_key = ''gpd.tee.trustedos.implementation.binaryversion'', pk_output = Out_u32\<rparr>"

definition TeeTrustedOsManufacturer :: property_key where
  "TeeTrustedOsManufacturer = \<lparr>pk_set = TeeImplementation, pk_key = ''gpd.tee.trustedos.manufacturer'', pk_output = Out_String\<rparr>"

definition TeeFirmwareImplementationVersion :: property_key where
  "TeeFirmwareImplementationVersion = \<lparr>pk_set = TeeImplementation, pk_key = ''gpd.tee.firmware.implementation.version'', pk_output = Out_String\<rparr>"

definition TeeFirmwareImplementationBinaryVersion :: property_key where
  "TeeFirmwareImplementationBinaryVersion = \<lparr>pk_set = TeeImplementation, pk_key = ''gpd.tee.firmware.implementation.binaryversion'', pk_output = Out_u32\<rparr>"

definition TeeFirmwareManufacturer :: property_key where
  "TeeFirmwareManufacturer = \<lparr>pk_set = TeeImplementation, pk_key = ''gpd.tee.firmware.manufacturer'', pk_output = Out_String\<rparr>"

definition TeeEventMaxSources :: property_key where
  "TeeEventMaxSources = \<lparr>pk_set = TeeImplementation, pk_key = ''gpd.tee.event.maxSources'', pk_output = Out_u32\<rparr>"

subsection \<open>What is documented of the TEE functions\<close>

text \<open>
  \<open>props\<close> gives the properties of each set, \<open>b64\<close> is the decoding of binary blocks.  A
  property of the requested type is delivered with success; a property that does not
  exist gives \<^verbatim>\<open>TEE_ERROR_ITEM_NOT_FOUND\<close>; a buffer that is too small gives
  \<^verbatim>\<open>TEE_ERROR_SHORT_BUFFER\<close> and the size that is needed, which for a string counts its NUL.
\<close>

definition prop_api_ok ::
    "prop_api \<Rightarrow> (u64 \<Rightarrow> bytes \<rightharpoonup> prop_data) \<Rightarrow> (bytes \<rightharpoonup> bytes) \<Rightarrow> bool" where
  "prop_api_ok A props b64 \<longleftrightarrow>
     (\<forall>h k b. props h k = Some (PD_bool b) \<longrightarrow> pa_bool A h k = (TEE_SUCCESS, b)) \<and>
     (\<forall>h k v. props h k = Some (PD_u32 v) \<longrightarrow> pa_u32 A h k = (TEE_SUCCESS, v)) \<and>
     (\<forall>h k v. props h k = Some (PD_u64 v) \<longrightarrow> pa_u64 A h k = (TEE_SUCCESS, v)) \<and>
     (\<forall>h k u. props h k = Some (PD_uuid u) \<longrightarrow> pa_uuid A h k = (TEE_SUCCESS, u)) \<and>
     (\<forall>h k i. props h k = Some (PD_identity i) \<longrightarrow> pa_identity A h k = (TEE_SUCCESS, i)) \<and>
     (\<forall>h k s n. props h k = Some (PD_string s) \<longrightarrow> pa_string A h k n =
        (if length s < n then (TEE_SUCCESS, length s + 1, s @ [0])
         else (TEE_ERROR_SHORT_BUFFER, length s + 1, []))) \<and>
     (\<forall>h k s d n. props h k = Some (PD_block s) \<longrightarrow> b64 s = Some d \<longrightarrow> pa_block A h k n =
        (if length d \<le> n then (TEE_SUCCESS, length d, d)
         else (TEE_ERROR_SHORT_BUFFER, length d, []))) \<and>
     (\<forall>h k. props h k = None \<longrightarrow>
        fst (pa_bool A h k) = TEE_ERROR_ITEM_NOT_FOUND \<and> fst (pa_u32 A h k) = TEE_ERROR_ITEM_NOT_FOUND \<and>
        fst (pa_u64 A h k) = TEE_ERROR_ITEM_NOT_FOUND \<and> fst (pa_uuid A h k) = TEE_ERROR_ITEM_NOT_FOUND \<and>
        fst (pa_identity A h k) = TEE_ERROR_ITEM_NOT_FOUND \<and>
        (\<forall>n. fst (pa_string A h k n) = TEE_ERROR_ITEM_NOT_FOUND) \<and>
        (\<forall>n. fst (pa_block A h k n) = TEE_ERROR_ITEM_NOT_FOUND))"

text \<open>The set of the current application is the table of its header, the first entry of a name.\<close>

definition serves_table :: "(u64 \<Rightarrow> bytes \<rightharpoonup> prop_data) \<Rightarrow> gen_item list \<Rightarrow> bool" where
  "serves_table props items \<longleftrightarrow>
     (\<forall>k. props TEE_PROPSET_CURRENT_TA k = Option.bind (map_of (property_table items) k) id)"

text \<open>What the application expects to read for a configured value.\<close>

fun value_output :: "'u PropertyValue \<Rightarrow> prop_output" where
  "value_output (Prop_Bool _) = Out_bool"
| "value_output (Prop_U32 _) = Out_u32"
| "value_output (Prop_Uuid _) = Out_Uuid"
| "value_output (Prop_Identity _ _) = Out_Identity"
| "value_output (Prop_Str _) = Out_String"
| "value_output (Prop_BinaryBlock _) = Out_Vec"
| "value_output (Prop_U64 _) = Out_u64"

fun value_result :: "'u uuid_crate \<Rightarrow> (bytes \<rightharpoonup> bytes) \<Rightarrow> 'u PropertyValue \<Rightarrow> prop_result option" where
  "value_result U b64 (Prop_Bool b) = Some (R_bool b)"
| "value_result U b64 (Prop_U32 v) = Some (R_u32 v)"
| "value_result U b64 (Prop_Uuid u) = Some (R_Uuid (Uuid_from_raw (tee_uuid_value U u)))"
| "value_result U b64 (Prop_Identity l u) =
     Some (R_Identity (Identity_from \<lparr>id_login = l, id_uuid = tee_uuid_value U u\<rparr>))"
| "value_result U b64 (Prop_Str s) = (if valid_utf8 (as_bytes s) then Some (R_String s) else None)"
| "value_result U b64 (Prop_BinaryBlock s) = map_option R_Vec (b64 (as_bytes s))"
| "value_result U b64 (Prop_U64 v) = Some (R_u64 v)"

text \<open>A reference instance.\<close>

definition ref_prop_api :: "(u64 \<Rightarrow> bytes \<rightharpoonup> prop_data) \<Rightarrow> (bytes \<rightharpoonup> bytes) \<Rightarrow> prop_api" where
  "ref_prop_api props b64 =
     (let absent = TEE_ERROR_ITEM_NOT_FOUND; zero = \<lparr>timeLow = 0, timeMid = 0, timeHiAndVersion = 0, clockSeqAndNode = []\<rparr>
      in \<lparr>
     pa_string = (\<lambda>h k n. case props h k of
         Some (PD_string s) \<Rightarrow>
           if length s < n then (TEE_SUCCESS, length s + 1, s @ [0]) else (TEE_ERROR_SHORT_BUFFER, length s + 1, [])
       | Some _ \<Rightarrow> (TEE_ERROR_BAD_FORMAT, 0, []) | None \<Rightarrow> (absent, 0, [])),
     pa_block = (\<lambda>h k n. case props h k of
         Some (PD_block s) \<Rightarrow>
           (case b64 s of
              Some d \<Rightarrow> if length d \<le> n then (TEE_SUCCESS, length d, d) else (TEE_ERROR_SHORT_BUFFER, length d, [])
            | None \<Rightarrow> (TEE_ERROR_BAD_FORMAT, 0, []))
       | Some _ \<Rightarrow> (TEE_ERROR_BAD_FORMAT, 0, []) | None \<Rightarrow> (absent, 0, [])),
     pa_bool = (\<lambda>h k. case props h k of
         Some (PD_bool b) \<Rightarrow> (TEE_SUCCESS, b) | Some _ \<Rightarrow> (TEE_ERROR_BAD_FORMAT, False) | None \<Rightarrow> (absent, False)),
     pa_u32 = (\<lambda>h k. case props h k of
         Some (PD_u32 v) \<Rightarrow> (TEE_SUCCESS, v) | Some _ \<Rightarrow> (TEE_ERROR_BAD_FORMAT, 0) | None \<Rightarrow> (absent, 0)),
     pa_u64 = (\<lambda>h k. case props h k of
         Some (PD_u64 v) \<Rightarrow> (TEE_SUCCESS, v) | Some _ \<Rightarrow> (TEE_ERROR_BAD_FORMAT, 0) | None \<Rightarrow> (absent, 0)),
     pa_uuid = (\<lambda>h k. case props h k of
         Some (PD_uuid u) \<Rightarrow> (TEE_SUCCESS, u) | Some _ \<Rightarrow> (TEE_ERROR_BAD_FORMAT, zero) | None \<Rightarrow> (absent, zero)),
     pa_identity = (\<lambda>h k. case props h k of
         Some (PD_identity i) \<Rightarrow> (TEE_SUCCESS, i)
       | Some _ \<Rightarrow> (TEE_ERROR_BAD_FORMAT, \<lparr>id_login = 0, id_uuid = zero\<rparr>)
       | None \<Rightarrow> (absent, \<lparr>id_login = 0, id_uuid = zero\<rparr>))\<rparr>)"

section \<open>Lemmas\<close>

lemma prop_api_okD:
  assumes "prop_api_ok A props b64"
  shows "props h k = Some (PD_bool b) \<Longrightarrow> pa_bool A h k = (TEE_SUCCESS, b)"
    and "props h k = Some (PD_u32 v) \<Longrightarrow> pa_u32 A h k = (TEE_SUCCESS, v)"
    and "props h k = Some (PD_u64 v64) \<Longrightarrow> pa_u64 A h k = (TEE_SUCCESS, v64)"
    and "props h k = Some (PD_uuid u) \<Longrightarrow> pa_uuid A h k = (TEE_SUCCESS, u)"
    and "props h k = Some (PD_identity i) \<Longrightarrow> pa_identity A h k = (TEE_SUCCESS, i)"
    and "props h k = Some (PD_string s) \<Longrightarrow> pa_string A h k n =
        (if length s < n then (TEE_SUCCESS, length s + 1, s @ [0])
         else (TEE_ERROR_SHORT_BUFFER, length s + 1, []))"
    and "props h k = Some (PD_block s) \<Longrightarrow> b64 s = Some d \<Longrightarrow> pa_block A h k n =
        (if length d \<le> n then (TEE_SUCCESS, length d, d)
         else (TEE_ERROR_SHORT_BUFFER, length d, []))"
  using assms by (simp_all add: prop_api_ok_def)

lemma ref_prop_api_ok: "prop_api_ok (ref_prop_api props b64) props b64"
  by (simp add: prop_api_ok_def ref_prop_api_def Let_def)

lemma short_buffer_not_success: "TEE_ERROR_SHORT_BUFFER \<noteq> TEE_SUCCESS"
  by (simp add: raw_consts)

lemma filled_exact [simp]: "filled (length bs) bs = bs"
  by (simp add: filled_def)

text \<open>The two-step protocol of the readers of text and of blocks.\<close>

lemma String_from_raw_ok:
  assumes "prop_api_ok A props b64" and "props h (c_str key) = Some (PD_string s)" and "0 \<notin> set s" and "valid_utf8 s"
  shows "String_from_raw A h key = Inr (of_bytes s)"
proof -
  have "filled (length s + 1) (s @ [0]) = s @ [0]" using filled_exact[of "s @ [0]"] by simp
  with assms(3,4) short_buffer_not_success show ?thesis
    by (simp add: String_from_raw_def prop_api_okD(6)[OF assms(1,2)] tee_check_def from_utf8_lossy_valid)
qed

lemma Vec_from_raw_ok:
  assumes "prop_api_ok A props b64" and "props h (c_str key) = Some (PD_block s)" and "b64 s = Some d"
  shows "Vec_from_raw A h key = Inr d"
  using short_buffer_not_success filled_exact[of d]
  by (simp add: Vec_from_raw_def prop_api_okD(7)[OF assms] tee_check_def)

lemma configured_value_read:
  assumes A: "prop_api_ok A props b64" and p: "props h (c_str key) = Some (value_view U v)"
    and nf: "value_nul_free v" and r: "value_result U b64 v = Some r"
  shows "PropertyValue_from_raw A (value_output v) h key = Inr r"
  using p nf r prop_api_okD(1-5)[OF A] String_from_raw_ok[OF A, of h key] Vec_from_raw_ok[OF A, of h key]
  by (cases v)
    (auto simp: bool_from_raw_def u32_from_raw_def u64_from_raw_def Uuid_prop_from_raw_def Identity_from_raw_def
      tee_check_def nul_free_def split: if_splits)

lemma configured_key:
  "nul_free (pk_key k) \<Longrightarrow> c_str (PropertyKey_key k) = as_bytes (pk_key k)"
  by (simp add: PropertyKey_key_def CString_new_def nul_free_def)

text \<open>The first entry of a name is the entry, when names are distinct.\<close>

lemma map_of_configured:
  assumes "distinct (map fst T)" and "(n, v) \<in> set T"
  shows "Option.bind (map_of (map (\<lambda>(n, v). (n, Some v)) T) n) id = Some v"
proof -
  have "map_of (map (\<lambda>(n, v). (n, Some v)) T) n = Some (Some v)"
  proof (rule map_of_is_SomeI)
    show "distinct (map fst (map (\<lambda>(n, v). (n, Some v)) T))" using assms(1) by (simp add: comp_def split_beta)
    show "(n, Some v) \<in> set (map (\<lambda>(n, v). (n, Some v)) T)" using assms(2) by force
  qed
  then show ?thesis by simp
qed

definition origin_keys :: "'u TaConfig \<Rightarrow> (property_key \<times> prop_result) list" where
  "origin_keys conf =
     [(TaSingleInstance, R_bool (bit (tc_ta_flags conf) 2)),
      (TaMultiSession, R_bool (bit (tc_ta_flags conf) 3)),
      (TaInstanceKeepAlive, R_bool (bit (tc_ta_flags conf) 4)),
      (TaInstanceKeepCrashed, R_bool (bit (tc_ta_flags conf) 13)),
      (TaDataSize, R_u32 (tc_ta_data_size conf)),
      (TaStackSize, R_u32 (tc_ta_stack_size conf)),
      (TaVersion, R_String (tc_ta_version conf)),
      (TaDescription, R_String (tc_ta_description conf)),
      (TaEndian, R_u32 0),
      (TaDoesNotCloseHandleOnCorruptObject, R_bool (bit (tc_ta_flags conf) 11))]"

lemmas origin_key_defs = TaSingleInstance_def TaMultiSession_def TaInstanceKeepAlive_def TaInstanceKeepCrashed_def
  TaDataSize_def TaStackSize_def TaVersion_def TaDescription_def TaEndian_def TaDoesNotCloseHandleOnCorruptObject_def

definition origin_values :: "'u TaConfig \<Rightarrow> (property_key \<times> 'u PropertyValue) list" where
  "origin_values conf =
     [(TaSingleInstance, Prop_Bool (bit (tc_ta_flags conf) 2)),
      (TaMultiSession, Prop_Bool (bit (tc_ta_flags conf) 3)),
      (TaInstanceKeepAlive, Prop_Bool (bit (tc_ta_flags conf) 4)),
      (TaInstanceKeepCrashed, Prop_Bool (bit (tc_ta_flags conf) 13)),
      (TaDataSize, Prop_U32 (tc_ta_data_size conf)),
      (TaStackSize, Prop_U32 (tc_ta_stack_size conf)),
      (TaVersion, Prop_Str (tc_ta_version conf)),
      (TaDescription, Prop_Str (tc_ta_description conf)),
      (TaEndian, Prop_U32 0),
      (TaDoesNotCloseHandleOnCorruptObject, Prop_Bool (bit (tc_ta_flags conf) 11))]"

text \<open>Every standard key names an entry of the standard table and reads its type.\<close>

lemma origin_table_values:
  "origin_table conf = map (\<lambda>(k, v). (as_bytes (pk_key k), value_view U v)) (origin_values conf)"
  by (simp add: origin_table_def origin_values_def origin_key_defs)

lemma origin_keys_values:
  assumes "valid_utf8 (as_bytes (tc_ta_version conf))" and "valid_utf8 (as_bytes (tc_ta_description conf))"
  shows "map (\<lambda>(k, r). (k, Some r)) (origin_keys conf) = map (\<lambda>(k, v). (k, value_result U b64 v)) (origin_values conf)"
  using assms by (simp add: origin_keys_def origin_values_def)

lemma origin_values_ok:
  assumes "conf_nul_free conf" and "(k, v) \<in> set (origin_values conf)"
  shows "pk_set k = CurrentTa \<and> nul_free (pk_key k) \<and> value_output v = pk_output k \<and> value_nul_free v"
proof -
  have "\<forall>(k, v) \<in> set (origin_values conf). pk_set k = CurrentTa \<and> nul_free (pk_key k) \<and>
      value_output v = pk_output k \<and> value_nul_free v"
    using assms(1) by (simp add: origin_values_def origin_key_defs conf_nul_free_def nul_free_iff)
  with assms(2) show ?thesis by blast
qed

lemma origin_key_entry:
  fixes U :: "'u uuid_crate"
  assumes k: "(k, r) \<in> set (origin_keys (conf :: 'u TaConfig))" and nf: "conf_nul_free conf"
    and utf8: "valid_utf8 (as_bytes (tc_ta_version conf))" "valid_utf8 (as_bytes (tc_ta_description conf))"
  obtains v where "(as_bytes (pk_key k), value_view U v) \<in> set (origin_table conf)" and "pk_set k = CurrentTa"
    and "nul_free (pk_key k)" and "value_output v = pk_output k" and "value_nul_free v" and "value_result U b64 v = Some r"
proof -
  from k have "(k, Some r) \<in> set (map (\<lambda>(k, v). (k, value_result U b64 v)) (origin_values conf))"
    by (subst origin_keys_values[OF utf8, symmetric]) force
  then obtain v where v: "(k, v) \<in> set (origin_values conf)" "value_result U b64 v = Some r" by auto
  then have "(as_bytes (pk_key k), value_view U v) \<in> set (origin_table conf)"
    by (subst origin_table_values[of conf U]) force
  with v origin_values_ok[OF nf v(1)] that show ?thesis by blast
qed

section \<open>Properties\<close>

text \<open>
  C10.  What the build script configured is what the application reads.  If the TEE serves
  the property set of the application from the table in its header, then each extra
  property, of whatever type, is read back with its configured value, and each of the ten
  keys that the SDK names for the standard properties reads the flags, sizes, version and
  description of the configuration.
\<close>

theorem configured_property_readable:
  assumes A: "prop_api_ok A props b64" and serve: "serves_table props items"
    and gen: "HeaderFileGenerator_generate U checks conf = Returns (Inr items)"
    and nf: "conf_nul_free conf" and d: "distinct (map fst (configured_table U conf))"
    and utf8: "valid_utf8 (as_bytes (tc_ta_version conf))" "valid_utf8 (as_bytes (tc_ta_description conf))"
  shows "(p \<in> set (tc_ext_properties conf) \<and> value_result U b64 (prop_value p) = Some r \<longrightarrow>
      PropertyValue_from_raw A (value_output (prop_value p)) TEE_PROPSET_CURRENT_TA (as_bytes (prop_name p) @ [0]) = Inr r) \<and>
    ((k, r') \<in> set (origin_keys conf) \<longrightarrow> PropertyKey_get A k = Inr r')"
proof (rule conjI)
  obtain s where items: "items = header_items U conf s"
    using gen by (auto simp: generate_eq split: outcome.splits)
  have look: "props TEE_PROPSET_CURRENT_TA n = Some v" if "(n, v) \<in> set (configured_table U conf)" for n v
    using serve map_of_configured[OF d that] by (simp add: serves_table_def items property_table_eq[OF nf])
  show "p \<in> set (tc_ext_properties conf) \<and> value_result U b64 (prop_value p) = Some r \<longrightarrow>
      PropertyValue_from_raw A (value_output (prop_value p)) TEE_PROPSET_CURRENT_TA (as_bytes (prop_name p) @ [0]) = Inr r"
  proof (intro impI, elim conjE)
    assume p: "p \<in> set (tc_ext_properties conf)" and r: "value_result U b64 (prop_value p) = Some r"
    have "(as_bytes (prop_name p), value_view U (prop_value p)) \<in> set (configured_table U conf)"
      using p by (auto simp: configured_table_def)
    moreover have "nul_free (prop_name p)" "value_nul_free (prop_value p)" using nf p by (auto simp: conf_nul_free_def)
    ultimately show "PropertyValue_from_raw A (value_output (prop_value p)) TEE_PROPSET_CURRENT_TA
        (as_bytes (prop_name p) @ [0]) = Inr r"
      using look r by (intro configured_value_read[OF A]) auto
  qed
  show "(k, r') \<in> set (origin_keys conf) \<longrightarrow> PropertyKey_get A k = Inr r'"
  proof
    assume "(k, r') \<in> set (origin_keys conf)"
    then obtain v where
      v: "(as_bytes (pk_key k), value_view U v) \<in> set (origin_table conf)" "pk_set k = CurrentTa" "nul_free (pk_key k)"
        "value_output v = pk_output k" "value_nul_free v" "value_result U b64 v = Some r'"
      by (rule origin_key_entry[OF _ nf utf8])
    then have "props TEE_PROPSET_CURRENT_TA (c_str (PropertyKey_key k)) = Some (value_view U v)"
      by (intro look) (simp add: configured_key configured_table_def)
    from configured_value_read[OF A this v(5,6)] v(2,4) show "PropertyKey_get A k = Inr r'"
      by (simp add: PropertyKey_get_def)
  qed
qed

theorem configured_property_readable_witness:
  "\<exists>props. PropertyValue_from_raw (ref_prop_api props Some) Out_u64 TEE_PROPSET_CURRENT_TA (as_bytes ''retries'' @ [0])
       = Inr (R_u64 3) \<and>
     PropertyKey_get (ref_prop_api props Some) TaMultiSession = Inr (R_bool True) \<and>
     PropertyKey_get (ref_prop_api props Some) TaVersion = Inr (R_String ''0.1.0'')"
proof -
  note conf = sample_config_def TaConfig_add_ext_property_def TaConfig_ta_flags_def Property_new_def
  obtain items where gen: "HeaderFileGenerator_generate uuid_ref True sample_config = Returns (Inr items)"
    by (auto simp: generate_eq add_u32_def conf)
  define props where "props = (\<lambda>h :: u64. \<lambda>k. Option.bind (map_of (property_table items) k) id)"
  have serve: "serves_table props items" by (simp add: serves_table_def props_def)
  have d: "distinct (map fst (configured_table uuid_ref sample_config))"
    by (simp add: configured_table_def origin_table_def conf)
  have utf8: "valid_utf8 (as_bytes (tc_ta_version sample_config))" "valid_utf8 (as_bytes (tc_ta_description sample_config))"
    by (rule valid_utf8_ascii, simp add: conf as_bytes_def)+
  note ok = configured_property_readable[OF ref_prop_api_ok[of props Some] serve gen sample_config_nul_free d utf8]
  have p: "Property_new ''retries'' (Prop_U64 3) \<in> set (tc_ext_properties sample_config)" by (simp add: conf)
  have "PropertyValue_from_raw (ref_prop_api props Some) Out_u64 TEE_PROPSET_CURRENT_TA (as_bytes ''retries'' @ [0])
       = Inr (R_u64 3)"
    using ok[where p = "Property_new ''retries'' (Prop_U64 3)" and r = "R_u64 3"] p by (simp add: Property_new_def)
  moreover have "(TaMultiSession, R_bool True) \<in> set (origin_keys sample_config)"
      "(TaVersion, R_String ''0.1.0'') \<in> set (origin_keys sample_config)"
    by (simp_all add: origin_keys_def conf raw_consts)
  ultimately show ?thesis using ok by blast
qed

end
