(* ===== verification/Plugin.thy ===== *)
theory Plugin
  imports TeeUuid TeecUuid RustString
begin

text \<open>
  Plugins of the TEE supplicant, on both sides of the boundary: the binding that a build
  script generates (\<^verbatim>\<open>crates/optee-teec-build/src/plugin.rs\<close>), the attribute macros and the
  functions they generate (\<^verbatim>\<open>crates/optee-teec-macros/src/lib.rs\<close>), the parameters of an
  invocation in the plugin (\<^verbatim>\<open>crates/optee-teec/src/extension.rs\<close>), and the command of a
  trusted application that calls the plugin (\<^verbatim>\<open>crates/optee-utee/src/extension.rs\<close>).

  A raw buffer is \<open>None\<close> for a null pointer and otherwise the bytes it designates; a raw
  output length is \<open>None\<close> for a null pointer and otherwise the value it holds.  The file
  system, the allocator's choice of capacities and the call that crosses the boundary are
  parameters.
\<close>

section \<open>Definitions\<close>

subsection \<open>The generated binding\<close>

definition DEFAULT_INIT_FN_NAME :: string where
  "DEFAULT_INIT_FN_NAME = ''__plugin_bindgen_init''"

definition DEFAULT_INVOKE_FN_NAME :: string where
  "DEFAULT_INVOKE_FN_NAME = ''__plugin_bindgen_invoke''"

record 'u PluginConfig =
  pc_name :: string
  pc_uuid :: 'u
  pc_init_fn_name :: string
  pc_invoke_fn_name :: string
  pc_dest :: "string option"

text \<open>\<^verbatim>\<open>env!\<close> is expanded when the build crate itself is compiled, so the default is its name.\<close>

definition PluginConfig_new :: "'u \<Rightarrow> 'u PluginConfig" where
  "PluginConfig_new uuid =
     \<lparr>pc_name = ''optee-teec-build'', pc_uuid = uuid, pc_init_fn_name = DEFAULT_INIT_FN_NAME,
      pc_invoke_fn_name = DEFAULT_INVOKE_FN_NAME, pc_dest = None\<rparr>"

definition PluginConfig_with_name :: "string \<Rightarrow> 'u PluginConfig \<Rightarrow> 'u PluginConfig" where
  "PluginConfig_with_name name self = self\<lparr>pc_name := name\<rparr>"

definition PluginConfig_with_init_fn_name :: "string \<Rightarrow> 'u PluginConfig \<Rightarrow> 'u PluginConfig" where
  "PluginConfig_with_init_fn_name fn_name self = self\<lparr>pc_init_fn_name := fn_name\<rparr>"

definition PluginConfig_with_invoke_fn_name :: "string \<Rightarrow> 'u PluginConfig \<Rightarrow> 'u PluginConfig" where
  "PluginConfig_with_invoke_fn_name fn_name self = self\<lparr>pc_invoke_fn_name := fn_name\<rparr>"

definition PluginConfig_with_dest :: "string \<Rightarrow> 'u PluginConfig \<Rightarrow> 'u PluginConfig" where
  "PluginConfig_with_dest out_path self = self\<lparr>pc_dest := Some out_path\<rparr>"

text \<open>The static that the binding declares; functions are given by their identifiers.\<close>

record plugin_method =
  pm_name :: bytes
  pm_uuid :: TEEC_UUID
  pm_init :: string
  pm_invoke :: string

text \<open>\<open>ident\<close> recognises identifiers; \<^verbatim>\<open>format_ident!\<close> panics on other text.\<close>

definition generate_binding ::
    "'u uuid_crate \<Rightarrow> (string \<Rightarrow> bool) \<Rightarrow> string \<Rightarrow> 'u \<Rightarrow> string \<Rightarrow> string \<Rightarrow> plugin_method outcome" where
  "generate_binding U ident name uuid init_fn_name invoke_fn_name =
     (case uc_as_fields U uuid of
        (uuid_f1, uuid_f2, uuid_f3, uuid_f4) \<Rightarrow>
          if \<not> ident init_fn_name \<or> \<not> ident invoke_fn_name then Panics
          else Returns \<lparr>pm_name = as_bytes name @ [0],
                 pm_uuid = \<lparr>teec_timeLow = uuid_f1, teec_timeMid = uuid_f2, teec_timeHiAndVersion = uuid_f3,
                   teec_clockSeqAndNode = uuid_f4\<rparr>,
                 pm_init = init_fn_name, pm_invoke = invoke_fn_name\<rparr>)"

record ('e, 'w) fs_api =
  fs_read :: "string \<Rightarrow> 'w \<Rightarrow> 'e + bytes"
  fs_create_dir_all :: "string \<Rightarrow> 'w \<Rightarrow> ('e + unit) \<times> 'w"
  fs_write :: "string \<Rightarrow> bytes \<Rightarrow> 'w \<Rightarrow> ('e + unit) \<times> 'w"
  fs_parent :: "string \<Rightarrow> string option"
  fs_join :: "string \<Rightarrow> string \<Rightarrow> string"

definition get_out_path :: "('e, 'w) fs_api \<Rightarrow> (string \<rightharpoonup> string) \<Rightarrow> 'u PluginConfig \<Rightarrow> string outcome" where
  "get_out_path F env self =
     (case pc_dest self of
        Some d \<Rightarrow> Returns d
      | None \<Rightarrow>
          (case env ''OUT_DIR'' of
             None \<Rightarrow> Panics
           | Some out \<Rightarrow> Returns (fs_join F out ''plugin_static.rs'')))"

definition PluginConfig_build ::
    "'u uuid_crate \<Rightarrow> (string \<Rightarrow> bool) \<Rightarrow> (plugin_method \<Rightarrow> bytes) \<Rightarrow> ('e, 'w) fs_api \<Rightarrow> (string \<rightharpoonup> string) \<Rightarrow>
     'u PluginConfig \<Rightarrow> 'w \<Rightarrow> (('e + unit) \<times> 'w) outcome" where
  "PluginConfig_build U ident to_string F env self w =
     (case generate_binding U ident (pc_name self) (pc_uuid self) (pc_init_fn_name self) (pc_invoke_fn_name self) of
        Panics \<Rightarrow> Panics
      | Returns binding \<Rightarrow>
          (case get_out_path F env self of
             Panics \<Rightarrow> Panics
           | Returns out_path \<Rightarrow>
               Returns
                 (let codes = to_string binding in
                  if fs_read F out_path w = Inr codes then (Inr (), w)
                  else case fs_parent F out_path of
                      None \<Rightarrow> fs_write F out_path codes w
                    | Some parent_dir \<Rightarrow>
                        (case fs_create_dir_all F parent_dir w of
                           (Inl e, w1) \<Rightarrow> (Inl e, w1)
                         | (Inr _, w1) \<Rightarrow> fs_write F out_path codes w1))))"

subsection \<open>The attribute macros\<close>

text \<open>Types as \<^verbatim>\<open>syn\<close> presents them: a path is its segments.\<close>

datatype syn_type = SynPath "string list" | SynRef bool syn_type | SynOther

datatype syn_arg = SynReceiver | SynTyped syn_type

record syn_fn =
  sf_constness :: bool
  sf_vis_inherited :: bool
  sf_abi :: bool
  sf_inputs :: "syn_arg list"
  sf_where_clause :: bool
  sf_variadic :: bool
  sf_output :: "syn_type option"

definition check_path_might_match :: "string list \<Rightarrow> string list \<Rightarrow> bool" where
  "check_path_might_match segments exp \<longleftrightarrow>
     length segments \<le> length exp \<and>
     list_all (\<lambda>(seg, e). seg = e) (zip segments (drop (length exp - length segments) exp))"

definition check_return_type :: "syn_fn \<Rightarrow> bool" where
  "check_return_type f \<longleftrightarrow>
     (case sf_output f of
        Some (SynPath segments) \<Rightarrow> check_path_might_match segments [''optee_teec'', ''Result'']
      | _ \<Rightarrow> False)"

definition check_invoke_fn_params :: "syn_fn \<Rightarrow> bool" where
  "check_invoke_fn_params f \<longleftrightarrow>
     (case sf_inputs f of
        [SynTyped (SynRef True (SynPath segments))] \<Rightarrow>
          check_path_might_match segments [''optee_teec'', ''PluginParameters'']
      | _ \<Rightarrow> False)"

definition plugin_init_accepts :: "syn_fn \<Rightarrow> bool" where
  "plugin_init_accepts f \<longleftrightarrow>
     \<not> sf_constness f \<and> sf_vis_inherited f \<and> \<not> sf_abi f \<and> sf_inputs f = [] \<and> \<not> sf_where_clause f \<and>
     \<not> sf_variadic f \<and> check_return_type f"

definition plugin_invoke_accepts :: "syn_fn \<Rightarrow> bool" where
  "plugin_invoke_accepts f \<longleftrightarrow>
     \<not> sf_constness f \<and> sf_vis_inherited f \<and> \<not> sf_abi f \<and> length (sf_inputs f) = 1 \<and> \<not> sf_where_clause f \<and>
     \<not> sf_variadic f \<and> check_return_type f \<and> check_invoke_fn_params f"

subsection \<open>PluginParameters\<close>

record PluginParameters =
  pp_cmd :: u32
  pp_sub_cmd :: u32
  pp_buf :: bytes
  pp_out_len :: "usize option"

definition PluginParameters_from_raw ::
    "u32 \<Rightarrow> u32 \<Rightarrow> bytes option \<Rightarrow> usize \<Rightarrow> usize option \<Rightarrow> teec_Error + PluginParameters" where
  "PluginParameters_from_raw cmd sub_cmd buf in_len out_len =
     (if (in_len \<noteq> 0 \<or> out_len \<noteq> None) \<and> buf = None then Inl (teec_Error_from Teec_BadParameters)
      else Inr \<lparr>pp_cmd = cmd, pp_sub_cmd = sub_cmd,
             pp_buf = (case buf of None \<Rightarrow> [] | Some b \<Rightarrow> take in_len b), pp_out_len = out_len\<rparr>)"

text \<open>
  \<^verbatim>\<open>pos + data.len()\<close> panics on overflow with overflow checks and wraps without; indexing
  with a range that is out of order panics.
\<close>

definition write_output_at ::
    "bool \<Rightarrow> usize \<Rightarrow> bytes \<Rightarrow> PluginParameters \<Rightarrow> ((teec_Error + unit) \<times> PluginParameters) outcome" where
  "write_output_at overflow_checks pos data self =
     (case pp_out_len self of
        None \<Rightarrow> Returns (Inl (teec_Error_from Teec_BadState), self)
      | Some _ \<Rightarrow>
          if overflow_checks \<and> usize_modulus \<le> pos + length data then Panics
          else let dest_len = (pos + length data) mod usize_modulus in
               if length (pp_buf self) < dest_len then Returns (Inl (teec_Error_from Teec_ShortBuffer), self)
               else if dest_len < pos then Panics
               else Returns (Inr (), self\<lparr>pp_buf := overwrite (pp_buf self) pos data, pp_out_len := Some dest_len\<rparr>))"

definition set_buf_from_slice ::
    "bool \<Rightarrow> bytes \<Rightarrow> PluginParameters \<Rightarrow> ((teec_Error + unit) \<times> PluginParameters) outcome" where
  "set_buf_from_slice overflow_checks sendslice self = write_output_at overflow_checks 0 sendslice self"

definition PluginParameters_get_buffer :: "PluginParameters \<Rightarrow> bytes" where
  "PluginParameters_get_buffer self = pp_buf self"

text \<open>Storing a byte through the slice that \<^verbatim>\<open>get_buffer_mut\<close> returns.\<close>

definition get_buffer_mut :: "PluginParameters \<Rightarrow> nat \<Rightarrow> u8 \<Rightarrow> PluginParameters outcome" where
  "get_buffer_mut self i b =
     (if i < length (pp_buf self) then Returns (self\<lparr>pp_buf := (pp_buf self)[i := b]\<rparr>) else Panics)"

definition set_out_len :: "usize \<Rightarrow> PluginParameters \<Rightarrow> (teec_Error + unit) \<times> PluginParameters" where
  "set_out_len out_len self =
     (if length (pp_buf self) < out_len then (Inl (teec_Error_from Teec_BadParameters), self)
      else case pp_out_len self of
          None \<Rightarrow> (Inl (teec_Error_from Teec_BadState), self)
        | Some _ \<Rightarrow> (Inr (), self\<lparr>pp_out_len := Some out_len\<rparr>))"

subsection \<open>The generated functions\<close>

definition teec_result_code :: "teec_Error + unit \<Rightarrow> u32" where
  "teec_result_code r = (case r of Inr _ \<Rightarrow> TEEC_SUCCESS | Inl err \<Rightarrow> teec_raw_code err)"

definition plugin_bindgen_init :: "('w \<Rightarrow> (teec_Error + unit) \<times> 'w) \<Rightarrow> 'w \<Rightarrow> u32 \<times> 'w" where
  "plugin_bindgen_init f w = (case f w of (r, w') \<Rightarrow> (teec_result_code r, w'))"

text \<open>The function of a plugin may panic; the caller's buffer and length are what it leaves.\<close>

type_synonym plugin_fn = "PluginParameters \<Rightarrow> ((teec_Error + unit) \<times> PluginParameters) outcome"

definition plugin_bindgen_invoke ::
    "plugin_fn \<Rightarrow> u32 \<Rightarrow> u32 \<Rightarrow> bytes option \<Rightarrow> usize \<Rightarrow> usize option \<Rightarrow> (u32 \<times> bytes option \<times> usize option) outcome" where
  "plugin_bindgen_invoke f cmd sub_cmd data in_len out_len =
     (case PluginParameters_from_raw cmd sub_cmd data in_len out_len of
        Inl err \<Rightarrow> Returns (teec_raw_code err, data, out_len)
      | Inr parameter \<Rightarrow>
          (case f parameter of
             Panics \<Rightarrow> Panics
           | Returns (r, p) \<Rightarrow>
               Returns (teec_result_code r, map_option (\<lambda>b. pp_buf p @ drop in_len b) data, pp_out_len p)))"

subsection \<open>LoadablePlugin\<close>

text \<open>A \<^verbatim>\<open>Vec\<close> has contents and a capacity; how much is allocated is the allocator's choice.\<close>

record vec =
  v_data :: bytes
  v_cap :: usize

record vec_alloc =
  va_with_capacity :: "usize \<Rightarrow> usize"
  va_grow :: "usize \<Rightarrow> usize \<Rightarrow> usize"

definition vec_alloc_ok :: "vec_alloc \<Rightarrow> bool" where
  "vec_alloc_ok V \<longleftrightarrow> (\<forall>n. n \<le> va_with_capacity V n) \<and> (\<forall>c n. n \<le> va_grow V c n)"

definition vec_with_capacity :: "vec_alloc \<Rightarrow> usize \<Rightarrow> vec" where
  "vec_with_capacity V n = \<lparr>v_data = [], v_cap = va_with_capacity V n\<rparr>"

definition vec_extend :: "vec_alloc \<Rightarrow> bytes \<Rightarrow> vec \<Rightarrow> vec" where
  "vec_extend V data v =
     (let n = length (v_data v) + length data in
      \<lparr>v_data = v_data v @ data, v_cap = (if n \<le> v_cap v then v_cap v else va_grow V (v_cap v) n)\<rparr>)"

record LoadablePlugin =
  lp_uuid :: Uuid

record LoadablePluginCommand =
  lc_plugin :: LoadablePlugin
  lc_cmd_id :: u32
  lc_sub_cmd_id :: u32
  lc_buffer :: vec

definition LoadablePlugin_new :: "Uuid \<Rightarrow> LoadablePlugin" where
  "LoadablePlugin_new uuid = \<lparr>lp_uuid = uuid\<rparr>"

definition new_with_capacity :: "vec_alloc \<Rightarrow> LoadablePlugin \<Rightarrow> u32 \<Rightarrow> u32 \<Rightarrow> usize \<Rightarrow> LoadablePluginCommand" where
  "new_with_capacity V plugin cmd_id sub_cmd_id capacity =
     \<lparr>lc_plugin = plugin, lc_cmd_id = cmd_id, lc_sub_cmd_id = sub_cmd_id, lc_buffer = vec_with_capacity V capacity\<rparr>"

definition invoke_with_capacity :: "vec_alloc \<Rightarrow> LoadablePlugin \<Rightarrow> u32 \<Rightarrow> u32 \<Rightarrow> usize \<Rightarrow> LoadablePluginCommand" where
  "invoke_with_capacity V self command_id subcommand_id capacity =
     new_with_capacity V self command_id subcommand_id capacity"

definition write_body :: "vec_alloc \<Rightarrow> bytes \<Rightarrow> LoadablePluginCommand \<Rightarrow> LoadablePluginCommand" where
  "write_body V data self = self\<lparr>lc_buffer := vec_extend V data (lc_buffer self)\<rparr>"

definition chain_write_body :: "vec_alloc \<Rightarrow> bytes \<Rightarrow> LoadablePluginCommand \<Rightarrow> LoadablePluginCommand" where
  "chain_write_body V data self = write_body V data self"

text \<open>\<^verbatim>\<open>Vec::resize\<close> with zero.\<close>

definition resize_zero :: "usize \<Rightarrow> bytes \<Rightarrow> bytes" where
  "resize_zero n bs = take n bs @ replicate (n - length bs) 0"

text \<open>
  The call across the boundary: UUID, command, subcommand and buffer to the code, the
  buffer afterwards and the reported length.  It does not return when the caller dies with
  the plugin.
\<close>

type_synonym supp_plugin = "TEE_UUID \<Rightarrow> u32 \<Rightarrow> u32 \<Rightarrow> bytes \<Rightarrow> u32 \<times> bytes \<times> usize"

definition LoadablePluginCommand_call :: "supp_plugin \<Rightarrow> LoadablePluginCommand \<Rightarrow> Error + bytes" where
  "LoadablePluginCommand_call supp self =
     (let buffer = resize_zero (v_cap (lc_buffer self)) (v_data (lc_buffer self)) in
      case supp (uuid_raw (lp_uuid (lc_plugin self))) (lc_cmd_id self) (lc_sub_cmd_id self) buffer of
        (code, buffer, outlen) \<Rightarrow>
          try_bind (tee_check code) (\<lambda>_.
            if length buffer < outlen then Inl (Error_from ShortBuffer)
            else Inr (resize_zero outlen buffer)))"

definition LoadablePlugin_invoke ::
    "vec_alloc \<Rightarrow> supp_plugin \<Rightarrow> LoadablePlugin \<Rightarrow> u32 \<Rightarrow> u32 \<Rightarrow> bytes \<Rightarrow> Error + bytes" where
  "LoadablePlugin_invoke V supp self command_id subcommand_id data =
     LoadablePluginCommand_call supp
       (chain_write_body V data (invoke_with_capacity V self command_id subcommand_id (length data)))"

section \<open>Lemmas\<close>

lemma check_path_suffix: "check_path_might_match segments exp \<longleftrightarrow> (\<exists>pre. exp = pre @ segments)"
proof
  assume "check_path_might_match segments exp"
  then have l: "length segments \<le> length exp"
    and z: "\<forall>i < length segments. segments ! i = drop (length exp - length segments) exp ! i"
    by (auto simp: check_path_might_match_def list_all_length)
  then have "drop (length exp - length segments) exp = segments"
    by (intro nth_equalityI) auto
  then show "\<exists>pre. exp = pre @ segments" by (metis append_take_drop_id)
next
  assume "\<exists>pre. exp = pre @ segments"
  then show "check_path_might_match segments exp"
    by (auto simp: check_path_might_match_def list_all_length)
qed

lemma length_resize_zero [simp]: "length (resize_zero n bs) = n"
  by (simp add: resize_zero_def)

lemma resize_zero_le: "n \<le> length bs \<Longrightarrow> resize_zero n bs = take n bs"
  by (simp add: resize_zero_def)

lemma short_buffer_code:
  "from_raw_error (teec_raw_code (teec_Error_from Teec_ShortBuffer)) = Error_from ShortBuffer"
proof -
  have "teec_raw_code (teec_Error_from Teec_ShortBuffer) = ErrorKind_into ShortBuffer"
    by (simp add: teec_raw_code_def teec_Error_from_def raw_consts)
  then show ?thesis
    using ErrorKind_from_into_iff[of ShortBuffer] by (simp add: from_raw_error_def)
qed

lemma short_buffer_not_ok: "teec_raw_code (teec_Error_from Teec_ShortBuffer) \<noteq> TEE_SUCCESS"
  by (simp add: teec_raw_code_def teec_Error_from_def raw_consts)

text \<open>Without overflow, writing output succeeds exactly when it fits, and never panics.\<close>

lemma write_output_at_eq:
  assumes "pos + length data < usize_modulus" and "pp_out_len self = Some n"
  shows "write_output_at checks pos data self =
    Returns (if pos + length data \<le> length (pp_buf self)
       then (Inr (), self\<lparr>pp_buf := overwrite (pp_buf self) pos data, pp_out_len := Some (pos + length data)\<rparr>)
       else (Inl (teec_Error_from Teec_ShortBuffer), self))"
  using assms by (simp add: write_output_at_def Let_def)

text \<open>The buffer that a command hands over starts with the body and has the capacity asked for.\<close>

lemma command_buffer:
  assumes "vec_alloc_ok V" and v_def: "v = vec_extend V d (vec_with_capacity V c)"
  shows "take (length d) (resize_zero (v_cap v) (v_data v)) = d" and "c \<le> v_cap v" and "length d \<le> v_cap v"
proof -
  have g: "c \<le> va_with_capacity V c" "length d \<le> va_grow V (va_with_capacity V c) (length d)"
    using assms(1) by (simp_all add: vec_alloc_ok_def)
  have dat: "v_data v = d" by (simp add: v_def vec_extend_def vec_with_capacity_def Let_def)
  show len: "length d \<le> v_cap v" and "c \<le> v_cap v"
    using g by (simp_all add: v_def vec_extend_def vec_with_capacity_def Let_def)
  from len show "take (length d) (resize_zero (v_cap v) (v_data v)) = d"
    by (simp add: dat resize_zero_def)
qed

section \<open>Properties\<close>

text \<open>
  The supplicant hands the buffer to the generated function of the plugin with this UUID
  and reports back what it leaves.
\<close>

definition delivers :: "supp_plugin \<Rightarrow> TEE_UUID \<Rightarrow> plugin_fn \<Rightarrow> bool" where
  "delivers supp u f \<longleftrightarrow>
     (\<forall>cmd sub buf code b n.
        plugin_bindgen_invoke f cmd sub (Some buf) (length buf) (Some 0) = Returns (code, Some b, Some n) \<longrightarrow>
        supp u cmd sub buf = (code, b, n))"


definition exact_alloc :: vec_alloc where
  "exact_alloc = \<lparr>va_with_capacity = (\<lambda>n. n), va_grow = (\<lambda>c n. n)\<rparr>"

text \<open>The supplicant with one plugin.\<close>

definition direct_supp :: "plugin_fn \<Rightarrow> supp_plugin" where
  "direct_supp f u cmd sub buf =
     (case plugin_bindgen_invoke f cmd sub (Some buf) (length buf) (Some 0) of
        Returns (code, Some b, Some n) \<Rightarrow> (code, b, n)
      | _ \<Rightarrow> (TEE_ERROR_GENERIC, buf, 0))"


text \<open>
  Writing output is not protected against overflow of the position.  For a position
  and data whose sum exceeds the range of \<^verbatim>\<open>usize\<close> while the wrapped sum lies within the
  buffer, \<^verbatim>\<open>write_output_at\<close> panics, with and without overflow checks, instead of reporting
  \<^verbatim>\<open>ShortBuffer\<close>.
\<close>

lemma write_output_overflow_panics:
  assumes "pp_out_len self = Some n" and "pos < usize_modulus" and "length data < usize_modulus"
    and "usize_modulus \<le> pos + length data" and "pos + length data - usize_modulus \<le> length (pp_buf self)"
  shows "write_output_at checks pos data self = Panics"
proof -
  have "(pos + length data) mod usize_modulus = pos + length data - usize_modulus"
    using assms(2,3,4) by (simp add: mod_if)
  moreover have "pos + length data - usize_modulus < pos" using assms(3,4) by linarith
  ultimately show ?thesis using assms(1,4,5) by (simp add: write_output_at_def Let_def)
qed

lemma write_output_overflow_panics_witness:
  "write_output_at False (usize_modulus - 1) [7] \<lparr>pp_cmd = 0, pp_sub_cmd = 0, pp_buf = [0, 0], pp_out_len = Some 0\<rparr> = Panics"
  by (rule write_output_overflow_panics) (simp_all add: usize_modulus_def)

end
