(* ===== verification/HostStd.thy ===== *)
theory HostStd
  imports RustString
begin

text \<open>
  What the programs that run on the host use of the standard library: text, paths, the
  environment, commands, and steps that can fail.

  A path is its text; \<open>path_join\<close>, \<open>path_parent\<close> and \<open>path_file_name\<close> are those of
  \<^verbatim>\<open>std::path\<close> on Unix.  The environment of the process is a map from names to text.  A step takes
  the world and returns a result and the next world.  \<open>on_error\<close> and \<open>finally_drop\<close> are the
  destructors that run when an owner goes out of scope.
\<close>

section \<open>Definitions\<close>

subsection \<open>Text\<close>

text \<open>\<^verbatim>\<open>str::contains\<close>, \<^verbatim>\<open>str::split\<close> on one character and \<^verbatim>\<open>str::split_once\<close>.\<close>

definition str_contains :: "string \<Rightarrow> string \<Rightarrow> bool" where
  "str_contains sub s \<longleftrightarrow> list_ex (\<lambda>i. take (length sub) (drop i s) = sub) [0..<length s + 1]"

definition str_ends_with :: "string \<Rightarrow> string \<Rightarrow> bool" where
  "str_ends_with suffix s \<longleftrightarrow> length suffix \<le> length s \<and> drop (length s - length suffix) s = suffix"

fun str_split :: "char \<Rightarrow> string \<Rightarrow> string list" where
  "str_split c [] = [[]]"
| "str_split c (x # xs) =
     (if x = c then [] # str_split c xs
      else case str_split c xs of [] \<Rightarrow> [[x]] | s # ss \<Rightarrow> (x # s) # ss)"

definition str_split_once :: "char \<Rightarrow> string \<Rightarrow> (string \<times> string) option" where
  "str_split_once c s =
     (if c \<in> set s then Some (takeWhile (\<lambda>x. x \<noteq> c) s, tl (dropWhile (\<lambda>x. x \<noteq> c) s)) else None)"

fun str_join :: "string \<Rightarrow> string list \<Rightarrow> string" where
  "str_join sep [] = []"
| "str_join sep [s] = s"
| "str_join sep (s # t # ss) = s @ sep @ str_join sep (t # ss)"

text \<open>
  \<^verbatim>\<open>str::trim\<close> removes the characters of the Unicode property \<open>White_Space\<close>, here by their UTF-8
  bytes: the length of the white-space character at the start of the bytes, or at the end of the
  bytes given backwards.
\<close>

fun white_start :: "nat list \<Rightarrow> nat" where
  "white_start (a # r) =
     (if (9 \<le> a \<and> a \<le> 13) \<or> a = 32 then 1
      else case r of
          b # r' \<Rightarrow>
            if a = 0xC2 \<and> (b = 0x85 \<or> b = 0xA0) then 2
            else (case r' of
                c # _ \<Rightarrow>
                  if (a = 0xE1 \<and> b = 0x9A \<and> c = 0x80) \<or>
                     (a = 0xE2 \<and> b = 0x80 \<and> ((0x80 \<le> c \<and> c \<le> 0x8A) \<or> c = 0xA8 \<or> c = 0xA9 \<or> c = 0xAF)) \<or>
                     (a = 0xE2 \<and> b = 0x81 \<and> c = 0x9F) \<or> (a = 0xE3 \<and> b = 0x80 \<and> c = 0x80)
                  then 3 else 0
              | [] \<Rightarrow> 0)
        | [] \<Rightarrow> 0)"
| "white_start [] = 0"

definition white_end :: "nat list \<Rightarrow> nat" where
  "white_end r =
     (if white_start (take 1 r) = 1 then 1
      else if white_start (rev (take 2 r)) = 2 then 2
      else if white_start (rev (take 3 r)) = 3 then 3
      else 0)"

function trim_start :: "string \<Rightarrow> string" where
  "trim_start s =
     (let n = white_start (map of_char s) in if n = 0 \<or> s = [] then s else trim_start (drop n s))"
  by pat_completeness auto
termination
  by (relation "measure length") auto

function trim_end_rev :: "string \<Rightarrow> string" where
  "trim_end_rev s =
     (let n = white_end (map of_char s) in if n = 0 \<or> s = [] then s else trim_end_rev (drop n s))"
  by pat_completeness auto
termination
  by (relation "measure length") auto

declare trim_start.simps [simp del] trim_end_rev.simps [simp del]

definition str_trim :: "string \<Rightarrow> string" where
  "str_trim s = rev (trim_end_rev (rev (trim_start s)))"

text \<open>
  \<^verbatim>\<open>str::to_lowercase\<close> on ASCII.  No other character becomes one of the letters of the architecture
  names it is compared with.
\<close>

definition ascii_lower :: "string \<Rightarrow> string" where
  "ascii_lower s = map (\<lambda>c. if 65 \<le> (of_char c :: nat) \<and> (of_char c :: nat) \<le> 90 then char_of ((of_char c :: nat) + 32) else c) s"

subsection \<open>Paths\<close>

definition path_is_absolute :: "string \<Rightarrow> bool" where
  "path_is_absolute p \<longleftrightarrow> take 1 p = ''/''"

definition path_join :: "string \<Rightarrow> string \<Rightarrow> string" where
  "path_join base p =
     (if path_is_absolute p then p
      else if base = [] \<or> last base = CHR ''/'' then base @ p
      else base @ ''/'' @ p)"

text \<open>A path without trailing separators and \<^verbatim>\<open>.\<close> components, on the reversed text.\<close>

fun path_trim_rev :: "string \<Rightarrow> string" where
  "path_trim_rev (c # d # r) =
     (if c = CHR ''/'' then path_trim_rev (d # r)
      else if c = CHR ''.'' \<and> d = CHR ''/'' then path_trim_rev (d # r)
      else c # d # r)"
| "path_trim_rev r = r"

definition path_trim :: "string \<Rightarrow> string" where
  "path_trim p = rev (path_trim_rev (rev p))"

definition path_parent :: "string \<Rightarrow> string option" where
  "path_parent p =
     (let q = path_trim p in
      if q = [] \<or> q = ''/'' then None
      else Some (path_trim (rev (dropWhile (\<lambda>c. c \<noteq> CHR ''/'') (rev q)))))"

definition path_file_name :: "string \<Rightarrow> string option" where
  "path_file_name p =
     (let q = path_trim p; n = rev (takeWhile (\<lambda>c. c \<noteq> CHR ''/'') (rev q)) in
      if q = [] \<or> q = ''/'' \<or> n = ''.'' \<or> n = ''..'' then None else Some n)"

definition path_with_file_name :: "string \<Rightarrow> string \<Rightarrow> string" where
  "path_with_file_name p name =
     path_join (case path_file_name p of None \<Rightarrow> p | Some _ \<Rightarrow> (case path_parent p of None \<Rightarrow> p | Some d \<Rightarrow> d)) name"

definition to_string_lossy :: "string \<Rightarrow> string" where
  "to_string_lossy p = of_bytes (from_utf8_lossy (as_bytes p))"

text \<open>\<^verbatim>\<open>env::var\<close> refuses text that is not well-formed; \<^verbatim>\<open>env::var_os\<close> does not.\<close>

definition env_var :: "(string \<rightharpoonup> string) \<Rightarrow> string \<Rightarrow> string option" where
  "env_var env key = (case env key of Some v \<Rightarrow> if valid_utf8 (as_bytes v) then Some v else None | None \<Rightarrow> None)"

subsection \<open>Options\<close>

text \<open>\<^verbatim>\<open>Option::or\<close>.\<close>

definition option_or :: "'a option \<Rightarrow> 'a option \<Rightarrow> 'a option" where
  "option_or a b = (case a of Some x \<Rightarrow> Some x | None \<Rightarrow> b)"

definition unwrap_or :: "'a option \<Rightarrow> 'a \<Rightarrow> 'a" where
  "unwrap_or a d = (case a of Some x \<Rightarrow> x | None \<Rightarrow> d)"

subsection \<open>Steps\<close>

type_synonym ('w, 'e, 'a) io = "'w \<Rightarrow> ('e + 'a) \<times> 'w"

definition io_bind :: "('w, 'e, 'a) io \<Rightarrow> ('a \<Rightarrow> ('w, 'e, 'b) io) \<Rightarrow> ('w, 'e, 'b) io" where
  "io_bind m f = (\<lambda>w. case m w of (Inl e, w') \<Rightarrow> (Inl e, w') | (Inr a, w') \<Rightarrow> f a w')"

definition io_ask :: "('w \<Rightarrow> 'e + 'a) \<Rightarrow> ('w, 'e, 'a) io" where
  "io_ask f = (\<lambda>w. (f w, w))"

definition io_return :: "'a \<Rightarrow> ('w, 'e, 'a) io" where
  "io_return a = (\<lambda>w. (Inr a, w))"

definition io_check :: "bool \<Rightarrow> 'e \<Rightarrow> ('w, 'e, unit) io" where
  "io_check b e = (\<lambda>w. (if b then Inr () else Inl e, w))"

text \<open>A call that only reports whether it succeeded.\<close>

definition io_call :: "('w \<Rightarrow> bool \<times> 'w) \<Rightarrow> 'e \<Rightarrow> ('w, 'e, unit) io" where
  "io_call f e = (\<lambda>w. case f w of (ok, w') \<Rightarrow> (if ok then Inr () else Inl e, w'))"

definition io_alloc :: "('w \<Rightarrow> 'a option \<times> 'w) \<Rightarrow> 'e \<Rightarrow> ('w, 'e, 'a) io" where
  "io_alloc f e = (\<lambda>w. case f w of (r, w') \<Rightarrow> (ok_or r e, w'))"

definition on_error :: "('w \<Rightarrow> 'w) \<Rightarrow> ('w, 'e, 'a) io \<Rightarrow> ('w, 'e, 'a) io" where
  "on_error drp m = (\<lambda>w. case m w of (Inl e, w') \<Rightarrow> (Inl e, drp w') | (Inr a, w') \<Rightarrow> (Inr a, w'))"

definition finally_drop :: "('w \<Rightarrow> 'w) \<Rightarrow> ('w, 'e, 'a) io \<Rightarrow> ('w, 'e, 'a) io" where
  "finally_drop drp m = (\<lambda>w. case m w of (r, w') \<Rightarrow> (r, drp w'))"

subsection \<open>Commands\<close>

record command =
  cmd_program :: string
  cmd_args :: "string list"
  cmd_envs :: "(string \<times> string) list"
  cmd_cwd :: "string option"

definition Command_new :: "string \<Rightarrow> command" where
  "Command_new program = \<lparr>cmd_program = program, cmd_args = [], cmd_envs = [], cmd_cwd = None\<rparr>"

definition with_args :: "string list \<Rightarrow> command \<Rightarrow> command" where
  "with_args as cmd = cmd\<lparr>cmd_args := cmd_args cmd @ as\<rparr>"

definition with_env :: "string \<Rightarrow> string \<Rightarrow> command \<Rightarrow> command" where
  "with_env key v cmd = cmd\<lparr>cmd_envs := cmd_envs cmd @ [(key, v)]\<rparr>"

text \<open>What a child process sees: the last setting of a variable, else the inherited one.\<close>

definition child_env :: "(string \<rightharpoonup> string) \<Rightarrow> command \<Rightarrow> string \<Rightarrow> string option" where
  "child_env env cmd key = option_or (map_of (rev (cmd_envs cmd)) key) (env key)"

section \<open>Lemmas\<close>

lemma io_bind_eq:
  "io_bind m f w = (case m w of (Inl e, w') \<Rightarrow> (Inl e, w') | (Inr a, w') \<Rightarrow> f a w')"
  by (simp add: io_bind_def)

lemma io_bind_InrD:
  "io_bind m f w = (Inr b, w') \<Longrightarrow> \<exists>a w1. m w = (Inr a, w1) \<and> f a w1 = (Inr b, w')"
  by (auto simp: io_bind_def split: prod.splits sum.splits)

lemma option_or_eq: "option_or x y = (case x of Some a \<Rightarrow> Some a | None \<Rightarrow> y)"
  by (simp add: option_or_def split: option.splits)

lemma io_bind_InlD: "io_bind m f s = (Inl e, s') \<Longrightarrow> m s = (Inl e, s') \<or> (\<exists>a s1. m s = (Inr a, s1) \<and> f a s1 = (Inl e, s'))"
  by (auto simp: io_bind_def split: prod.splits sum.splits)

lemma valid_utf8_join:
  assumes "valid_utf8 (as_bytes d)" "valid_utf8 (as_bytes p)"
  shows "valid_utf8 (as_bytes (path_join d p))"
proof -
  have "valid_utf8 (as_bytes ''/'')" by (rule valid_utf8_ascii) (simp add: as_bytes_def)
  then have "valid_utf8 (as_bytes ''/'' @ as_bytes p)" using assms(2) by (rule valid_utf8_append)
  then show ?thesis
    using assms valid_utf8_append by (auto simp: path_join_def as_bytes_def)
qed

lemma env_var_ascii: "env k = Some v \<Longrightarrow> \<forall>c \<in> set v. of_char c < (128 :: nat) \<Longrightarrow> env_var env k = Some v"
proof -
  assume e: "env k = Some v" and a: "\<forall>c \<in> set v. of_char c < (128 :: nat)"
  have "(of_nat (of_char c) :: u8) < 0x80" if "(of_char c :: nat) < 128" for c
    using that by (simp add: word_less_nat_alt unat_of_nat)
  then have "valid_utf8 (as_bytes v)" using a by (intro valid_utf8_ascii) (auto simp: as_bytes_def)
  with e show ?thesis by (simp add: env_var_def)
qed

end
