(* ===== verification/ElfUuid.thy ===== *)
theory ElfUuid
  imports TaHeaderTable Plugin
begin

text \<open>
  Reading the UUID of a trusted application or of a plugin out of its ELF image,
  \<^verbatim>\<open>tools/cargo-optee/src/elf_uuid.rs\<close>.  The \<^verbatim>\<open>goblin\<close> crate that parses the image is the
  parameter \<open>parse\<close>; its result is the record \<open>elf\<close> with the fields that the tool uses.
  An error records which message is built; the text and the path in it are not modelled.
\<close>

section \<open>Definitions\<close>

subsection \<open>The parsed image\<close>

record elf_sym =
  st_name :: nat
  st_bind :: u8
  st_type :: u8
  st_shndx :: nat
  st_value :: u64
  st_size :: u64

record program_header =
  p_type :: u32
  p_offset :: u64
  p_vaddr :: u64
  p_filesz :: u64
  p_memsz :: u64

record elf =
  elf_little_endian :: bool
  elf_e_type :: u16
  elf_e_machine :: u16
  elf_class :: u8
  elf_is_64 :: bool
  elf_dynsyms :: "elf_sym list"
  elf_dynstrtab :: "nat \<rightharpoonup> string"
  elf_syms :: "elf_sym list"
  elf_strtab :: "nat \<rightharpoonup> string"
  elf_program_headers :: "program_header list"

definition ET_DYN :: u16 where [raw_consts]: "ET_DYN = 3"
definition EM_ARM :: u16 where [raw_consts]: "EM_ARM = 40"
definition EM_AARCH64 :: u16 where [raw_consts]: "EM_AARCH64 = 183"
definition ELFCLASS32 :: u8 where [raw_consts]: "ELFCLASS32 = 1"
definition ELFCLASS64 :: u8 where [raw_consts]: "ELFCLASS64 = 2"
definition PT_LOAD :: u32 where [raw_consts]: "PT_LOAD = 1"
definition STB_GLOBAL :: u8 where [raw_consts]: "STB_GLOBAL = 1"
definition STB_WEAK :: u8 where [raw_consts]: "STB_WEAK = 2"
definition STT_NOTYPE :: u8 where [raw_consts]: "STT_NOTYPE = 0"
definition STT_OBJECT :: u8 where [raw_consts]: "STT_OBJECT = 1"

datatype elf_error =
    ReadFailed
  | NoMagic
  | ParseFailed
  | BadEndianness
  | BadType u16
  | BadTarget u16 u8 bool
  | NotExported string
  | NotFound string
  | WrongSymbolType string u8
  | Undersized string u64 u64
  | AddressOverflow u64
  | LoadOverflow u64 u64
  | InBss u64
  | OffsetOverflow u64
  | RangeOverflow u64
  | OutsideFile nat nat
  | NotLoaded u64
  | BadLength nat

subsection \<open>The tool\<close>

definition TEE_UUID_SIZE :: nat where
  "TEE_UUID_SIZE = 16"

definition checked_add_u64 :: "u64 \<Rightarrow> u64 \<Rightarrow> u64 option" where
  "checked_add_u64 a b = (if unat a + unat b < 2 ^ 64 then Some (a + b) else None)"

definition parse_optee_elf :: "(bytes \<rightharpoonup> elf) \<Rightarrow> bytes \<Rightarrow> elf_error + elf" where
  "parse_optee_elf parse data =
     (if take 4 data \<noteq> [0x7F, 0x45, 0x4C, 0x46] then Inl NoMagic
      else try_bind (ok_or (parse data) ParseFailed) (\<lambda>elf.
        if \<not> elf_little_endian elf then Inl BadEndianness
        else if elf_e_type elf \<noteq> ET_DYN then Inl (BadType (elf_e_type elf))
        else if (elf_e_machine elf = EM_AARCH64 \<and> elf_class elf = ELFCLASS64 \<and> elf_is_64 elf) \<or>
                (elf_e_machine elf = EM_ARM \<and> elf_class elf = ELFCLASS32 \<and> \<not> elf_is_64 elf)
        then Inr elf
        else Inl (BadTarget (elf_e_machine elf) (elf_class elf) (elf_is_64 elf))))"

definition pointer_width :: "elf \<Rightarrow> u64" where
  "pointer_width elf = (if elf_is_64 elf then 8 else 4)"

definition exported_symbol :: "elf \<Rightarrow> string \<Rightarrow> elf_sym option" where
  "exported_symbol elf name =
     find (\<lambda>symb. elf_dynstrtab elf (st_name symb) = Some name \<and> st_shndx symb \<noteq> 0 \<and>
             (st_bind symb = STB_GLOBAL \<or> st_bind symb = STB_WEAK)) (elf_dynsyms elf)"

definition ensure_object :: "string \<Rightarrow> elf_sym \<Rightarrow> u64 \<Rightarrow> elf_error + unit" where
  "ensure_object name symb min_size =
     (if st_type symb \<noteq> STT_OBJECT \<and> st_type symb \<noteq> STT_NOTYPE then Inl (WrongSymbolType name (st_type symb))
      else if st_size symb \<noteq> 0 \<and> st_size symb < min_size then Inl (Undersized name (st_size symb) min_size)
      else Inr ())"

definition has_named_sym :: "elf \<Rightarrow> string \<Rightarrow> bool" where
  "has_named_sym elf name \<longleftrightarrow>
     list_ex (\<lambda>symb. elf_strtab elf (st_name symb) = Some name \<and> st_shndx symb \<noteq> 0) (elf_syms elf)"

text \<open>The loop over the loadable segments; \<open>end_va\<close> is the end of the requested range.\<close>

fun load_loop :: "bytes \<Rightarrow> u64 \<Rightarrow> u64 \<Rightarrow> nat \<Rightarrow> program_header list \<Rightarrow> elf_error + bytes" where
  "load_loop data va end_va sz [] = Inl (NotLoaded va)"
| "load_loop data va end_va sz (ph # phs) =
     (case checked_add_u64 (p_vaddr ph) (p_memsz ph) of
        None \<Rightarrow> Inl (LoadOverflow (p_vaddr ph) (p_memsz ph))
      | Some load_end \<Rightarrow>
          if va < p_vaddr ph \<or> load_end < end_va then load_loop data va end_va sz phs
          else case checked_add_u64 (p_vaddr ph) (p_filesz ph) of
              None \<Rightarrow> Inl (LoadOverflow (p_vaddr ph) (p_filesz ph))
            | Some file_end \<Rightarrow>
                if file_end < end_va then Inl (InBss va)
                else case checked_add_u64 (p_offset ph) (va - p_vaddr ph) of
                    None \<Rightarrow> Inl (OffsetOverflow va)
                  | Some off \<Rightarrow>
                      (case checked_add (unat off) sz of
                         None \<Rightarrow> Inl (RangeOverflow off)
                       | Some end_off \<Rightarrow>
                           if end_off \<le> length data then Inr (take sz (drop (unat off) data))
                           else Inl (OutsideFile (unat off) sz)))"

definition bytes_at_va :: "elf \<Rightarrow> bytes \<Rightarrow> u64 \<Rightarrow> nat \<Rightarrow> elf_error + bytes" where
  "bytes_at_va elf data va sz =
     try_bind (ok_or (checked_add_u64 va (of_nat sz)) (AddressOverflow va)) (\<lambda>end_va.
       load_loop data va end_va sz (filter (\<lambda>ph. p_type ph = PT_LOAD) (elf_program_headers elf)))"

definition tee_uuid :: "'u uuid_crate \<Rightarrow> bytes \<Rightarrow> elf_error + 'u" where
  "tee_uuid U bs = (if length bs = 16 then Inr (uc_from_bytes_le U bs) else Inl (BadLength (length bs)))"

definition symbol_or_error :: "elf \<Rightarrow> string \<Rightarrow> elf_error + elf_sym" where
  "symbol_or_error elf name =
     ok_or (exported_symbol elf name) (if has_named_sym elf name then NotExported name else NotFound name)"

definition read_ta_uuid_from_bytes :: "'u uuid_crate \<Rightarrow> (bytes \<rightharpoonup> elf) \<Rightarrow> bytes \<Rightarrow> elf_error + 'u" where
  "read_ta_uuid_from_bytes U parse data =
     try_bind (parse_optee_elf parse data) (\<lambda>elf.
     try_bind (symbol_or_error elf ''ta_head'') (\<lambda>symb.
     try_bind (ensure_object ''ta_head'' symb (of_nat TEE_UUID_SIZE)) (\<lambda>_.
     try_bind (bytes_at_va elf data (st_value symb) TEE_UUID_SIZE) (tee_uuid U))))"

definition read_plugin_uuid_from_bytes :: "'u uuid_crate \<Rightarrow> (bytes \<rightharpoonup> elf) \<Rightarrow> bytes \<Rightarrow> elf_error + 'u" where
  "read_plugin_uuid_from_bytes U parse data =
     try_bind (parse_optee_elf parse data) (\<lambda>elf.
     try_bind (symbol_or_error elf ''plugin_method'') (\<lambda>symb.
     let uuid_off = pointer_width elf in
     try_bind (ensure_object ''plugin_method'' symb (uuid_off + of_nat TEE_UUID_SIZE)) (\<lambda>_.
     try_bind (ok_or (checked_add_u64 (st_value symb) uuid_off) (AddressOverflow (st_value symb))) (\<lambda>va.
     try_bind (bytes_at_va elf data va TEE_UUID_SIZE) (tee_uuid U)))))"

text \<open>\<open>files\<close> is the content of each readable file.\<close>

definition read_ta_uuid ::
    "'u uuid_crate \<Rightarrow> (bytes \<rightharpoonup> elf) \<Rightarrow> (string \<rightharpoonup> bytes) \<Rightarrow> string \<Rightarrow> elf_error + 'u" where
  "read_ta_uuid U parse files path =
     try_bind (ok_or (files path) ReadFailed) (read_ta_uuid_from_bytes U parse)"

definition read_plugin_uuid ::
    "'u uuid_crate \<Rightarrow> (bytes \<rightharpoonup> elf) \<Rightarrow> (string \<rightharpoonup> bytes) \<Rightarrow> string \<Rightarrow> elf_error + 'u" where
  "read_plugin_uuid U parse files path =
     try_bind (ok_or (files path) ReadFailed) (read_plugin_uuid_from_bytes U parse)"

subsection \<open>The loader's view\<close>

text \<open>
  The bytes of a file-backed segment, as a loader maps them: the segment starts at
  \<^verbatim>\<open>p_vaddr\<close> with the bytes of the file from \<^verbatim>\<open>p_offset\<close>.
\<close>

definition segment_ok :: "bytes \<Rightarrow> program_header \<Rightarrow> bool" where
  "segment_ok data ph \<longleftrightarrow>
     unat (p_vaddr ph) + unat (p_memsz ph) < 2 ^ 64 \<and> unat (p_filesz ph) \<le> unat (p_memsz ph) \<and>
     unat (p_offset ph) + unat (p_filesz ph) \<le> length data"

definition loaded_at :: "bytes \<Rightarrow> program_header \<Rightarrow> nat \<Rightarrow> bytes \<Rightarrow> bool" where
  "loaded_at data ph va bs \<longleftrightarrow>
     unat (p_vaddr ph) \<le> va \<and> va + length bs \<le> unat (p_vaddr ph) + unat (p_filesz ph) \<and>
     take (length bs) (drop (unat (p_offset ph) + (va - unat (p_vaddr ph))) data) = bs"

text \<open>Loadable segments that are well-formed and do not overlap.\<close>

definition image_ok :: "elf \<Rightarrow> bytes \<Rightarrow> bool" where
  "image_ok elf data \<longleftrightarrow> length data < usize_modulus \<and>
     (let phs = filter (\<lambda>ph. p_type ph = PT_LOAD) (elf_program_headers elf) in
      (\<forall>ph \<in> set phs. segment_ok data ph) \<and>
      (\<forall>ph \<in> set phs. \<forall>ph' \<in> set phs. ph \<noteq> ph' \<longrightarrow>
         unat (p_vaddr ph) + unat (p_memsz ph) \<le> unat (p_vaddr ph') \<or>
         unat (p_vaddr ph') + unat (p_memsz ph') \<le> unat (p_vaddr ph)))"

text \<open>The layout of the two structures in a little-endian image.\<close>

definition TEE_UUID_image :: "TEE_UUID \<Rightarrow> bytes" where
  "TEE_UUID_image u = le_image (timeLow u, timeMid u, timeHiAndVersion u, clockSeqAndNode u)"

definition ta_head_image :: "ta_head \<Rightarrow> bytes" where
  "ta_head_image h =
     TEE_UUID_image (th_uuid h) @ le_bytes 4 (unat (th_stack_size h)) @ le_bytes 4 (unat (th_flags h)) @
     le_bytes 8 (unat (th_depr_entry h))"

definition TEEC_UUID_image :: "TEEC_UUID \<Rightarrow> bytes" where
  "TEEC_UUID_image u =
     le_image (teec_timeLow u, teec_timeMid u, teec_timeHiAndVersion u, teec_clockSeqAndNode u)"

text \<open>The three pointers are relocated when the image is loaded.\<close>

definition plugin_method_image :: "nat \<Rightarrow> (nat \<Rightarrow> bytes) \<Rightarrow> plugin_method \<Rightarrow> bytes" where
  "plugin_method_image width ptr m =
     take width (ptr 0) @ TEEC_UUID_image (pm_uuid m) @ take width (ptr 1) @ take width (ptr 2)"

section \<open>Lemmas\<close>

lemma checked_add_u64_Some_iff:
  "checked_add_u64 a b = Some c \<longleftrightarrow> unat a + unat b < 2 ^ 64 \<and> unat c = unat a + unat b"
proof -
  have "unat (a + b) = unat a + unat b" if "unat a + unat b < 2 ^ 64"
    using that by (simp add: unat_word_ariths)
  then show ?thesis by (auto simp: checked_add_u64_def word_unat_eq_iff)
qed

text \<open>What the loop returns lies in the file and in a loadable, file-backed segment.\<close>

lemma load_loop_Inr:
  assumes "load_loop data va end_va sz phs = Inr bs" and "unat end_va = unat va + sz"
  obtains ph where "ph \<in> set phs" and "unat (p_vaddr ph) \<le> unat va"
    and "unat va + sz \<le> unat (p_vaddr ph) + unat (p_filesz ph)"
    and "unat (p_offset ph) + (unat va - unat (p_vaddr ph)) + sz \<le> length data"
    and "bs = take sz (drop (unat (p_offset ph) + (unat va - unat (p_vaddr ph))) data)"
  using assms(1)
proof (induction phs arbitrary: thesis)
  case (Cons ph phs)
  obtain load_end where le: "checked_add_u64 (p_vaddr ph) (p_memsz ph) = Some load_end"
    using Cons.prems(2) by (auto split: option.splits)
  show ?case
  proof (cases "va < p_vaddr ph \<or> load_end < end_va")
    case True
    with le Cons.prems(2) have "load_loop data va end_va sz phs = Inr bs" by simp
    then show ?thesis using Cons.IH Cons.prems(1) by (metis list.set_intros(2))
  next
    case False
    from Cons.prems(2) le False obtain file_end off where
      fe: "checked_add_u64 (p_vaddr ph) (p_filesz ph) = Some file_end" "\<not> file_end < end_va"
      and off: "checked_add_u64 (p_offset ph) (va - p_vaddr ph) = Some off" "unat off + sz \<le> length data"
      and bs: "bs = take sz (drop (unat off) data)"
      by (auto split: option.splits if_splits)
    have v: "unat (p_vaddr ph) \<le> unat va" using False by (simp add: word_le_nat_alt not_less)
    then have "unat (va - p_vaddr ph) = unat va - unat (p_vaddr ph)" by (simp add: unat_sub word_le_nat_alt)
    with off have "unat off = unat (p_offset ph) + (unat va - unat (p_vaddr ph))"
      by (simp add: checked_add_u64_Some_iff)
    moreover have "unat va + sz \<le> unat (p_vaddr ph) + unat (p_filesz ph)"
      using fe assms(2) by (simp add: checked_add_u64_Some_iff word_less_nat_alt not_less)
    ultimately show ?thesis using Cons.prems(1)[of ph] v off(2) bs by simp
  qed
qed simp

text \<open>And conversely: what a loader would map there is what is returned.\<close>

lemma load_loop_loaded:
  assumes ok: "\<forall>ph \<in> set phs. segment_ok data ph" and len: "length data < usize_modulus"
    and dis: "\<forall>ph \<in> set phs. \<forall>ph' \<in> set phs. ph \<noteq> ph' \<longrightarrow>
         unat (p_vaddr ph) + unat (p_memsz ph) \<le> unat (p_vaddr ph') \<or>
         unat (p_vaddr ph') + unat (p_memsz ph') \<le> unat (p_vaddr ph)"
    and ph: "ph \<in> set phs" "loaded_at data ph (unat va) bs" and ne: "bs \<noteq> []"
    and e: "unat end_va = unat va + length bs"
  shows "load_loop data va end_va (length bs) phs = Inr bs"
  using ok dis ph(1)
proof (induction phs)
  case (Cons q phs)
  note L = ph(2)[unfolded loaded_at_def]
  have q: "segment_ok data q" using Cons.prems(1) by simp
  then obtain load_end where le: "checked_add_u64 (p_vaddr q) (p_memsz q) = Some load_end"
      "unat load_end = unat (p_vaddr q) + unat (p_memsz q)"
    using checked_add_u64_Some_iff[of "p_vaddr q" "p_memsz q"] by (auto simp: segment_ok_def checked_add_u64_def)
  show ?case
  proof (cases "q = ph")
    case True
    have s: "segment_ok data ph" using q True by simp
    have v: "\<not> va < p_vaddr ph" using L by (simp add: word_less_nat_alt)
    then have d: "unat (va - p_vaddr ph) = unat va - unat (p_vaddr ph)" by (simp add: unat_sub word_le_nat_alt not_less)
    obtain file_end where fe: "checked_add_u64 (p_vaddr ph) (p_filesz ph) = Some file_end"
        "unat file_end = unat (p_vaddr ph) + unat (p_filesz ph)"
      using s checked_add_u64_Some_iff[of "p_vaddr ph" "p_filesz ph"] by (auto simp: segment_ok_def checked_add_u64_def)
    have inside: "unat (p_offset ph) + (unat va - unat (p_vaddr ph)) + length bs \<le> length data"
      using s L by (auto simp: segment_ok_def)
    then obtain off where off: "checked_add_u64 (p_offset ph) (va - p_vaddr ph) = Some off"
        "unat off = unat (p_offset ph) + (unat va - unat (p_vaddr ph))"
      using d len checked_add_u64_Some_iff[of "p_offset ph" "va - p_vaddr ph"]
      by (auto simp: checked_add_u64_def usize_modulus_def)
    have "\<not> load_end < end_va" "\<not> file_end < end_va"
      using s L e le(2) fe(2) True by (auto simp: segment_ok_def word_less_nat_alt)
    moreover have t: "take (length bs) (drop (unat off) data) = bs" "unat off + length bs \<le> length data"
      using L inside unfolding off(2) by auto
    ultimately show ?thesis
      using True v le(1) fe(1) off(1) len by (simp add: checked_add_def)
  next
    case False
    have "va < p_vaddr q \<or> load_end < end_va"
    proof -
      have "segment_ok data ph" using Cons.prems(1,3) by blast
      moreover have "unat (p_vaddr q) + unat (p_memsz q) \<le> unat (p_vaddr ph) \<or>
          unat (p_vaddr ph) + unat (p_memsz ph) \<le> unat (p_vaddr q)"
        using Cons.prems(2,3) False by (metis list.set_intros(1))
      moreover have "0 < length bs" using ne by simp
      ultimately show ?thesis
        using L e le(2) unfolding segment_ok_def word_less_nat_alt by linarith
    qed
    with le Cons False show ?thesis by simp
  qed
qed simp

lemma bytes_at_va_loaded:
  assumes "image_ok elf data" and "ph \<in> set (elf_program_headers elf)" and "p_type ph = PT_LOAD"
    and "loaded_at data ph (unat va) bs" and "bs \<noteq> []"
  shows "bytes_at_va elf data va (length bs) = Inr bs"
proof -
  let ?phs = "filter (\<lambda>ph. p_type ph = PT_LOAD) (elf_program_headers elf)"
  have ph: "ph \<in> set ?phs" using assms(2,3) by simp
  note I = assms(1)[unfolded image_ok_def Let_def]
  from I ph have s: "segment_ok data ph" by blast
  then have bound: "unat va + length bs < 2 ^ 64"
    using assms(4) by (simp add: loaded_at_def segment_ok_def)
  then have u: "unat (of_nat (length bs) :: u64) = length bs" by (simp add: unat_of_nat)
  with bound obtain e where e: "checked_add_u64 va (of_nat (length bs)) = Some e" "unat e = unat va + length bs"
    using checked_add_u64_Some_iff[of va "of_nat (length bs)"] by (auto simp: checked_add_u64_def)
  have "load_loop data va e (length bs) ?phs = Inr bs"
    using I by (intro load_loop_loaded[OF _ _ _ ph assms(4,5) e(2)]) blast+
  with e show ?thesis by (simp add: bytes_at_va_def)
qed

text \<open>A part of what is loaded is loaded where it lies.\<close>

lemma loaded_at_part:
  assumes "loaded_at data ph va (as @ bs @ cs)"
  shows "loaded_at data ph (va + length as) bs"
proof -
  define r where "r = drop (unat (p_offset ph) + (va - unat (p_vaddr ph))) data"
  have v: "unat (p_vaddr ph) \<le> va"
    and f: "va + length as + length bs \<le> unat (p_vaddr ph) + unat (p_filesz ph)"
    and t: "take (length (as @ bs @ cs)) r = as @ bs @ cs"
    using assms unfolding loaded_at_def r_def by auto
  have o: "unat (p_offset ph) + (va + length as - unat (p_vaddr ph)) =
      length as + (unat (p_offset ph) + (va - unat (p_vaddr ph)))"
    using v by simp
  have "take (length bs) (drop (length as) (take (length (as @ bs @ cs)) r)) = bs"
    unfolding t by simp
  then have "take (length bs) (drop (length as) r) = bs"
    by (simp add: drop_take)
  then have "take (length bs) (drop (unat (p_offset ph) + (va + length as - unat (p_vaddr ph))) data) = bs"
    unfolding o r_def by simp
  with v f show ?thesis unfolding loaded_at_def by simp
qed

lemma length_le_image: "length cs = 8 \<Longrightarrow> length (le_image (t0, t1, t2, cs)) = 16"
  by simp

text \<open>Reading the UUID fields that an image holds, at any address.\<close>

lemma tee_uuid_loaded:
  assumes U: "uuid_crate_ok U" and I: "image_ok elf data"
    and ph: "ph \<in> set (elf_program_headers elf)" "p_type ph = PT_LOAD"
    and l: "loaded_at data ph (unat va) (le_image (t0, t1, t2, cs))" and cs: "length cs = 8"
  shows "\<exists>u. try_bind (bytes_at_va elf data va TEE_UUID_SIZE) (tee_uuid U) = Inr u \<and> uc_as_fields U u = (t0, t1, t2, cs)"
proof -
  let ?bs = "le_image (t0, t1, t2, cs)"
  have len: "length ?bs = 16" by (rule length_le_image[OF cs])
  then have "?bs \<noteq> []" by auto
  from bytes_at_va_loaded[OF I ph l this] len have "bytes_at_va elf data va TEE_UUID_SIZE = Inr ?bs"
    by (simp add: TEE_UUID_SIZE_def del: le_image.simps)
  moreover have "uc_as_fields U (uc_from_bytes_le U ?bs) = (t0, t1, t2, cs)"
    using uuid_crate_okD(4)[OF U len] cs by (simp del: le_image.simps)
  ultimately show ?thesis using len by (simp add: tee_uuid_def del: le_image.simps)
qed

section \<open>Properties\<close>

text \<open>
  C14.  The UUID that a build script was given is the UUID that the tool finds in the
  linked application.  The script makes a configuration from the text of a UUID and changes
  it in any way but for the UUID; the generator makes the header; the linker places the
  header, exported under its name, into a loadable segment of a well-formed ARM or AArch64
  image.  Then the tool returns a UUID with the fields of the text.
\<close>

theorem ta_uuid_round_trip:
  assumes U: "uuid_crate_ok U" and b: "length b = 16"
    and conf: "TaConfig_new_default U (hyphenated b) version description = Inr conf0" "tc_uuid conf = tc_uuid conf0"
    and gen: "HeaderFileGenerator_generate U checks conf = Returns (Inr items)" and head: "head_of items = Some h"
    and elf: "parse_optee_elf parse data = Inr elf" "exported_symbol elf ''ta_head'' = Some symb"
      "ensure_object ''ta_head'' symb 16 = Inr ()"
    and I: "image_ok elf data" and ph: "ph \<in> set (elf_program_headers elf)" "p_type ph = PT_LOAD"
    and l: "loaded_at data ph (unat (st_value symb)) (ta_head_image h)"
  shows "\<exists>u. read_ta_uuid_from_bytes U parse data = Inr u \<and> uc_as_fields U u = be_fields b"
proof -
  obtain t0 t1 t2 cs where f: "be_fields b = (t0, t1, t2, cs)" "length cs = 8"
    using b by (simp add: be_fields_def)
  have "tc_uuid conf = uc_from_bytes U b"
    using conf uuid_crate_okD(1)[OF U b] by (auto simp: TaConfig_new_default_def)
  then have a: "uc_as_fields U (tc_uuid conf) = (t0, t1, t2, cs)" using uuid_crate_okD(3)[OF U b] f by simp
  obtain s where items: "items = header_items U conf s" using gen by (auto simp: generate_eq split: outcome.splits)
  from head have "th_uuid h = tee_uuid_value U (tc_uuid conf)"
    by (auto simp: items head_of_def header_statics const_u32_def header_consts)
  then have "ta_head_image h = [] @ le_image (t0, t1, t2, cs) @ (le_bytes 4 (unat (th_stack_size h)) @
      le_bytes 4 (unat (th_flags h)) @ le_bytes 8 (unat (th_depr_entry h)))"
    using a by (simp add: ta_head_image_def TEE_UUID_image_def tee_uuid_value_def del: le_image.simps)
  then have "loaded_at data ph (unat (st_value symb)) (le_image (t0, t1, t2, cs))"
    using loaded_at_part l by (metis add_0_right list.size(3))
  from tee_uuid_loaded[OF U I ph this f(2)] elf show ?thesis
    by (simp add: read_ta_uuid_from_bytes_def symbol_or_error_def TEE_UUID_SIZE_def f(1))
qed

definition sample_image :: "bytes \<Rightarrow> bytes" where
  "sample_image bs = [0x7F, 0x45, 0x4C, 0x46] @ bs"

definition sample_elf :: "string \<Rightarrow> bytes \<Rightarrow> elf" where
  "sample_elf name bs =
     \<lparr>elf_little_endian = True, elf_e_type = ET_DYN, elf_e_machine = EM_AARCH64, elf_class = ELFCLASS64, elf_is_64 = True,
      elf_dynsyms = [\<lparr>st_name = 1, st_bind = STB_GLOBAL, st_type = STT_OBJECT, st_shndx = 5, st_value = 0x1000, st_size = 0\<rparr>],
      elf_dynstrtab = [1 \<mapsto> name], elf_syms = [], elf_strtab = Map.empty,
      elf_program_headers = [\<lparr>p_type = PT_LOAD, p_offset = 4, p_vaddr = 0x1000, p_filesz = of_nat (length bs), p_memsz = of_nat (length bs)\<rparr>]\<rparr>"

lemma sample_elf_ok:
  assumes "0 < length bs" and "length bs < 64"
  defines "ph \<equiv> \<lparr>p_type = PT_LOAD, p_offset = 4, p_vaddr = 0x1000, p_filesz = of_nat (length bs), p_memsz = of_nat (length bs)\<rparr>"
  shows "parse_optee_elf (\<lambda>_. Some (sample_elf name bs)) (sample_image bs) = Inr (sample_elf name bs)"
    and "image_ok (sample_elf name bs) (sample_image bs)"
    and "ph \<in> set (elf_program_headers (sample_elf name bs))" and "p_type ph = PT_LOAD"
    and "loaded_at (sample_image bs) ph (unat (0x1000 :: u64)) bs"
proof -
  have u: "unat (of_nat (length bs) :: u64) = length bs" using assms(2) by (simp add: unat_of_nat)
  show "parse_optee_elf (\<lambda>_. Some (sample_elf name bs)) (sample_image bs) = Inr (sample_elf name bs)"
    by (simp add: parse_optee_elf_def sample_image_def sample_elf_def)
  show "image_ok (sample_elf name bs) (sample_image bs)"
    using assms(2) u by (simp add: image_ok_def sample_elf_def segment_ok_def sample_image_def usize_modulus_def Let_def)
  show "ph \<in> set (elf_program_headers (sample_elf name bs))" "p_type ph = PT_LOAD"
    by (simp_all add: ph_def sample_elf_def)
  show "loaded_at (sample_image bs) ph (unat (0x1000 :: u64)) bs"
    using u by (simp add: loaded_at_def ph_def sample_image_def)
qed

theorem ta_uuid_round_trip_witness:
  "\<exists>data u. read_ta_uuid_from_bytes uuid_ref (\<lambda>_. Some (sample_elf ''ta_head'' (drop 4 data))) data = Inr u \<and>
     uc_as_fields uuid_ref u = be_fields (map of_nat [0..<16])"
proof -
  let ?b = "map of_nat [0..<16] :: bytes"
  have b: "length ?b = 16" by simp
  obtain conf where conf: "TaConfig_new_default uuid_ref (hyphenated ?b) ''1'' ''d'' = Inr conf"
    using uuid_crate_okD(1)[OF uuid_ref_ok b] by (simp add: TaConfig_new_default_def)
  obtain items where gen: "HeaderFileGenerator_generate uuid_ref False conf = Returns (Inr items)"
    by (simp add: generate_eq add_u32_def)
  then obtain s where items: "items = header_items uuid_ref conf s" by (auto simp: generate_eq split: outcome.splits)
  then obtain h where head: "head_of items = Some h" "th_uuid h = tee_uuid_value uuid_ref (tc_uuid conf)"
    by (simp add: head_of_def header_statics const_u32_def header_consts)
  have "tc_uuid conf = uc_from_bytes uuid_ref ?b"
    using conf uuid_crate_okD(1)[OF uuid_ref_ok b] by (auto simp: TaConfig_new_default_def)
  then have len: "length (ta_head_image h) = 32"
    using uuid_crate_okD(3)[OF uuid_ref_ok b]
    by (simp add: ta_head_image_def TEE_UUID_image_def head(2) tee_uuid_value_def be_fields_def)
  then have l: "0 < length (ta_head_image h)" "length (ta_head_image h) < 64" by simp_all
  have sy: "exported_symbol (sample_elf ''ta_head'' (ta_head_image h)) ''ta_head'' =
      Some \<lparr>st_name = 1, st_bind = STB_GLOBAL, st_type = STT_OBJECT, st_shndx = 5, st_value = 0x1000, st_size = 0\<rparr>"
    by (simp add: exported_symbol_def sample_elf_def)
  have eo: "ensure_object ''ta_head'' \<lparr>st_name = 1, st_bind = STB_GLOBAL, st_type = STT_OBJECT, st_shndx = 5,
      st_value = 0x1000, st_size = 0\<rparr> 16 = Inr ()"
    by (simp add: ensure_object_def)
  note S = sample_elf_ok[OF l]
  have "\<exists>u. read_ta_uuid_from_bytes uuid_ref (\<lambda>_. Some (sample_elf ''ta_head'' (ta_head_image h)))
      (sample_image (ta_head_image h)) = Inr u \<and> uc_as_fields uuid_ref u = be_fields ?b"
    by (rule ta_uuid_round_trip[OF uuid_ref_ok b conf refl gen head(1) S(1) sy eo S(2-4)]) (use S(5) in simp)
  moreover have "drop 4 (sample_image (ta_head_image h)) = ta_head_image h" by (simp add: sample_image_def)
  ultimately show ?thesis by metis
qed

text \<open>
  The UUID that a plugin's build script was given is the UUID that the tool finds in
  the linked plugin, behind the name pointer, whose width is that of the image.
\<close>

lemma plugin_uuid_round_trip:
  assumes U: "uuid_crate_ok U" and b: "length b = 16" and conf: "pc_uuid conf = uc_from_bytes U b"
    and gen: "generate_binding U ident (pc_name conf) (pc_uuid conf) (pc_init_fn_name conf) (pc_invoke_fn_name conf) = Returns m"
    and elf: "parse_optee_elf parse data = Inr elf" "exported_symbol elf ''plugin_method'' = Some symb"
      "ensure_object ''plugin_method'' symb (pointer_width elf + 16) = Inr ()"
    and I: "image_ok elf data" and ph: "ph \<in> set (elf_program_headers elf)" "p_type ph = PT_LOAD"
    and ptr: "length (ptr 0) = unat (pointer_width elf)"
    and l: "loaded_at data ph (unat (st_value symb)) (plugin_method_image (unat (pointer_width elf)) ptr m)"
  shows "\<exists>u. read_plugin_uuid_from_bytes U parse data = Inr u \<and> uc_as_fields U u = be_fields b"
proof -
  obtain t0 t1 t2 cs where f: "be_fields b = (t0, t1, t2, cs)" "length cs = 8"
    using b by (simp add: be_fields_def)
  have a: "uc_as_fields U (pc_uuid conf) = (t0, t1, t2, cs)" using uuid_crate_okD(3)[OF U b] f conf by simp
  let ?w = "unat (pointer_width elf)"
  from gen a have "TEEC_UUID_image (pm_uuid m) = le_image (t0, t1, t2, cs)"
    by (auto simp: generate_binding_def TEEC_UUID_image_def simp del: le_image.simps split: if_splits)
  with ptr l have "loaded_at data ph (unat (st_value symb)) (ptr 0 @ le_image (t0, t1, t2, cs) @ (take ?w (ptr 1) @ take ?w (ptr 2)))"
    by (simp add: plugin_method_image_def del: le_image.simps)
  from loaded_at_part[OF this] ptr have l': "loaded_at data ph (unat (st_value symb) + ?w) (le_image (t0, t1, t2, cs))"
    by simp
  from I ph have s: "segment_ok data ph" by (auto simp: image_ok_def Let_def)
  have "unat (st_value symb) + ?w < 2 ^ 64"
    using s l' by (auto simp: segment_ok_def loaded_at_def simp del: le_image.simps)
  then obtain va where va: "checked_add_u64 (st_value symb) (pointer_width elf) = Some va" "unat va = unat (st_value symb) + ?w"
    using checked_add_u64_Some_iff[of "st_value symb" "pointer_width elf"] by (auto simp: checked_add_u64_def)
  from tee_uuid_loaded[OF U I ph _ f(2), of va t0 t1 t2] l' va elf show ?thesis
    by (simp add: read_plugin_uuid_from_bytes_def symbol_or_error_def TEE_UUID_SIZE_def f(1) Let_def del: le_image.simps)
qed

lemma plugin_uuid_round_trip_witness:
  "\<exists>data u. read_plugin_uuid_from_bytes uuid_ref (\<lambda>_. Some (sample_elf ''plugin_method'' (drop 4 data))) data = Inr u \<and>
     uc_as_fields uuid_ref u = be_fields (map of_nat [0..<16])"
proof -
  let ?b = "map of_nat [0..<16] :: bytes"
  let ?c = "PluginConfig_with_name ''p'' (PluginConfig_new (uc_from_bytes uuid_ref ?b))"
  let ?ptr = "\<lambda>_ :: nat. replicate 8 0 :: bytes"
  have b: "length ?b = 16" by simp
  have c: "pc_uuid ?c = uc_from_bytes uuid_ref ?b" by (simp add: PluginConfig_with_name_def PluginConfig_new_def)
  obtain t0 t1 t2 cs where "uc_as_fields uuid_ref (pc_uuid ?c) = (t0, t1, t2, cs)" by (metis prod_cases4)
  then obtain m where gen: "generate_binding uuid_ref (\<lambda>_. True) (pc_name ?c) (pc_uuid ?c) (pc_init_fn_name ?c) (pc_invoke_fn_name ?c) = Returns m"
    by (simp add: generate_binding_def)
  define bs where "bs = plugin_method_image 8 ?ptr m"
  have "length bs = 40"
    using gen uuid_crate_okD(3)[OF uuid_ref_ok b] c
    by (auto simp: bs_def plugin_method_image_def generate_binding_def TEEC_UUID_image_def be_fields_def)
  then have l: "0 < length bs" "length bs < 64" by simp_all
  let ?e = "sample_elf ''plugin_method'' bs"
  have w: "pointer_width ?e = 8" by (simp add: pointer_width_def sample_elf_def)
  have sy: "exported_symbol ?e ''plugin_method'' =
      Some \<lparr>st_name = 1, st_bind = STB_GLOBAL, st_type = STT_OBJECT, st_shndx = 5, st_value = 0x1000, st_size = 0\<rparr>"
    by (simp add: exported_symbol_def sample_elf_def)
  have eo: "ensure_object ''plugin_method'' \<lparr>st_name = 1, st_bind = STB_GLOBAL, st_type = STT_OBJECT, st_shndx = 5,
      st_value = 0x1000, st_size = 0\<rparr> (pointer_width ?e + 16) = Inr ()"
    by (simp add: ensure_object_def)
  note S = sample_elf_ok[OF l]
  have "\<exists>u. read_plugin_uuid_from_bytes uuid_ref (\<lambda>_. Some ?e) (sample_image bs) = Inr u \<and>
      uc_as_fields uuid_ref u = be_fields ?b"
    by (rule plugin_uuid_round_trip[OF uuid_ref_ok b c gen S(1) sy eo S(2-4), of ?ptr])
      (use S(5) in \<open>simp_all add: w bs_def[symmetric]\<close>)
  moreover have "drop 4 (sample_image bs) = bs" by (simp add: sample_image_def)
  ultimately show ?thesis by metis
qed

definition reads_from :: "'u uuid_crate \<Rightarrow> elf \<Rightarrow> bytes \<Rightarrow> string \<Rightarrow> nat \<Rightarrow> 'u \<Rightarrow> bool" where
  "reads_from U elf data name skip u \<longleftrightarrow>
     elf_little_endian elf \<and> elf_e_type elf = ET_DYN \<and>
     (\<exists>symb ph bs. symb \<in> set (elf_dynsyms elf) \<and> elf_dynstrtab elf (st_name symb) = Some name \<and> st_shndx symb \<noteq> 0 \<and>
        (st_size symb = 0 \<or> skip + 16 \<le> unat (st_size symb)) \<and>
        ph \<in> set (elf_program_headers elf) \<and> p_type ph = PT_LOAD \<and> length bs = 16 \<and>
        loaded_at data ph (unat (st_value symb) + skip) bs \<and> u = uc_from_bytes_le U bs)"

lemma parse_optee_elf_Inr:
  "parse_optee_elf parse data = Inr elf \<Longrightarrow> parse data = Some elf \<and> elf_little_endian elf \<and> elf_e_type elf = ET_DYN"
  by (auto simp: parse_optee_elf_def try_bind_eq_Inr_iff ok_or_def split: if_splits option.splits)

lemma symbol_or_error_Inr:
  "symbol_or_error elf name = Inr symb \<Longrightarrow>
     symb \<in> set (elf_dynsyms elf) \<and> elf_dynstrtab elf (st_name symb) = Some name \<and> st_shndx symb \<noteq> 0"
  by (auto simp: symbol_or_error_def ok_or_def exported_symbol_def find_Some_iff split: option.splits)

lemma ensure_object_Inr: "ensure_object name symb n = Inr () \<Longrightarrow> st_size symb = 0 \<or> n \<le> st_size symb"
  by (auto simp: ensure_object_def not_less split: if_splits)

lemma bytes_at_va_Inr:
  assumes "try_bind (bytes_at_va elf data va TEE_UUID_SIZE) (tee_uuid U) = Inr u"
  obtains ph bs where "ph \<in> set (elf_program_headers elf)" and "p_type ph = PT_LOAD" and "length bs = 16"
    and "loaded_at data ph (unat va) bs" and "u = uc_from_bytes_le U bs"
proof -
  from assms obtain bs where bs: "bytes_at_va elf data va 16 = Inr bs" "length bs = 16" "u = uc_from_bytes_le U bs"
    by (auto simp: try_bind_eq_Inr_iff tee_uuid_def TEE_UUID_SIZE_def split: if_splits)
  then obtain e where e: "checked_add_u64 va 16 = Some e"
      "load_loop data va e 16 (filter (\<lambda>ph. p_type ph = PT_LOAD) (elf_program_headers elf)) = Inr bs"
    by (auto simp: bytes_at_va_def try_bind_eq_Inr_iff ok_or_def split: option.splits)
  then have "unat e = unat va + 16" by (simp add: checked_add_u64_Some_iff)
  then show ?thesis
  proof (rule load_loop_Inr[OF e(2)])
    fix ph
    assume A: "ph \<in> set (filter (\<lambda>ph. p_type ph = PT_LOAD) (elf_program_headers elf))"
      "unat (p_vaddr ph) \<le> unat va" "unat va + 16 \<le> unat (p_vaddr ph) + unat (p_filesz ph)"
      "bs = take 16 (drop (unat (p_offset ph) + (unat va - unat (p_vaddr ph))) data)"
    then have "loaded_at data ph (unat va) bs" unfolding loaded_at_def bs(2) by simp
    with A(1) bs(2,3) show thesis by (intro that[of ph bs]) simp_all
  qed
qed



end
