(* ===== verification/CargoConfig.thy ===== *)
theory CargoConfig
  imports HostStd ElfUuid
begin

text \<open>
  The configuration of the build tool: \<^verbatim>\<open>tools/cargo-optee/src/config.rs\<close>, the target table and the
  path helpers of \<^verbatim>\<open>common.rs\<close>, and the argument types and the environment parser of \<^verbatim>\<open>cli.rs\<close>.

  What the operating system and \<^verbatim>\<open>cargo metadata\<close> answer is the record \<open>os_query\<close> over an opaque world.
  Messages on the terminal are not modelled.
\<close>

section \<open>Definitions\<close>

subsection \<open>JSON\<close>

text \<open>\<^verbatim>\<open>serde_json::Value\<close>; a number is its text.\<close>

datatype json =
    JNull
  | JBool bool
  | JNumber string
  | JString string
  | JArray "json list"
  | JObject "(string \<times> json) list"

fun json_get :: "json \<Rightarrow> string \<Rightarrow> json option" where
  "json_get (JObject m) key = map_of m key"
| "json_get v key = None"

fun json_str :: "json \<Rightarrow> string option" where
  "json_str (JString s) = Some s"
| "json_str v = None"

fun json_bool :: "json \<Rightarrow> bool option" where
  "json_bool (JBool b) = Some b"
| "json_bool v = None"

fun json_array :: "json \<Rightarrow> json list option" where
  "json_array (JArray vs) = Some vs"
| "json_array v = None"

definition json_is_string :: "json \<Rightarrow> bool" where
  "json_is_string v \<longleftrightarrow> json_str v \<noteq> None"

subsection \<open>Errors, the operating system\<close>

datatype tool_error =
    ManifestMissing string
  | MetadataFailed
  | NoPackage string
  | UuidPathUnsupported string
  | ArchNotString
  | InvalidArch string
  | NotBoolean string
  | DevKitUnset
  | ClientExportUnset
  | DoesNotExist string string
  | NotADirectory string string
  | NotAFile string string
  | NoTarget
  | ProjectDirectory string
  | CurrentDirectory
  | InvalidManifestPath
  | SpawnFailed string
  | ExitStatus string "int option"
  | WaitFailed
  | MessageStream
  | NoArtifact string
  | MultipleArtifacts "string list"
  | ToolchainMissing "string list"
  | NoFileName string
  | NoParent string
  | TempFileFailed string
  | TempDirFailed
  | WriteFailed string
  | ReadUuid elf_error
  | SigningKeyMissing string
  | PublishFailed string string
  | PermissionsFailed string
  | InstallDirMissing string
  | CopyFailed string string
  | RemoveFailed string
  | SourceRootUnset
  | SourceRootMissing string
  | OutputFailed

text \<open>
  The packages that \<^verbatim>\<open>cargo metadata\<close> lists, each with the path of its manifest and its metadata
  table, and the package that \<^verbatim>\<open>root_package\<close> picks.
\<close>

record cargo_metadata =
  cm_packages :: "(string \<times> json) list"
  cm_root :: "(string \<times> json) option"

record 'w os_query =
  os_exists :: "string \<Rightarrow> 'w \<Rightarrow> bool"
  os_is_dir :: "string \<Rightarrow> 'w \<Rightarrow> bool"
  os_is_file :: "string \<Rightarrow> 'w \<Rightarrow> bool"
  os_canonicalize :: "string \<Rightarrow> 'w \<Rightarrow> string option"
  os_current_dir :: "'w \<Rightarrow> string option"
  os_cargo_metadata :: "string \<Rightarrow> 'w \<Rightarrow> cargo_metadata option"

subsection \<open>Architectures and targets\<close>

datatype Arch = Aarch64 | Arm

definition Arch_from_str :: "string \<Rightarrow> tool_error + Arch" where
  "Arch_from_str s =
     (let l = ascii_lower s in
      if l = ''aarch64'' \<or> l = ''arm64'' then Inr Aarch64
      else if l = ''arm'' \<or> l = ''arm32'' then Inr Arm
      else Inl (InvalidArch s))"

datatype BuildMode = Mode_Ca | Mode_TaStd | Mode_TaNoStd

definition TARGET_CONFIGS :: "(Arch \<times> BuildMode \<times> string \<times> string) list" where
  "TARGET_CONFIGS =
    [(Arm, Mode_Ca, ''arm-unknown-linux-gnueabihf'', ''arm-linux-gnueabihf-''),
     (Arm, Mode_TaNoStd, ''arm-unknown-linux-gnueabihf'', ''arm-linux-gnueabihf-''),
     (Arm, Mode_TaStd, ''arm-unknown-optee'', ''arm-linux-gnueabihf-''),
     (Aarch64, Mode_Ca, ''aarch64-unknown-linux-gnu'', ''aarch64-linux-gnu-''),
     (Aarch64, Mode_TaNoStd, ''aarch64-unknown-linux-gnu'', ''aarch64-linux-gnu-''),
     (Aarch64, Mode_TaStd, ''aarch64-unknown-optee'', ''aarch64-linux-gnu-'')]"

definition get_target_and_cross_compile :: "Arch \<Rightarrow> BuildMode \<Rightarrow> tool_error + string \<times> string" where
  "get_target_and_cross_compile arch mode =
     (case find (\<lambda>(config_arch, config_mode, _, _). config_arch = arch \<and> config_mode = mode) TARGET_CONFIGS of
        Some (_, _, target, cross_compile_prefix) \<Rightarrow> Inr (target, cross_compile_prefix)
      | None \<Rightarrow> Inl NoTarget)"

definition resolve_target_and_cross_compile_with ::
    "Arch \<Rightarrow> BuildMode \<Rightarrow> string option \<Rightarrow> tool_error + string \<times> string" where
  "resolve_target_and_cross_compile_with arch mode cross_compile_override =
     try_bind (get_target_and_cross_compile arch mode) (\<lambda>(target, default_cc).
       Inr (target, case cross_compile_override of Some cc \<Rightarrow> cc | None \<Rightarrow> default_cc))"

definition resolve_target_and_cross_compile ::
    "(string \<rightharpoonup> string) \<Rightarrow> Arch \<Rightarrow> BuildMode \<Rightarrow> tool_error + string \<times> string" where
  "resolve_target_and_cross_compile env arch mode =
     resolve_target_and_cross_compile_with arch mode
       (case env_var env ''CROSS_COMPILE'' of Some s \<Rightarrow> if s \<noteq> [] then Some s else None | None \<Rightarrow> None)"

subsection \<open>Directories\<close>

definition absolute_dir :: "('w, 'z) os_query_scheme \<Rightarrow> string \<Rightarrow> 'w \<Rightarrow> tool_error + string" where
  "absolute_dir Q path w = ok_or (os_canonicalize Q path w) (ProjectDirectory path)"

definition manifest_path :: "string \<Rightarrow> string" where
  "manifest_path project_dir = path_join project_dir ''Cargo.toml''"

definition absolute_from_cwd :: "('w, 'z) os_query_scheme \<Rightarrow> string \<Rightarrow> 'w \<Rightarrow> tool_error + string" where
  "absolute_from_cwd Q dir w =
     (if path_is_absolute dir then Inr dir
      else try_bind (ok_or (os_current_dir Q w) CurrentDirectory) (\<lambda>cwd. Inr (path_join cwd dir)))"

fun join_segments :: "string \<Rightarrow> string list \<Rightarrow> string" where
  "join_segments path [] = path"
| "join_segments path (segment # segments) = join_segments (path_join path segment) segments"

definition join_and_check ::
    "('w, 'z) os_query_scheme \<Rightarrow> string \<Rightarrow> string list \<Rightarrow> string \<Rightarrow> 'w \<Rightarrow> tool_error + string" where
  "join_and_check Q base segments error_context w =
     (let path = join_segments base segments in
      if \<not> os_exists Q path w then Inl (DoesNotExist error_context path) else Inr path)"

subsection \<open>Arguments\<close>

text \<open>\<^verbatim>\<open>cli::parse_env_var\<close>; \<open>None\<close> is its error.\<close>

definition parse_env_var :: "string \<Rightarrow> (string \<times> string) option" where
  "parse_env_var s = str_split_once (CHR ''='') s"

record CommonBuildArgs =
  ca_manifest_path :: "string option"
  ca_arch :: "Arch option"
  ca_debug :: bool
  ca_env :: "(string \<times> string) list"
  ca_no_default_features :: bool
  ca_features :: "string option"

record TABuildArgs =
  ta_common :: CommonBuildArgs
  ta_std :: bool
  ta_no_std :: bool
  ta_ta_dev_kit_dir :: "string option"
  ta_signing_key :: "string option"

text \<open>\<^verbatim>\<open>CABuildArgs\<close> and \<^verbatim>\<open>PluginBuildArgs\<close> have the same fields.\<close>

record CABuildArgs =
  cb_common :: CommonBuildArgs
  cb_optee_client_export :: "string option"

datatype BuildCommand = BuildTA TABuildArgs | BuildCA CABuildArgs | BuildPlugin CABuildArgs

datatype InstallCommand = InstallTA string TABuildArgs | InstallCA string CABuildArgs | InstallPlugin string CABuildArgs

datatype ClippyCommand = ClippyTA TABuildArgs | ClippyCA CABuildArgs | ClippyPlugin CABuildArgs

datatype UuidKind = Uuid_Ta | Uuid_Plugin

datatype Command =
    Cmd_Build BuildCommand
  | Cmd_Install InstallCommand
  | Cmd_Clean "string option"
  | Cmd_InspectUuid UuidKind string
  | Cmd_Clippy ClippyCommand

subsection \<open>Metadata\<close>

datatype ComponentType = Component_Ta | Component_Ca | Component_Plugin

fun ComponentType_as_str :: "ComponentType \<Rightarrow> string" where
  "ComponentType_as_str Component_Ta = ''ta''"
| "ComponentType_as_str Component_Ca = ''ca''"
| "ComponentType_as_str Component_Plugin = ''plugin''"

datatype PathType = Expect_Directory | Expect_File

record BuildOverrides =
  ov_arch :: "Arch option"
  ov_debug :: "bool option"
  ov_env :: "(string \<times> string) list"
  ov_no_default_features :: bool
  ov_features :: "string option"

record MetadataConfig =
  mc_arch :: Arch
  mc_debug :: bool
  mc_std :: bool
  mc_ta_dev_kit_dir :: "string option"
  mc_optee_client_export :: "string option"
  mc_signing_key :: "string option"
  mc_env :: "(string \<times> string) list"

record TaBuildConfig =
  tb_arch :: Arch
  tb_debug :: bool
  tb_path :: string
  tb_env :: "(string \<times> string) list"
  tb_no_default_features :: bool
  tb_features :: "string option"
  tb_std :: bool
  tb_ta_dev_kit_dir :: string
  tb_signing_key :: string

record CaBuildConfig =
  cc_arch :: Arch
  cc_debug :: bool
  cc_path :: string
  cc_env :: "(string \<times> string) list"
  cc_no_default_features :: bool
  cc_features :: "string option"
  cc_optee_client_export :: string
  cc_plugin :: bool

definition discover_app_metadata :: "('w, 'z) os_query_scheme \<Rightarrow> string \<Rightarrow> 'w \<Rightarrow> tool_error + json" where
  "discover_app_metadata Q project_path w =
     (let cargo_toml_path = path_join project_path ''Cargo.toml'' in
      if \<not> os_exists Q cargo_toml_path w then Inl (ManifestMissing project_path)
      else try_bind (ok_or (os_cargo_metadata Q cargo_toml_path w) MetadataFailed) (\<lambda>metadata.
        case cm_root metadata of
          Some root_pkg \<Rightarrow> Inr (snd root_pkg)
        | None \<Rightarrow>
            (let cargo_toml_path_str = to_string_lossy cargo_toml_path in
             try_bind (ok_or (find (\<lambda>pkg. str_contains cargo_toml_path_str (fst pkg)) (cm_packages metadata))
                 (NoPackage cargo_toml_path_str)) (\<lambda>pkg. Inr (snd pkg)))))"

definition metadata_bool :: "json \<Rightarrow> string \<Rightarrow> tool_error + bool" where
  "metadata_bool table key =
     (case json_get table key of None \<Rightarrow> Inr False | Some v \<Rightarrow> ok_or (json_bool v) (NotBoolean key))"

definition arch_key :: "Arch \<Rightarrow> string" where
  "arch_key arch = (case arch of Aarch64 \<Rightarrow> ''aarch64'' | Arm \<Rightarrow> ''arm'')"

text \<open>The text under a key that may depend on the architecture; empty text counts as absent.\<close>

definition arch_path :: "Arch \<Rightarrow> json \<Rightarrow> string \<Rightarrow> string option" where
  "arch_path arch table key =
     (case json_get table key of
        None \<Rightarrow> None
      | Some v \<Rightarrow>
          (case (case json_get v (arch_key arch) of
                   Some arch_value \<Rightarrow> json_str arch_value
                 | None \<Rightarrow> if json_is_string v then json_str v else None) of
             None \<Rightarrow> None
           | Some s \<Rightarrow> if s \<noteq> [] then Some s else None))"

text \<open>The entries of the form \<^verbatim>\<open>KEY=VALUE\<close>; others are reported and skipped.\<close>

definition env_entries :: "json list \<Rightarrow> (string \<times> string) list" where
  "env_entries arr = List.map_filter (str_split_once (CHR ''='')) (List.map_filter json_str arr)"

definition extract_build_config :: "json \<Rightarrow> ComponentType \<Rightarrow> Arch option \<Rightarrow> tool_error + MetadataConfig option" where
  "extract_build_config metadata component_type cmd_arch =
     (case json_get metadata ''optee'' of
        None \<Rightarrow> Inr None
      | Some optee_metadata \<Rightarrow>
          (case json_get optee_metadata (ComponentType_as_str component_type) of
             None \<Rightarrow> Inr None
           | Some component_metadata \<Rightarrow>
               if json_get component_metadata ''uuid-path'' \<noteq> None
               then Inl (UuidPathUnsupported (ComponentType_as_str component_type))
               else
                 try_bind
                   (case cmd_arch of
                      Some arch \<Rightarrow> Inr arch
                    | None \<Rightarrow>
                        (case json_get component_metadata ''arch'' of
                           None \<Rightarrow> Inr Aarch64
                         | Some v \<Rightarrow> try_bind (ok_or (json_str v) ArchNotString) Arch_from_str)) (\<lambda>arch.
                 try_bind (metadata_bool component_metadata ''debug'') (\<lambda>debug.
                 try_bind (metadata_bool component_metadata ''std'') (\<lambda>std.
                   Inr (Some \<lparr>mc_arch = arch, mc_debug = debug, mc_std = std,
                     mc_ta_dev_kit_dir =
                       (if component_type = Component_Ta then arch_path arch component_metadata ''ta-dev-kit-dir'' else None),
                     mc_optee_client_export =
                       (if component_type = Component_Ca \<or> component_type = Component_Plugin
                        then arch_path arch component_metadata ''optee-client-export'' else None),
                     mc_signing_key =
                       (if component_type = Component_Ta
                        then (case json_get component_metadata ''signing-key'' of
                                None \<Rightarrow> None
                              | Some v \<Rightarrow> (case json_str v of Some s \<Rightarrow> if s \<noteq> [] then Some s else None | None \<Rightarrow> None))
                        else None),
                     mc_env =
                       (case json_get component_metadata ''env'' of
                          None \<Rightarrow> []
                        | Some v \<Rightarrow> (case json_array v of None \<Rightarrow> [] | Some arr \<Rightarrow> env_entries arr))\<rparr>))))))"

definition MetadataConfig_resolve ::
    "('w, 'z) os_query_scheme \<Rightarrow> string \<Rightarrow> ComponentType \<Rightarrow> Arch option \<Rightarrow> 'w \<Rightarrow> tool_error + MetadataConfig option" where
  "MetadataConfig_resolve Q project_path component_type cmd_arch w =
     try_bind (discover_app_metadata Q project_path w) (\<lambda>app_metadata.
       extract_build_config app_metadata component_type cmd_arch)"

subsection \<open>Resolution\<close>

definition resolve_config_path ::
    "(string \<rightharpoonup> string) \<Rightarrow> string option \<Rightarrow> string option \<Rightarrow> string \<Rightarrow> string option" where
  "resolve_config_path env command_line metadata environment_variable =
     option_or (option_or command_line metadata) (env environment_variable)"

definition resolve_path_relative_to_project ::
    "('w, 'z) os_query_scheme \<Rightarrow> string \<Rightarrow> string \<Rightarrow> PathType \<Rightarrow> string \<Rightarrow> 'w \<Rightarrow> tool_error + string" where
  "resolve_path_relative_to_project Q path project_path path_type error_context w =
     (let resolved_path = (if path_is_absolute path then path else path_join project_path path) in
      if \<not> os_exists Q resolved_path w then Inl (DoesNotExist error_context resolved_path)
      else case path_type of
          Expect_Directory \<Rightarrow>
            if \<not> os_is_dir Q resolved_path w then Inl (NotADirectory error_context resolved_path) else Inr resolved_path
        | Expect_File \<Rightarrow>
            if \<not> os_is_file Q resolved_path w then Inl (NotAFile error_context resolved_path) else Inr resolved_path)"

definition TaBuildConfig_resolve ::
    "('w, 'z) os_query_scheme \<Rightarrow> (string \<rightharpoonup> string) \<Rightarrow> string \<Rightarrow> BuildOverrides \<Rightarrow> bool option \<Rightarrow> string option \<Rightarrow> string option \<Rightarrow>
     bool \<Rightarrow> 'w \<Rightarrow> tool_error + TaBuildConfig" where
  "TaBuildConfig_resolve Q env project_path overrides cmd_std cmd_ta_dev_kit_dir cmd_signing_key need_signing_key w =
     try_bind (MetadataConfig_resolve Q project_path Component_Ta (ov_arch overrides) w) (\<lambda>metadata_config.
     let arch = unwrap_or (option_or (ov_arch overrides) (map_option mc_arch metadata_config)) Aarch64;
         debug = unwrap_or (option_or (ov_debug overrides) (map_option mc_debug metadata_config)) False;
         std = unwrap_or (option_or cmd_std (map_option mc_std metadata_config)) False in
     try_bind (ok_or (resolve_config_path env cmd_ta_dev_kit_dir
         (Option.bind metadata_config mc_ta_dev_kit_dir) ''TA_DEV_KIT_DIR'') DevKitUnset) (\<lambda>ta_dev_kit_dir_config.
     try_bind (resolve_path_relative_to_project Q ta_dev_kit_dir_config project_path Expect_Directory
         ''TA development kit directory'' w) (\<lambda>ta_dev_kit_dir.
     try_bind
       (if need_signing_key
        then resolve_path_relative_to_project Q
          (unwrap_or (option_or (option_or cmd_signing_key (Option.bind metadata_config mc_signing_key)) (env ''TA_SIGN_KEY''))
             (path_join (path_join ta_dev_kit_dir_config ''keys'') ''default_ta.pem''))
          project_path Expect_File ''Signing key file'' w
        else Inr []) (\<lambda>signing_key.
       Inr \<lparr>tb_arch = arch, tb_debug = debug, tb_path = project_path,
         tb_env = (case metadata_config of None \<Rightarrow> [] | Some c \<Rightarrow> mc_env c) @ ov_env overrides,
         tb_no_default_features = ov_no_default_features overrides, tb_features = ov_features overrides,
         tb_std = std, tb_ta_dev_kit_dir = ta_dev_kit_dir, tb_signing_key = signing_key\<rparr>))))"

definition CaBuildConfig_resolve ::
    "('w, 'z) os_query_scheme \<Rightarrow> (string \<rightharpoonup> string) \<Rightarrow> string \<Rightarrow> BuildOverrides \<Rightarrow> string option \<Rightarrow> bool \<Rightarrow> 'w \<Rightarrow>
     tool_error + CaBuildConfig" where
  "CaBuildConfig_resolve Q env project_path overrides cmd_optee_client_export plugin w =
     (let component_type = (if plugin then Component_Plugin else Component_Ca) in
     try_bind (MetadataConfig_resolve Q project_path component_type (ov_arch overrides) w) (\<lambda>metadata_config.
     let arch = unwrap_or (option_or (ov_arch overrides) (map_option mc_arch metadata_config)) Aarch64;
         debug = unwrap_or (option_or (ov_debug overrides) (map_option mc_debug metadata_config)) False in
     try_bind (ok_or (resolve_config_path env cmd_optee_client_export
         (Option.bind metadata_config mc_optee_client_export) ''OPTEE_CLIENT_EXPORT'') ClientExportUnset) (\<lambda>optee_client_export_config.
     try_bind (resolve_path_relative_to_project Q optee_client_export_config project_path Expect_Directory
         ''OP-TEE client export directory'' w) (\<lambda>optee_client_export.
       Inr \<lparr>cc_arch = arch, cc_debug = debug, cc_path = project_path,
         cc_env = (case metadata_config of None \<Rightarrow> [] | Some c \<Rightarrow> mc_env c) @ ov_env overrides,
         cc_no_default_features = ov_no_default_features overrides, cc_features = ov_features overrides,
         cc_optee_client_export = optee_client_export, cc_plugin = plugin\<rparr>))))"

section \<open>Lemmas\<close>

text \<open>The first value that is present.\<close>

fun preferred :: "'a option list \<Rightarrow> 'a option" where
  "preferred [] = None"
| "preferred (Some a # r) = Some a"
| "preferred (None # r) = preferred r"

lemma option_or_preferred:
  "option_or a b = preferred [a, b]"
  "option_or (option_or a b) c = preferred [a, b, c]"
  by (cases a; cases b; cases c; simp add: option_or_def)+

lemma unwrap_or_simps [simp]: "unwrap_or (Some a) d = a" "unwrap_or None d = d"
  by (simp_all add: unwrap_or_def)

text \<open>The table of a component, and the settings in it.\<close>

definition component_table :: "json \<Rightarrow> ComponentType \<Rightarrow> json option" where
  "component_table metadata c =
     Option.bind (json_get metadata ''optee'') (\<lambda>o'. json_get o' (ComponentType_as_str c))"

definition table_arch :: "json \<Rightarrow> Arch option" where
  "table_arch t =
     (case json_get t ''arch'' of
        Some (JString s) \<Rightarrow> (case Arch_from_str s of Inr a \<Rightarrow> Some a | Inl _ \<Rightarrow> None)
      | _ \<Rightarrow> None)"

definition table_flag :: "json \<Rightarrow> string \<Rightarrow> bool option" where
  "table_flag t key = Option.bind (json_get t key) json_bool"

definition table_env :: "json \<Rightarrow> (string \<times> string) list" where
  "table_env t = (case json_get t ''env'' of Some (JArray vs) \<Rightarrow> env_entries vs | _ \<Rightarrow> [])"

lemma metadata_bool_Inr:
  "metadata_bool t key = Inr b \<Longrightarrow> b = unwrap_or (table_flag t key) False"
  by (auto simp: metadata_bool_def table_flag_def ok_or_def split: option.splits)

lemma json_str_Some: "json_str v = Some s \<longleftrightarrow> v = JString s"
  by (cases v) auto

lemma json_array_Some: "json_array v = Some vs \<longleftrightarrow> v = JArray vs"
  by (cases v) auto

lemma table_env_eq:
  "(case json_get t ''env'' of None \<Rightarrow> [] | Some v \<Rightarrow> (case json_array v of None \<Rightarrow> [] | Some arr \<Rightarrow> env_entries arr)) = table_env t"
  by (auto simp: table_env_def split: option.splits json.splits)

lemma extract_none:
  "extract_build_config metadata c cmd_arch = Inr None \<Longrightarrow> component_table metadata c = None"
  by (auto simp: extract_build_config_def component_table_def try_bind_eq_Inr_iff split: option.splits if_splits)

lemma extract_some:
  assumes "extract_build_config metadata c cmd_arch = Inr (Some mc)"
  obtains t where "component_table metadata c = Some t"
    and "mc_arch mc = unwrap_or (preferred [cmd_arch, table_arch t]) Aarch64"
    and "mc_debug mc = unwrap_or (table_flag t ''debug'') False"
    and "mc_std mc = unwrap_or (table_flag t ''std'') False"
    and "c = Component_Ta \<Longrightarrow> mc_ta_dev_kit_dir mc = arch_path (mc_arch mc) t ''ta-dev-kit-dir''"
    and "c \<noteq> Component_Ta \<Longrightarrow> mc_optee_client_export mc = arch_path (mc_arch mc) t ''optee-client-export''"
    and "mc_env mc = table_env t"
proof -
  from assms obtain om t where t: "json_get metadata ''optee'' = Some om" "json_get om (ComponentType_as_str c) = Some t"
    by (auto simp: extract_build_config_def split: option.splits)
  have "component_table metadata c = Some t" using t by (simp add: component_table_def)
  moreover have "c = Component_Ca \<or> c = Component_Plugin" if "c \<noteq> Component_Ta" using that by (cases c) auto
  moreover have "(case cmd_arch of
                      Some arch \<Rightarrow> Inr arch
                    | None \<Rightarrow>
                        (case json_get t ''arch'' of
                           None \<Rightarrow> Inr Aarch64
                         | Some v \<Rightarrow> try_bind (ok_or (json_str v) ArchNotString) Arch_from_str)) = Inr a \<Longrightarrow>
      a = unwrap_or (preferred [cmd_arch, table_arch t]) Aarch64" for a
    by (auto simp: table_arch_def try_bind_eq_Inr_iff ok_or_def json_str_Some split: option.splits)
  ultimately show thesis
    using that[of t] assms t
    by (auto simp: extract_build_config_def try_bind_eq_Inr_iff table_env_eq dest!: metadata_bool_Inr split: if_splits)
qed

definition in_project :: "string \<Rightarrow> string \<Rightarrow> string" where
  "in_project project p = (if path_is_absolute p then p else path_join project p)"

lemma resolve_path_Inr:
  "resolve_path_relative_to_project Q p project ty ctxt w = Inr r \<Longrightarrow>
     r = in_project project p \<and> os_exists Q r w \<and>
     (case ty of Expect_Directory \<Rightarrow> os_is_dir Q r w | Expect_File \<Rightarrow> os_is_file Q r w)"
  by (auto simp: resolve_path_relative_to_project_def in_project_def Let_def split: if_splits PathType.splits)

lemma preferred_simps [simp]:
  "preferred [a] = a" "preferred [a, None] = a" "preferred [preferred [a, b], c] = preferred [a, b, c]"
  by (cases a; cases b; simp)+

lemma preferred_Some1: "a \<noteq> None \<Longrightarrow> preferred (a # r) = a"
  by (cases a) auto

lemma map_of_rev_append: "map_of (rev (xs @ ys)) v = preferred [map_of (rev ys) v, map_of (rev xs) v]"
  by (cases "map_of (rev ys) v") (simp_all add: map_add_def)

lemma ta_resolve_Inr:
  assumes "TaBuildConfig_resolve Q env project ov cmd_std cmd_kit cmd_key need_key w = Inr c"
  obtains md kit where "MetadataConfig_resolve Q project Component_Ta (ov_arch ov) w = Inr md"
    and "tb_arch c = unwrap_or (preferred [ov_arch ov, map_option mc_arch md]) Aarch64"
    and "tb_debug c = unwrap_or (preferred [ov_debug ov, map_option mc_debug md]) False"
    and "tb_std c = unwrap_or (preferred [cmd_std, map_option mc_std md]) False"
    and "preferred [cmd_kit, Option.bind md mc_ta_dev_kit_dir, env ''TA_DEV_KIT_DIR''] = Some kit"
    and "tb_ta_dev_kit_dir c = in_project project kit" "os_is_dir Q (in_project project kit) w"
    and "need_key \<Longrightarrow> os_is_file Q (tb_signing_key c) w"
    and "need_key \<Longrightarrow> tb_signing_key c = in_project project
      (unwrap_or (preferred [cmd_key, Option.bind md mc_signing_key, env ''TA_SIGN_KEY''])
         (path_join (path_join kit ''keys'') ''default_ta.pem''))"
    and "tb_env c = (case md of None \<Rightarrow> [] | Some mc \<Rightarrow> mc_env mc) @ ov_env ov"
proof -
  from assms obtain md where md: "MetadataConfig_resolve Q project Component_Ta (ov_arch ov) w = Inr md"
    by (auto simp: TaBuildConfig_resolve_def try_bind_eq_Inr_iff)
  with assms obtain kit where kit: "preferred [cmd_kit, Option.bind md mc_ta_dev_kit_dir, env ''TA_DEV_KIT_DIR''] = Some kit"
    by (auto simp: TaBuildConfig_resolve_def try_bind_eq_Inr_iff Let_def resolve_config_path_def option_or_preferred ok_or_def
        split: option.splits)
  show thesis
    using assms md kit that[OF md _ _ _ kit]
    by (auto simp: TaBuildConfig_resolve_def try_bind_eq_Inr_iff Let_def resolve_config_path_def option_or_preferred
        dest!: resolve_path_Inr split: if_splits)
qed

section \<open>Properties\<close>


definition sample_metadata :: json where
  "sample_metadata = JObject [(''optee'', JObject [(''ta'', JObject [
     (''arch'', JString ''ARM32''),
     (''ta-dev-kit-dir'', JObject [(''aarch64'', JString ''/kit64''), (''arm'', JString ''kit32'')]),
     (''env'', JArray [JString ''A=1'', JString ''B=x=y''])])])]"

definition sample_query :: "unit os_query" where
  "sample_query = \<lparr>os_exists = (\<lambda>p w. True), os_is_dir = (\<lambda>p w. True), os_is_file = (\<lambda>p w. True),
     os_canonicalize = (\<lambda>p w. Some p), os_current_dir = (\<lambda>w. Some ''/p''),
     os_cargo_metadata = (\<lambda>p w. Some \<lparr>cm_packages = [(''/p/Cargo.toml'', sample_metadata)], cm_root = None\<rparr>)\<rparr>"

definition sample_overrides :: BuildOverrides where
  "sample_overrides = \<lparr>ov_arch = None, ov_debug = Some True, ov_env = [(''A'', ''2'')], ov_no_default_features = False,
     ov_features = None\<rparr>"

definition sample_config :: TaBuildConfig where
  "sample_config = \<lparr>tb_arch = Arm, tb_debug = True, tb_path = ''/p'',
     tb_env = [(''A'', ''1''), (''B'', ''x=y''), (''A'', ''2'')], tb_no_default_features = False, tb_features = None, tb_std = False,
     tb_ta_dev_kit_dir = ''/p/kit32'', tb_signing_key = ''/p/kit32/keys/default_ta.pem''\<rparr>"

lemma sample_discover: "discover_app_metadata sample_query ''/p'' () = Inr sample_metadata"
proof -
  have "valid_utf8 (as_bytes ''/p/Cargo.toml'')" by (rule valid_utf8_ascii) (simp add: as_bytes_def)
  then have "to_string_lossy ''/p/Cargo.toml'' = ''/p/Cargo.toml''" by (simp add: to_string_lossy_def from_utf8_lossy_valid)
  moreover have "str_contains ''/p/Cargo.toml'' ''/p/Cargo.toml''" by (simp add: str_contains_def)
  ultimately show ?thesis by (simp add: discover_app_metadata_def sample_query_def path_join_def path_is_absolute_def)
qed

lemma sample_extract:
  "extract_build_config sample_metadata Component_Ta None =
     Inr (Some \<lparr>mc_arch = Arm, mc_debug = False, mc_std = False, mc_ta_dev_kit_dir = Some ''kit32'',
       mc_optee_client_export = None, mc_signing_key = None, mc_env = [(''A'', ''1''), (''B'', ''x=y'')]\<rparr>)"
  by code_simp

lemma sample_resolve:
  "TaBuildConfig_resolve sample_query Map.empty ''/p'' sample_overrides None None None True () = Inr sample_config"
proof -
  have ov: "ov_arch sample_overrides = None" by (simp add: sample_overrides_def)
  have kit: "resolve_path_relative_to_project sample_query ''kit32'' ''/p'' Expect_Directory ''TA development kit directory'' () =
      Inr ''/p/kit32''"
    "resolve_path_relative_to_project sample_query ''kit32/keys/default_ta.pem'' ''/p'' Expect_File ''Signing key file'' () =
      Inr ''/p/kit32/keys/default_ta.pem''"
    by (simp_all add: resolve_path_relative_to_project_def sample_query_def path_join_def path_is_absolute_def)
  have "path_join (path_join ''kit32'' ''keys'') ''default_ta.pem'' = ''kit32/keys/default_ta.pem''"
    by (simp add: path_join_def path_is_absolute_def)
  then show ?thesis
    by (simp add: TaBuildConfig_resolve_def MetadataConfig_resolve_def sample_discover ov sample_extract option_or_def
        resolve_config_path_def kit sample_overrides_def sample_config_def)
qed


end
