(* ===== verification/CargoBuild.thy ===== *)
theory CargoBuild
  imports CargoConfig "HOL-Library.List_Lexorder"
begin

text \<open>
  What the build tool does: \<^verbatim>\<open>common.rs\<close>, \<^verbatim>\<open>ta_builder.rs\<close>, \<^verbatim>\<open>ca_builder.rs\<close> and \<^verbatim>\<open>main.rs\<close> of
  \<^verbatim>\<open>tools/cargo-optee\<close>.

  A step of the tool takes the world and returns a result and the next world.  The programs it
  runs, the file system and the \<^verbatim>\<open>tempfile\<close> crate are the record \<open>os_api\<close>.  A temporary file or
  directory is removed when its owner goes out of scope; \<open>on_error\<close> and \<open>finally_drop\<close> are these
  removals.  Messages on the terminal are not modelled, except the line that \<^verbatim>\<open>inspect-uuid\<close> prints.
\<close>

section \<open>Definitions\<close>

subsection \<open>Steps\<close>

type_synonym ('w, 'a) tool = "('w, tool_error, 'a) io"

subsection \<open>What the tool calls\<close>

datatype CargoArtifactKind = Artifact_Bin | Artifact_Cdylib

record cargo_artifact =
  ar_manifest_path :: string
  ar_profile_test :: bool
  ar_kinds :: "string list"
  ar_crate_types :: "string list"
  ar_executable :: "string option"
  ar_filenames :: "string list"

datatype cargo_message = CompilerMessage | TextLine | CompilerArtifact cargo_artifact | OtherMessage

text \<open>
  An exit status is the code, or \<open>None\<close> after a signal.  \<open>os_status\<close> is \<open>None\<close> if the program
  cannot be launched.  \<open>os_spawn\<close> gives the messages of \<^verbatim>\<open>cargo\<close>, \<open>None\<close> for a line that cannot be
  read, and the status unless waiting fails.  \<open>os_tempfile\<close> takes the directory, the prefix and the
  suffix.
\<close>

record 'w os_api = "'w os_query" +
  os_status :: "command \<Rightarrow> 'w \<Rightarrow> int option option \<times> 'w"
  os_spawn :: "command \<Rightarrow> 'w \<Rightarrow> (cargo_message option list \<times> int option option) option \<times> 'w"
  os_read :: "string \<Rightarrow> 'w \<Rightarrow> bytes option"
  os_write :: "string \<Rightarrow> bytes \<Rightarrow> 'w \<Rightarrow> bool \<times> 'w"
  os_copy :: "string \<Rightarrow> string \<Rightarrow> 'w \<Rightarrow> bool \<times> 'w"
  os_rename :: "string \<Rightarrow> string \<Rightarrow> 'w \<Rightarrow> bool \<times> 'w"
  os_chmod :: "string \<Rightarrow> nat \<Rightarrow> 'w \<Rightarrow> bool \<times> 'w"
  os_remove_dir_all :: "string \<Rightarrow> 'w \<Rightarrow> bool \<times> 'w"
  os_tempfile :: "string \<Rightarrow> string \<Rightarrow> string \<Rightarrow> 'w \<Rightarrow> string option \<times> 'w"
  os_tempfile_keep :: "string \<Rightarrow> 'w \<Rightarrow> bool \<times> 'w"
  os_tempfile_drop :: "string \<Rightarrow> 'w \<Rightarrow> 'w"
  os_tempdir :: "'w \<Rightarrow> string option \<times> 'w"
  os_tempdir_drop :: "string \<Rightarrow> 'w \<Rightarrow> 'w"
  os_print :: "string \<Rightarrow> 'w \<Rightarrow> bool \<times> 'w"

subsection \<open>Running programs\<close>

definition cargo_command :: "(string \<rightharpoonup> string) \<Rightarrow> command" where
  "cargo_command env = Command_new (unwrap_or (env ''CARGO'') ''cargo'')"

definition cargo_command_in :: "(string \<rightharpoonup> string) \<Rightarrow> string \<Rightarrow> command" where
  "cargo_command_in env project_dir = (cargo_command env)\<lparr>cmd_cwd := Some project_dir\<rparr>"

definition run_streaming_command :: "'w os_api \<Rightarrow> command \<Rightarrow> string \<Rightarrow> ('w, unit) tool" where
  "run_streaming_command T cmd cmd_name = (\<lambda>w.
     case os_status T cmd w of
       (None, w') \<Rightarrow> (Inl (SpawnFailed cmd_name), w')
     | (Some status, w') \<Rightarrow> (if status = Some 0 then Inr () else Inl (ExitStatus cmd_name status), w'))"

definition check_command_available :: "'w os_api \<Rightarrow> string \<Rightarrow> 'w \<Rightarrow> bool \<times> 'w" where
  "check_command_available T program w =
     (case os_status T (with_args [''--version''] (Command_new program)) w of (r, w') \<Rightarrow> (r \<noteq> None, w'))"

subsection \<open>Artifacts\<close>

text \<open>
  \<^verbatim>\<open>Path\<close> is compared by components: repeated separators and \<^verbatim>\<open>.\<close> do not count, except a leading
  \<^verbatim>\<open>.\<close>; the root comes before \<^verbatim>\<open>.\<close>, \<^verbatim>\<open>..\<close> and names, in this order.
\<close>

definition path_components :: "string \<Rightarrow> string list" where
  "path_components p =
     (let keep = filter (\<lambda>s. s \<noteq> [] \<and> s \<noteq> ''.'') in
      if path_is_absolute p then ''/'' # keep (str_split (CHR ''/'') p)
      else case str_split (CHR ''/'') p of
          [] \<Rightarrow> []
        | s # r \<Rightarrow> (if s = ''.'' then [s] else keep [s]) @ keep r)"

definition component_key :: "string \<Rightarrow> nat list" where
  "component_key s =
     (if s = ''/'' then [1] else if s = ''.'' then [2] else if s = ''..'' then [3] else 4 # map of_char s)"

definition path_key :: "string \<Rightarrow> nat list list" where
  "path_key p = map component_key (path_components p)"

definition path_eq :: "string \<Rightarrow> string \<Rightarrow> bool" where
  "path_eq a b \<longleftrightarrow> path_components a = path_components b"

fun path_dedup :: "string list \<Rightarrow> string list" where
  "path_dedup (a # b # r) = (if path_eq a b then path_dedup (a # r) else a # path_dedup (b # r))"
| "path_dedup r = r"

definition select_artifact :: "('w, 'z) os_query_scheme \<Rightarrow> 'w \<Rightarrow> string \<Rightarrow> CargoArtifactKind \<Rightarrow> cargo_artifact \<Rightarrow> string list" where
  "select_artifact Q w expected akind artifact =
     (let artifact_manifest = unwrap_or (os_canonicalize Q (ar_manifest_path artifact) w) (ar_manifest_path artifact) in
      if \<not> path_eq artifact_manifest expected then []
      else if ar_profile_test artifact then []
      else if list_ex (\<lambda>k. k = ''custom-build'') (ar_kinds artifact) then []
      else case akind of
          Artifact_Bin \<Rightarrow> (case ar_executable artifact of Some path \<Rightarrow> [path] | None \<Rightarrow> [])
        | Artifact_Cdylib \<Rightarrow>
            if \<not> list_ex (\<lambda>t. t = ''cdylib'') (ar_crate_types artifact) then []
            else filter (str_ends_with ''.so'') (ar_filenames artifact))"

fun collect_loop ::
    "('w, 'z) os_query_scheme \<Rightarrow> 'w \<Rightarrow> string \<Rightarrow> CargoArtifactKind \<Rightarrow> cargo_message option list \<Rightarrow> string list \<Rightarrow> tool_error + string list" where
  "collect_loop Q w expected akind [] artifacts = Inr artifacts"
| "collect_loop Q w expected akind (None # msgs) artifacts = Inl MessageStream"
| "collect_loop Q w expected akind (Some msg # msgs) artifacts =
     collect_loop Q w expected akind msgs
       (case msg of
          CompilerArtifact artifact \<Rightarrow> artifacts @ select_artifact Q w expected akind artifact
        | _ \<Rightarrow> artifacts)"

definition collect_cargo_artifacts ::
    "('w, 'z) os_query_scheme \<Rightarrow> cargo_message option list \<Rightarrow> string \<Rightarrow> CargoArtifactKind \<Rightarrow> 'w \<Rightarrow> tool_error + string list" where
  "collect_cargo_artifacts Q reader manifest akind w =
     collect_loop Q w (unwrap_or (os_canonicalize Q manifest w) manifest) akind reader []"

text \<open>The paths are canonicalised while \<^verbatim>\<open>cargo\<close> runs; here, after it has ended.\<close>

definition run_cargo_build :: "'w os_api \<Rightarrow> command \<Rightarrow> string \<Rightarrow> CargoArtifactKind \<Rightarrow> ('w, string list) tool" where
  "run_cargo_build T cmd manifest akind = (\<lambda>w.
     case os_spawn T cmd w of
       (None, w') \<Rightarrow> (Inl (SpawnFailed (cmd_program cmd)), w')
     | (Some (stdout, status), w') \<Rightarrow>
         (let artifacts = collect_cargo_artifacts T stdout manifest akind w' in
          case status of
            None \<Rightarrow> (Inl WaitFailed, w')
          | Some code \<Rightarrow>
              if code \<noteq> Some 0 then (Inl (ExitStatus ''build'' code), w') else (artifacts, w')))"

definition unique_cargo_artifact :: "string list \<Rightarrow> string \<Rightarrow> tool_error + string" where
  "unique_cargo_artifact artifacts manifest =
     (case path_dedup (sort_key path_key artifacts) of
        [a] \<Rightarrow> Inr a
      | [] \<Rightarrow> Inl (NoArtifact manifest)
      | as \<Rightarrow> Inl (MultipleArtifacts as))"

subsection \<open>Temporary files\<close>

definition unique_tempfile_in :: "'w os_api \<Rightarrow> string \<Rightarrow> string \<Rightarrow> string \<Rightarrow> ('w, string) tool" where
  "unique_tempfile_in T parent pre suffix = io_alloc (os_tempfile T parent pre suffix) (TempFileFailed parent)"

text \<open>A file that cannot be kept is removed; a kept file is no longer removed automatically.\<close>

definition publish_tempfile :: "'w os_api \<Rightarrow> string \<Rightarrow> string \<Rightarrow> ('w, unit) tool" where
  "publish_tempfile T tmp dest =
     io_bind (on_error (os_tempfile_drop T tmp) (io_call (os_tempfile_keep T tmp) (PublishFailed tmp dest))) (\<lambda>_.
       io_call (os_rename T tmp dest) (PublishFailed tmp dest))"

definition TA_FILE_MODE :: nat where
  "TA_FILE_MODE = 420"

definition set_ta_file_permissions :: "'w os_api \<Rightarrow> string \<Rightarrow> ('w, unit) tool" where
  "set_ta_file_permissions T path = io_call (os_chmod T path TA_FILE_MODE) (PermissionsFailed path)"

definition apply_clippy_deny_lints :: "command \<Rightarrow> command" where
  "apply_clippy_deny_lints cmd =
     with_args [''--'', ''-D'', ''warnings'', ''-D'', ''clippy::unwrap_used'', ''-D'', ''clippy::expect_used'',
       ''-D'', ''clippy::panic''] cmd"

definition clean_project :: "'w os_api \<Rightarrow> (string \<rightharpoonup> string) \<Rightarrow> string \<Rightarrow> ('w, unit) tool" where
  "clean_project T env project_path =
     io_bind (io_ask (absolute_dir T project_path)) (\<lambda>project_path.
     io_bind (run_streaming_command T
         (with_args [''clean'', ''--manifest-path'', manifest_path project_path] (cargo_command_in env project_path))
         ''cargo clean'') (\<lambda>_.
     let intermediate_dir = path_join (path_join project_path ''target'') ''cargo-optee'' in
     (\<lambda>w. if os_exists T intermediate_dir w
          then io_call (os_remove_dir_all T intermediate_dir) (RemoveFailed intermediate_dir) w
          else (Inr (), w))))"

subsection \<open>Building a trusted application\<close>

definition ta_build_mode :: "TaBuildConfig \<Rightarrow> BuildMode" where
  "ta_build_mode config = (if tb_std config then Mode_TaStd else Mode_TaNoStd)"

text \<open>\<open>target_json\<close> is the content of the two target files that are embedded in the tool.\<close>

definition setup_custom_targets :: "'w os_api \<Rightarrow> (Arch \<Rightarrow> bytes) \<Rightarrow> ('w, string) tool" where
  "setup_custom_targets T target_json =
     io_bind (io_alloc (os_tempdir T) TempDirFailed) (\<lambda>temp_dir.
     on_error (os_tempdir_drop T temp_dir)
       (let aarch64_path = path_join temp_dir ''aarch64-unknown-optee.json'';
            arm_path = path_join temp_dir ''arm-unknown-optee.json'' in
        io_bind (io_call (os_write T aarch64_path (target_json Aarch64)) (WriteFailed aarch64_path)) (\<lambda>_.
        io_bind (io_call (os_write T arm_path (target_json Arm)) (WriteFailed arm_path)) (\<lambda>_.
        io_return temp_dir))))"

definition feature_list :: "TaBuildConfig \<Rightarrow> string list" where
  "feature_list config =
     (if tb_std config then [''std''] else []) @
     (case tb_features config of
        None \<Rightarrow> []
      | Some custom_features \<Rightarrow> filter (\<lambda>f. f \<noteq> []) (map str_trim (str_split (CHR '','') custom_features)))"

definition ta_rustflags :: "(string \<rightharpoonup> string) \<Rightarrow> bool \<Rightarrow> string" where
  "ta_rustflags env std =
     (let inherited = unwrap_or (env_var env ''RUSTFLAGS'') [];
          rustflags = (if inherited \<noteq> [] then inherited @ '' '' else inherited) @ ''-C panic=abort'' in
      if std \<and> \<not> str_contains ''unstable-options'' rustflags then rustflags @ '' -Z unstable-options'' else rustflags)"

fun apply_envs :: "(string \<times> string) list \<Rightarrow> command \<Rightarrow> command" where
  "apply_envs [] cmd = cmd"
| "apply_envs ((key, v) # kvs) cmd = apply_envs kvs (with_env key v cmd)"

definition ta_cargo_command ::
    "'w os_api \<Rightarrow> (string \<rightharpoonup> string) \<Rightarrow> TaBuildConfig \<Rightarrow> string \<Rightarrow> string \<Rightarrow> string \<Rightarrow> string option \<Rightarrow> 'w \<Rightarrow> command" where
  "ta_cargo_command T env config command target cross_compile temp_dir w =
     (let features = feature_list config;
          cmd = with_args ([command, ''--manifest-path'', manifest_path (tb_path config)] @
                  (if tb_std config then [''-Z'', ''build-std=std,panic_abort'', ''-Z'', ''json-target-spec''] else []) @
                  [''--target'', target] @
                  (if tb_no_default_features config then [''--no-default-features''] else []) @
                  (if features \<noteq> [] then [''--features'', str_join '','' features] else []))
                (cargo_command_in env (tb_path config));
          cmd = with_env ''RUSTFLAGS'' (ta_rustflags env (tb_std config)) cmd;
          cmd = apply_envs (tb_env config) cmd;
          cmd = with_env ''TA_DEV_KIT_DIR''
            (unwrap_or (os_canonicalize T (tb_ta_dev_kit_dir config) w) (tb_ta_dev_kit_dir config)) cmd;
          cmd = with_env ''CROSS_COMPILE'' cross_compile cmd in
      case temp_dir of Some d \<Rightarrow> with_env ''RUST_TARGET_PATH'' d cmd | None \<Rightarrow> cmd)"

definition setup_build_command ::
    "'w os_api \<Rightarrow> (Arch \<Rightarrow> bytes) \<Rightarrow> (string \<rightharpoonup> string) \<Rightarrow> TaBuildConfig \<Rightarrow> string \<Rightarrow> ('w, command \<times> string option) tool" where
  "setup_build_command T target_json env config command =
     io_bind (io_ask (\<lambda>w. resolve_target_and_cross_compile env (tb_arch config) (ta_build_mode config))) (\<lambda>(target, cross_compile).
     io_bind (if tb_std config then io_bind (setup_custom_targets T target_json) (\<lambda>d. io_return (Some d)) else io_return None) (\<lambda>temp_dir.
     on_error (\<lambda>w. case temp_dir of Some d \<Rightarrow> os_tempdir_drop T d w | None \<Rightarrow> w)
       (\<lambda>w. let cmd = ta_cargo_command T env config command target cross_compile temp_dir w in
            if tb_std config
            then (case env_var env ''__CARGO_TESTS_ONLY_SRC_ROOT'' of
                    None \<Rightarrow> (Inl SourceRootUnset, w)
                  | Some rust_src \<Rightarrow>
                      if \<not> os_exists T rust_src w then (Inl (SourceRootMissing rust_src), w)
                      else (Inr (with_env ''__CARGO_TESTS_ONLY_SRC_ROOT'' rust_src cmd, temp_dir), w))
            else (Inr (cmd, temp_dir), w))))"

text \<open>The arguments that a build adds, and the directory of the embedded targets removed at the end.\<close>

definition build_args :: "bool \<Rightarrow> string \<Rightarrow> string \<Rightarrow> command \<Rightarrow> command" where
  "build_args debug target cross_compile cmd =
     with_args ((if debug then [] else [''--release'']) @
       [''--config'', ''target.'' @ target @ ''.linker='' @ [CHR 0x22] @ cross_compile @ ''gcc'' @ [CHR 0x22],
        ''--message-format=json'']) cmd"

definition drop_temp_dir :: "'w os_api \<Rightarrow> string option \<Rightarrow> 'w \<Rightarrow> 'w" where
  "drop_temp_dir T temp_dir w = (case temp_dir of Some d \<Rightarrow> os_tempdir_drop T d w | None \<Rightarrow> w)"

definition ta_build_binary ::
    "'w os_api \<Rightarrow> (Arch \<Rightarrow> bytes) \<Rightarrow> (string \<rightharpoonup> string) \<Rightarrow> TaBuildConfig \<Rightarrow> ('w, string) tool" where
  "ta_build_binary T target_json env config =
     io_bind (io_ask (\<lambda>w. resolve_target_and_cross_compile env (tb_arch config) (ta_build_mode config))) (\<lambda>(target, cross_compile).
     io_bind (setup_build_command T target_json env config ''build'') (\<lambda>(build_cmd, temp_dir).
     finally_drop (drop_temp_dir T temp_dir)
       (let manifest = manifest_path (tb_path config) in
        io_bind (run_cargo_build T (build_args (tb_debug config) target cross_compile build_cmd) manifest Artifact_Bin) (\<lambda>artifacts.
        io_ask (\<lambda>w. unique_cargo_artifact artifacts manifest)))))"

definition ta_strip_binary :: "'w os_api \<Rightarrow> (string \<rightharpoonup> string) \<Rightarrow> TaBuildConfig \<Rightarrow> string \<Rightarrow> ('w, string) tool" where
  "ta_strip_binary T env config binary_path =
     io_bind (io_ask (\<lambda>w. resolve_target_and_cross_compile env (tb_arch config) (ta_build_mode config))) (\<lambda>(_, cross_compile).
     io_bind (io_ask (\<lambda>w. ok_or (case path_file_name binary_path of
         Some n \<Rightarrow> if valid_utf8 (as_bytes n) then Some n else None | None \<Rightarrow> None) (NoFileName binary_path))) (\<lambda>file_name.
     io_bind (io_ask (\<lambda>w. ok_or (path_parent binary_path) (NoParent binary_path))) (\<lambda>parent.
     io_bind (unique_tempfile_in T parent (''stripped_'' @ file_name @ ''.'') []) (\<lambda>stripped.
     on_error (os_tempfile_drop T stripped)
       (let objcopy = cross_compile @ ''objcopy'' in
        io_bind (run_streaming_command T (with_args [''--strip-unneeded'', binary_path, stripped] (Command_new objcopy)) objcopy) (\<lambda>_.
        io_return stripped))))))"

definition sign_command :: "string \<Rightarrow> string \<Rightarrow> string \<Rightarrow> string \<Rightarrow> string \<Rightarrow> command" where
  "sign_command sign_script uuid_str signing_key stripped_path out =
     with_args [sign_script, ''--uuid'', uuid_str, ''--key'', signing_key, ''--in'', stripped_path, ''--out'', out]
       (Command_new ''python3'')"

text \<open>\<open>show\<close> prints a UUID.\<close>

record 'u BuildArtifact =
  ba_uuid :: 'u
  ba_path :: string

definition sign_ta ::
    "'w os_api \<Rightarrow> 'u uuid_crate \<Rightarrow> ('u \<Rightarrow> string) \<Rightarrow> (bytes \<rightharpoonup> elf) \<Rightarrow> TaBuildConfig \<Rightarrow> string \<Rightarrow> ('w, 'u BuildArtifact) tool" where
  "sign_ta T U show parse config stripped_path =
     io_bind (io_ask (\<lambda>w. map_sum ReadUuid id (read_ta_uuid U parse (\<lambda>p. os_read T p w) stripped_path))) (\<lambda>uuid.
     let uuid_str = show uuid in
     io_bind (\<lambda>w. io_check (os_exists T (tb_signing_key config) w) (SigningKeyMissing (tb_signing_key config)) w) (\<lambda>_.
     io_bind (io_ask (join_and_check T (tb_ta_dev_kit_dir config) [''scripts'', ''sign_encrypt.py''] ''Sign script'')) (\<lambda>sign_script.
     io_bind (io_ask (\<lambda>w. ok_or (path_parent stripped_path) (NoParent stripped_path))) (\<lambda>parent.
     let output_path = path_join parent (uuid_str @ ''.ta'') in
     io_bind (unique_tempfile_in T parent (uuid_str @ ''.ta.'') ''.partial'') (\<lambda>tmp.
     io_bind (on_error (os_tempfile_drop T tmp)
         (run_streaming_command T (sign_command sign_script uuid_str (tb_signing_key config) stripped_path tmp) ''sign_encrypt.py'')) (\<lambda>_.
     io_bind (publish_tempfile T tmp output_path) (\<lambda>_.
     io_bind (set_ta_file_permissions T output_path) (\<lambda>_.
     io_return \<lparr>ba_uuid = uuid, ba_path = output_path\<rparr>))))))))"

text \<open>The tools among the given ones that cannot be launched.\<close>

fun missing_tools :: "'w os_api \<Rightarrow> string list \<Rightarrow> 'w \<Rightarrow> string list \<times> 'w" where
  "missing_tools T [] w = ([], w)"
| "missing_tools T (tool # tools) w =
     (case check_command_available T tool w of
        (ok, w1) \<Rightarrow> (case missing_tools T tools w1 of (ms, w2) \<Rightarrow> (if ok then ms else tool # ms, w2)))"

definition check_toolchain_exists :: "'w os_api \<Rightarrow> string \<Rightarrow> ('w, unit) tool" where
  "check_toolchain_exists T cross_compile_prefix = (\<lambda>w.
     case missing_tools T [cross_compile_prefix @ ''gcc'', cross_compile_prefix @ ''objcopy''] w of
       (ms, w') \<Rightarrow> (if ms \<noteq> [] then Inl (ToolchainMissing ms) else Inr (), w'))"

definition install_ta ::
    "'w os_api \<Rightarrow> ('u \<Rightarrow> string) \<Rightarrow> string option \<Rightarrow> 'u BuildArtifact \<Rightarrow> ('w, unit) tool" where
  "install_ta T show install_dir artifact =
     (case install_dir of
        None \<Rightarrow> io_return ()
      | Some dir \<Rightarrow>
          io_bind (\<lambda>w. io_check (os_exists T dir w) (InstallDirMissing dir) w) (\<lambda>_.
          let dest_path = path_join dir (show (ba_uuid artifact) @ ''.ta'') in
          io_bind (io_call (os_copy T (ba_path artifact) dest_path) (CopyFailed (ba_path artifact) dest_path)) (\<lambda>_.
          set_ta_file_permissions T dest_path)))"

definition build_ta ::
    "'w os_api \<Rightarrow> 'u uuid_crate \<Rightarrow> ('u \<Rightarrow> string) \<Rightarrow> (bytes \<rightharpoonup> elf) \<Rightarrow> (Arch \<Rightarrow> bytes) \<Rightarrow> (string \<rightharpoonup> string) \<Rightarrow>
     TaBuildConfig \<Rightarrow> string option \<Rightarrow> ('w, unit) tool" where
  "build_ta T U show parse target_json env config0 install_dir =
     io_bind (io_ask (absolute_dir T (tb_path config0))) (\<lambda>path.
     let config = config0\<lparr>tb_path := path\<rparr> in
     io_bind (\<lambda>w. io_check (os_exists T (manifest_path path) w) (ManifestMissing path) w) (\<lambda>_.
     io_bind (io_ask (\<lambda>w. resolve_target_and_cross_compile env (tb_arch config) (ta_build_mode config))) (\<lambda>(_, cross_compile_prefix).
     io_bind (check_toolchain_exists T cross_compile_prefix) (\<lambda>_.
     io_bind (ta_build_binary T target_json env config) (\<lambda>elf_path.
     io_bind (ta_strip_binary T env config elf_path) (\<lambda>stripped.
     finally_drop (os_tempfile_drop T stripped)
       (io_bind (sign_ta T U show parse config stripped) (\<lambda>artifact.
        install_ta T show install_dir artifact))))))))"

definition ta_run_clippy ::
    "'w os_api \<Rightarrow> (Arch \<Rightarrow> bytes) \<Rightarrow> (string \<rightharpoonup> string) \<Rightarrow> TaBuildConfig \<Rightarrow> ('w, unit) tool" where
  "ta_run_clippy T target_json env config =
     io_bind (run_streaming_command T
         (with_args [''fmt'', ''--manifest-path'', manifest_path (tb_path config)] (cargo_command_in env (tb_path config)))
         ''cargo fmt'') (\<lambda>_.
     io_bind (setup_build_command T target_json env config ''clippy'') (\<lambda>(clippy_cmd, temp_dir).
     finally_drop (drop_temp_dir T temp_dir)
       (run_streaming_command T (apply_clippy_deny_lints clippy_cmd) ''cargo clippy'')))"

definition clippy_ta ::
    "'w os_api \<Rightarrow> (Arch \<Rightarrow> bytes) \<Rightarrow> (string \<rightharpoonup> string) \<Rightarrow> TaBuildConfig \<Rightarrow> ('w, unit) tool" where
  "clippy_ta T target_json env config0 =
     io_bind (io_ask (absolute_dir T (tb_path config0))) (\<lambda>path.
     io_bind (\<lambda>w. io_check (os_exists T (manifest_path path) w) (ManifestMissing path) w) (\<lambda>_.
     ta_run_clippy T target_json env (config0\<lparr>tb_path := path\<rparr>)))"

subsection \<open>Building a client application or a plugin\<close>

definition setup_ca_cargo_command :: "(string \<rightharpoonup> string) \<Rightarrow> CaBuildConfig \<Rightarrow> string \<Rightarrow> tool_error + command" where
  "setup_ca_cargo_command env config command =
     try_bind (resolve_target_and_cross_compile env (cc_arch config) Mode_Ca) (\<lambda>(target, _).
       Inr (apply_envs (cc_env config)
         (with_env ''OPTEE_CLIENT_EXPORT'' (cc_optee_client_export config)
           (with_args ([command, ''--manifest-path'', manifest_path (cc_path config), ''--target'', target] @
              (if cc_no_default_features config then [''--no-default-features''] else []) @
              (case cc_features config of Some features \<Rightarrow> [''--features'', features] | None \<Rightarrow> []))
             (cargo_command_in env (cc_path config))))))"

definition ca_build_binary :: "'w os_api \<Rightarrow> (string \<rightharpoonup> string) \<Rightarrow> CaBuildConfig \<Rightarrow> ('w, string) tool" where
  "ca_build_binary T env config =
     io_bind (io_ask (\<lambda>w. resolve_target_and_cross_compile env (cc_arch config) Mode_Ca)) (\<lambda>(target, cross_compile).
     io_bind (io_ask (\<lambda>w. setup_ca_cargo_command env config ''build'')) (\<lambda>build_cmd.
     let akind = (if cc_plugin config then Artifact_Cdylib else Artifact_Bin);
         manifest = manifest_path (cc_path config) in
     io_bind (run_cargo_build T (build_args (cc_debug config) target cross_compile build_cmd) manifest akind) (\<lambda>artifacts.
     io_ask (\<lambda>w. unique_cargo_artifact artifacts manifest))))"

definition copy_plugin ::
    "'w os_api \<Rightarrow> 'u uuid_crate \<Rightarrow> ('u \<Rightarrow> string) \<Rightarrow> (bytes \<rightharpoonup> elf) \<Rightarrow> string \<Rightarrow> ('w, string) tool" where
  "copy_plugin T U show parse plugin_src =
     io_bind (io_ask (\<lambda>w. map_sum ReadUuid id (read_plugin_uuid U parse (\<lambda>p. os_read T p w) plugin_src))) (\<lambda>uuid.
     let plugin_dest = path_with_file_name plugin_src (show uuid @ ''.plugin.so'') in
     io_bind (io_ask (\<lambda>w. ok_or (path_parent plugin_src) (NoParent plugin_src))) (\<lambda>parent.
     io_bind (unique_tempfile_in T parent (show uuid @ ''.plugin.so.'') []) (\<lambda>tmp.
     io_bind (on_error (os_tempfile_drop T tmp) (io_call (os_copy T plugin_src tmp) (CopyFailed plugin_src tmp))) (\<lambda>_.
     io_bind (publish_tempfile T tmp plugin_dest) (\<lambda>_.
     io_return plugin_dest)))))"

definition ca_strip_binary :: "'w os_api \<Rightarrow> (string \<rightharpoonup> string) \<Rightarrow> CaBuildConfig \<Rightarrow> string \<Rightarrow> ('w, string) tool" where
  "ca_strip_binary T env config binary_path =
     io_bind (io_ask (\<lambda>w. resolve_target_and_cross_compile env (cc_arch config) Mode_Ca)) (\<lambda>(_, cross_compile).
     let objcopy = cross_compile @ ''objcopy'' in
     io_bind (run_streaming_command T (with_args [''--strip-unneeded'', binary_path, binary_path] (Command_new objcopy)) objcopy) (\<lambda>_.
     io_return binary_path))"

definition post_build ::
    "'w os_api \<Rightarrow> 'u uuid_crate \<Rightarrow> ('u \<Rightarrow> string) \<Rightarrow> (bytes \<rightharpoonup> elf) \<Rightarrow> (string \<rightharpoonup> string) \<Rightarrow> CaBuildConfig \<Rightarrow> string \<Rightarrow> ('w, string) tool" where
  "post_build T U show parse env config built_path =
     (if cc_plugin config then copy_plugin T U show parse built_path else ca_strip_binary T env config built_path)"

definition build_ca ::
    "'w os_api \<Rightarrow> 'u uuid_crate \<Rightarrow> ('u \<Rightarrow> string) \<Rightarrow> (bytes \<rightharpoonup> elf) \<Rightarrow> (string \<rightharpoonup> string) \<Rightarrow> CaBuildConfig \<Rightarrow> string option \<Rightarrow>
     ('w, unit) tool" where
  "build_ca T U show parse env config0 install_dir =
     io_bind (io_ask (absolute_dir T (cc_path config0))) (\<lambda>path.
     let config = config0\<lparr>cc_path := path\<rparr> in
     io_bind (ca_build_binary T env config) (\<lambda>built_path.
     io_bind (post_build T U show parse env config built_path) (\<lambda>final_binary.
     case install_dir of
       None \<Rightarrow> io_return ()
     | Some dir \<Rightarrow>
         io_bind (\<lambda>w. io_check (os_exists T dir w) (InstallDirMissing dir) w) (\<lambda>_.
         io_bind (io_ask (\<lambda>w. ok_or (path_file_name final_binary) (NoFileName final_binary))) (\<lambda>dest_name.
         io_call (os_copy T final_binary (path_join dir dest_name)) (CopyFailed final_binary (path_join dir dest_name)))))))"

definition clippy_ca :: "'w os_api \<Rightarrow> (string \<rightharpoonup> string) \<Rightarrow> CaBuildConfig \<Rightarrow> ('w, unit) tool" where
  "clippy_ca T env config0 =
     io_bind (io_ask (absolute_dir T (cc_path config0))) (\<lambda>path.
     let config = config0\<lparr>cc_path := path\<rparr> in
     io_bind (run_streaming_command T
         (with_args [''fmt'', ''--manifest-path'', manifest_path path] (cargo_command_in env path)) ''cargo fmt'') (\<lambda>_.
     io_bind (io_ask (\<lambda>w. setup_ca_cargo_command env config ''clippy'')) (\<lambda>clippy_cmd.
     run_streaming_command T (apply_clippy_deny_lints clippy_cmd) ''cargo clippy'')))"

subsection \<open>The commands of the tool\<close>

text \<open>\<^verbatim>\<open>main\<close> drops the first argument \<^verbatim>\<open>optee\<close>, wherever it stands.\<close>

fun filtered_args :: "string list \<Rightarrow> string list" where
  "filtered_args [] = []"
| "filtered_args (x # xs) = (if x = ''optee'' then xs else x # filtered_args xs)"

definition cli_debug_override :: "bool \<Rightarrow> bool option" where
  "cli_debug_override debug = (if debug then Some True else None)"

definition resolve_project_path :: "('w, 'z) os_query_scheme \<Rightarrow> string option \<Rightarrow> 'w \<Rightarrow> tool_error + string" where
  "resolve_project_path Q manifest w =
     (case manifest of
        Some m \<Rightarrow>
          try_bind (ok_or (path_parent m) InvalidManifestPath) (\<lambda>parent.
            if parent = [] then ok_or (os_current_dir Q w) CurrentDirectory
            else ok_or (os_canonicalize Q parent w) InvalidManifestPath)
      | None \<Rightarrow> ok_or (os_current_dir Q w) CurrentDirectory)"

definition overrides_of :: "CommonBuildArgs \<Rightarrow> BuildOverrides" where
  "overrides_of common =
     \<lparr>ov_arch = ca_arch common, ov_debug = cli_debug_override (ca_debug common), ov_env = ca_env common,
      ov_no_default_features = ca_no_default_features common, ov_features = ca_features common\<rparr>"

definition execute_ta_command ::
    "'w os_api \<Rightarrow> 'u uuid_crate \<Rightarrow> ('u \<Rightarrow> string) \<Rightarrow> (bytes \<rightharpoonup> elf) \<Rightarrow> (Arch \<Rightarrow> bytes) \<Rightarrow> (string \<rightharpoonup> string) \<Rightarrow>
     CommonBuildArgs \<Rightarrow> bool option \<Rightarrow> string option \<Rightarrow> string option \<Rightarrow> string option \<Rightarrow> bool \<Rightarrow> ('w, unit) tool" where
  "execute_ta_command T U show parse target_json env common std ta_dev_kit_dir signing_key install_target_dir lint_only =
     io_bind (io_ask (resolve_project_path T (ca_manifest_path common))) (\<lambda>project_path.
     io_bind (io_ask (TaBuildConfig_resolve T env project_path (overrides_of common) std ta_dev_kit_dir signing_key (\<not> lint_only))) (\<lambda>ta_config.
     if lint_only then clippy_ta T target_json env ta_config
     else build_ta T U show parse target_json env ta_config install_target_dir))"

definition execute_ca_command ::
    "'w os_api \<Rightarrow> 'u uuid_crate \<Rightarrow> ('u \<Rightarrow> string) \<Rightarrow> (bytes \<rightharpoonup> elf) \<Rightarrow> (string \<rightharpoonup> string) \<Rightarrow>
     CommonBuildArgs \<Rightarrow> string option \<Rightarrow> bool \<Rightarrow> string option \<Rightarrow> bool \<Rightarrow> ('w, unit) tool" where
  "execute_ca_command T U show parse env common optee_client_export plugin install_target_dir lint_only =
     io_bind (io_ask (resolve_project_path T (ca_manifest_path common))) (\<lambda>project_path.
     io_bind (io_ask (CaBuildConfig_resolve T env project_path (overrides_of common) optee_client_export plugin)) (\<lambda>ca_config.
     if lint_only then clippy_ca T env ca_config
     else build_ca T U show parse env ca_config install_target_dir))"

definition inspect_uuid ::
    "'w os_api \<Rightarrow> 'u uuid_crate \<Rightarrow> ('u \<Rightarrow> string) \<Rightarrow> (bytes \<rightharpoonup> elf) \<Rightarrow> UuidKind \<Rightarrow> string \<Rightarrow> ('w, unit) tool" where
  "inspect_uuid T U show parse ukind elf =
     io_bind (io_ask (\<lambda>w. map_sum ReadUuid id
         (case ukind of
            Uuid_Ta \<Rightarrow> read_ta_uuid U parse (\<lambda>p. os_read T p w) elf
          | Uuid_Plugin \<Rightarrow> read_plugin_uuid U parse (\<lambda>p. os_read T p w) elf))) (\<lambda>uuid.
       io_call (os_print T (show uuid)) OutputFailed)"

definition std_mode :: "TABuildArgs \<Rightarrow> bool option" where
  "std_mode args =
     (case (ta_std args, ta_no_std args) of (True, False) \<Rightarrow> Some True | (False, True) \<Rightarrow> Some False | _ \<Rightarrow> None)"

fun execute_command ::
    "'w os_api \<Rightarrow> 'u uuid_crate \<Rightarrow> ('u \<Rightarrow> string) \<Rightarrow> (bytes \<rightharpoonup> elf) \<Rightarrow> (Arch \<Rightarrow> bytes) \<Rightarrow> (string \<rightharpoonup> string) \<Rightarrow> Command \<Rightarrow> ('w, unit) tool" where
  "execute_command T U show parse tj env (Cmd_Build (BuildTA a)) =
     execute_ta_command T U show parse tj env (ta_common a) (std_mode a) (ta_ta_dev_kit_dir a) (ta_signing_key a) None False"
| "execute_command T U show parse tj env (Cmd_Build (BuildCA a)) =
     execute_ca_command T U show parse env (cb_common a) (cb_optee_client_export a) False None False"
| "execute_command T U show parse tj env (Cmd_Build (BuildPlugin a)) =
     execute_ca_command T U show parse env (cb_common a) (cb_optee_client_export a) True None False"
| "execute_command T U show parse tj env (Cmd_Install (InstallTA target_dir a)) =
     io_bind (io_ask (absolute_from_cwd T target_dir)) (\<lambda>dir.
       execute_ta_command T U show parse tj env (ta_common a) (std_mode a) (ta_ta_dev_kit_dir a) (ta_signing_key a) (Some dir) False)"
| "execute_command T U show parse tj env (Cmd_Install (InstallCA target_dir a)) =
     io_bind (io_ask (absolute_from_cwd T target_dir)) (\<lambda>dir.
       execute_ca_command T U show parse env (cb_common a) (cb_optee_client_export a) False (Some dir) False)"
| "execute_command T U show parse tj env (Cmd_Install (InstallPlugin target_dir a)) =
     io_bind (io_ask (absolute_from_cwd T target_dir)) (\<lambda>dir.
       execute_ca_command T U show parse env (cb_common a) (cb_optee_client_export a) True (Some dir) False)"
| "execute_command T U show parse tj env (Cmd_Clippy (ClippyTA a)) =
     execute_ta_command T U show parse tj env (ta_common a) (std_mode a) (ta_ta_dev_kit_dir a) None None True"
| "execute_command T U show parse tj env (Cmd_Clippy (ClippyCA a)) =
     execute_ca_command T U show parse env (cb_common a) (cb_optee_client_export a) False None True"
| "execute_command T U show parse tj env (Cmd_Clippy (ClippyPlugin a)) =
     execute_ca_command T U show parse env (cb_common a) (cb_optee_client_export a) True None True"
| "execute_command T U show parse tj env (Cmd_Clean manifest) =
     io_bind (io_ask (resolve_project_path T manifest)) (clean_project T env)"
| "execute_command T U show parse tj env (Cmd_InspectUuid ukind elf) = inspect_uuid T U show parse ukind elf"

end
