(* ===== verification/CargoPublish.thy ===== *)
theory CargoPublish
  imports CargoBuild
begin

text \<open>
  What the build tool leaves on disk and what its child processes see.  Files are observed by
  \<open>file\<close>, which gives the bytes and the mode of a file in a world, and \<open>node\<close>, which gives the
  file that a path names.  The hypotheses are the documented behaviour of the file system
  (\<open>fs_ok\<close>), of the \<^verbatim>\<open>tempfile\<close> crate, of the printed form of a UUID and of the signing script,
  without links between the files concerned.
\<close>

section \<open>Hypotheses\<close>

definition plain :: "string \<Rightarrow> bool" where
  "plain n \<longleftrightarrow> n \<noteq> [] \<and> CHR ''/'' \<notin> set n \<and> n \<noteq> ''.'' \<and> n \<noteq> ''..''"

definition names_ok :: "(string \<Rightarrow> 'i) \<Rightarrow> bool" where
  "names_ok node \<longleftrightarrow>
     (\<forall>d1 d2 n1 n2. plain n1 \<longrightarrow> plain n2 \<longrightarrow> n1 \<noteq> n2 \<longrightarrow> node (path_join d1 n1) \<noteq> node (path_join d2 n2))"

text \<open>Text of lower-case hexadecimal digits and hyphens.\<close>

definition uuid_text_ok :: "('u \<Rightarrow> string) \<Rightarrow> bool" where
  "uuid_text_ok show \<longleftrightarrow> (\<forall>u. length (show u) = 36 \<and> set (show u) \<subseteq> set ''0123456789abcdef-'')"

text \<open>A new temporary file is empty, readable by its owner only, and did not exist.\<close>

definition fs_ok :: "'w os_api \<Rightarrow> ('w \<Rightarrow> 'i \<Rightarrow> (bytes \<times> nat) option) \<Rightarrow> (string \<Rightarrow> 'i) \<Rightarrow> bool" where
  "fs_ok T file node \<longleftrightarrow>
     (\<forall>p w. os_read T p w = map_option fst (file w (node p))) \<and>
     (\<forall>a b w w'. os_rename T a b w = (False, w') \<longrightarrow> file w' = file w) \<and>
     (\<forall>a b w w'. os_rename T a b w = (True, w') \<longrightarrow> node a \<noteq> node b \<longrightarrow>
        file w' = (file w)(node b := file w (node a), node a := None)) \<and>
     (\<forall>p m w w'. os_chmod T p m w = (False, w') \<longrightarrow> file w' = file w) \<and>
     (\<forall>p m w w'. os_chmod T p m w = (True, w') \<longrightarrow>
        (\<exists>d m'. file w (node p) = Some (d, m') \<and> file w' = (file w)(node p \<mapsto> (d, m)))) \<and>
     (\<forall>a b w w'. os_copy T a b w = (True, w') \<longrightarrow> node a \<noteq> node b \<longrightarrow>
        (\<exists>x. file w (node a) = Some x \<and> file w' = (file w)(node b \<mapsto> x))) \<and>
     (\<forall>d pre suf w w'. os_tempfile T d pre suf w = (None, w') \<longrightarrow> file w' = file w) \<and>
     (\<forall>d pre suf p w w'. os_tempfile T d pre suf w = (Some p, w') \<longrightarrow>
        (\<exists>r. CHR ''/'' \<notin> set r \<and> p = path_join d (pre @ r @ suf)) \<and>
        (\<forall>q. node q = node p \<longrightarrow> \<not> os_exists T q w) \<and> file w (node p) = None \<and>
        file w' = (file w)(node p \<mapsto> ([], 384))) \<and>
     (\<forall>p ok w w'. os_tempfile_keep T p w = (ok, w') \<longrightarrow> file w' = file w) \<and>
     (\<forall>p w. file (os_tempfile_drop T p w) = (file w)(node p := None))"

text \<open>
  The signing script writes its output file only, keeps the mode of that file, and after a success
  the output is the signed form of the input for the given UUID and key.
\<close>

definition signer_ok ::
    "'w os_api \<Rightarrow> ('w \<Rightarrow> 'i \<Rightarrow> (bytes \<times> nat) option) \<Rightarrow> (string \<Rightarrow> 'i) \<Rightarrow> (string \<Rightarrow> bytes \<Rightarrow> bytes \<Rightarrow> bytes) \<Rightarrow> bool" where
  "signer_ok T file node sgn_fun \<longleftrightarrow>
     (\<forall>s u k i out r w w'. os_status T (sign_command s u k i out) w = (r, w') \<longrightarrow>
        (\<forall>n. n \<noteq> node out \<longrightarrow> file w' n = file w n) \<and>
        (r = Some (Some 0) \<longrightarrow>
           (\<exists>key kmode d dmode d0 m. file w (node k) = Some (key, kmode) \<and> file w (node i) = Some (d, dmode) \<and>
              file w (node out) = Some (d0, m) \<and> file w' (node out) = Some (sgn_fun u key d, m))))"

section \<open>Lemmas\<close>

lemma fs_okD:
  assumes "fs_ok T file node"
  shows "os_read T p w = map_option fst (file w (node p))"
    "os_rename T a b w = (False, w') \<Longrightarrow> file w' = file w"
    "os_rename T a b w = (True, w') \<Longrightarrow> node a \<noteq> node b \<Longrightarrow> file w' = (file w)(node b := file w (node a), node a := None)"
    "os_chmod T p m w = (False, w') \<Longrightarrow> file w' = file w"
    "os_chmod T p m w = (True, w') \<Longrightarrow> \<exists>d m'. file w (node p) = Some (d, m') \<and> file w' = (file w)(node p \<mapsto> (d, m))"
    "os_copy T a b w = (True, w') \<Longrightarrow> node a \<noteq> node b \<Longrightarrow> \<exists>x. file w (node a) = Some x \<and> file w' = (file w)(node b \<mapsto> x)"
    "os_tempfile T d pre suf w = (None, w') \<Longrightarrow> file w' = file w"
    "os_tempfile T d pre suf w = (Some p, w') \<Longrightarrow> \<exists>r. CHR ''/'' \<notin> set r \<and> p = path_join d (pre @ r @ suf)"
    "os_tempfile T d pre suf w = (Some p, w') \<Longrightarrow> node q = node p \<Longrightarrow> \<not> os_exists T q w"
    "os_tempfile T d pre suf w = (Some p, w') \<Longrightarrow> file w (node p) = None \<and> file w' = (file w)(node p \<mapsto> ([], 384))"
    "os_tempfile_keep T p w = (ok, w') \<Longrightarrow> file w' = file w"
    "file (os_tempfile_drop T p w) = (file w)(node p := None)"
  using assms by (simp_all add: fs_ok_def)

lemma signer_okD:
  assumes "signer_ok T file node sgn_fun" "os_status T (sign_command s u k i out) w = (r, w')"
  shows "n \<noteq> node out \<Longrightarrow> file w' n = file w n"
    "r = Some (Some 0) \<Longrightarrow> \<exists>key kmode d dmode d0 m. file w (node k) = Some (key, kmode) \<and> file w (node i) = Some (d, dmode) \<and>
       file w (node out) = Some (d0, m) \<and> file w' (node out) = Some (sgn_fun u key d, m)"
  using assms by (simp_all add: signer_ok_def)

lemma publish_tail:
  assumes F: "fs_ok T file node" and tmp: "file w (node tmp) = Some (y, 384)" and ne: "node tmp \<noteq> node out"
    and run: "io_bind (publish_tempfile T tmp out) (\<lambda>_. io_bind (set_ta_file_permissions T out) (\<lambda>_. io_return a)) w = (res, w')"
  shows "(\<forall>n. n \<noteq> node tmp \<longrightarrow> n \<noteq> node out \<longrightarrow> file w' n = file w n) \<and>
    (file w' (node out) = file w (node out) \<or> (\<exists>m. (m = 384 \<or> m = 420) \<and> file w' (node out) = Some (y, m))) \<and>
    (\<forall>b. res = Inr b \<longrightarrow> b = a \<and> file w' (node out) = Some (y, 420))"
proof -
  obtain k w1 where k: "os_tempfile_keep T tmp w = (k, w1)" by fastforce
  then have f1: "file w1 = file w" by (rule fs_okD(11)[OF F])
  show ?thesis
  proof (cases k)
    case False
    then show ?thesis using run k f1 ne
      by (auto simp: io_bind_eq publish_tempfile_def on_error_def io_call_def fs_okD(12)[OF F])
  next
    case True
    obtain r w2 where r: "os_rename T tmp out w1 = (r, w2)" by fastforce
    show ?thesis
    proof (cases r)
      case False
      then show ?thesis using run k \<open>k\<close> r f1 fs_okD(2)[OF F, of tmp out w1 w2]
        by (auto simp: io_bind_eq publish_tempfile_def on_error_def io_call_def)
    next
      case True
      have f2: "file w2 = (file w)(node out \<mapsto> (y, 384), node tmp := None)"
        using fs_okD(3)[OF F, of tmp out w1 w2] ne f1 tmp True r by simp
      obtain c w3 where c: "os_chmod T out 420 w2 = (c, w3)" by fastforce
      then have "w' = w3" and res: "res = (if c then Inr a else Inl (PermissionsFailed out))"
        using run k \<open>k\<close> r True
        by (auto simp: io_bind_eq publish_tempfile_def on_error_def io_call_def set_ta_file_permissions_def TA_FILE_MODE_def
            io_return_def split: if_splits)
      moreover have "file w3 = (if c then (file w2)(node out \<mapsto> (y, 420)) else file w2)"
      proof (cases c)
        case True
        with c fs_okD(5)[OF F, of out 420 w2 w3] f2 ne show ?thesis by auto
      next
        case False
        with c fs_okD(4)[OF F, of out 420 w2 w3] show ?thesis by simp
      qed
      ultimately show ?thesis using f2 ne by (cases c) auto
    qed
  qed
qed

lemma plain_ta: "uuid_text_ok show \<Longrightarrow> plain (show u @ ''.ta'')"
proof -
  assume A: "uuid_text_ok show"
  then have "CHR ''/'' \<notin> set (show u)" by (auto simp: uuid_text_ok_def)
  moreover have "show u @ ''.ta'' \<noteq> ''.''" "show u @ ''.ta'' \<noteq> ''..''" by (cases "show u"; simp)+
  ultimately show ?thesis by (simp add: plain_def)
qed

lemma plain_partial:
  assumes "uuid_text_ok show" "CHR ''/'' \<notin> set r"
  shows "plain (show u @ ''.ta.'' @ r @ ''.partial'')"
proof -
  have "CHR ''/'' \<notin> set (show u)" using assms(1) by (auto simp: uuid_text_ok_def)
  moreover have "length (show u) = 36" using assms(1) by (simp add: uuid_text_ok_def)
  then have "length (show u @ ''.ta.'' @ r @ ''.partial'') > 2" by simp
  then have "show u @ ''.ta.'' @ r @ ''.partial'' \<noteq> ''.''" "show u @ ''.ta.'' @ r @ ''.partial'' \<noteq> ''..''"
    by (metis length_Cons list.size(3) not_less_eq numeral_2_eq_2 less_irrefl less_Suc_eq)+
  ultimately show ?thesis using assms(2) by (simp add: plain_def)
qed

lemma partial_differs:
  assumes "names_ok node" "uuid_text_ok show" "CHR ''/'' \<notin> set r"
  shows "node (path_join d (show u @ ''.ta.'' @ r @ ''.partial'')) \<noteq> node (path_join d' (show u @ ''.ta''))"
proof -
  have "show u @ ''.ta.'' @ r @ ''.partial'' \<noteq> show u @ ''.ta''" by simp
  then show ?thesis
    using assms plain_partial[OF assms(2,3), of u] plain_ta[OF assms(2), of u] unfolding names_ok_def by blast
qed

text \<open>The complete signed image, under the name of the UUID that is in the input.\<close>

definition signed_image ::
    "('w \<Rightarrow> 'i \<Rightarrow> (bytes \<times> nat) option) \<Rightarrow> (string \<Rightarrow> 'i) \<Rightarrow> (string \<Rightarrow> bytes \<Rightarrow> bytes \<Rightarrow> bytes) \<Rightarrow> 'u uuid_crate \<Rightarrow> ('u \<Rightarrow> string) \<Rightarrow>
     (bytes \<rightharpoonup> elf) \<Rightarrow> string \<Rightarrow> string \<Rightarrow> 'w \<Rightarrow> 'u \<Rightarrow> bytes \<Rightarrow> bool" where
  "signed_image file node sgn_fun U show parse key stripped w u y \<longleftrightarrow>
     (\<exists>d dmode kd kmode. file w (node stripped) = Some (d, dmode) \<and> file w (node key) = Some (kd, kmode) \<and>
        read_ta_uuid_from_bytes U parse d = Inr u \<and> y = sgn_fun (show u) kd d)"

text \<open>The binary of this run: built and then stripped, in the world that the tool has reached.\<close>

definition built_and_stripped ::
    "'w os_api \<Rightarrow> (Arch \<Rightarrow> bytes) \<Rightarrow> (string \<rightharpoonup> string) \<Rightarrow> TaBuildConfig \<Rightarrow> 'w \<Rightarrow> string \<Rightarrow> 'w \<Rightarrow> bool" where
  "built_and_stripped T target_json env config w stripped w1 \<longleftrightarrow>
     (\<exists>path target cross w2 elf w3. absolute_dir T (tb_path config) w = Inr path \<and>
        resolve_target_and_cross_compile env (tb_arch config) (ta_build_mode config) = Inr (target, cross) \<and>
        check_toolchain_exists T cross w = (Inr (), w2) \<and>
        ta_build_binary T target_json env (config\<lparr>tb_path := path\<rparr>) w2 = (Inr elf, w3) \<and>
        ta_strip_binary T env (config\<lparr>tb_path := path\<rparr>) elf w3 = (Inr stripped, w1))"

lemma read_ta_uuid_Inr:
  "fs_ok T file node \<Longrightarrow> read_ta_uuid U parse (\<lambda>p. os_read T p w) p = Inr u \<Longrightarrow>
     \<exists>d m. file w (node p) = Some (d, m) \<and> read_ta_uuid_from_bytes U parse d = Inr u"
  by (cases "file w (node p)") (auto simp: read_ta_uuid_def fs_okD(1))

lemma sign_ta_unfold:
  assumes u: "read_ta_uuid U parse (\<lambda>p. os_read T p w) stripped = Inr u"
    and ex: "os_exists T (tb_signing_key config) w"
    and s: "join_and_check T (tb_ta_dev_kit_dir config) [''scripts'', ''sign_encrypt.py''] ''Sign script'' w = Inr s"
    and p: "path_parent stripped = Some p"
  shows "sign_ta T U show parse config stripped w =
    (case os_tempfile T p (show u @ ''.ta.'') ''.partial'' w of
       (None, w1) \<Rightarrow> (Inl (TempFileFailed p), w1)
     | (Some tmp, w1) \<Rightarrow>
         (case os_status T (sign_command s (show u) (tb_signing_key config) stripped tmp) w1 of
            (r, w2) \<Rightarrow>
              if r = Some (Some 0)
              then io_bind (publish_tempfile T tmp (path_join p (show u @ ''.ta''))) (\<lambda>_.
                   io_bind (set_ta_file_permissions T (path_join p (show u @ ''.ta''))) (\<lambda>_.
                   io_return \<lparr>ba_uuid = u, ba_path = path_join p (show u @ ''.ta'')\<rparr>)) w2
              else (case r of None \<Rightarrow> (Inl (SpawnFailed ''sign_encrypt.py''), os_tempfile_drop T tmp w2)
                    | Some st \<Rightarrow> (Inl (ExitStatus ''sign_encrypt.py'' st), os_tempfile_drop T tmp w2))))"
  by (auto simp: sign_ta_def Let_def io_bind_eq io_ask_def io_check_def u ex s p unique_tempfile_in_def io_alloc_def
      on_error_def run_streaming_command_def ok_or_def split: option.splits prod.splits)

lemma sign_ta_early:
  assumes "sign_ta T U show parse config stripped w = (res, w')"
  obtains (early) e where "res = Inl e" "w' = w"
  | (late) u s p where "read_ta_uuid U parse (\<lambda>p. os_read T p w) stripped = Inr u"
      "os_exists T (tb_signing_key config) w"
      "join_and_check T (tb_ta_dev_kit_dir config) [''scripts'', ''sign_encrypt.py''] ''Sign script'' w = Inr s"
      "path_parent stripped = Some p"
proof (cases "read_ta_uuid U parse (\<lambda>p. os_read T p w) stripped")
  case (Inl e)
  then show thesis using assms early by (auto simp: sign_ta_def Let_def io_bind_eq io_ask_def)
next
  case u: (Inr u)
  show thesis
  proof (cases "os_exists T (tb_signing_key config) w")
    case False
    then show thesis using assms early u by (auto simp: sign_ta_def Let_def io_bind_eq io_ask_def io_check_def)
  next
    case True
    note ex = True
    show thesis
    proof (cases "join_and_check T (tb_ta_dev_kit_dir config) [''scripts'', ''sign_encrypt.py''] ''Sign script'' w")
      case (Inl e)
      then show thesis using assms early u ex by (auto simp: sign_ta_def Let_def io_bind_eq io_ask_def io_check_def)
    next
      case (Inr s)
      then show thesis using assms early late u ex
        by (cases "path_parent stripped") (auto simp: sign_ta_def Let_def io_bind_eq io_ask_def io_check_def)
    qed
  qed
qed

lemma sign_ta_effect:
  assumes F: "fs_ok T file node" and S: "signer_ok T file node sgn_fun" and N: "names_ok node" and X: "uuid_text_ok show"
    and run: "sign_ta T U show parse config stripped w = (res, w')"
  shows "(\<forall>n x. file w n = Some x \<longrightarrow> file w' n = Some x \<or>
      (\<exists>p u y m. path_parent stripped = Some p \<and> n = node (path_join p (show u @ ''.ta'')) \<and> (m = 384 \<or> m = 420) \<and>
         signed_image file node sgn_fun U show parse (tb_signing_key config) stripped w u y \<and> file w' n = Some (y, m))) \<and>
    (\<forall>a. res = Inr a \<longrightarrow>
      (\<exists>p y. path_parent stripped = Some p \<and> ba_path a = path_join p (show (ba_uuid a) @ ''.ta'') \<and>
         signed_image file node sgn_fun U show parse (tb_signing_key config) stripped w (ba_uuid a) y \<and>
         file w' (node (ba_path a)) = Some (y, 420)))"
  using run
proof (cases rule: sign_ta_early)
  case (late u s p)
  let ?out = "path_join p (show u @ ''.ta'')"
  note eq = sign_ta_unfold[OF late, of "show"]
  obtain t w1 where t: "os_tempfile T p (show u @ ''.ta.'') ''.partial'' w = (t, w1)" by fastforce
  show ?thesis
  proof (cases t)
    case None
    then show ?thesis using run eq t fs_okD(7)[OF F t[unfolded None]] by auto
  next
    case (Some tmp)
    note t = t[unfolded Some]
    note fresh = fs_okD(10)[OF F t]
    obtain r where r: "CHR ''/'' \<notin> set r" "tmp = path_join p ((show u @ ''.ta.'') @ r @ ''.partial'')"
      using fs_okD(8)[OF F t] by blast
    have ne: "node tmp \<noteq> node ?out" using partial_differs[OF N X r(1), of p u p] r(2) by simp
    obtain d dm where d: "file w (node stripped) = Some (d, dm)" "read_ta_uuid_from_bytes U parse d = Inr u"
      using read_ta_uuid_Inr[OF F late(1)] by blast
    have other: "node (tb_signing_key config) \<noteq> node tmp" "node stripped \<noteq> node tmp"
      using fs_okD(9)[OF F t] late(2) fresh d(1) by auto
    obtain st w2 where st: "os_status T (sign_command s (show u) (tb_signing_key config) stripped tmp) w1 = (st, w2)" by fastforce
    then have keep: "n \<noteq> node tmp \<Longrightarrow> file w2 n = file w n" for n
      using signer_okD(1)[OF S st] fresh by simp
    show ?thesis
    proof (cases "st = Some (Some 0)")
      case False
      then have "file w' = (file w2)(node tmp := None)" "\<exists>e. res = Inl e"
        using run eq t st by (auto simp: fs_okD(12)[OF F] split: option.splits)
      then show ?thesis using keep fresh by auto
    next
      case True
      then obtain key km where key: "file w (node (tb_signing_key config)) = Some (key, km)"
          "file w2 (node tmp) = Some (sgn_fun (show u) key d, 384)"
        using signer_okD(2)[OF S st True] fresh other d(1) by auto
      have img: "signed_image file node sgn_fun U show parse (tb_signing_key config) stripped w u (sgn_fun (show u) key d)"
        using d key(1) by (auto simp: signed_image_def)
      have "io_bind (publish_tempfile T tmp ?out) (\<lambda>_. io_bind (set_ta_file_permissions T ?out) (\<lambda>_.
          io_return \<lparr>ba_uuid = u, ba_path = ?out\<rparr>)) w2 = (res, w')" using run eq t st True by simp
      note tail = publish_tail[OF F key(2) ne this]
      have out: "file w2 (node ?out) = file w (node ?out)" using keep ne by metis
      show ?thesis
      proof (intro conjI allI impI)
        fix n x
        assume x: "file w n = Some x"
        then have "n \<noteq> node tmp" using fresh by auto
        then show "file w' n = Some x \<or>
          (\<exists>p u y m. path_parent stripped = Some p \<and> n = node (path_join p (show u @ ''.ta'')) \<and> (m = 384 \<or> m = 420) \<and>
             signed_image file node sgn_fun U show parse (tb_signing_key config) stripped w u y \<and> file w' n = Some (y, m))"
          using tail keep x out late(4) img by (cases "n = node ?out") (force, simp)
      next
        fix a
        assume "res = Inr a"
        with tail have "a = \<lparr>ba_uuid = u, ba_path = ?out\<rparr>" "file w' (node ?out) = Some (sgn_fun (show u) key d, 420)" by auto
        then show "\<exists>p y. path_parent stripped = Some p \<and> ba_path a = path_join p (show (ba_uuid a) @ ''.ta'') \<and>
            signed_image file node sgn_fun U show parse (tb_signing_key config) stripped w (ba_uuid a) y \<and>
            file w' (node (ba_path a)) = Some (y, 420)"
          using img late(4) by auto
      qed
    qed
  qed
qed auto

lemma file_name_no_slash: "path_file_name p = Some n \<Longrightarrow> CHR ''/'' \<notin> set n"
  by (auto simp: path_file_name_def Let_def dest: set_takeWhileD split: if_splits)

lemma strip_Inr:
  assumes F: "fs_ok T file node" and run: "ta_strip_binary T env config elf w = (Inr stripped, w')"
  shows "\<exists>d fn r. CHR ''/'' \<notin> set fn \<and> CHR ''/'' \<notin> set r \<and> stripped = path_join d (''stripped_'' @ fn @ ''.'' @ r)"
proof -
  from run obtain fn where fn: "path_file_name elf = Some fn"
    by (auto simp: ta_strip_binary_def io_ask_def split: option.splits dest!: io_bind_InrD)
  with run obtain d w1 where "os_tempfile T d (''stripped_'' @ fn @ ''.'') [] w = (Some stripped, w1)"
    by (auto simp: ta_strip_binary_def io_ask_def unique_tempfile_in_def io_alloc_def on_error_def io_return_def ok_or_def Let_def
        split: option.splits prod.splits sum.splits if_splits dest!: io_bind_InrD)
  from fs_okD(8)[OF F this] file_name_no_slash[OF fn] show ?thesis by auto
qed

lemma stripped_differs:
  assumes "names_ok node" "uuid_text_ok show" "CHR ''/'' \<notin> set fn" "CHR ''/'' \<notin> set r"
  shows "node (path_join d (''stripped_'' @ fn @ ''.'' @ r)) \<noteq> node (path_join d' (show u @ ''.ta''))"
proof -
  have "length (show u) = 36" "set (show u) \<subseteq> set ''0123456789abcdef-''" using assms(2) by (simp_all add: uuid_text_ok_def)
  then obtain c cs where "show u = c # cs" "c \<noteq> CHR ''s''" by (cases "show u") auto
  then have "''stripped_'' @ fn @ ''.'' @ r \<noteq> show u @ ''.ta''" by simp
  moreover have "plain (''stripped_'' @ fn @ ''.'' @ r)" using assms(3,4) by (simp add: plain_def)
  ultimately show ?thesis using assms(1) plain_ta[OF assms(2), of u] unfolding names_ok_def by blast
qed

lemma build_ta_Inr:
  assumes "build_ta T U show parse target_json env config dir w = (Inr (), w')"
  obtains path elf stripped w0 w1 w2 where
    "ta_strip_binary T env (config\<lparr>tb_path := path\<rparr>) elf w0 = (Inr stripped, w1)"
    "built_and_stripped T target_json env config w stripped w1"
    "io_bind (sign_ta T U show parse (config\<lparr>tb_path := path\<rparr>) stripped) (install_ta T show dir) w1 = (Inr (), w2)"
    "w' = os_tempfile_drop T stripped w2"
proof -
  have mode: "ta_build_mode (config\<lparr>tb_path := p\<rparr>) = ta_build_mode config" for p by (simp add: ta_build_mode_def)
  from assms obtain path target cross w2 elf w3 stripped w1 w4 where r:
      "absolute_dir T (tb_path config) w = Inr path"
      "resolve_target_and_cross_compile env (tb_arch config) (ta_build_mode config) = Inr (target, cross)"
      "check_toolchain_exists T cross w = (Inr (), w2)"
      "ta_build_binary T target_json env (config\<lparr>tb_path := path\<rparr>) w2 = (Inr elf, w3)"
      "ta_strip_binary T env (config\<lparr>tb_path := path\<rparr>) elf w3 = (Inr stripped, w1)"
      "io_bind (sign_ta T U show parse (config\<lparr>tb_path := path\<rparr>) stripped) (install_ta T show dir) w1 = (Inr (), w4)"
      "w' = os_tempfile_drop T stripped w4"
    by (auto simp: build_ta_def Let_def finally_drop_def io_ask_def io_check_def mode dest!: io_bind_InrD split: prod.splits if_splits)
  then have "built_and_stripped T target_json env config w stripped w1" unfolding built_and_stripped_def by blast
  with r show thesis using that by blast
qed

lemma install_effect:
  assumes F: "fs_ok T file node" and run: "install_ta T show (Some dir) a w = (Inr (), w')"
    and y: "file w (node (ba_path a)) = Some (y, m)"
    and ne: "node (ba_path a) \<noteq> node (path_join dir (show (ba_uuid a) @ ''.ta''))"
  shows "file w' (node (path_join dir (show (ba_uuid a) @ ''.ta''))) = Some (y, 420)"
proof -
  let ?dest = "path_join dir (show (ba_uuid a) @ ''.ta'')"
  from run obtain w1 where w1: "os_copy T (ba_path a) ?dest w = (True, w1)" "os_chmod T ?dest 420 w1 = (True, w')"
    by (auto simp: install_ta_def io_check_def io_call_def set_ta_file_permissions_def TA_FILE_MODE_def Let_def
        dest!: io_bind_InrD split: if_splits prod.splits)
  have "file w1 (node ?dest) = Some (y, m)" using fs_okD(6)[OF F w1(1) ne] y by auto
  with fs_okD(5)[OF F w1(2)] show ?thesis by auto
qed

section \<open>Properties\<close>

text \<open>
  C18.  Signing is all or nothing.  Whatever fails on the way, no file that existed before is
  damaged: it is as it was, or it is the file of the application, and then it holds the complete
  signed image, for the UUID that is in the stripped binary.  If signing succeeds, that file holds
  the complete image and is readable by everyone.
\<close>

theorem signing_all_or_nothing:
  assumes "fs_ok T file node" and "signer_ok T file node sgn_fun" and "names_ok node" and "uuid_text_ok show"
    and "sign_ta T U show parse config stripped w = (res, w')"
  shows "(\<forall>n x. file w n = Some x \<longrightarrow> file w' n = Some x \<or>
      (\<exists>p u y m. path_parent stripped = Some p \<and> n = node (path_join p (show u @ ''.ta'')) \<and> (m = 384 \<or> m = 420) \<and>
         signed_image file node sgn_fun U show parse (tb_signing_key config) stripped w u y \<and> file w' n = Some (y, m))) \<and>
    (\<forall>a. res = Inr a \<longrightarrow>
      (\<exists>p y. path_parent stripped = Some p \<and> ba_path a = path_join p (show (ba_uuid a) @ ''.ta'') \<and>
         signed_image file node sgn_fun U show parse (tb_signing_key config) stripped w (ba_uuid a) y \<and>
         file w' (node (ba_path a)) = Some (y, TA_FILE_MODE)))"
  using sign_ta_effect[OF assms] unfolding TA_FILE_MODE_def .


section \<open>A reference instance\<close>

text \<open>Files by path; a new temporary file has a name longer than every other.\<close>

type_synonym ref_disk = "(string \<times> bytes \<times> nat) list"

definition ref_temp_name :: "string \<Rightarrow> string \<Rightarrow> string \<Rightarrow> ref_disk \<Rightarrow> string" where
  "ref_temp_name d pre suf w = path_join d (pre @ replicate (4 + sum_list (map (length \<circ> fst) w)) CHR ''x'' @ suf)"

definition ref_sign :: "string \<Rightarrow> bytes \<Rightarrow> bytes \<Rightarrow> bytes" where
  "ref_sign u key d = key @ as_bytes u @ d"

definition ref_status :: "command \<Rightarrow> ref_disk \<Rightarrow> int option option \<times> ref_disk" where
  "ref_status cmd w =
     (case cmd_args cmd of
        [s, _, u, _, k, _, i, _, out] \<Rightarrow>
          (case (map_of w k, map_of w i, map_of w out) of
             (Some (key, _), Some (d, _), Some (_, m)) \<Rightarrow> (Some (Some 0), (out, ref_sign u key d, m) # w)
           | _ \<Rightarrow> (Some (Some 1), w))
      | [_, a, b] \<Rightarrow>
          (case (map_of w a, map_of w b) of
             (Some (d, _), Some (_, m)) \<Rightarrow> (Some (Some 0), (b, d, m) # w)
           | _ \<Rightarrow> (Some (Some 1), w))
      | _ \<Rightarrow> (Some (Some 0), w))"

definition ref_os :: "ref_disk os_api" where
  "ref_os = \<lparr>os_exists = (\<lambda>p w. p = ''/o'' \<or> map_of w p \<noteq> None), os_is_dir = (\<lambda>p w. True), os_is_file = (\<lambda>p w. map_of w p \<noteq> None),
     os_canonicalize = (\<lambda>p w. Some p), os_current_dir = (\<lambda>w. Some ''/p''), os_cargo_metadata = (\<lambda>p w. None),
     os_status = ref_status,
     os_spawn = (\<lambda>cmd w. (Some ([Some (CompilerArtifact \<lparr>ar_manifest_path = ''/p/Cargo.toml'', ar_profile_test = False,
       ar_kinds = [''bin''], ar_crate_types = [''bin''], ar_executable = Some ''/p/t'', ar_filenames = [''/p/t'']\<rparr>)], Some (Some 0)), w)),
     os_read = (\<lambda>p w. map_option fst (map_of w p)),
     os_write = (\<lambda>p d w. (True, (p, d, 420) # w)),
     os_copy = (\<lambda>a b w. case map_of w a of Some x \<Rightarrow> (True, (b, x) # w) | None \<Rightarrow> (False, w)),
     os_rename = (\<lambda>a b w. case map_of w a of Some x \<Rightarrow> (True, (b, x) # filter (\<lambda>kv. fst kv \<noteq> a) w) | None \<Rightarrow> (False, w)),
     os_chmod = (\<lambda>p m w. case map_of w p of Some (d, _) \<Rightarrow> (True, (p, d, m) # w) | None \<Rightarrow> (False, w)),
     os_remove_dir_all = (\<lambda>p w. (True, w)),
     os_tempfile = (\<lambda>d pre suf w. (Some (ref_temp_name d pre suf w), (ref_temp_name d pre suf w, [], 384) # w)),
     os_tempfile_keep = (\<lambda>p w. (True, w)),
     os_tempfile_drop = (\<lambda>p w. filter (\<lambda>kv. fst kv \<noteq> p) w),
     os_tempdir = (\<lambda>w. (Some ''/t'', w)), os_tempdir_drop = (\<lambda>p w. w), os_print = (\<lambda>s w. (True, w))\<rparr>"

lemma map_of_remove: "map_of (filter (\<lambda>kv. fst kv \<noteq> a) w) = (map_of w)(a := None)"
  by (induction w) (auto simp: fun_eq_iff)

lemma length_path_join: "plain n \<Longrightarrow> length n \<le> length (path_join d n)"
  by (simp add: path_join_def)

lemma ref_temp_fresh: "map_of w (ref_temp_name d pre suf w) = None"
proof -
  have "length p \<le> sum_list (map (length \<circ> fst) w)" if "(p, x) \<in> set w" for p x
    using that by (induction w) auto
  moreover have "sum_list (map (length \<circ> fst) w) < length (ref_temp_name d pre suf w)"
    by (simp add: ref_temp_name_def path_join_def)
  ultimately show ?thesis by (metis map_of_SomeD not_le option.exhaust)
qed

lemma ref_temp_long: "ref_temp_name d pre suf w \<noteq> ''/o''"
proof
  assume "ref_temp_name d pre suf w = ''/o''"
  then have "length (ref_temp_name d pre suf w) = 2" by simp
  then show False by (simp add: ref_temp_name_def path_join_def split: if_splits)
qed

lemma ref_fs_ok: "fs_ok ref_os map_of (\<lambda>p. p)"
proof -
  have n: "\<exists>r. CHR ''/'' \<notin> set r \<and> ref_temp_name d pre suf w = path_join d (pre @ r @ suf)" for d pre suf w
    by (intro exI[of _ "replicate (4 + sum_list (map (length \<circ> fst) w)) CHR ''x''"]) (simp add: ref_temp_name_def)
  show ?thesis
    unfolding fs_ok_def
    by (intro conjI allI impI)
      (auto simp: ref_os_def map_of_remove ref_temp_fresh ref_temp_long n fun_eq_iff split: option.splits)
qed

lemma ref_signer_ok: "signer_ok ref_os map_of (\<lambda>p. p) ref_sign"
  by (auto simp: signer_ok_def ref_os_def ref_status_def sign_command_def with_args_def Command_new_def split: option.splits)

lemma path_join_name: "plain n \<Longrightarrow> rev (takeWhile (\<lambda>c. c \<noteq> CHR ''/'') (rev (path_join d n))) = n"
proof -
  assume "plain n"
  then have n: "CHR ''/'' \<notin> set n" "\<not> path_is_absolute n" by (cases n; auto simp: plain_def path_is_absolute_def)+
  then have t: "takeWhile (\<lambda>c. c \<noteq> CHR ''/'') (rev n @ rest) = rev n @ takeWhile (\<lambda>c. c \<noteq> CHR ''/'') rest" for rest
    by (intro takeWhile_append2) auto
  show ?thesis
  proof (cases "d = []")
    case True
    then have "path_join d n = n" using n(2) by (simp add: path_join_def)
    moreover have "takeWhile (\<lambda>c. c \<noteq> CHR ''/'') (rev n) = rev n" using n(1) by (subst takeWhile_eq_all_conv) auto
    ultimately show ?thesis by (simp only: rev_rev_ident)
  next
    case False
    then obtain d' c where "d = d' @ [c]" by (cases d rule: rev_cases) auto
    then show ?thesis using n t by (simp add: path_join_def)
  qed
qed

lemma ref_names_ok: "names_ok (\<lambda>p. p)"
  unfolding names_ok_def by (metis path_join_name)

definition ref_show :: "bytes \<Rightarrow> string" where
  "ref_show b = hyphenated (take 16 (b @ replicate 16 0))"

lemma set_hex_digit: "d < 16 \<Longrightarrow> hex_digit d \<in> set ''0123456789abcdef-''"
proof -
  have "list_all (\<lambda>d. hex_digit d \<in> set ''0123456789abcdef-'') [0..<16]" by code_simp
  moreover assume "d < 16"
  ultimately show ?thesis by (simp add: list_all_iff)
qed

lemma set_hex_bytes: "set (hex_bytes bs) \<subseteq> set ''0123456789abcdef-''"
proof (induction bs)
  case (Cons b bs)
  have "set (hex_digits k n) \<subseteq> set ''0123456789abcdef-''" for k n
    by (induction k arbitrary: n) (use set_hex_digit in auto)
  with Cons show ?case by (auto simp: hex_byte_def)
qed simp

lemma ref_show_ok: "uuid_text_ok ref_show"
proof -
  have h: "length (hyphenated b) = 36" if "length b = 16" for b using that by (simp add: hyphenated_def)
  have "set (hyphenated b) \<subseteq> set ''0123456789abcdef-''" for b
    using set_hex_bytes by (auto simp: hyphenated_def)
  then show ?thesis by (simp add: uuid_text_ok_def ref_show_def h)
qed


definition ref_world :: ref_disk where
  "ref_world = [(''/p/Cargo.toml'', [], 420), (''/p/t'', sample_image (replicate 16 7), 493), (''/k'', [1, 2], 420),
     (''/d/scripts/sign_encrypt.py'', [], 493)]"

definition ref_config :: TaBuildConfig where
  "ref_config = \<lparr>tb_arch = Aarch64, tb_debug = False, tb_path = ''/p'', tb_env = [], tb_no_default_features = False,
     tb_features = None, tb_std = False, tb_ta_dev_kit_dir = ''/d'', tb_signing_key = ''/k''\<rparr>"

definition ref_parse :: "bytes \<rightharpoonup> elf" where
  "ref_parse = (\<lambda>_. Some (sample_elf ''ta_head'' (replicate 16 7)))"

lemma ref_uuid: "read_ta_uuid_from_bytes uuid_ref ref_parse (sample_image (replicate 16 7)) = Inr (replicate 16 7)"
proof -
  have [simp]: "exported_symbol (sample_elf ''ta_head'' (replicate 16 7)) ''ta_head'' =
      Some \<lparr>st_name = 1, st_bind = STB_GLOBAL, st_type = STT_OBJECT, st_shndx = 5, st_value = 0x1000, st_size = 0\<rparr>"
    by (simp add: exported_symbol_def sample_elf_def)
  have [simp]: "parse_optee_elf ref_parse (sample_image (replicate 16 7)) = Inr (sample_elf ''ta_head'' (replicate 16 7))"
    unfolding ref_parse_def by (rule sample_elf_ok) simp_all
  have "bytes_at_va (sample_elf ''ta_head'' (replicate 16 7)) (sample_image (replicate 16 7)) 0x1000 16 = Inr (replicate 16 7)"
    by (simp add: bytes_at_va_def sample_elf_def sample_image_def checked_add_u64_def checked_add_def usize_modulus_def)
  then show ?thesis
    by (simp add: read_ta_uuid_from_bytes_def symbol_or_error_def ensure_object_def TEE_UUID_SIZE_def tee_uuid_def uuid_ref_def raw_consts
        flip: replicate_add)
qed

lemma ref_signs:
  assumes "map_of w stripped = Some (sample_image (replicate 16 7), m)" "map_of w ''/k'' = Some (key, km)"
    and "map_of w ''/d/scripts/sign_encrypt.py'' \<noteq> None" "path_parent stripped = Some p"
  shows "\<exists>w'. sign_ta ref_os uuid_ref ref_show ref_parse (ref_config\<lparr>tb_path := q\<rparr>) stripped w =
      (Inr \<lparr>ba_uuid = replicate 16 7, ba_path = path_join p (ref_show (replicate 16 7) @ ''.ta'')\<rparr>, w')"
proof -
  let ?u = "replicate 16 7 :: bytes" and ?c = "ref_config\<lparr>tb_path := q\<rparr>"
  have u: "read_ta_uuid uuid_ref ref_parse (\<lambda>p. os_read ref_os p w) stripped = Inr ?u"
    using assms(1) ref_uuid by (simp add: read_ta_uuid_def ref_os_def)
  have e: "os_exists ref_os (tb_signing_key ?c) w" using assms(2) by (simp add: ref_os_def ref_config_def)
  have s: "join_and_check ref_os (tb_ta_dev_kit_dir ?c) [''scripts'', ''sign_encrypt.py''] ''Sign script'' w =
      Inr ''/d/scripts/sign_encrypt.py''"
    using assms(3) by (simp add: join_and_check_def Let_def ref_config_def path_join_def path_is_absolute_def ref_os_def)
  let ?t = "ref_temp_name p (ref_show ?u @ ''.ta.'') ''.partial'' w"
  have ne: "?t \<noteq> ''/k''" "?t \<noteq> stripped" using ref_temp_fresh[of w p "ref_show ?u @ ''.ta.''" "''.partial''"] assms(1,2) by force+
  show ?thesis
    unfolding sign_ta_unfold[OF u e s assms(4)]
    using assms(1,2) ne
    by (auto simp: ref_os_def ref_status_def sign_command_def with_args_def Command_new_def ref_config_def publish_tempfile_def
        on_error_def io_call_def io_bind_eq set_ta_file_permissions_def io_return_def)
qed

lemma ref_parent: "path_parent ''/p/t'' = Some ''/p''"
  by (simp add: path_parent_def path_trim_def)

theorem signing_all_or_nothing_witness:
  "\<exists>a w'. sign_ta ref_os uuid_ref ref_show ref_parse ref_config ''/p/t'' ref_world = (Inr a, w') \<and>
     ba_uuid a = replicate 16 7 \<and> (\<exists>y. map_of w' (ba_path a) = Some (y, TA_FILE_MODE)) \<and>
     map_of w' ''/k'' = Some ([1, 2], 420)"
proof -
  have "ref_config\<lparr>tb_path := ''/p''\<rparr> = ref_config" by (simp add: ref_config_def)
  then obtain w' where run: "sign_ta ref_os uuid_ref ref_show ref_parse ref_config ''/p/t'' ref_world =
      (Inr \<lparr>ba_uuid = replicate 16 7, ba_path = path_join ''/p'' (ref_show (replicate 16 7) @ ''.ta'')\<rparr>, w')"
    using ref_signs[of ref_world "''/p/t''" 493 "[1, 2]" 420 "''/p''" "''/p''"] ref_parent by (auto simp: ref_world_def)
  have "path_join ''/p'' (ref_show u @ ''.ta'') \<noteq> ''/k''" for u
    using path_join_name[OF plain_ta[OF ref_show_ok], of "''/p''" u] by (auto simp: append_eq_Cons_conv)
  then have other: "''/k'' \<noteq> path_join ''/p'' (ref_show u @ ''.ta'')" for u by metis
  note all = signing_all_or_nothing[OF ref_fs_ok ref_signer_ok ref_names_ok ref_show_ok run]
  have "map_of w' ''/k'' = Some ([1, 2], 420)"
    using spec[OF spec[OF conjunct1[OF all], of "''/k''"], of "([1, 2], 420)"] other by (simp add: ref_world_def ref_parent)
  then show ?thesis using conjunct2[OF all] run by fastforce
qed

lemma path_trim_name: "plain n \<Longrightarrow> path_trim_rev (rev n @ r) = rev n @ r"
proof -
  assume n: "plain n"
  then obtain c cs where c: "rev n = c # cs" by (cases "rev n") (auto simp: plain_def)
  have s: "c \<noteq> CHR ''/''" "CHR ''/'' \<notin> set cs" using n c unfolding plain_def by (metis list.set_intros set_rev)+
  show ?thesis
  proof (cases cs)
    case Nil
    then have "n = [c]" using c by (metis rev_singleton_conv)
    then have "c \<noteq> CHR ''.''" using n by (simp add: plain_def)
    then show ?thesis using c s Nil by (cases r) simp_all
  qed (use c s in auto)
qed

lemma parent_of_name: "plain n \<Longrightarrow> path_parent (path_join ''/p'' n) = Some ''/p''"
proof -
  assume n: "plain n"
  then have a: "\<not> path_is_absolute n" and s: "CHR ''/'' \<notin> set n" "n \<noteq> []" by (cases n; auto simp: plain_def path_is_absolute_def)+
  then have q: "path_join ''/p'' n = ''/p/'' @ n" by (simp add: path_join_def)
  have "path_trim (''/p/'' @ n) = ''/p/'' @ n" using path_trim_name[OF n, of "''/p/''"] by (simp add: path_trim_def)
  moreover have "dropWhile (\<lambda>c. c \<noteq> CHR ''/'') (rev n @ ''/p/'') = ''/p/''" using s(1) by (subst dropWhile_append2) auto
  ultimately show ?thesis using s(2) by (simp add: q path_parent_def path_trim_def)
qed

lemma ref_target: "resolve_target_and_cross_compile Map.empty Aarch64 Mode_TaNoStd = Inr (''aarch64-unknown-linux-gnu'', ''aarch64-linux-gnu-'')"
  by (simp add: resolve_target_and_cross_compile_def resolve_target_and_cross_compile_with_def get_target_and_cross_compile_def
      TARGET_CONFIGS_def env_var_def)

lemma ref_builds: "ta_build_binary ref_os (\<lambda>_. []) Map.empty ref_config w = (Inr ''/p/t'', w)"
proof -
  have m: "manifest_path ''/p'' = ''/p/Cargo.toml''" by (simp add: manifest_path_def path_join_def path_is_absolute_def)
  have "run_cargo_build ref_os c ''/p/Cargo.toml'' Artifact_Bin w = (Inr [''/p/t''], w)" for c
    by (simp add: run_cargo_build_def ref_os_def collect_cargo_artifacts_def select_artifact_def path_eq_def)
  then show ?thesis
    by (simp add: ta_build_binary_def ta_build_mode_def ref_config_def ref_target io_bind_eq io_ask_def setup_build_command_def
        io_return_def on_error_def Let_def finally_drop_def drop_temp_dir_def m unique_cargo_artifact_def)
qed

lemma ref_strips:
  assumes "map_of w ''/p/t'' = Some (d, m)"
  shows "\<exists>s w'. ta_strip_binary ref_os Map.empty ref_config ''/p/t'' w = (Inr s, w') \<and>
    map_of w' = (map_of w)(s \<mapsto> (d, 384)) \<and> map_of w s = None \<and> path_parent s = Some ''/p''"
proof -
  have n: "path_file_name ''/p/t'' = Some ''t''" by (simp add: path_file_name_def path_trim_def)
  have v: "valid_utf8 (as_bytes ''t'')" by (rule valid_utf8_ascii) (simp add: as_bytes_def)
  let ?s = "ref_temp_name ''/p'' ''stripped_t.'' [] w"
  have ne: "?s \<noteq> ''/p/t''" using ref_temp_fresh[of w "''/p''" "''stripped_t.''" "[]"] assms by force
  have "plain (''stripped_t.'' @ replicate (4 + sum_list (map (length \<circ> fst) w)) CHR ''x'' @ [])" by (simp add: plain_def)
  then have p: "path_parent ?s = Some ''/p''" unfolding ref_temp_name_def by (rule parent_of_name)
  have "ta_strip_binary ref_os Map.empty ref_config ''/p/t'' w = (Inr ?s, (?s, d, 384) # (?s, [], 384) # w)"
    using assms ne
    by (simp add: ta_strip_binary_def ta_build_mode_def ref_config_def ref_target io_bind_eq io_ask_def n v ref_parent
        unique_tempfile_in_def io_alloc_def on_error_def run_streaming_command_def Let_def ref_os_def ref_status_def with_args_def
        Command_new_def io_return_def)
  moreover have "map_of ((?s, d, 384) # (?s, [], 384) # w) = (map_of w)(?s \<mapsto> (d, 384))" by simp
  ultimately show ?thesis using p ref_temp_fresh by blast
qed

lemma ref_installs:
  "map_of w (ba_path a) = Some x \<Longrightarrow> \<exists>w'. install_ta ref_os ref_show (Some ''/o'') a w = (Inr (), w')"
  by (cases x) (simp add: install_ta_def io_bind_eq io_check_def io_call_def set_ta_file_permissions_def ref_os_def Let_def)


subsection \<open>The environment of the compiler\<close>

lemma apply_envs_eq: "apply_envs kvs cmd = cmd\<lparr>cmd_envs := cmd_envs cmd @ kvs\<rparr>"
  by (induction kvs cmd rule: apply_envs.induct) (simp_all add: with_env_def)

lemma cargo_envs: "cmd_envs (cargo_command_in env p) = []"
  by (simp add: cargo_command_in_def cargo_command_def Command_new_def)

text \<open>The settings of the tool that no custom variable can replace, latest first.\<close>

definition reserved_envs :: "'w os_api \<Rightarrow> (string \<rightharpoonup> string) \<Rightarrow> TaBuildConfig \<Rightarrow> string \<Rightarrow> string option \<Rightarrow> 'w \<Rightarrow> (string \<times> string) list" where
  "reserved_envs T env config cross temp_dir w =
     (if tb_std config then [(''__CARGO_TESTS_ONLY_SRC_ROOT'', unwrap_or (env_var env ''__CARGO_TESTS_ONLY_SRC_ROOT'') [])] else []) @
     (case temp_dir of Some d \<Rightarrow> [(''RUST_TARGET_PATH'', d)] | None \<Rightarrow> []) @
     [(''CROSS_COMPILE'', cross),
      (''TA_DEV_KIT_DIR'', unwrap_or (os_canonicalize T (tb_ta_dev_kit_dir config) w) (tb_ta_dev_kit_dir config))]"

lemma setup_build_envs:
  assumes "setup_build_command T target_json env config command w = (Inr (cmd, temp_dir), w')"
  shows "\<exists>target cross. resolve_target_and_cross_compile env (tb_arch config) (ta_build_mode config) = Inr (target, cross) \<and>
    (temp_dir = None \<longleftrightarrow> \<not> tb_std config) \<and>
    (tb_std config \<longrightarrow> env_var env ''__CARGO_TESTS_ONLY_SRC_ROOT'' \<noteq> None) \<and>
    rev (cmd_envs cmd) = reserved_envs T env config cross temp_dir w' @ rev (tb_env config) @ [(''RUSTFLAGS'', ta_rustflags env (tb_std config))]"
  using assms
  by (auto simp: setup_build_command_def ta_cargo_command_def Let_def io_ask_def io_return_def on_error_def apply_envs_eq with_env_def
      with_args_def cargo_envs reserved_envs_def option_or_def dest!: io_bind_InrD split: prod.splits option.splits if_splits sum.splits)


definition ref_std_os :: "ref_disk os_api" where
  "ref_std_os = ref_os\<lparr>os_tempdir := \<lambda>w. (Some ''/x'', w), os_write := \<lambda>p d w. (True, w), os_exists := \<lambda>p w. True\<rparr>"

definition ref_std_config :: TaBuildConfig where
  "ref_std_config = ref_config\<lparr>tb_std := True, tb_env := [(''CROSS_COMPILE'', ''x''), (''RUSTFLAGS'', ''-g''), (''A'', ''1''), (''A'', ''2'')]\<rparr>"


end
