(* ===== verification/Net.thy ===== *)
theory Net
  imports TeeError RustString
begin

text \<open>
  Sockets of a trusted application, \<^verbatim>\<open>crates/optee-utee/src/net/\<close>: the error type
  (\<^verbatim>\<open>error.rs\<close>), the TCP and UDP adapters over the instances of the GlobalPlatform socket API
  (\<^verbatim>\<open>optee.rs\<close>), the generic socket with its timeouts (\<^verbatim>\<open>socket.rs\<close>), and the two sets of
  convenience functions, without (\<^verbatim>\<open>optee_no_std.rs\<close>) and with (\<^verbatim>\<open>optee_std.rs\<close>) the standard
  library.

  An instance of the socket API is a parameter over an opaque world.
\<close>

section \<open>Definitions\<close>

subsection \<open>The socket API\<close>

definition TEE_ISOCKET_ERROR_PROTOCOL :: u32 where [raw_consts]: "TEE_ISOCKET_ERROR_PROTOCOL = 0xF1007001"
definition TEE_ISOCKET_ERROR_REMOTE_CLOSED :: u32 where [raw_consts]: "TEE_ISOCKET_ERROR_REMOTE_CLOSED = 0xF1007002"
definition TEE_ISOCKET_ERROR_TIMEOUT :: u32 where [raw_consts]: "TEE_ISOCKET_ERROR_TIMEOUT = 0xF1007003"
definition TEE_ISOCKET_ERROR_OUT_OF_RESOURCES :: u32 where [raw_consts]: "TEE_ISOCKET_ERROR_OUT_OF_RESOURCES = 0xF1007004"
definition TEE_ISOCKET_ERROR_LARGE_BUFFER :: u32 where [raw_consts]: "TEE_ISOCKET_ERROR_LARGE_BUFFER = 0xF1007005"
definition TEE_ISOCKET_WARNING_PROTOCOL :: u32 where [raw_consts]: "TEE_ISOCKET_WARNING_PROTOCOL = 0xF1007006"
definition TEE_ISOCKET_ERROR_HOSTNAME :: u32 where [raw_consts]: "TEE_ISOCKET_ERROR_HOSTNAME = 0xF1007007"

datatype ip_version = TEE_IP_VERSION_DC | TEE_IP_VERSION_4 | TEE_IP_VERSION_6

record Setup =
  su_addr :: bytes
  su_port :: u16
  su_version :: ip_version

text \<open>
  An instance: \<open>is_open\<close> gives the code, the handle and the protocol error; \<open>is_send\<close> and
  \<open>is_recv\<close> get the length that the caller announces and a timeout, and give the code and
  the length they store back, \<open>is_recv\<close> also the bytes stored in the buffer.
\<close>

record 'w isocket =
  is_open :: "Setup \<Rightarrow> 'w \<Rightarrow> u32 \<times> u64 \<times> u32 \<times> 'w"
  is_close :: "u64 \<Rightarrow> 'w \<Rightarrow> u32 \<times> 'w"
  is_send :: "u64 \<Rightarrow> bytes \<Rightarrow> u32 \<Rightarrow> u32 \<Rightarrow> 'w \<Rightarrow> u32 \<times> u32 \<times> 'w"
  is_recv :: "u64 \<Rightarrow> u32 \<Rightarrow> u32 \<Rightarrow> 'w \<Rightarrow> u32 \<times> u32 \<times> bytes \<times> 'w"
  is_error :: "u64 \<Rightarrow> 'w \<Rightarrow> u32 \<times> 'w"

text \<open>The two instances.\<close>

record 'w sockets =
  TEE_tcpSocket :: "'w isocket"
  TEE_udpSocket :: "'w isocket"

subsection \<open>Errors\<close>

datatype SocketError =
    ErrorProtocol u32
  | RemoteClosed
  | SocketTimeout
  | OutOfResource
  | WarningProtocol u32
  | LargeBuffer
  | Hostname
  | SocketTee ErrorKind
  | SocketUnknown u32

definition SocketError_from_raw_error :: "u32 \<Rightarrow> u32 \<Rightarrow> SocketError" where
  "SocketError_from_raw_error code protocol_error =
     (if code = TEE_ISOCKET_ERROR_PROTOCOL then ErrorProtocol protocol_error
      else if code = TEE_ISOCKET_ERROR_REMOTE_CLOSED then RemoteClosed
      else if code = TEE_ISOCKET_ERROR_TIMEOUT then SocketTimeout
      else if code = TEE_ISOCKET_ERROR_OUT_OF_RESOURCES then OutOfResource
      else if code = TEE_ISOCKET_ERROR_LARGE_BUFFER then LargeBuffer
      else if code = TEE_ISOCKET_WARNING_PROTOCOL then WarningProtocol protocol_error
      else if code = TEE_ISOCKET_ERROR_HOSTNAME then Hostname
      else if code \<in> {TEE_ERROR_CANCEL, TEE_ERROR_COMMUNICATION, TEE_ERROR_OUT_OF_MEMORY, TEE_ERROR_BAD_PARAMETERS}
      then SocketTee (kind (from_raw_error code))
      else SocketUnknown code)"

definition SocketError_from :: "Error \<Rightarrow> SocketError" where
  "SocketError_from e = SocketTee (kind e)"

subsection \<open>The adapters\<close>

definition Setup_new :: "string \<Rightarrow> u16 \<Rightarrow> ip_version \<Rightarrow> Error + Setup" where
  "Setup_new addr port version =
     try_bind (ok_or (CString_new addr) (Error_from BadParameters)) (\<lambda>addr.
       Inr \<lparr>su_addr = addr, su_port = port, su_version = version\<rparr>)"

definition Setup_new_v4 :: "string \<Rightarrow> u16 \<Rightarrow> Error + Setup" where
  "Setup_new_v4 addr port = Setup_new addr port TEE_IP_VERSION_4"

definition Setup_new_v6 :: "string \<Rightarrow> u16 \<Rightarrow> Error + Setup" where
  "Setup_new_v6 addr port = Setup_new addr port TEE_IP_VERSION_6"

definition handle_socket_operation_error :: "'w isocket \<Rightarrow> u64 \<Rightarrow> u32 \<Rightarrow> 'w \<Rightarrow> SocketError \<times> 'w" where
  "handle_socket_operation_error N handle code w =
     (if code = TEE_ISOCKET_ERROR_PROTOCOL then
        (case is_error N handle w of (protocol_error, w') \<Rightarrow> (ErrorProtocol protocol_error, w'))
      else if code = TEE_ISOCKET_WARNING_PROTOCOL then
        (case is_error N handle w of (protocol_error, w') \<Rightarrow> (WarningProtocol protocol_error, w'))
      else (SocketError_from_raw_error code 0, w))"

text \<open>The two adapters differ in the instance only.\<close>

definition adapter_open :: "'w isocket \<Rightarrow> Setup \<Rightarrow> 'w \<Rightarrow> (SocketError + u64) \<times> 'w" where
  "adapter_open N setup w =
     (case is_open N setup w of
        (ret, handle, protocol_error, w') \<Rightarrow>
          (if ret = TEE_SUCCESS then Inr handle else Inl (SocketError_from_raw_error ret protocol_error), w'))"

definition adapter_send :: "'w isocket \<Rightarrow> u64 \<Rightarrow> bytes \<Rightarrow> u32 \<Rightarrow> 'w \<Rightarrow> (SocketError + usize) \<times> 'w" where
  "adapter_send N handle buf timeout w =
     (case is_send N handle buf (of_nat (length buf)) timeout w of
        (ret, len, w') \<Rightarrow>
          if ret = TEE_SUCCESS then (Inr (unat len), w')
          else case handle_socket_operation_error N handle ret w' of (e, w'') \<Rightarrow> (Inl e, w''))"

definition adapter_recv ::
    "'w isocket \<Rightarrow> u64 \<Rightarrow> bytes \<Rightarrow> u32 \<Rightarrow> 'w \<Rightarrow> (SocketError + usize) \<times> bytes \<times> 'w" where
  "adapter_recv N handle buf timeout w =
     (case is_recv N handle (of_nat (length buf)) timeout w of
        (ret, len, stored, w') \<Rightarrow>
          if ret = TEE_SUCCESS then (Inr (unat len), overwrite buf 0 stored, w')
          else case handle_socket_operation_error N handle ret w' of
              (e, w'') \<Rightarrow> (Inl e, overwrite buf 0 stored, w''))"

definition adapter_drop :: "'w isocket \<Rightarrow> u64 \<Rightarrow> 'w \<Rightarrow> 'w" where
  "adapter_drop N handle w = snd (is_close N handle w)"

definition TcpAdapter_open :: "'w sockets \<Rightarrow> Setup \<Rightarrow> 'w \<Rightarrow> (SocketError + u64) \<times> 'w" where
  "TcpAdapter_open S = adapter_open (TEE_tcpSocket S)"
definition TcpAdapter_send :: "'w sockets \<Rightarrow> u64 \<Rightarrow> bytes \<Rightarrow> u32 \<Rightarrow> 'w \<Rightarrow> (SocketError + usize) \<times> 'w" where
  "TcpAdapter_send S = adapter_send (TEE_tcpSocket S)"
definition TcpAdapter_recv :: "'w sockets \<Rightarrow> u64 \<Rightarrow> bytes \<Rightarrow> u32 \<Rightarrow> 'w \<Rightarrow> (SocketError + usize) \<times> bytes \<times> 'w" where
  "TcpAdapter_recv S = adapter_recv (TEE_tcpSocket S)"
definition TcpAdapter_drop :: "'w sockets \<Rightarrow> u64 \<Rightarrow> 'w \<Rightarrow> 'w" where
  "TcpAdapter_drop S = adapter_drop (TEE_tcpSocket S)"
definition UdpAdapter_open :: "'w sockets \<Rightarrow> Setup \<Rightarrow> 'w \<Rightarrow> (SocketError + u64) \<times> 'w" where
  "UdpAdapter_open S = adapter_open (TEE_udpSocket S)"
definition UdpAdapter_send :: "'w sockets \<Rightarrow> u64 \<Rightarrow> bytes \<Rightarrow> u32 \<Rightarrow> 'w \<Rightarrow> (SocketError + usize) \<times> 'w" where
  "UdpAdapter_send S = adapter_send (TEE_udpSocket S)"
definition UdpAdapter_recv :: "'w sockets \<Rightarrow> u64 \<Rightarrow> bytes \<Rightarrow> u32 \<Rightarrow> 'w \<Rightarrow> (SocketError + usize) \<times> bytes \<times> 'w" where
  "UdpAdapter_recv S = adapter_recv (TEE_udpSocket S)"
definition UdpAdapter_drop :: "'w sockets \<Rightarrow> u64 \<Rightarrow> 'w \<Rightarrow> 'w" where
  "UdpAdapter_drop S = adapter_drop (TEE_udpSocket S)"

subsection \<open>Socket\<close>

text \<open>The trait as a record of functions.\<close>

record 'w SocketAdapter =
  sa_open :: "Setup \<Rightarrow> 'w \<Rightarrow> (SocketError + u64) \<times> 'w"
  sa_send :: "u64 \<Rightarrow> bytes \<Rightarrow> u32 \<Rightarrow> 'w \<Rightarrow> (SocketError + usize) \<times> 'w"
  sa_recv :: "u64 \<Rightarrow> bytes \<Rightarrow> u32 \<Rightarrow> 'w \<Rightarrow> (SocketError + usize) \<times> bytes \<times> 'w"
  sa_drop :: "u64 \<Rightarrow> 'w \<Rightarrow> 'w"

definition TcpAdapter :: "'w sockets \<Rightarrow> 'w SocketAdapter" where
  "TcpAdapter S = \<lparr>sa_open = TcpAdapter_open S, sa_send = TcpAdapter_send S, sa_recv = TcpAdapter_recv S,
     sa_drop = TcpAdapter_drop S\<rparr>"

definition UdpAdapter :: "'w sockets \<Rightarrow> 'w SocketAdapter" where
  "UdpAdapter S = \<lparr>sa_open = UdpAdapter_open S, sa_send = UdpAdapter_send S, sa_recv = UdpAdapter_recv S,
     sa_drop = UdpAdapter_drop S\<rparr>"

record Socket =
  sk_handle :: u64
  sk_recv_timeout :: u32
  sk_send_timeout :: u32

text \<open>\<^verbatim>\<open>core::time::Duration\<close>: seconds and nanoseconds below one second.\<close>

record Duration =
  du_secs :: u64
  du_nanos :: u32

definition as_millis :: "Duration \<Rightarrow> nat" where
  "as_millis d = unat (du_secs d) * 1000 + unat (du_nanos d) div 1000000"

definition convert_duration_option_to_timeout :: "Duration option \<Rightarrow> Error + u32" where
  "convert_duration_option_to_timeout dur =
     (case dur of
        None \<Rightarrow> Inr TEE_TIMEOUT_INFINITE
      | Some v \<Rightarrow>
          let milliseconds = as_millis v in
          if 4294967295 < milliseconds then Inl (Error_from BadParameters)
          else Inr (of_nat milliseconds))"

definition Socket_open :: "'w SocketAdapter \<Rightarrow> Setup \<Rightarrow> 'w \<Rightarrow> (SocketError + Socket) \<times> 'w" where
  "Socket_open T setup w =
     (case sa_open T setup w of
        (Inl e, w') \<Rightarrow> (Inl e, w')
      | (Inr handle, w') \<Rightarrow>
          (Inr \<lparr>sk_handle = handle, sk_recv_timeout = TEE_TIMEOUT_INFINITE, sk_send_timeout = TEE_TIMEOUT_INFINITE\<rparr>, w'))"

definition set_recv_timeout_in_milli :: "u32 \<Rightarrow> Socket \<Rightarrow> Socket" where
  "set_recv_timeout_in_milli milliseconds self = self\<lparr>sk_recv_timeout := milliseconds\<rparr>"

definition set_send_timeout_in_milli :: "u32 \<Rightarrow> Socket \<Rightarrow> Socket" where
  "set_send_timeout_in_milli milliseconds self = self\<lparr>sk_send_timeout := milliseconds\<rparr>"

definition set_recv_timeout :: "Duration option \<Rightarrow> Socket \<Rightarrow> (Error + unit) \<times> Socket" where
  "set_recv_timeout dur self =
     (case convert_duration_option_to_timeout dur of
        Inl e \<Rightarrow> (Inl e, self)
      | Inr milliseconds \<Rightarrow> (Inr (), set_recv_timeout_in_milli milliseconds self))"

definition set_send_timeout :: "Duration option \<Rightarrow> Socket \<Rightarrow> (Error + unit) \<times> Socket" where
  "set_send_timeout dur self =
     (case convert_duration_option_to_timeout dur of
        Inl e \<Rightarrow> (Inl e, self)
      | Inr milliseconds \<Rightarrow> (Inr (), set_send_timeout_in_milli milliseconds self))"

definition Socket_send :: "'w SocketAdapter \<Rightarrow> Socket \<Rightarrow> bytes \<Rightarrow> 'w \<Rightarrow> (SocketError + usize) \<times> 'w" where
  "Socket_send T self buf w = sa_send T (sk_handle self) buf (sk_send_timeout self) w"

definition Socket_recv :: "'w SocketAdapter \<Rightarrow> Socket \<Rightarrow> bytes \<Rightarrow> 'w \<Rightarrow> (SocketError + usize) \<times> bytes \<times> 'w" where
  "Socket_recv T self buf w = sa_recv T (sk_handle self) buf (sk_recv_timeout self) w"

definition Socket_drop :: "'w SocketAdapter \<Rightarrow> Socket \<Rightarrow> 'w \<Rightarrow> 'w" where
  "Socket_drop T self w = sa_drop T (sk_handle self) w"

subsection \<open>Convenience functions without the standard library\<close>

definition connect_v4 :: "'w SocketAdapter \<Rightarrow> string \<Rightarrow> u16 \<Rightarrow> 'w \<Rightarrow> (SocketError + Socket) \<times> 'w" where
  "connect_v4 T address port w =
     (case Setup_new_v4 address port of Inl e \<Rightarrow> (Inl (SocketError_from e), w) | Inr setup \<Rightarrow> Socket_open T setup w)"

definition connect_v6 :: "'w SocketAdapter \<Rightarrow> string \<Rightarrow> u16 \<Rightarrow> 'w \<Rightarrow> (SocketError + Socket) \<times> 'w" where
  "connect_v6 T address port w =
     (case Setup_new_v6 address port of Inl e \<Rightarrow> (Inl (SocketError_from e), w) | Inr setup \<Rightarrow> Socket_open T setup w)"

definition connect :: "'w SocketAdapter \<Rightarrow> string \<Rightarrow> u16 \<Rightarrow> 'w \<Rightarrow> (SocketError + Socket) \<times> 'w" where
  "connect T address port w = connect_v4 T address port w"

text \<open>Taking \<^verbatim>\<open>&buf[n..]\<close> panics when \<^verbatim>\<open>n\<close> exceeds the length.\<close>

function write_all ::
    "'w SocketAdapter \<Rightarrow> Socket \<Rightarrow> bytes \<Rightarrow> 'w \<Rightarrow> ((SocketError + unit) \<times> 'w) outcome" where
  "write_all T self buf w =
     (if buf = [] then Returns (Inr (), w)
      else case Socket_send T self buf w of
          (Inl e, w') \<Rightarrow> Returns (Inl e, w')
        | (Inr n, w') \<Rightarrow>
            if n = 0 then Returns (Inl (SocketTee Generic), w')
            else if length buf < n then Panics
            else write_all T self (drop n buf) w')"
  by pat_completeness auto
termination
  by (relation "measure (\<lambda>(T, self, buf, w). length buf)") auto

declare write_all.simps [simp del]

text \<open>The buffer is returned as the bytes it holds afterwards; a slice keeps its length.\<close>

function read_exact ::
    "'w SocketAdapter \<Rightarrow> Socket \<Rightarrow> bytes \<Rightarrow> 'w \<Rightarrow> ((SocketError + unit) \<times> bytes \<times> 'w) outcome" where
  "read_exact T self buf w =
     (if buf = [] then Returns (Inr (), [], w)
      else case Socket_recv T self buf w of
          (Inl e, buf', w') \<Rightarrow> Returns (Inl e, buf', w')
        | (Inr n, buf', w') \<Rightarrow>
            if n = 0 then Returns (Inl (SocketTee Generic), buf', w')
            else if length buf < n then Panics
            else case read_exact T self (drop n (take (length buf) buf')) w' of
                Panics \<Rightarrow> Panics
              | Returns (r, rest, w'') \<Rightarrow> Returns (r, take n buf' @ rest, w''))"
  by pat_completeness auto
termination
  by (relation "measure (\<lambda>(T, self, buf, w). length buf)") auto

declare read_exact.simps [simp del]

subsection \<open>Convenience functions with the standard library\<close>

datatype io_ErrorKind = Io_Other | Io_ConnectionAborted | Io_TimedOut | Io_OutOfMemory

record io_Error =
  io_kind :: io_ErrorKind
  io_text :: string

definition io_Error_new :: "io_ErrorKind \<Rightarrow> string \<Rightarrow> io_Error" where
  "io_Error_new k s = \<lparr>io_kind = k, io_text = s\<rparr>"

text \<open>\<^verbatim>\<open>{:08X}\<close>.\<close>

definition upper_hex_8 :: "u32 \<Rightarrow> string" where
  "upper_hex_8 c = map (\<lambda>d. if 97 \<le> (of_char d :: nat) then char_of ((of_char d :: nat) - 32) else d) (lower_hex_padded 8 (unat c))"

fun SocketError_into_io :: "SocketError \<Rightarrow> io_Error" where
  "SocketError_into_io (ErrorProtocol protocol_error) =
     io_Error_new Io_Other (''TEE_ISOCKET_ERROR_PROTOCOL: 0x'' @ upper_hex_8 protocol_error)"
| "SocketError_into_io RemoteClosed = io_Error_new Io_ConnectionAborted ''TEE_ISOCKET_ERROR_REMOTE_CLOSED''"
| "SocketError_into_io SocketTimeout = io_Error_new Io_TimedOut ''TEE_ISOCKET_ERROR_TIMEOUT''"
| "SocketError_into_io OutOfResource = io_Error_new Io_Other ''TEE_ISOCKET_ERROR_OUT_OF_RESOURCES''"
| "SocketError_into_io LargeBuffer = io_Error_new Io_Other ''TEE_ISOCKET_ERROR_LARGE_BUFFER''"
| "SocketError_into_io (WarningProtocol protocol_error) =
     io_Error_new Io_Other (''TEE_ISOCKET_WARNING_PROTOCOL: 0x'' @ upper_hex_8 protocol_error)"
| "SocketError_into_io Hostname = io_Error_new Io_Other ''TEE_ISOCKET_ERROR_HOSTNAME''"
| "SocketError_into_io (SocketTee k) =
     (if k = OutOfMemory then io_Error_new Io_OutOfMemory ''TEE_ERROR_OUT_OF_MEMORY'' else io_Error_new Io_Other (as_str k))"
| "SocketError_into_io (SocketUnknown code) = io_Error_new Io_Other (''Unknown: '' @ upper_hex_8 code)"

definition connect_with_ip_version ::
    "'w SocketAdapter \<Rightarrow> string \<Rightarrow> u16 \<Rightarrow> ip_version \<Rightarrow> 'w \<Rightarrow> (io_Error + Socket) \<times> 'w" where
  "connect_with_ip_version T address port ip_version w =
     (case Setup_new address port ip_version of
        Inl _ \<Rightarrow> (Inl (io_Error_new Io_Other ''Invalid address''), w)
      | Inr setup \<Rightarrow>
          (case Socket_open T setup w of (r, w') \<Rightarrow> (map_sum SocketError_into_io id r, w')))"

definition std_connect_v4 :: "'w SocketAdapter \<Rightarrow> string \<Rightarrow> u16 \<Rightarrow> 'w \<Rightarrow> (io_Error + Socket) \<times> 'w" where
  "std_connect_v4 T address port w = connect_with_ip_version T address port TEE_IP_VERSION_4 w"

definition std_connect_v6 :: "'w SocketAdapter \<Rightarrow> string \<Rightarrow> u16 \<Rightarrow> 'w \<Rightarrow> (io_Error + Socket) \<times> 'w" where
  "std_connect_v6 T address port w = connect_with_ip_version T address port TEE_IP_VERSION_6 w"

definition std_connect :: "'w SocketAdapter \<Rightarrow> string \<Rightarrow> u16 \<Rightarrow> 'w \<Rightarrow> (io_Error + Socket) \<times> 'w" where
  "std_connect T address port w = std_connect_v4 T address port w"

definition std_read :: "'w SocketAdapter \<Rightarrow> Socket \<Rightarrow> bytes \<Rightarrow> 'w \<Rightarrow> (io_Error + usize) \<times> bytes \<times> 'w" where
  "std_read T self buf w =
     (case Socket_recv T self buf w of (r, buf', w') \<Rightarrow> (map_sum SocketError_into_io id r, buf', w'))"

definition std_write :: "'w SocketAdapter \<Rightarrow> Socket \<Rightarrow> bytes \<Rightarrow> 'w \<Rightarrow> (io_Error + usize) \<times> 'w" where
  "std_write T self buf w = (case Socket_send T self buf w of (r, w') \<Rightarrow> (map_sum SocketError_into_io id r, w'))"

subsection \<open>What is documented of the socket API\<close>

text \<open>
  \<open>sent w h\<close> is what was sent on a handle, \<open>inbox w h\<close> what has arrived and was not yet
  received.  A successful call transfers at most the announced length and reports how much;
  a failed call transfers nothing; asking for the protocol error changes neither.
\<close>

definition isocket_ok :: "'w isocket \<Rightarrow> ('w \<Rightarrow> u64 \<Rightarrow> bytes) \<Rightarrow> ('w \<Rightarrow> u64 \<Rightarrow> bytes) \<Rightarrow> bool" where
  "isocket_ok N sent inbox \<longleftrightarrow>
     (\<forall>h buf len t w ret k w'. is_send N h buf len t w = (ret, k, w') \<longrightarrow> unat len \<le> length buf \<longrightarrow>
        (if ret = TEE_SUCCESS then unat k \<le> unat len \<and> sent w' h = sent w h @ take (unat k) buf
         else sent w' h = sent w h)) \<and>
     (\<forall>h len t w ret k stored w'. is_recv N h len t w = (ret, k, stored, w') \<longrightarrow>
        (if ret = TEE_SUCCESS
         then unat k \<le> unat len \<and> unat k \<le> length (inbox w h) \<and> stored = take (unat k) (inbox w h) \<and>
              inbox w' h = drop (unat k) (inbox w h)
         else stored = [] \<and> inbox w' h = inbox w h)) \<and>
     (\<forall>h w e w'. is_error N h w = (e, w') \<longrightarrow> sent w' = sent w \<and> inbox w' = inbox w)"

text \<open>The instance accepts data whenever some is offered.\<close>

definition isocket_sends :: "'w isocket \<Rightarrow> bool" where
  "isocket_sends N \<longleftrightarrow>
     (\<forall>h buf len t w. 0 < len \<longrightarrow> (\<exists>k w'. is_send N h buf len t w = (TEE_SUCCESS, k, w') \<and> 0 < k))"

text \<open>What follows for an adapter.\<close>

definition stream_ok :: "'w SocketAdapter \<Rightarrow> ('w \<Rightarrow> u64 \<Rightarrow> bytes) \<Rightarrow> ('w \<Rightarrow> u64 \<Rightarrow> bytes) \<Rightarrow> bool" where
  "stream_ok T sent inbox \<longleftrightarrow>
     (\<forall>h buf t w n w'. sa_send T h buf t w = (Inr n, w') \<longrightarrow> n \<le> length buf \<and> sent w' h = sent w h @ take n buf) \<and>
     (\<forall>h buf t w e w'. sa_send T h buf t w = (Inl e, w') \<longrightarrow> sent w' h = sent w h) \<and>
     (\<forall>h buf t w n buf' w'. sa_recv T h buf t w = (Inr n, buf', w') \<longrightarrow>
        n \<le> length buf \<and> n \<le> length (inbox w h) \<and> buf' = take n (inbox w h) @ drop n buf \<and>
        inbox w' h = drop n (inbox w h)) \<and>
     (\<forall>h buf t w e buf' w'. sa_recv T h buf t w = (Inl e, buf', w') \<longrightarrow> buf' = buf \<and> inbox w' h = inbox w h)"

section \<open>Lemmas\<close>

lemma truncated_length: "unat (of_nat (length buf) :: u32) \<le> length buf"
  by (simp add: unat_of_nat take_bit_eq_mod)

lemma error_keeps:
  assumes "isocket_ok N sent inbox" and "handle_socket_operation_error N h code w = (e, w')"
  shows "sent w' = sent w" and "inbox w' = inbox w"
proof -
  obtain p v where pv: "is_error N h w = (p, v)" by fastforce
  with assms(1) have "sent v = sent w \<and> inbox v = inbox w" unfolding isocket_ok_def by blast
  with assms(2) pv show "sent w' = sent w" and "inbox w' = inbox w"
    by (auto simp: handle_socket_operation_error_def split: if_splits)
qed

lemma adapter_send_ok:
  assumes N: "isocket_ok N sent inbox" and r: "adapter_send N h buf t w = (r, w')"
  shows "case r of Inr n \<Rightarrow> n \<le> length buf \<and> sent w' h = sent w h @ take n buf | Inl e \<Rightarrow> sent w' h = sent w h"
proof -
  obtain ret k v where s: "is_send N h buf (of_nat (length buf)) t w = (ret, k, v)" by (metis surj_pair)
  with N truncated_length[of buf] have
    c: "if ret = TEE_SUCCESS then unat k \<le> unat (of_nat (length buf) :: u32) \<and> sent v h = sent w h @ take (unat k) buf
        else sent v h = sent w h"
    unfolding isocket_ok_def by blast
  obtain e u where e: "handle_socket_operation_error N h ret v = (e, u)" by fastforce
  from r s c e error_keeps(1)[OF N e] truncated_length[of buf] show ?thesis
    by (auto simp: adapter_send_def split: if_splits)
qed

lemma adapter_recv_ok:
  assumes N: "isocket_ok N sent inbox" and r: "adapter_recv N h buf t w = (r, buf', w')"
  shows "case r of
      Inr n \<Rightarrow> n \<le> length buf \<and> n \<le> length (inbox w h) \<and> buf' = take n (inbox w h) @ drop n buf \<and> inbox w' h = drop n (inbox w h)
    | Inl e \<Rightarrow> buf' = buf \<and> inbox w' h = inbox w h"
proof -
  obtain ret k st v where s: "is_recv N h (of_nat (length buf)) t w = (ret, k, st, v)" by (metis surj_pair)
  with N have
    c: "if ret = TEE_SUCCESS
        then unat k \<le> unat (of_nat (length buf) :: u32) \<and> unat k \<le> length (inbox w h) \<and> st = take (unat k) (inbox w h) \<and>
             inbox v h = drop (unat k) (inbox w h)
        else st = [] \<and> inbox v h = inbox w h"
    unfolding isocket_ok_def by blast
  obtain e u where e: "handle_socket_operation_error N h ret v = (e, u)" by fastforce
  from r s c e error_keeps(2)[OF N e] truncated_length[of buf] show ?thesis
    by (auto simp: adapter_recv_def overwrite_def split: if_splits)
qed

lemma stream_ok_adapter:
  assumes "isocket_ok N sent inbox" and "sa_send T = adapter_send N" and "sa_recv T = adapter_recv N"
  shows "stream_ok T sent inbox"
  unfolding stream_ok_def assms(2,3)
  using adapter_send_ok[OF assms(1)] adapter_recv_ok[OF assms(1)] by fastforce

lemma stream_ok_tcp: "isocket_ok (TEE_tcpSocket S) sent inbox \<Longrightarrow> stream_ok (TcpAdapter S) sent inbox"
  by (rule stream_ok_adapter) (simp_all add: TcpAdapter_def TcpAdapter_send_def TcpAdapter_recv_def)

lemma stream_okD:
  assumes "stream_ok T sent inbox"
  shows "sa_send T h buf t w = (Inr n, w') \<Longrightarrow> n \<le> length buf \<and> sent w' h = sent w h @ take n buf"
    and "sa_send T h buf t w = (Inl e, w') \<Longrightarrow> sent w' h = sent w h"
    and "sa_recv T h buf t w = (Inr n, buf', w') \<Longrightarrow>
        n \<le> length buf \<and> n \<le> length (inbox w h) \<and> buf' = take n (inbox w h) @ drop n buf \<and> inbox w' h = drop n (inbox w h)"
    and "sa_recv T h buf t w = (Inl e, buf', w') \<Longrightarrow> buf' = buf \<and> inbox w' h = inbox w h"
  using assms by (simp_all add: stream_ok_def)

lemma empty_transfer [simp]:
  "write_all T self [] w = Returns (Inr (), w)" "read_exact T self [] w = Returns (Inr (), [], w)"
  by (simp_all add: write_all.simps read_exact.simps)

text \<open>The loops return, without panicking, and transfer a prefix, all of it on success.\<close>

lemma write_all_prefix:
  assumes T: "stream_ok T sent inbox"
  shows "\<exists>r w' k. write_all T self buf w = Returns (r, w') \<and> k \<le> length buf \<and>
    sent w' (sk_handle self) = sent w (sk_handle self) @ take k buf \<and> (r = Inr () \<longrightarrow> k = length buf)"
proof (induction "length buf" arbitrary: buf w rule: less_induct)
  case less
  obtain r w1 where s: "Socket_send T self buf w = (r, w1)" by fastforce
  note s' = s[unfolded Socket_send_def]
  show ?case
  proof (cases "buf = []")
    case True
    then show ?thesis by simp
  next
    case ne: False
    show ?thesis
    proof (cases r)
      case (Inl e)
      have "sent w1 (sk_handle self) = sent w (sk_handle self) @ take 0 buf" using stream_okD(2)[OF T] s' Inl by simp
      then show ?thesis using ne s Inl by (intro exI[of _ "Inl e"] exI[of _ w1] exI[of _ 0]) (simp add: write_all.simps[of _ _ buf])
    next
      case (Inr n)
      have n: "n \<le> length buf" "sent w1 (sk_handle self) = sent w (sk_handle self) @ take n buf"
        using stream_okD(1)[OF T] s' Inr by blast+
      show ?thesis
      proof (cases "n = 0")
        case True
        then show ?thesis using ne s Inr n
          by (intro exI[of _ "Inl (SocketTee Generic)"] exI[of _ w1] exI[of _ 0]) (simp add: write_all.simps[of _ _ buf])
      next
        case False
        then have "length (drop n buf) < length buf" using ne by simp
        from less[OF this, of w1] obtain r' w' k where
          ih: "write_all T self (drop n buf) w1 = Returns (r', w')" "k \<le> length (drop n buf)"
            "sent w' (sk_handle self) = sent w1 (sk_handle self) @ take k (drop n buf)" "r' = Inr () \<longrightarrow> k = length (drop n buf)"
          by blast
        have "write_all T self buf w = Returns (r', w')"
          using ne s Inr False n(1) ih(1) by (simp add: write_all.simps[of _ _ buf])
        moreover have "sent w' (sk_handle self) = sent w (sk_handle self) @ take (n + k) buf"
          using ih(3) n(2) by (simp add: take_add)
        ultimately show ?thesis
          using ih(2,4) n(1) by (intro exI[of _ r'] exI[of _ w'] exI[of _ "n + k"]) auto
      qed
    qed
  qed
qed

lemma read_exact_prefix:
  assumes T: "stream_ok T sent inbox"
  shows "\<exists>r buf' w' k. read_exact T self buf w = Returns (r, buf', w') \<and> length buf' = length buf \<and> k \<le> length buf \<and>
    k \<le> length (inbox w (sk_handle self)) \<and>
    take k buf' = take k (inbox w (sk_handle self)) \<and> inbox w' (sk_handle self) = drop k (inbox w (sk_handle self)) \<and>
    (r = Inr () \<longrightarrow> k = length buf)"
proof (induction "length buf" arbitrary: buf w rule: less_induct)
  case less
  let ?h = "sk_handle self"
  obtain r buf1 w1 where s: "Socket_recv T self buf w = (r, buf1, w1)" by (metis surj_pair)
  note s' = s[unfolded Socket_recv_def]
  show ?case
  proof (cases "buf = []")
    case True
    then show ?thesis by simp
  next
    case ne: False
    show ?thesis
    proof (cases r)
      case (Inl e)
      have "buf1 = buf" "inbox w1 ?h = inbox w ?h" using stream_okD(4)[OF T] s' Inl by blast+
      then show ?thesis using ne s Inl
        by (intro exI[of _ "Inl e"] exI[of _ buf] exI[of _ w1] exI[of _ 0]) (simp add: read_exact.simps[of _ _ buf])
    next
      case (Inr n)
      have n: "n \<le> length buf" "n \<le> length (inbox w ?h)" "buf1 = take n (inbox w ?h) @ drop n buf"
          "inbox w1 ?h = drop n (inbox w ?h)"
        using stream_okD(3)[OF T] s' Inr by blast+
      show ?thesis
      proof (cases "n = 0")
        case True
        then show ?thesis using ne s Inr n
          by (intro exI[of _ "Inl (SocketTee Generic)"] exI[of _ buf] exI[of _ w1] exI[of _ 0])
            (simp add: read_exact.simps[of _ _ buf])
      next
        case False
        have d: "drop n (take (length buf) buf1) = drop n buf" using n by simp
        have "length (drop n buf) < length buf" using ne False by simp
        from less[OF this, of w1] obtain r' rest w' k where
          ih: "read_exact T self (drop n buf) w1 = Returns (r', rest, w')" "length rest = length (drop n buf)"
            "k \<le> length (drop n buf)" "k \<le> length (inbox w1 ?h)" "take k rest = take k (inbox w1 ?h)"
            "inbox w' ?h = drop k (inbox w1 ?h)" "r' = Inr () \<longrightarrow> k = length (drop n buf)"
          by blast
        have "read_exact T self buf w = Returns (r', take n (inbox w ?h) @ rest, w')"
          using ne s Inr False n(1,2,3) ih(1) d by (simp add: read_exact.simps[of _ _ buf])
        moreover have "take (n + k) (take n (inbox w ?h) @ rest) = take (n + k) (inbox w ?h)"
          using ih(5) n(2,4) by (simp add: take_add)
        ultimately show ?thesis
          using ih(2,3,4,6,7) n
          by (intro exI[of _ r'] exI[of _ "take n (inbox w ?h) @ rest"] exI[of _ w'] exI[of _ "n + k"])
            (auto simp: add.commute)
      qed
    qed
  qed
qed

text \<open>An instance that accepts data gets all of it.\<close>

lemma write_all_succeeds:
  assumes N: "isocket_ok N sent inbox" "isocket_sends N" and T: "sa_send T = adapter_send N"
  shows "length buf < 2 ^ 32 \<Longrightarrow> \<exists>w'. write_all T self buf w = Returns (Inr (), w')"
proof (induction "length buf" arbitrary: buf w rule: less_induct)
  case less
  show ?case
  proof (cases "buf = []")
    case ne: False
    have "0 < (of_nat (length buf) :: u32)"
      using ne less.prems by (simp add: word_less_nat_alt unat_of_nat take_bit_nat_eq_self)
    with N(2) obtain k w1 where s: "is_send N (sk_handle self) buf (of_nat (length buf)) (sk_send_timeout self) w = (TEE_SUCCESS, k, w1)"
        "0 < k"
      unfolding isocket_sends_def by blast
    then have a: "Socket_send T self buf w = (Inr (unat k), w1)" by (simp add: Socket_send_def T adapter_send_def)
    with adapter_send_ok[OF N(1), of "sk_handle self" buf "sk_send_timeout self" w] have n: "unat k \<le> length buf"
      by (simp add: Socket_send_def T)
    have k: "unat k \<noteq> 0" using s(2) by (simp add: unat_eq_0)
    then have "length (drop (unat k) buf) < length buf" using ne by simp
    moreover from less.prems have "length (drop (unat k) buf) < 2 ^ 32" by (simp add: less_imp_diff_less)
    ultimately obtain w' where "write_all T self (drop (unat k) buf) w1 = Returns (Inr (), w')"
      using less.hyps by blast
    with ne a n k show ?thesis by (simp add: write_all.simps[of _ _ buf])
  qed simp
qed

text \<open>A reference instance: a single connection that delivers at most two bytes at a time.\<close>

record wire =
  wi_sent :: bytes
  wi_inbox :: bytes

definition ref_isocket :: "wire isocket" where
  "ref_isocket = \<lparr>
     is_open = (\<lambda>su w. (TEE_SUCCESS, 1, 0, w)),
     is_close = (\<lambda>h w. (TEE_SUCCESS, w)),
     is_send = (\<lambda>h buf len t w.
       (TEE_SUCCESS, min len 2, w\<lparr>wi_sent := wi_sent w @ take (unat (min len 2)) buf\<rparr>)),
     is_recv = (\<lambda>h len t w.
       let k = min (unat len) (min 2 (length (wi_inbox w))) in
       (TEE_SUCCESS, of_nat k, take k (wi_inbox w), w\<lparr>wi_inbox := drop k (wi_inbox w)\<rparr>)),
     is_error = (\<lambda>h w. (0, w))\<rparr>"

definition ref_sockets :: "wire sockets" where
  "ref_sockets = \<lparr>TEE_tcpSocket = ref_isocket, TEE_udpSocket = ref_isocket\<rparr>"

lemma ref_isocket_ok: "isocket_ok ref_isocket (\<lambda>w h. wi_sent w) (\<lambda>w h. wi_inbox w)"
proof -
  have "unat (min len (2 :: u32)) \<le> unat len" for len by (simp add: min_def word_le_nat_alt)
  moreover have "unat (of_nat (min (unat (len :: u32)) (min 2 n)) :: u32) = min (unat len) (min 2 n)" for len n
  proof -
    have "min (unat len) (min 2 n) < 2 ^ 32" by (rule le_less_trans[of _ 2]) simp_all
    then show ?thesis by (simp only: unat_of_nat take_bit_nat_eq_self len_num1 len_bit0) simp
  qed
  ultimately show ?thesis
    by (auto simp: isocket_ok_def ref_isocket_def Let_def)
qed

lemma ref_isocket_sends: "isocket_sends ref_isocket"
  by (auto simp: isocket_sends_def ref_isocket_def min_def)

section \<open>Properties\<close>

text \<open>
  C15.  The loops of a TCP stream transfer exactly what they claim.  For every buffer,
  \<^verbatim>\<open>write_all\<close> and \<^verbatim>\<open>read_exact\<close> return, without panicking, after finitely many calls of the
  socket API.  \<^verbatim>\<open>write_all\<close> sends a prefix of the data, and all of it if it reports success;
  \<^verbatim>\<open>read_exact\<close> consumes a prefix of what has arrived and puts it at the start of the buffer,
  whose length it keeps, and fills the buffer if it reports success.
\<close>

theorem tcp_transfer_exact:
  assumes "isocket_ok (TEE_tcpSocket S) sent inbox"
  shows "(\<exists>r w' k. write_all (TcpAdapter S) s buf w = Returns (r, w') \<and> k \<le> length buf \<and>
      sent w' (sk_handle s) = sent w (sk_handle s) @ take k buf \<and> (r = Inr () \<longrightarrow> k = length buf)) \<and>
    (\<exists>r buf' w' k. read_exact (TcpAdapter S) s buf w = Returns (r, buf', w') \<and> length buf' = length buf \<and> k \<le> length buf \<and>
      k \<le> length (inbox w (sk_handle s)) \<and> take k buf' = take k (inbox w (sk_handle s)) \<and>
      inbox w' (sk_handle s) = drop k (inbox w (sk_handle s)) \<and> (r = Inr () \<longrightarrow> k = length buf))"
  using write_all_prefix[OF stream_ok_tcp[OF assms]] read_exact_prefix[OF stream_ok_tcp[OF assms]] by blast

theorem tcp_transfer_exact_witness:
  "\<exists>r buf' w'. read_exact (TcpAdapter ref_sockets) \<lparr>sk_handle = 1, sk_recv_timeout = 0, sk_send_timeout = 0\<rparr> [0, 0, 0]
     \<lparr>wi_sent = [], wi_inbox = [1, 2, 3, 4]\<rparr> = Returns (r, buf', w') \<and> length buf' = 3"
proof -
  have "isocket_ok (TEE_tcpSocket ref_sockets) (\<lambda>w h. wi_sent w) (\<lambda>w h. wi_inbox w)"
    using ref_isocket_ok by (simp add: ref_sockets_def)
  from tcp_transfer_exact[OF this, of "\<lparr>sk_handle = 1, sk_recv_timeout = 0, sk_send_timeout = 0\<rparr>" "[0, 0, 0]"
      "\<lparr>wi_sent = [], wi_inbox = [1, 2, 3, 4]\<rparr>"] show ?thesis by auto
qed

text \<open>
  C16.  Sending makes progress.  If the socket API accepts at least one byte whenever some
  are offered, \<^verbatim>\<open>write_all\<close> returns success and everything is sent, for every buffer below
  four gigabytes.
\<close>

theorem tcp_write_all_completes:
  assumes "isocket_ok (TEE_tcpSocket S) sent inbox" and "isocket_sends (TEE_tcpSocket S)" and "length buf < 2 ^ 32"
  shows "\<exists>w'. write_all (TcpAdapter S) s buf w = Returns (Inr (), w') \<and>
    sent w' (sk_handle s) = sent w (sk_handle s) @ buf"
proof -
  have "sa_send (TcpAdapter S) = adapter_send (TEE_tcpSocket S)" by (simp add: TcpAdapter_def TcpAdapter_send_def)
  from write_all_succeeds[OF assms(1,2) this assms(3)] obtain w' where
    "write_all (TcpAdapter S) s buf w = Returns (Inr (), w')" by blast
  with write_all_prefix[OF stream_ok_tcp[OF assms(1)], of s buf w] show ?thesis by auto
qed

theorem tcp_write_all_completes_witness:
  "\<exists>w'. write_all (TcpAdapter ref_sockets) \<lparr>sk_handle = 1, sk_recv_timeout = 0, sk_send_timeout = 0\<rparr> [1, 2, 3, 4, 5]
     \<lparr>wi_sent = [9], wi_inbox = []\<rparr> = Returns (Inr (), w') \<and> wi_sent w' = [9, 1, 2, 3, 4, 5]"
proof -
  have "isocket_ok (TEE_tcpSocket ref_sockets) (\<lambda>w h. wi_sent w) (\<lambda>w h. wi_inbox w)" "isocket_sends (TEE_tcpSocket ref_sockets)"
    using ref_isocket_ok ref_isocket_sends by (simp_all add: ref_sockets_def)
  from tcp_write_all_completes[OF this, of "[1, 2, 3, 4, 5]"] show ?thesis by fastforce
qed

text \<open>
  One finite timeout means to wait forever.  A duration of 4294967295 milliseconds is
  accepted, and converted to \<^verbatim>\<open>TEE_TIMEOUT_INFINITE\<close>; every other accepted duration keeps its
  value in milliseconds and is finite.
\<close>

lemma longest_timeout_is_infinite:
  "convert_duration_option_to_timeout (Some d) = Inr TEE_TIMEOUT_INFINITE \<longleftrightarrow> as_millis d = 4294967295"
proof -
  have "of_nat n = TEE_TIMEOUT_INFINITE \<longleftrightarrow> n = 4294967295" if "n \<le> 4294967295" for n
  proof -
    have "unat (of_nat n :: u32) = n" using that by (simp add: unat_of_nat take_bit_nat_eq_self)
    then show ?thesis by (auto simp: word_unat_eq_iff raw_consts)
  qed
  then show ?thesis by (auto simp: convert_duration_option_to_timeout_def Let_def)
qed

end
