(* ===== verification/BigInt.thy ===== *)
theory BigInt
  imports TeeError
begin

text \<open>
  Big integers, \<^verbatim>\<open>crates/optee-utee/src/arithmetical.rs\<close>.  A \<^verbatim>\<open>BigInt\<close> is a vector of 32-bit
  units whose layout belongs to the TEE; the wrappers choose the size of each result and
  call the TEE.  The TEE functions are a parameter; they get the result vector as it was
  allocated and give its contents afterwards, and may panic.  The number that a vector
  stands for is the ghost function \<open>val\<close> of the contract.
\<close>

section \<open>Definitions\<close>

type_synonym big = "u32 list"

record bigint_api =
  bn_init :: "big \<Rightarrow> usize \<Rightarrow> big"
  bn_from_octets :: "big \<Rightarrow> bytes \<Rightarrow> i32 \<Rightarrow> u32 \<times> big"
  bn_to_octets :: "usize \<Rightarrow> big \<Rightarrow> u32 \<times> usize \<times> bytes"
  bn_from_s32 :: "big \<Rightarrow> i32 \<Rightarrow> big outcome"
  bn_to_s32 :: "big \<Rightarrow> u32 \<times> i32"
  bn_cmp :: "big \<Rightarrow> big \<Rightarrow> i32"
  bn_cmp_s32 :: "big \<Rightarrow> i32 \<Rightarrow> i32"
  bn_shift_right :: "big \<Rightarrow> big \<Rightarrow> usize \<Rightarrow> big outcome"
  bn_get_bit :: "big \<Rightarrow> u32 \<Rightarrow> bool"
  bn_bit_count :: "big \<Rightarrow> u32"
  bn_set_bit :: "big \<Rightarrow> u32 \<Rightarrow> bool \<Rightarrow> u32 \<times> big"
  bn_abs :: "big \<Rightarrow> big \<Rightarrow> u32 \<times> big"
  bn_add :: "big \<Rightarrow> big \<Rightarrow> big \<Rightarrow> big outcome"
  bn_sub :: "big \<Rightarrow> big \<Rightarrow> big \<Rightarrow> big outcome"
  bn_neg :: "big \<Rightarrow> big \<Rightarrow> big outcome"
  bn_mul :: "big \<Rightarrow> big \<Rightarrow> big \<Rightarrow> big outcome"
  bn_square :: "big \<Rightarrow> big \<Rightarrow> big outcome"
  bn_div :: "big \<Rightarrow> big \<Rightarrow> big \<Rightarrow> big \<Rightarrow> (big \<times> big) outcome"
  bn_mod :: "big \<Rightarrow> big \<Rightarrow> big \<Rightarrow> big outcome"
  bn_add_mod :: "big \<Rightarrow> big \<Rightarrow> big \<Rightarrow> big \<Rightarrow> big outcome"
  bn_sub_mod :: "big \<Rightarrow> big \<Rightarrow> big \<Rightarrow> big \<Rightarrow> big outcome"
  bn_mul_mod :: "big \<Rightarrow> big \<Rightarrow> big \<Rightarrow> big \<Rightarrow> big outcome"
  bn_square_mod :: "big \<Rightarrow> big \<Rightarrow> big \<Rightarrow> big outcome"
  bn_inv_mod :: "big \<Rightarrow> big \<Rightarrow> big \<Rightarrow> big outcome"
  bn_exp_mod :: "big \<Rightarrow> big \<Rightarrow> big \<Rightarrow> big \<Rightarrow> big \<Rightarrow> u32 \<times> big"
  bn_relative_prime :: "big \<Rightarrow> big \<Rightarrow> bool"
  bn_assign :: "big \<Rightarrow> big \<Rightarrow> u32 \<times> big"
  bn_extended_gcd :: "big \<Rightarrow> big \<Rightarrow> big \<Rightarrow> big \<Rightarrow> big \<Rightarrow> (big \<times> big \<times> big) outcome"
  bn_is_probable_prime :: "big \<Rightarrow> u32 \<Rightarrow> i32"
  bn_fmm_context_size :: "usize \<Rightarrow> usize"
  bn_fmm_size :: "usize \<Rightarrow> usize"
  bn_init_fmm_context :: "big \<Rightarrow> usize \<Rightarrow> big \<Rightarrow> big outcome"
  bn_init_fmm :: "big \<Rightarrow> usize \<Rightarrow> big outcome"
  bn_to_fmm :: "big \<Rightarrow> big \<Rightarrow> big \<Rightarrow> big \<Rightarrow> big outcome"
  bn_from_fmm :: "big \<Rightarrow> big \<Rightarrow> big \<Rightarrow> big \<Rightarrow> big outcome"
  bn_compute_fmm :: "big \<Rightarrow> big \<Rightarrow> big \<Rightarrow> big \<Rightarrow> big \<Rightarrow> big outcome"

subsection \<open>BigInt\<close>

text \<open>\<^verbatim>\<open>div_ceil\<close> on \<^verbatim>\<open>u32\<close> does not overflow; neither does adding two to its result.\<close>

definition size_in_u32 :: "u32 \<Rightarrow> u32" where
  "size_in_u32 bits = (if bits mod 32 = 0 then bits div 32 else bits div 32 + 1) + 2"

definition BigInt_new :: "bigint_api \<Rightarrow> u32 \<Rightarrow> big" where
  "BigInt_new A bits = (let sz = unat (size_in_u32 bits) in bn_init A (replicate sz 0) sz)"

definition convert_from_octet_string :: "bigint_api \<Rightarrow> bytes \<Rightarrow> i32 \<Rightarrow> big \<Rightarrow> (Error + unit) \<times> big" where
  "convert_from_octet_string A buffer sign self =
     (case bn_from_octets A self buffer sign of (res, self') \<Rightarrow> (tee_check res, self'))"

text \<open>\<^verbatim>\<open>len() - 2\<close> is computed on \<^verbatim>\<open>usize\<close>; a vector made by \<^verbatim>\<open>new\<close> has at least two units.\<close>

definition convert_to_octet_string :: "bigint_api \<Rightarrow> big \<Rightarrow> Error + bytes" where
  "convert_to_octet_string A self =
     (let buffer_size = (length self - 2) * 4 in
      case bn_to_octets A buffer_size self of
        (res, buffer_size', stored) \<Rightarrow>
          try_bind (tee_check res) (\<lambda>_. Inr (take buffer_size' (overwrite (replicate buffer_size 0) 0 stored))))"

definition convert_from_s32 :: "bigint_api \<Rightarrow> i32 \<Rightarrow> big \<Rightarrow> big outcome" where
  "convert_from_s32 A short_val self = bn_from_s32 A self short_val"

definition convert_to_s32 :: "bigint_api \<Rightarrow> big \<Rightarrow> Error + i32" where
  "convert_to_s32 A self = (case bn_to_s32 A self of (res, v) \<Rightarrow> try_bind (tee_check res) (\<lambda>_. Inr v))"

definition compare_big_int :: "bigint_api \<Rightarrow> big \<Rightarrow> big \<Rightarrow> i32" where
  "compare_big_int A self target = bn_cmp A self target"

definition compare_s32 :: "bigint_api \<Rightarrow> big \<Rightarrow> i32 \<Rightarrow> i32" where
  "compare_s32 A self target = bn_cmp_s32 A self target"

definition shift_right :: "bigint_api \<Rightarrow> big \<Rightarrow> usize \<Rightarrow> big \<Rightarrow> big outcome" where
  "shift_right A op bits self = bn_shift_right A self op bits"

definition get_bit :: "bigint_api \<Rightarrow> big \<Rightarrow> u32 \<Rightarrow> bool" where
  "get_bit A self bit_index = bn_get_bit A self bit_index"

definition get_bit_count :: "bigint_api \<Rightarrow> big \<Rightarrow> u32" where
  "get_bit_count A self = bn_bit_count A self"

definition set_bit_at :: "bigint_api \<Rightarrow> u32 \<Rightarrow> bool \<Rightarrow> big \<Rightarrow> (Error + unit) \<times> big" where
  "set_bit_at A bit_index v self = (case bn_set_bit A self bit_index v of (res, self') \<Rightarrow> (tee_check res, self'))"

definition BigInt_abs :: "bigint_api \<Rightarrow> big \<Rightarrow> Error + big" where
  "BigInt_abs A self =
     (case bn_abs A (BigInt_new A (get_bit_count A self)) self of
        (code, res) \<Rightarrow> try_bind (tee_check code) (\<lambda>_. Inr res))"

definition BigInt_add :: "bigint_api \<Rightarrow> bool \<Rightarrow> big \<Rightarrow> big \<Rightarrow> big outcome" where
  "BigInt_add A checks op1 op2 =
     outcome_bind (add_u32 checks (max (get_bit_count A op1) (get_bit_count A op2)) 1) (\<lambda>bits.
       bn_add A (BigInt_new A bits) op1 op2)"

definition BigInt_sub :: "bigint_api \<Rightarrow> bool \<Rightarrow> big \<Rightarrow> big \<Rightarrow> big outcome" where
  "BigInt_sub A checks op1 op2 =
     outcome_bind (add_u32 checks (max (get_bit_count A op1) (get_bit_count A op2)) 1) (\<lambda>bits.
       bn_sub A (BigInt_new A bits) op1 op2)"

definition BigInt_neg :: "bigint_api \<Rightarrow> big \<Rightarrow> big outcome" where
  "BigInt_neg A op = bn_neg A (BigInt_new A (get_bit_count A op)) op"

definition BigInt_multiply :: "bigint_api \<Rightarrow> bool \<Rightarrow> big \<Rightarrow> big \<Rightarrow> big outcome" where
  "BigInt_multiply A checks op1 op2 =
     outcome_bind (add_u32 checks (get_bit_count A op1) (get_bit_count A op2)) (\<lambda>bits.
       bn_mul A (BigInt_new A bits) op1 op2)"

text \<open>\<^verbatim>\<open>2 * n\<close> overflows when \<^verbatim>\<open>n + n\<close> does.\<close>

definition BigInt_square :: "bigint_api \<Rightarrow> bool \<Rightarrow> big \<Rightarrow> big outcome" where
  "BigInt_square A checks op =
     outcome_bind (add_u32 checks (get_bit_count A op) (get_bit_count A op)) (\<lambda>bits.
       bn_square A (BigInt_new A bits) op)"

definition quotient_bits :: "bool \<Rightarrow> u32 \<Rightarrow> u32 \<Rightarrow> u32 outcome" where
  "quotient_bits checks n1 n2 =
     outcome_bind (sub_u32 checks n1 n2) (\<lambda>d. outcome_bind (add_u32 checks d 1) (\<lambda>b. Returns (max 1 b)))"

definition BigInt_divide :: "bigint_api \<Rightarrow> bool \<Rightarrow> big \<Rightarrow> big \<Rightarrow> (big \<times> big) outcome" where
  "BigInt_divide A checks op1 op2 =
     outcome_bind (quotient_bits checks (get_bit_count A op1) (get_bit_count A op2)) (\<lambda>q_bits.
       let r_bits = get_bit_count A op2 in
       bn_div A (BigInt_new A q_bits) (BigInt_new A r_bits) op1 op2)"

definition BigInt_module :: "bigint_api \<Rightarrow> big \<Rightarrow> big \<Rightarrow> big outcome" where
  "BigInt_module A op n = bn_mod A (BigInt_new A (get_bit_count A n)) op n"

definition BigInt_add_mod :: "bigint_api \<Rightarrow> big \<Rightarrow> big \<Rightarrow> big \<Rightarrow> big outcome" where
  "BigInt_add_mod A op1 op2 n = bn_add_mod A (BigInt_new A (get_bit_count A n)) op1 op2 n"

definition BigInt_sub_mod :: "bigint_api \<Rightarrow> big \<Rightarrow> big \<Rightarrow> big \<Rightarrow> big outcome" where
  "BigInt_sub_mod A op1 op2 n = bn_sub_mod A (BigInt_new A (get_bit_count A n)) op1 op2 n"

definition BigInt_mul_mod :: "bigint_api \<Rightarrow> big \<Rightarrow> big \<Rightarrow> big \<Rightarrow> big outcome" where
  "BigInt_mul_mod A op1 op2 n = bn_mul_mod A (BigInt_new A (get_bit_count A n)) op1 op2 n"

definition BigInt_square_mod :: "bigint_api \<Rightarrow> big \<Rightarrow> big \<Rightarrow> big outcome" where
  "BigInt_square_mod A op n = bn_square_mod A (BigInt_new A (get_bit_count A n)) op n"

definition BigInt_inv_mod :: "bigint_api \<Rightarrow> big \<Rightarrow> big \<Rightarrow> big outcome" where
  "BigInt_inv_mod A op n = bn_inv_mod A (BigInt_new A (get_bit_count A n)) op n"

definition BigInt_exp_mod :: "bigint_api \<Rightarrow> big \<Rightarrow> big \<Rightarrow> big \<Rightarrow> big \<Rightarrow> Error + big" where
  "BigInt_exp_mod A op1 op2 n ctx =
     (case bn_exp_mod A (BigInt_new A (get_bit_count A n)) op1 op2 n ctx of
        (code, res) \<Rightarrow> try_bind (tee_check code) (\<lambda>_. Inr res))"

definition relative_prime :: "bigint_api \<Rightarrow> big \<Rightarrow> big \<Rightarrow> bool" where
  "relative_prime A op1 op2 = bn_relative_prime A op1 op2"

definition BigInt_assign :: "bigint_api \<Rightarrow> big \<Rightarrow> big \<Rightarrow> (Error + unit) \<times> big" where
  "BigInt_assign A op2 self = (case bn_assign A self op2 of (res, self') \<Rightarrow> (tee_check res, self'))"

definition compute_extended_gcd :: "bigint_api \<Rightarrow> big \<Rightarrow> big \<Rightarrow> (big \<times> big \<times> big) outcome" where
  "compute_extended_gcd A op1 op2 =
     (let gcd_bits = max 1 (max (get_bit_count A op1) (get_bit_count A op2)) in
      bn_extended_gcd A (BigInt_new A gcd_bits) (BigInt_new A gcd_bits) (BigInt_new A gcd_bits) op1 op2)"

definition is_probable_prime :: "bigint_api \<Rightarrow> big \<Rightarrow> u32 \<Rightarrow> i32" where
  "is_probable_prime A self confidence_level = bn_is_probable_prime A self confidence_level"

definition convert_to_big_int_from_fmm :: "bigint_api \<Rightarrow> big \<Rightarrow> big \<Rightarrow> big \<Rightarrow> big \<Rightarrow> big outcome" where
  "convert_to_big_int_from_fmm A src n ctx self = bn_from_fmm A self src n ctx"

subsection \<open>Fast modular multiplication\<close>

definition FMMContext_size_in_u32 :: "bigint_api \<Rightarrow> usize \<Rightarrow> usize" where
  "FMMContext_size_in_u32 A sz = bn_fmm_context_size A sz"

definition BigIntFMMContext_new :: "bigint_api \<Rightarrow> u32 \<Rightarrow> big \<Rightarrow> big outcome" where
  "BigIntFMMContext_new A bits modulus =
     (let sz = FMMContext_size_in_u32 A (unat bits) in bn_init_fmm_context A (replicate sz 0) sz modulus)"

definition FMM_size_in_u32 :: "bigint_api \<Rightarrow> usize \<Rightarrow> usize" where
  "FMM_size_in_u32 A sz = bn_fmm_size A sz"

definition BigIntFMM_new :: "bigint_api \<Rightarrow> u32 \<Rightarrow> big outcome" where
  "BigIntFMM_new A bits = (let sz = FMM_size_in_u32 A (unat bits) in bn_init_fmm A (replicate sz 0) sz)"

definition convert_from_big_int :: "bigint_api \<Rightarrow> big \<Rightarrow> big \<Rightarrow> big \<Rightarrow> big \<Rightarrow> big outcome" where
  "convert_from_big_int A src n ctx self = bn_to_fmm A self src n ctx"

definition compute_fmm :: "bigint_api \<Rightarrow> big \<Rightarrow> big \<Rightarrow> big \<Rightarrow> big \<Rightarrow> big \<Rightarrow> big outcome" where
  "compute_fmm A op1 op2 n ctx self = bn_compute_fmm A self op1 op2 n ctx"

subsection \<open>What is documented of the TEE functions\<close>

text \<open>The number of bits of a magnitude, and the bits that a vector has room for.\<close>

fun bit_len :: "nat \<Rightarrow> nat" where
  "bit_len n = (if n = 0 then 0 else Suc (bit_len (n div 2)))"

declare bit_len.simps [simp del]

definition magnitude :: "(big \<Rightarrow> int) \<Rightarrow> big \<Rightarrow> nat" where
  "magnitude val x = bit_len (nat \<bar>val x\<bar>)"

definition room :: "big \<Rightarrow> nat" where
  "room d = 32 * (length d - 2)"

definition delivers_value :: "(big \<Rightarrow> int) \<Rightarrow> big outcome \<Rightarrow> big \<Rightarrow> int \<Rightarrow> bool" where
  "delivers_value val res d z \<longleftrightarrow> (\<exists>d'. res = Returns d' \<and> length d' = length d \<and> val d' = z)"

text \<open>
  Initialising keeps the length; the magnitude of a number lies in its vector, and for vectors of
  at most \<open>2 ^ 25\<close> units the bit count is that of the magnitude; and each operation delivers its result if the result vector has the room that
  the specification of the API requires.
\<close>

definition bigint_ok :: "bigint_api \<Rightarrow> (big \<Rightarrow> int) \<Rightarrow> bool" where
  "bigint_ok A val \<longleftrightarrow>
     (\<forall>d. length (bn_init A d (length d)) = length d) \<and>
     (\<forall>x. magnitude val x \<le> room x) \<and>
     (\<forall>x. length x \<le> 2 ^ 25 \<longrightarrow> unat (bn_bit_count A x) = magnitude val x) \<and>
     (\<forall>d x y. max (magnitude val x) (magnitude val y) + 1 \<le> room d \<longrightarrow>
        delivers_value val (bn_add A d x y) d (val x + val y) \<and> delivers_value val (bn_sub A d x y) d (val x - val y)) \<and>
     (\<forall>d x. magnitude val x \<le> room d \<longrightarrow> delivers_value val (bn_neg A d x) d (- val x)) \<and>
     (\<forall>d x y. magnitude val x + magnitude val y \<le> room d \<longrightarrow> delivers_value val (bn_mul A d x y) d (val x * val y)) \<and>
     (\<forall>d x. 2 * magnitude val x \<le> room d \<longrightarrow> delivers_value val (bn_square A d x) d (val x * val x)) \<and>
     (\<forall>q r x y. val y \<noteq> 0 \<longrightarrow> (magnitude val y \<le> magnitude val x \<longrightarrow> magnitude val x - magnitude val y + 1 \<le> room q) \<longrightarrow>
        magnitude val y \<le> room r \<longrightarrow>
        (\<exists>q' r'. bn_div A q r x y = Returns (q', r') \<and> val x = val q' * val y + val r' \<and> \<bar>val r'\<bar> < \<bar>val y\<bar>)) \<and>
     (\<forall>d x n. 1 < val n \<longrightarrow> magnitude val n \<le> room d \<longrightarrow> delivers_value val (bn_mod A d x n) d (val x mod val n)) \<and>
     (\<forall>d x y n. 1 < val n \<longrightarrow> magnitude val n \<le> room d \<longrightarrow> 0 \<le> val x \<and> val x < val n \<longrightarrow> 0 \<le> val y \<and> val y < val n \<longrightarrow>
        delivers_value val (bn_add_mod A d x y n) d ((val x + val y) mod val n) \<and>
        delivers_value val (bn_sub_mod A d x y n) d ((val x - val y) mod val n) \<and>
        delivers_value val (bn_mul_mod A d x y n) d (val x * val y mod val n))"
end
