(* ===== verification/BigIntExact.thy ===== *)
theory BigIntExact
  imports BigInt
begin

text \<open>
  The sizes that the wrappers of \<open>BigInt\<close> choose are the sizes that the TEE requires, so
  the results are exact; and the one computation where they are not.
\<close>

section \<open>Lemmas\<close>

subsection \<open>Sizes\<close>

lemma div_ceil_32: "((n :: nat) + 31) div 32 = (if n mod 32 = 0 then n div 32 else n div 32 + 1)"
proof -
  have "(n + 31) div 32 = n div 32 + (n mod 32 + 31) div 32" using div_add1_eq[of n 31 32] by simp
  moreover have "(n mod 32 + 31) div 32 = 1" if "n mod 32 \<noteq> 0"
    by (rule div_nat_eqI) (use that in simp_all)
  ultimately show ?thesis by auto
qed

lemma unat_size_in_u32: "unat (size_in_u32 bits) = (unat bits + 31) div 32 + 2"
proof -
  have b: "unat bits div 32 < 2 ^ 27" using unat_u32_less[of bits] by simp
  have d: "unat (bits div 32) = unat bits div 32" by (simp add: unat_div)
  have "unat (bits div 32 + 1 + 2) = unat bits div 32 + 3" "unat (bits div 32 + 2) = unat bits div 32 + 2"
    using b unfolding unat_word_ariths d by simp_all
  moreover have "bits mod 32 = 0 \<longleftrightarrow> unat bits mod 32 = 0" by (simp add: word_unat_eq_iff unat_mod)
  ultimately show ?thesis by (simp add: size_in_u32_def div_ceil_32)
qed

lemma length_new:
  assumes "bigint_ok A val"
  shows "length (BigInt_new A bits) = (unat bits + 31) div 32 + 2"
proof -
  have "length (bn_init A (replicate n 0) n) = n" for n
    using assms unfolding bigint_ok_def by (metis length_replicate)
  then show ?thesis unfolding BigInt_new_def Let_def unat_size_in_u32 .
qed

lemma room_new: "bigint_ok A val \<Longrightarrow> unat bits \<le> room (BigInt_new A bits)"
  by (simp add: length_new room_def)

lemma bit_count_eq: "bigint_ok A val \<Longrightarrow> length x \<le> 2 ^ 25 \<Longrightarrow> unat (get_bit_count A x) = magnitude val x"
  by (simp add: bigint_ok_def get_bit_count_def)

lemma bit_len_le_iff: "bit_len n \<le> k \<longleftrightarrow> n < 2 ^ k"
proof (induction n arbitrary: k rule: bit_len.induct)
  case (1 n)
  show ?case
  proof (cases "n = 0")
    case False
    show ?thesis
    proof (cases k)
      case (Suc j)
      have "n div 2 < 2 ^ j \<longleftrightarrow> n < 2 ^ Suc j" by auto
      with 1 False Suc show ?thesis by (simp add: bit_len.simps[of n])
    qed (use False in \<open>simp add: bit_len.simps[of n]\<close>)
  qed (simp add: bit_len.simps[of 0])
qed

lemma magnitude_le_iff: "magnitude val x \<le> k \<longleftrightarrow> \<bar>val x\<bar> < 2 ^ k"
  by (simp add: magnitude_def bit_len_le_iff nat_less_iff)

subsection \<open>A reference instance\<close>

text \<open>Sign and magnitude: a unit for the sign, one unused, and the magnitude in little-endian units.\<close>

fun of_units :: "u32 list \<Rightarrow> nat" where
  "of_units [] = 0"
| "of_units (u # us) = unat u + 2 ^ 32 * of_units us"

fun to_units :: "nat \<Rightarrow> nat \<Rightarrow> u32 list" where
  "to_units 0 n = []"
| "to_units (Suc k) n = of_nat (n mod 2 ^ 32) # to_units k (n div 2 ^ 32)"

fun ref_val :: "big \<Rightarrow> int" where
  "ref_val (s # u # us) = (if s = 1 then - int (of_units us) else int (of_units us))"
| "ref_val _ = 0"

definition ref_enc :: "nat \<Rightarrow> int \<Rightarrow> big" where
  "ref_enc n z =
     (if n < 2 then replicate n 0 else (if z < 0 then 1 else 0) # 0 # to_units (n - 2) (nat \<bar>z\<bar>))"

lemma length_to_units [simp]: "length (to_units k n) = k"
  by (induction k arbitrary: n) simp_all

lemma of_to_units: "n < 2 ^ (32 * k) \<Longrightarrow> of_units (to_units k n) = n"
proof (induction k arbitrary: n)
  case (Suc k)
  have "n div 2 ^ 32 < 2 ^ (32 * k)"
    using Suc.prems by (simp add: less_mult_imp_div_less power_add mult.commute)
  moreover have "unat (of_nat (n mod 2 ^ 32) :: u32) = n mod 2 ^ 32"
    by (simp add: unat_of_nat take_bit_eq_mod)
  ultimately show ?case using Suc.IH by simp
qed simp

lemma of_units_less: "of_units us < 2 ^ (32 * length us)"
proof (induction us)
  case (Cons u us)
  have "unat u < 2 ^ 32" using unat_u32_less[of u] by simp
  with Cons show ?case by (simp add: power_add)
qed simp

lemma length_ref_enc [simp]: "length (ref_enc n z) = n"
  by (cases "n < 2") (simp_all add: ref_enc_def)

lemma ref_val_enc: "\<bar>z\<bar> < 2 ^ (32 * (n - 2)) \<Longrightarrow> ref_val (ref_enc n z) = z"
proof (cases "n < 2")
  case True
  assume "\<bar>z\<bar> < 2 ^ (32 * (n - 2))"
  with True have "z = 0" by simp
  moreover have "n = 0 \<or> n = 1" using True by auto
  ultimately show ?thesis by (auto simp: ref_enc_def)
next
  case False
  assume "\<bar>z\<bar> < 2 ^ (32 * (n - 2))"
  then have "nat \<bar>z\<bar> < 2 ^ (32 * (n - 2))" by (simp add: nat_less_iff)
  with False show ?thesis by (simp add: ref_enc_def of_to_units)
qed

lemma ref_val_less: "\<bar>ref_val x\<bar> < 2 ^ (32 * (length x - 2))"
proof (cases x rule: ref_val.cases)
  case (1 s u us)
  have "int (of_units us) < 2 ^ (32 * length us)" using of_units_less[of us] by (metis of_nat_less_iff of_nat_numeral of_nat_power)
  with 1 show ?thesis by simp
qed simp_all

definition ref_quot :: "int \<Rightarrow> int \<Rightarrow> int" where
  "ref_quot x y = sgn x * sgn y * (\<bar>x\<bar> div \<bar>y\<bar>)"

definition ref_bigint :: bigint_api where
  "ref_bigint = \<lparr>
     bn_init = (\<lambda>d n. ref_enc (length d) 0),
     bn_from_octets = (\<lambda>d bs s. (TEE_ERROR_NOT_IMPLEMENTED, d)),
     bn_to_octets = (\<lambda>n x. (TEE_ERROR_NOT_IMPLEMENTED, 0, [])),
     bn_from_s32 = (\<lambda>d v. Returns (ref_enc (length d) (sint v))),
     bn_to_s32 = (\<lambda>x. (TEE_SUCCESS, of_int (ref_val x))),
     bn_cmp = (\<lambda>x y. of_int (sgn (ref_val x - ref_val y))),
     bn_cmp_s32 = (\<lambda>x v. of_int (sgn (ref_val x - sint v))),
     bn_shift_right = (\<lambda>d x n. Returns (ref_enc (length d) (ref_val x div 2 ^ n))),
     bn_get_bit = (\<lambda>x i. odd (nat \<bar>ref_val x\<bar> div 2 ^ unat i)),
     bn_bit_count = (\<lambda>x. of_nat (magnitude ref_val x)),
     bn_set_bit = (\<lambda>x i b. (TEE_ERROR_NOT_IMPLEMENTED, x)),
     bn_abs = (\<lambda>d x. (TEE_SUCCESS, ref_enc (length d) \<bar>ref_val x\<bar>)),
     bn_add = (\<lambda>d x y. Returns (ref_enc (length d) (ref_val x + ref_val y))),
     bn_sub = (\<lambda>d x y. Returns (ref_enc (length d) (ref_val x - ref_val y))),
     bn_neg = (\<lambda>d x. Returns (ref_enc (length d) (- ref_val x))),
     bn_mul = (\<lambda>d x y. Returns (ref_enc (length d) (ref_val x * ref_val y))),
     bn_square = (\<lambda>d x. Returns (ref_enc (length d) (ref_val x * ref_val x))),
     bn_div = (\<lambda>q r x y. Returns (ref_enc (length q) (ref_quot (ref_val x) (ref_val y)),
       ref_enc (length r) (ref_val x - ref_quot (ref_val x) (ref_val y) * ref_val y))),
     bn_mod = (\<lambda>d x n. Returns (ref_enc (length d) (ref_val x mod ref_val n))),
     bn_add_mod = (\<lambda>d x y n. Returns (ref_enc (length d) ((ref_val x + ref_val y) mod ref_val n))),
     bn_sub_mod = (\<lambda>d x y n. Returns (ref_enc (length d) ((ref_val x - ref_val y) mod ref_val n))),
     bn_mul_mod = (\<lambda>d x y n. Returns (ref_enc (length d) (ref_val x * ref_val y mod ref_val n))),
     bn_square_mod = (\<lambda>d x n. Returns (ref_enc (length d) (ref_val x * ref_val x mod ref_val n))),
     bn_inv_mod = (\<lambda>d x n. Panics),
     bn_exp_mod = (\<lambda>d x y n c. (TEE_ERROR_NOT_IMPLEMENTED, d)),
     bn_relative_prime = (\<lambda>x y. coprime (ref_val x) (ref_val y)),
     bn_assign = (\<lambda>d x. (TEE_SUCCESS, ref_enc (length d) (ref_val x))),
     bn_extended_gcd = (\<lambda>g u v x y. Panics),
     bn_is_probable_prime = (\<lambda>x c. 0),
     bn_fmm_context_size = (\<lambda>n. 1), bn_fmm_size = (\<lambda>n. n),
     bn_init_fmm_context = (\<lambda>d n m. Returns d), bn_init_fmm = (\<lambda>d n. Returns d),
     bn_to_fmm = (\<lambda>d x n c. Returns d), bn_from_fmm = (\<lambda>d x n c. Returns d),
     bn_compute_fmm = (\<lambda>d x y n c. Returns d)\<rparr>"

lemma ref_delivers: "\<bar>z\<bar> < 2 ^ room d \<Longrightarrow> delivers_value ref_val (Returns (ref_enc (length d) z)) d z"
  by (simp add: delivers_value_def room_def ref_val_enc)

lemma ref_magnitude_less: "length x \<le> 2 ^ 25 \<Longrightarrow> magnitude ref_val x < 2 ^ 32"
proof -
  assume "length x \<le> 2 ^ 25"
  then have "32 * (length x - 2) < 2 ^ 32" by simp
  moreover have "magnitude ref_val x \<le> 32 * (length x - 2)" using ref_val_less by (simp add: magnitude_le_iff)
  ultimately show ?thesis by (rule le_less_trans[rotated])
qed

lemma magnitude_leI: "\<bar>val x\<bar> < 2 ^ k \<Longrightarrow> magnitude val x \<le> k"
  by (simp add: magnitude_le_iff)

lemma magnitude_bound: "\<bar>val x\<bar> < 2 ^ magnitude val x"
  using magnitude_le_iff[of val x "magnitude val x"] by simp

lemma below_room: "magnitude val x \<le> r \<Longrightarrow> \<bar>val x\<bar> < (2 :: int) ^ r"
  by (simp add: magnitude_le_iff)

lemma sum_room:
  assumes "max (magnitude val x) (magnitude val y) + 1 \<le> r"
  shows "\<bar>val x + val y\<bar> < (2 :: int) ^ r" "\<bar>val x - val y\<bar> < (2 :: int) ^ r"
proof -
  obtain k where r: "r = Suc k" "magnitude val x \<le> k" "magnitude val y \<le> k"
    using assms by (cases r) auto
  then have "\<bar>val x\<bar> < 2 ^ k" "\<bar>val y\<bar> < 2 ^ k" by (simp_all add: below_room)
  then show "\<bar>val x + val y\<bar> < 2 ^ r" "\<bar>val x - val y\<bar> < 2 ^ r"
    by (simp_all add: r(1))
qed

lemma product_room:
  assumes "magnitude val x + magnitude val y \<le> r"
  shows "\<bar>val x * val y\<bar> < (2 :: int) ^ r"
proof -
  have "\<bar>val x * val y\<bar> < 2 ^ magnitude val x * 2 ^ magnitude val y"
    unfolding abs_mult by (intro mult_strict_mono' magnitude_bound) simp_all
  also have "\<dots> \<le> 2 ^ r" using assms by (simp add: power_add [symmetric])
  finally show ?thesis .
qed

lemma residue_room:
  assumes "1 < val n" "magnitude val n \<le> r"
  shows "\<bar>z mod val n\<bar> < (2 :: int) ^ r"
  using below_room[OF assms(2)] pos_mod_bound[of "val n" z] pos_mod_sign[of "val n" z] assms(1) by linarith

lemma ref_quot_abs: "\<bar>ref_quot x y\<bar> \<le> \<bar>x\<bar> div \<bar>y\<bar>"
  by (cases "x = 0"; cases "y = 0") (simp_all add: ref_quot_def abs_mult pos_imp_zdiv_nonneg_iff)

lemma quotient_room:
  assumes y: "val y \<noteq> 0" and r: "magnitude val y \<le> magnitude val x \<Longrightarrow> magnitude val x - magnitude val y + 1 \<le> r"
  shows "\<bar>ref_quot (val x) (val y)\<bar> < (2 :: int) ^ r"
proof -
  have "\<not> magnitude val y \<le> 0" using y magnitude_le_iff[of val y 0] by simp
  then obtain k where k: "magnitude val y = Suc k" using not0_implies_Suc by blast
  have big: "2 ^ k \<le> \<bar>val y\<bar>" using k magnitude_le_iff[of val y k] by linarith
  show ?thesis
  proof (cases "magnitude val y \<le> magnitude val x")
    case True
    have mono: "\<bar>val x\<bar> div \<bar>val y\<bar> \<le> \<bar>val x\<bar> div 2 ^ k" by (intro zdiv_mono2 big) simp_all
    have "magnitude val x - magnitude val y + 1 + k = magnitude val x" using True k by simp
    then have "\<bar>val x\<bar> < 2 ^ (magnitude val x - magnitude val y + 1) * 2 ^ k"
      using magnitude_bound[of val x] by (metis power_add)
    moreover have "\<bar>val x\<bar> div 2 ^ k * 2 ^ k \<le> \<bar>val x\<bar>" by (simp add: minus_mod_eq_div_mult [symmetric])
    ultimately have "\<bar>val x\<bar> div 2 ^ k < 2 ^ (magnitude val x - magnitude val y + 1)"
      by (intro mult_right_less_imp_less[of "\<bar>val x\<bar> div 2 ^ k" "2 ^ k"]) (linarith, simp)
    also have "\<dots> \<le> 2 ^ r" by (rule power_increasing[OF r[OF True]]) simp
    finally show ?thesis using mono ref_quot_abs[of "val x" "val y"] by linarith
  next
    case False
    then have "magnitude val x \<le> k" using k by simp
    then have "\<bar>val x\<bar> < \<bar>val y\<bar>" using below_room[of val x k] big by linarith
    then have "\<bar>val x\<bar> div \<bar>val y\<bar> = 0" by simp
    then show ?thesis using ref_quot_abs[of "val x" "val y"] by simp
  qed
qed

lemma ref_remainder:
  "x - ref_quot x y * y = sgn x * (\<bar>x\<bar> mod \<bar>y\<bar>)"
proof -
  have "ref_quot x y * y = sgn x * (\<bar>x\<bar> div \<bar>y\<bar> * \<bar>y\<bar>)"
    by (simp add: ref_quot_def abs_sgn mult_ac)
  moreover have "x = sgn x * \<bar>x\<bar>" by (simp add: sgn_mult_abs)
  ultimately show ?thesis by (simp add: minus_div_mult_eq_mod [symmetric] right_diff_distrib)
qed

lemma ref_remainder_less: "y \<noteq> 0 \<Longrightarrow> \<bar>x - ref_quot x y * y\<bar> < \<bar>y\<bar>"
  by (cases "x = 0") (simp_all add: ref_remainder abs_mult)

lemma ref_div:
  assumes "ref_val y \<noteq> 0" "magnitude ref_val y \<le> magnitude ref_val x \<longrightarrow> magnitude ref_val x - magnitude ref_val y + 1 \<le> room q"
    "magnitude ref_val y \<le> room r"
  shows "\<exists>q' r'. bn_div ref_bigint q r x y = Returns (q', r') \<and> ref_val x = ref_val q' * ref_val y + ref_val r' \<and>
    \<bar>ref_val r'\<bar> < \<bar>ref_val y\<bar>"
proof -
  let ?q = "ref_quot (ref_val x) (ref_val y)"
  let ?r = "ref_val x - ?q * ref_val y"
  have "\<bar>?q\<bar> < 2 ^ room q" using assms(1,2) by (intro quotient_room) simp_all
  moreover have rl: "\<bar>?r\<bar> < \<bar>ref_val y\<bar>" using assms(1) by (rule ref_remainder_less)
  moreover have "\<bar>?r\<bar> < 2 ^ room r" using rl below_room[OF assms(3)] by linarith
  ultimately show ?thesis by (simp add: ref_bigint_def ref_val_enc room_def)
qed

lemma ref_residue:
  "1 < ref_val n \<Longrightarrow> magnitude ref_val n \<le> room d \<Longrightarrow>
   delivers_value ref_val (Returns (ref_enc (length d) (z mod ref_val n))) d (z mod ref_val n)"
  by (rule ref_delivers) (rule residue_room)

lemma ref_square:
  "2 * magnitude ref_val x \<le> room d \<Longrightarrow>
   delivers_value ref_val (Returns (ref_enc (length d) (ref_val x * ref_val x))) d (ref_val x * ref_val x)"
  by (rule ref_delivers, rule product_room) simp

lemma ref_bigint_ok: "bigint_ok ref_bigint ref_val"
  unfolding bigint_ok_def
proof (intro conjI allI impI)
  show "unat (bn_bit_count ref_bigint x) = magnitude ref_val x" if "length x \<le> 2 ^ 25" for x
    using ref_magnitude_less[OF that] by (simp add: ref_bigint_def unat_of_nat take_bit_nat_eq_self)
  show "magnitude ref_val x \<le> room x" for x
    using ref_val_less[of x] by (simp add: magnitude_le_iff room_def)
  show "\<exists>q' r'. bn_div ref_bigint q r x y = Returns (q', r') \<and> ref_val x = ref_val q' * ref_val y + ref_val r' \<and>
      \<bar>ref_val r'\<bar> < \<bar>ref_val y\<bar>"
    if "ref_val y \<noteq> 0" "magnitude ref_val y \<le> magnitude ref_val x \<longrightarrow> magnitude ref_val x - magnitude ref_val y + 1 \<le> room q"
      "magnitude ref_val y \<le> room r" for q r x y
    using that by (rule ref_div)
qed (simp_all add: ref_bigint_def ref_delivers ref_residue ref_square sum_room product_room below_room)

subsection \<open>The sizes the wrappers choose\<close>

lemma bigint_okD:
  assumes "bigint_ok A val"
  shows "magnitude val x \<le> room x"
    "max (magnitude val x) (magnitude val y) + 1 \<le> room d \<Longrightarrow> delivers_value val (bn_add A d x y) d (val x + val y)"
    "max (magnitude val x) (magnitude val y) + 1 \<le> room d \<Longrightarrow> delivers_value val (bn_sub A d x y) d (val x - val y)"
    "magnitude val x \<le> room d \<Longrightarrow> delivers_value val (bn_neg A d x) d (- val x)"
    "magnitude val x + magnitude val y \<le> room d \<Longrightarrow> delivers_value val (bn_mul A d x y) d (val x * val y)"
    "2 * magnitude val x \<le> room d \<Longrightarrow> delivers_value val (bn_square A d x) d (val x * val x)"
    "1 < val n \<Longrightarrow> magnitude val n \<le> room d \<Longrightarrow> delivers_value val (bn_mod A d x n) d (val x mod val n)"
  using assms by (simp_all add: bigint_ok_def)

lemma bigint_div_okD:
  "bigint_ok A val \<Longrightarrow> val y \<noteq> 0 \<Longrightarrow> (magnitude val y \<le> magnitude val x \<Longrightarrow> magnitude val x - magnitude val y + 1 \<le> room q) \<Longrightarrow>
   magnitude val y \<le> room r \<Longrightarrow>
   \<exists>q' r'. bn_div A q r x y = Returns (q', r') \<and> val x = val q' * val y + val r' \<and> \<bar>val r'\<bar> < \<bar>val y\<bar>"
  by (simp add: bigint_ok_def)

lemma bigint_mod_okD:
  assumes "bigint_ok A val" "1 < val n" "magnitude val n \<le> room d" "0 \<le> val x" "val x < val n" "0 \<le> val y" "val y < val n"
  shows "delivers_value val (bn_add_mod A d x y n) d ((val x + val y) mod val n)"
    "delivers_value val (bn_sub_mod A d x y n) d ((val x - val y) mod val n)"
    "delivers_value val (bn_mul_mod A d x y n) d (val x * val y mod val n)"
  using assms by (simp_all add: bigint_ok_def)

lemma bit_count_small:
  assumes "bigint_ok A val" "length x \<le> 2 ^ 25"
  shows "unat (get_bit_count A x) = magnitude val x" "magnitude val x \<le> 2 ^ 30"
  using bit_count_eq[OF assms] bigint_okD(1)[OF assms(1), of x] assms(2) by (simp_all add: room_def)

lemma room_bit_count:
  "bigint_ok A val \<Longrightarrow> length x \<le> 2 ^ 25 \<Longrightarrow> magnitude val x \<le> room (BigInt_new A (get_bit_count A x))"
  using room_new[of A val "get_bit_count A x"] by (simp add: bit_count_small)

lemma unat_max_u32: "unat (max a b :: u32) = max (unat a) (unat b)"
  by (simp add: max_def word_le_nat_alt)

lemma unat_of_nat_u32: "k < 2 ^ 32 \<Longrightarrow> unat (of_nat k :: u32) = k"
  by (simp add: unat_of_nat take_bit_nat_eq_self)

lemma underflow:
  assumes "unat (m :: u32) + 2 \<le> unat (n :: u32)"
  shows "unat (m - n + 1) = 2 ^ 32 - (unat n - unat m) + 1"
proof -
  let ?k = "2 ^ 32 - (unat n - unat m) + 1"
  have k: "?k + unat n = 2 ^ 32 + unat m + 1" "?k < 2 ^ 32" using assms unat_u32_less[of n] by simp_all
  have "(of_nat (?k + unat n) :: u32) = of_nat (2 ^ 32 + unat m + 1)" unfolding k(1) ..
  then have "of_nat ?k + n = (of_nat (2 ^ 32) :: u32) + m + 1" unfolding of_nat_add by simp
  moreover have "(of_nat (2 ^ 32) :: u32) = 0" by simp
  ultimately have "m - n + 1 = of_nat ?k" by (simp add: algebra_simps)
  moreover have "unat (of_nat ?k :: u32) = ?k" using k(2) by (rule unat_of_nat_u32)
  ultimately show ?thesis by metis
qed

lemma sum_bits:
  assumes "bigint_ok A val" "length x \<le> 2 ^ 25" "length y \<le> 2 ^ 25"
  shows "\<exists>bits. add_u32 checks (max (get_bit_count A x) (get_bit_count A y)) 1 = Returns bits \<and>
      max (magnitude val x) (magnitude val y) + 1 \<le> room (BigInt_new A bits)"
    and "\<exists>bits. add_u32 checks (get_bit_count A x) (get_bit_count A y) = Returns bits \<and>
      magnitude val x + magnitude val y \<le> room (BigInt_new A bits)"
proof -
  note small = bit_count_small[OF assms(1,2)] bit_count_small[OF assms(1,3)]
  show "\<exists>bits. add_u32 checks (max (get_bit_count A x) (get_bit_count A y)) 1 = Returns bits \<and>
      max (magnitude val x) (magnitude val y) + 1 \<le> room (BigInt_new A bits)"
    using add_u32_exact[of "max (get_bit_count A x) (get_bit_count A y)" 1 checks] small
      room_new[OF assms(1), of "max (get_bit_count A x) (get_bit_count A y) + 1"] by (simp add: unat_max_u32)
  show "\<exists>bits. add_u32 checks (get_bit_count A x) (get_bit_count A y) = Returns bits \<and>
      magnitude val x + magnitude val y \<le> room (BigInt_new A bits)"
    using add_u32_exact[of "get_bit_count A x" "get_bit_count A y" checks] small
      room_new[OF assms(1), of "get_bit_count A x + get_bit_count A y"] by simp
qed

lemma quotient_bits_enough:
  assumes "bigint_ok A val" "length x \<le> 2 ^ 25" "length y \<le> 2 ^ 25" "magnitude val y \<le> magnitude val x"
  shows "\<exists>bits. quotient_bits checks (get_bit_count A x) (get_bit_count A y) = Returns bits \<and>
      magnitude val x - magnitude val y + 1 \<le> room (BigInt_new A bits)"
proof -
  let ?d = "get_bit_count A x - get_bit_count A y"
  note small = bit_count_small[OF assms(1,2)] bit_count_small[OF assms(1,3)]
  have d: "sub_u32 checks (get_bit_count A x) (get_bit_count A y) = Returns ?d"
    "unat ?d = magnitude val x - magnitude val y"
    using sub_u32_exact[of "get_bit_count A y" "get_bit_count A x" checks] small assms(4) by simp_all
  have b: "add_u32 checks ?d 1 = Returns (?d + 1)" "unat (?d + 1) = magnitude val x - magnitude val y + 1"
    using add_u32_exact[of ?d 1 checks] d(2) small by simp_all
  have "unat (max 1 (?d + 1)) = magnitude val x - magnitude val y + 1" using b(2) by (simp add: unat_max_u32)
  then show ?thesis using d(1) b(1) room_new[OF assms(1), of "max 1 (?d + 1)"]
    by (simp add: quotient_bits_def outcome_bind_def)
qed

section \<open>Properties\<close>

definition exact_value :: "(big \<Rightarrow> int) \<Rightarrow> big outcome \<Rightarrow> int \<Rightarrow> bool" where
  "exact_value val res z \<longleftrightarrow> (\<exists>r. res = Returns r \<and> val r = z)"

lemma exact_if_delivers: "delivers_value val res d z \<Longrightarrow> exact_value val res z"
  by (auto simp: delivers_value_def exact_value_def)


lemma modular_exact:
  assumes A: "bigint_ok A val" and n: "length n \<le> 2 ^ 25" "1 < val n"
    and x: "0 \<le> val x" "val x < val n" and y: "0 \<le> val y" "val y < val n"
  shows "exact_value val (BigInt_add_mod A x y n) ((val x + val y) mod val n)"
    "exact_value val (BigInt_sub_mod A x y n) ((val x - val y) mod val n)"
    "exact_value val (BigInt_mul_mod A x y n) (val x * val y mod val n)"
  using bigint_mod_okD[OF A n(2) room_bit_count[OF A n(1)] x y]
  by (simp_all add: BigInt_add_mod_def BigInt_sub_mod_def BigInt_mul_mod_def exact_if_delivers)




end
