(* ===== verification/TaLinker.thy ===== *)
theory TaLinker
  imports TaHeaderTable HostStd
begin

text \<open>
  The build script of an application: \<^verbatim>\<open>crates/optee-utee-build/src/linker.rs\<close>, \<^verbatim>\<open>builder.rs\<close> and
  \<^verbatim>\<open>lib.rs\<close>.

  The state of a build script is the world and the lines that it has printed for \<^verbatim>\<open>cargo\<close>.  The
  file system and the C preprocessor are the record \<open>script_api\<close>; an open file is a number.  The
  printed form of the generated items (\<^verbatim>\<open>syn\<close> and \<^verbatim>\<open>prettyplease\<close>, after the licence text) is the
  parameter \<open>render\<close>.  A panic of the script is the value \<open>Script_panic\<close>.
\<close>

section \<open>Definitions\<close>

subsection \<open>Steps\<close>

datatype script_stop = Script_panic | Script_error build_error

record 'w script =
  sc_world :: 'w
  sc_out :: "string list"

type_synonym ('w, 'a) script_step = "('w script, script_stop, 'a) io"

record 'w script_api =
  sa_read :: "string \<Rightarrow> 'w \<Rightarrow> bytes option"
  sa_write :: "string \<Rightarrow> bytes \<Rightarrow> 'w \<Rightarrow> bool \<times> 'w"
  sa_create :: "string \<Rightarrow> 'w \<Rightarrow> nat option \<times> 'w"
  sa_write_all :: "nat \<Rightarrow> bytes \<Rightarrow> 'w \<Rightarrow> bool \<times> 'w"
  sa_output :: "command \<Rightarrow> 'w \<Rightarrow> (bytes \<times> int option) option \<times> 'w"

definition println :: "string \<Rightarrow> ('w, unit) script_step" where
  "println line = (\<lambda>s. (Inr (), s\<lparr>sc_out := sc_out s @ [line]\<rparr>))"

definition in_world :: "('w \<Rightarrow> 'a \<times> 'w) \<Rightarrow> 'w script \<Rightarrow> 'a \<times> 'w script" where
  "in_world f s = (case f (sc_world s) of (a, w) \<Rightarrow> (a, s\<lparr>sc_world := w\<rparr>))"

definition io_step :: "('w \<Rightarrow> bool \<times> 'w) \<Rightarrow> ('w, unit) script_step" where
  "io_step f = io_call (in_world f) (Script_error IoError)"

definition script_env :: "(string \<rightharpoonup> string) \<Rightarrow> string \<Rightarrow> ('w, string) script_step" where
  "script_env env key = io_ask (\<lambda>_. ok_or (env_var env key) (Script_error (EnvError key)))"

subsection \<open>The linker\<close>

datatype LinkerType = Linker_Cc | Linker_Ld

record Linker =
  lk_linker_type :: LinkerType
  lk_ftrace_buf_size :: "nat option"

definition Linker_new :: "LinkerType \<Rightarrow> Linker" where
  "Linker_new t = \<lparr>lk_linker_type = t, lk_ftrace_buf_size = None\<rparr>"

definition auto_detect_linker_type :: "(string \<rightharpoonup> string) \<Rightarrow> ('w, LinkerType) script_step" where
  "auto_detect_linker_type env =
     io_bind (println ''cargo:rerun-if-env-changed=RUSTC_LINKER'') (\<lambda>_.
     io_return (case env_var env ''RUSTC_LINKER'' of
         Some linker_name \<Rightarrow>
           if str_ends_with ''ld'' linker_name \<or> str_ends_with ''ld.bfd'' linker_name then Linker_Ld else Linker_Cc
       | None \<Rightarrow> Linker_Cc))"

definition Linker_auto :: "(string \<rightharpoonup> string) \<Rightarrow> ('w, Linker) script_step" where
  "Linker_auto env = io_bind (auto_detect_linker_type env) (\<lambda>t. io_return (Linker_new t))"

definition with_ftrace_buf_size :: "nat \<Rightarrow> Linker \<Rightarrow> Linker" where
  "with_ftrace_buf_size n self = self\<lparr>lk_ftrace_buf_size := Some n\<rparr>"

fun link_arg_line :: "LinkerType \<Rightarrow> string \<Rightarrow> string" where
  "link_arg_line Linker_Cc arg = ''cargo:rustc-link-arg=-Wl,'' @ arg"
| "link_arg_line Linker_Ld arg = ''cargo:rustc-link-arg='' @ arg"

definition link_arg :: "Linker \<Rightarrow> string \<Rightarrow> ('w, unit) script_step" where
  "link_arg self arg = println (link_arg_line (lk_linker_type self) arg)"

definition change_default_page_size :: "('w, unit) script_step" where
  "change_default_page_size =
     io_bind (println ''cargo:rustc-link-arg=-z'') (\<lambda>_.
     io_bind (println ''cargo:rustc-link-arg=max-page-size=0x1000'') (\<lambda>_.
     io_bind (println ''cargo:rustc-link-arg=-z'') (\<lambda>_.
     println ''cargo:rustc-link-arg=common-page-size=0x1000'')))"

text \<open>The macro that selects the architecture in the template of the linker script.\<close>

definition arch_define :: "string \<Rightarrow> string list" where
  "arch_define arch =
     (if arch = ''riscv32'' then [''-DRV32=1'']
      else if arch = ''riscv64'' then [''-DRV64=1'']
      else if arch = ''arm'' then [''-DARM32=1'']
      else if arch = ''aarch64'' then [''-DARM64=1'']
      else [])"

definition preprocess_command :: "(string \<rightharpoonup> string) \<Rightarrow> Linker \<Rightarrow> string \<Rightarrow> string \<Rightarrow> command" where
  "preprocess_command env self template arch =
     with_args ([''-E'', ''-P'', ''-x'', ''c'', template] @ arch_define arch @
         (case lk_ftrace_buf_size self of Some n \<Rightarrow> [''-DCFG_FTRACE_BUF_SIZE='' @ display_nat n] | None \<Rightarrow> []))
       (Command_new (unwrap_or (env_var env ''CC'') ''cc''))"

definition generate_new_link_script ::
    "'w script_api \<Rightarrow> (string \<rightharpoonup> string) \<Rightarrow> Linker \<Rightarrow> string \<Rightarrow> ('w, bytes) script_step" where
  "generate_new_link_script T env self ta_dev_kit_dir =
     (let template = path_join ta_dev_kit_dir ''src/ta.ld.S'' in
      io_bind (println (''cargo:rerun-if-changed='' @ to_string_lossy template)) (\<lambda>_.
      io_bind (println ''cargo:rerun-if-env-changed=CC'') (\<lambda>_.
      io_bind (io_check (valid_utf8 (as_bytes template)) Script_panic) (\<lambda>_.
      io_bind (println ''cargo:rerun-if-env-changed=CARGO_CFG_TARGET_ARCH'') (\<lambda>_.
      io_bind (script_env env ''CARGO_CFG_TARGET_ARCH'') (\<lambda>arch.
      io_bind (io_alloc (in_world (sa_output T (preprocess_command env self template arch))) (Script_error IoError)) (\<lambda>(stdout, status).
      io_bind (io_check (valid_utf8 stdout) (Script_error UtfError)) (\<lambda>_.
      io_return stdout))))))))"

definition write_and_set_linker_script ::
    "'w script_api \<Rightarrow> (string \<rightharpoonup> string) \<Rightarrow> Linker \<Rightarrow> string \<Rightarrow> string \<Rightarrow> ('w, unit) script_step" where
  "write_and_set_linker_script T env self out_dir ta_dev_kit_dir =
     io_bind (println ''cargo:rerun-if-env-changed=TARGET'') (\<lambda>_.
     io_bind (case env_var env ''TARGET'' of
         Some v \<Rightarrow>
           if v = ''arm-unknown-linux-gnueabihf'' \<or> v = ''arm-unknown-optee'' then link_arg self ''--no-warn-mismatch''
           else io_return ()
       | None \<Rightarrow> io_return ()) (\<lambda>_.
     let link_script_dest = path_join out_dir ''ta.lds'' in
     io_bind (generate_new_link_script T env self ta_dev_kit_dir) (\<lambda>link_script.
     io_bind (\<lambda>s. if sa_read T link_script_dest (sc_world s) = Some link_script then (Inr (), s)
                  else io_step (sa_write T link_script_dest link_script) s) (\<lambda>_.
     io_bind change_default_page_size (\<lambda>_.
     io_bind (println (''cargo:rustc-link-search='' @ to_string_lossy out_dir)) (\<lambda>_.
     io_bind (println (''cargo:rerun-if-changed='' @ to_string_lossy link_script_dest)) (\<lambda>_.
     println (''cargo:rustc-link-arg=-T'' @ to_string_lossy link_script_dest))))))))"

definition DYN_LIST :: string where
  "DYN_LIST = ''{ __elf_phdr_info; trace_ext_prefix; trace_level; ta_head; };'' @ [CHR 0x0A]"

text \<open>\<^verbatim>\<open>File::create\<close> followed by one write to the open file.\<close>

definition create_file :: "'w script_api \<Rightarrow> string \<Rightarrow> ('w, nat) script_step" where
  "create_file T p = io_alloc (in_world (sa_create T p)) (Script_error IoError)"

definition link_all :: "'w script_api \<Rightarrow> (string \<rightharpoonup> string) \<Rightarrow> Linker \<Rightarrow> string \<Rightarrow> ('w, unit) script_step" where
  "link_all T env self out_dir =
     io_bind (println ''cargo:rerun-if-env-changed=TA_DEV_KIT_DIR'') (\<lambda>_.
     io_bind (script_env env ''TA_DEV_KIT_DIR'') (\<lambda>ta_dev_kit_dir.
     io_bind (write_and_set_linker_script T env self out_dir ta_dev_kit_dir) (\<lambda>_.
     io_bind (println (''cargo:rustc-link-search='' @ to_string_lossy (path_join ta_dev_kit_dir ''lib''))) (\<lambda>_.
     io_bind (println ''cargo:rustc-link-lib=static=utee'') (\<lambda>_.
     io_bind (println ''cargo:rustc-link-lib=static=utils'') (\<lambda>_.
     io_bind (link_arg self ''-lutee'') (\<lambda>_.
     io_bind (link_arg self ''-lutils'') (\<lambda>_.
     io_bind (println ''cargo:rustc-link-arg=-e__ta_entry'') (\<lambda>_.
     io_bind (println ''cargo:rustc-link-arg=-pie'') (\<lambda>_.
     io_bind (println ''cargo:rustc-link-arg=-Os'') (\<lambda>_.
     io_bind (link_arg self ''--sort-section=alignment'') (\<lambda>_.
     io_bind (create_file T (path_join out_dir ''dyn_list'')) (\<lambda>dyn_list.
     io_bind (io_step (sa_write_all T dyn_list (as_bytes DYN_LIST))) (\<lambda>_.
     link_arg self ''--dynamic-list=dyn_list''))))))))))))))"

subsection \<open>The builder\<close>

definition DEFAULT_HEADER_FILE_NAME :: string where
  "DEFAULT_HEADER_FILE_NAME = ''user_ta_header.rs''"

record 'u Builder =
  bd_out_dir :: "string option"
  bd_header_file_name :: "string option"
  bd_ta_config :: "'u TaConfig"
  bd_linker_type :: "LinkerType option"

definition Builder_new :: "'u TaConfig \<Rightarrow> 'u Builder" where
  "Builder_new ta_config =
     \<lparr>bd_out_dir = None, bd_header_file_name = None, bd_ta_config = ta_config, bd_linker_type = None\<rparr>"

definition Builder_out_dir :: "string \<Rightarrow> 'u Builder \<Rightarrow> 'u Builder" where
  "Builder_out_dir path self = self\<lparr>bd_out_dir := Some path\<rparr>"

definition Builder_header_file_name :: "string \<Rightarrow> 'u Builder \<Rightarrow> 'u Builder" where
  "Builder_header_file_name file_name self = self\<lparr>bd_header_file_name := Some file_name\<rparr>"

definition Builder_linker_type :: "LinkerType \<Rightarrow> 'u Builder \<Rightarrow> 'u Builder" where
  "Builder_linker_type linker_type self = self\<lparr>bd_linker_type := Some linker_type\<rparr>"

definition header_codes ::
    "'u uuid_crate \<Rightarrow> (gen_item list \<Rightarrow> bytes) \<Rightarrow> bool \<Rightarrow> 'u TaConfig \<Rightarrow> ('w, bytes) script_step" where
  "header_codes U render overflow_checks conf =
     io_ask (\<lambda>_. case HeaderFileGenerator_generate U overflow_checks conf of
         Panics \<Rightarrow> Inl Script_panic
       | Returns (Inl e) \<Rightarrow> Inl (Script_error e)
       | Returns (Inr items) \<Rightarrow> Inr (render items))"

definition write_header_file ::
    "'w script_api \<Rightarrow> 'u uuid_crate \<Rightarrow> (gen_item list \<Rightarrow> bytes) \<Rightarrow> bool \<Rightarrow> 'u Builder \<Rightarrow> string \<Rightarrow> ('w, unit) script_step" where
  "write_header_file T U render overflow_checks self out =
     io_bind (create_file T (path_join out (unwrap_or (bd_header_file_name self) DEFAULT_HEADER_FILE_NAME))) (\<lambda>buffer.
     io_bind (header_codes U render overflow_checks (bd_ta_config self)) (\<lambda>codes.
     io_step (sa_write_all T buffer codes)))"

definition Builder_link :: "'w script_api \<Rightarrow> (string \<rightharpoonup> string) \<Rightarrow> 'u Builder \<Rightarrow> string \<Rightarrow> ('w, unit) script_step" where
  "Builder_link T env self out_dir =
     io_bind (case bd_linker_type self of Some v \<Rightarrow> io_return (Linker_new v) | None \<Rightarrow> Linker_auto env) (\<lambda>linker.
     link_all T env linker out_dir)"

definition Builder_build ::
    "'w script_api \<Rightarrow> 'u uuid_crate \<Rightarrow> (gen_item list \<Rightarrow> bytes) \<Rightarrow> bool \<Rightarrow> (string \<rightharpoonup> string) \<Rightarrow> 'u Builder \<Rightarrow> ('w, unit) script_step" where
  "Builder_build T U render overflow_checks env self =
     io_bind (case bd_out_dir self of Some v \<Rightarrow> io_return v | None \<Rightarrow> script_env env ''OUT_DIR'') (\<lambda>out_dir.
     io_bind (write_header_file T U render overflow_checks self out_dir) (\<lambda>_.
     Builder_link T env self out_dir))"

definition build_script ::
    "'w script_api \<Rightarrow> 'u uuid_crate \<Rightarrow> (gen_item list \<Rightarrow> bytes) \<Rightarrow> bool \<Rightarrow> (string \<rightharpoonup> string) \<Rightarrow> 'u TaConfig \<Rightarrow> ('w, unit) script_step" where
  "build_script T U render overflow_checks env config =
     Builder_build T U render overflow_checks env (Builder_new config)"

subsection \<open>Hypotheses\<close>

text \<open>
  \<open>file\<close> gives the content of a file and \<open>opened\<close> the path of an open file.  Creating a file empties
  it, writing to it appends, and the preprocessor (\<^verbatim>\<open>cc -E\<close>) writes no file.
\<close>

definition script_fs_ok ::
    "'w script_api \<Rightarrow> ('w \<Rightarrow> string \<rightharpoonup> bytes) \<Rightarrow> ('w \<Rightarrow> nat \<rightharpoonup> string) \<Rightarrow> bool" where
  "script_fs_ok T file opened \<longleftrightarrow>
     (\<forall>p w. sa_read T p w = file w p) \<and>
     (\<forall>p d w w'. sa_write T p d w = (True, w') \<longrightarrow> file w' = (file w)(p \<mapsto> d)) \<and>
     (\<forall>p h w w'. sa_create T p w = (Some h, w') \<longrightarrow> file w' = (file w)(p \<mapsto> []) \<and> opened w' h = Some p) \<and>
     (\<forall>h p d c w w'. sa_write_all T h d w = (True, w') \<longrightarrow> opened w h = Some p \<longrightarrow> file w p = Some c \<longrightarrow>
        file w' = (file w)(p \<mapsto> c @ d)) \<and>
     (\<forall>c r w w'. sa_output T c w = (r, w') \<longrightarrow> file w' = file w)"

text \<open>The same programs and files, with another exit status of the preprocessor.\<close>

definition with_status :: "(int option \<Rightarrow> int option) \<Rightarrow> 'w script_api \<Rightarrow> 'w script_api" where
  "with_status change T =
     T\<lparr>sa_output := \<lambda>c w. case sa_output T c w of (r, w') \<Rightarrow> (map_option (\<lambda>(out, st). (out, change st)) r, w')\<rparr>"

text \<open>The lines that linking prints.\<close>

definition page_lines :: "string list" where
  "page_lines =
     [''cargo:rustc-link-arg=-z'', ''cargo:rustc-link-arg=max-page-size=0x1000'', ''cargo:rustc-link-arg=-z'',
      ''cargo:rustc-link-arg=common-page-size=0x1000'']"

definition link_lines :: "(string \<rightharpoonup> string) \<Rightarrow> LinkerType \<Rightarrow> string \<Rightarrow> string \<Rightarrow> string list" where
  "link_lines env t kit out =
     [''cargo:rerun-if-env-changed=TA_DEV_KIT_DIR'', ''cargo:rerun-if-env-changed=TARGET''] @
     (if env_var env ''TARGET'' \<in> {Some ''arm-unknown-linux-gnueabihf'', Some ''arm-unknown-optee''}
      then [link_arg_line t ''--no-warn-mismatch''] else []) @
     [''cargo:rerun-if-changed='' @ to_string_lossy (path_join kit ''src/ta.ld.S''), ''cargo:rerun-if-env-changed=CC'',
      ''cargo:rerun-if-env-changed=CARGO_CFG_TARGET_ARCH''] @
     page_lines @
     [''cargo:rustc-link-search='' @ to_string_lossy out, ''cargo:rerun-if-changed='' @ to_string_lossy (path_join out ''ta.lds''),
      ''cargo:rustc-link-arg=-T'' @ to_string_lossy (path_join out ''ta.lds''),
      ''cargo:rustc-link-search='' @ to_string_lossy (path_join kit ''lib''),
      ''cargo:rustc-link-lib=static=utee'', ''cargo:rustc-link-lib=static=utils''] @
     map (link_arg_line t) [''-lutee'', ''-lutils''] @
     [''cargo:rustc-link-arg=-e__ta_entry'', ''cargo:rustc-link-arg=-pie'', ''cargo:rustc-link-arg=-Os''] @
     map (link_arg_line t) [''--sort-section=alignment'', ''--dynamic-list=dyn_list'']"

section \<open>Lemmas\<close>

lemma println_bind [simp]: "io_bind (println l) f s = f () (s\<lparr>sc_out := sc_out s @ [l]\<rparr>)"
  by (simp add: io_bind_eq println_def)

lemma return_bind [simp]: "io_bind (io_return a) f s = f a s"
  by (simp add: io_bind_eq io_return_def)

lemma link_arg_bind [simp]:
  "io_bind (link_arg self a) f s = f () (s\<lparr>sc_out := sc_out s @ [link_arg_line (lk_linker_type self) a]\<rparr>)"
  by (simp add: link_arg_def)

lemma page_size_bind [simp]:
  "io_bind change_default_page_size f s = f () (s\<lparr>sc_out := sc_out s @
     page_lines\<rparr>)"
  by (simp add: page_lines_def change_default_page_size_def io_bind_eq println_def)

lemma with_status_simps:
  "sa_read (with_status change T) = sa_read T" "sa_write (with_status change T) = sa_write T"
  "sa_create (with_status change T) = sa_create T" "sa_write_all (with_status change T) = sa_write_all T"
  by (simp_all add: with_status_def)

lemma script_env_Inr: "script_env env k s = (Inr v, s') \<longleftrightarrow> env_var env k = Some v \<and> s' = s"
  by (auto simp: script_env_def io_ask_def ok_or_def split: option.splits)

lemma script_env_panic: "script_env env k s \<noteq> (Inl Script_panic, s')"
  by (auto simp: script_env_def io_ask_def ok_or_def split: option.splits)

lemma io_step_Inr: "io_step f s = (Inr (), s') \<longleftrightarrow> (\<exists>w. f (sc_world s) = (True, w) \<and> s' = s\<lparr>sc_world := w\<rparr>)"
  by (auto simp: io_step_def io_call_def in_world_def split: prod.splits)

lemma create_file_Inr: "create_file T p s = (Inr h, s') \<longleftrightarrow> (\<exists>w. sa_create T p (sc_world s) = (Some h, w) \<and> s' = s\<lparr>sc_world := w\<rparr>)"
  by (auto simp: create_file_def io_alloc_def in_world_def ok_or_def split: prod.splits option.splits)

lemma io_step_panic: "io_step f s \<noteq> (Inl Script_panic, s')" and create_file_panic: "create_file T p s \<noteq> (Inl Script_panic, s')"
  by (auto simp: io_step_def io_call_def create_file_def io_alloc_def in_world_def ok_or_def split: prod.splits option.splits)

lemma generate_script_Inr:
  assumes "generate_new_link_script T env self kit s = (Inr text, s')"
  shows "\<exists>arch status w. env_var env ''CARGO_CFG_TARGET_ARCH'' = Some arch \<and> valid_utf8 text \<and>
    sa_output T (preprocess_command env self (path_join kit ''src/ta.ld.S'') arch) (sc_world s) = (Some (text, status), w) \<and>
    s' = s\<lparr>sc_world := w, sc_out := sc_out s @ [''cargo:rerun-if-changed='' @ to_string_lossy (path_join kit ''src/ta.ld.S''),
      ''cargo:rerun-if-env-changed=CC'', ''cargo:rerun-if-env-changed=CARGO_CFG_TARGET_ARCH'']\<rparr>"
  using assms
  by (auto simp: generate_new_link_script_def Let_def script_env_Inr io_alloc_def in_world_def ok_or_def io_check_def io_return_def println_def
      dest!: io_bind_InrD split: prod.splits option.splits if_splits)

lemma generate_script_panic:
  assumes "env_var env k = Some kit"
  shows "generate_new_link_script T env self kit s \<noteq> (Inl Script_panic, s')"
proof -
  have "valid_utf8 (as_bytes kit)" using assms by (auto simp: env_var_def split: option.splits if_splits)
  moreover have "valid_utf8 (as_bytes ''src/ta.ld.S'')" by (rule valid_utf8_ascii) (simp add: as_bytes_def)
  ultimately have "valid_utf8 (as_bytes (path_join kit ''src/ta.ld.S''))" by (rule valid_utf8_join)
  then show ?thesis
    by (auto simp: generate_new_link_script_def Let_def script_env_panic io_alloc_def in_world_def ok_or_def io_check_def io_return_def println_def
      dest!: io_bind_InlD split: prod.splits option.splits if_splits)
qed

lemma script_fs_okD:
  assumes "script_fs_ok T file opened"
  shows "sa_read T p w = file w p"
    "sa_write T p d w = (True, w') \<Longrightarrow> file w' = (file w)(p \<mapsto> d)"
    "sa_create T p w = (Some h, w') \<Longrightarrow> file w' = (file w)(p \<mapsto> []) \<and> opened w' h = Some p"
    "sa_write_all T h d w = (True, w') \<Longrightarrow> opened w h = Some p \<Longrightarrow> file w p = Some c \<Longrightarrow> file w' = (file w)(p \<mapsto> c @ d)"
    "sa_output T c' w = (r, w') \<Longrightarrow> file w' = file w"
  using assms unfolding script_fs_ok_def by blast+

lemma page_size_tail:
  "io_bind change_default_page_size (\<lambda>_. io_bind (println a) (\<lambda>_. io_bind (println b) (\<lambda>_. println c))) =
     (\<lambda>s. (Inr (), s\<lparr>sc_out := sc_out s @ page_lines @ [a, b, c]\<rparr>))"
  by (rule ext) (simp, simp add: println_def)

lemma target_line:
  "io_bind (case env_var env ''TARGET'' of
         Some v \<Rightarrow> if v = a \<or> v = b then link_arg self l else io_return ()
       | None \<Rightarrow> io_return ()) f s =
     f () (s\<lparr>sc_out := sc_out s @ (if env_var env ''TARGET'' \<in> {Some a, Some b} then [link_arg_line (lk_linker_type self) l] else [])\<rparr>)"
  by (cases "env_var env ''TARGET''") auto

lemma write_script_Inr:
  assumes F: "script_fs_ok T file opened" and run: "write_and_set_linker_script T env self out kit s = (Inr (), s')"
  shows "\<exists>arch scr status w w'. env_var env ''CARGO_CFG_TARGET_ARCH'' = Some arch \<and>
    sa_output T (preprocess_command env self (path_join kit ''src/ta.ld.S'') arch) w = (Some (scr, status), w') \<and> w = sc_world s \<and>
    file (sc_world s') = (file (sc_world s))(path_join out ''ta.lds'' \<mapsto> scr) \<and>
    ''cargo:rerun-if-env-changed=TA_DEV_KIT_DIR'' # sc_out s' @
      [''cargo:rustc-link-search='' @ to_string_lossy (path_join kit ''lib''),
       ''cargo:rustc-link-lib=static=utee'', ''cargo:rustc-link-lib=static=utils''] @
      map (link_arg_line (lk_linker_type self)) [''-lutee'', ''-lutils''] @
      [''cargo:rustc-link-arg=-e__ta_entry'', ''cargo:rustc-link-arg=-pie'', ''cargo:rustc-link-arg=-Os''] @
      map (link_arg_line (lk_linker_type self)) [''--sort-section=alignment'', ''--dynamic-list=dyn_list''] =
    ''cargo:rerun-if-env-changed=TA_DEV_KIT_DIR'' # sc_out s @ tl (link_lines env (lk_linker_type self) kit out)"
proof -
  let ?s = "s\<lparr>sc_out := sc_out s @ [''cargo:rerun-if-env-changed=TARGET''] @
     (if env_var env ''TARGET'' \<in> {Some ''arm-unknown-linux-gnueabihf'', Some ''arm-unknown-optee''}
      then [link_arg_line (lk_linker_type self) ''--no-warn-mismatch''] else [])\<rparr>"
  let ?dest = "path_join out ''ta.lds''"
  have u: "write_and_set_linker_script T env self out kit s =
      io_bind (generate_new_link_script T env self kit) (\<lambda>link_script.
      io_bind (\<lambda>s. if sa_read T ?dest (sc_world s) = Some link_script then (Inr (), s) else io_step (sa_write T ?dest link_script) s) (\<lambda>_ s2.
        (Inr (), s2\<lparr>sc_out := sc_out s2 @ page_lines @
         [''cargo:rustc-link-search='' @ to_string_lossy out, ''cargo:rerun-if-changed='' @ to_string_lossy ?dest,
          ''cargo:rustc-link-arg=-T'' @ to_string_lossy ?dest]\<rparr>))) ?s"
    unfolding write_and_set_linker_script_def Let_def page_size_tail
    by (simp add: target_line del: append_Cons append_Nil)
  from io_bind_InrD[OF run[unfolded u]] obtain scr s1 where g: "generate_new_link_script T env self kit ?s = (Inr scr, s1)"
    and r: "io_bind (\<lambda>s. if sa_read T ?dest (sc_world s) = Some scr then (Inr (), s) else io_step (sa_write T ?dest scr) s) (\<lambda>_ s2.
        (Inr (), s2\<lparr>sc_out := sc_out s2 @ page_lines @
         [''cargo:rustc-link-search='' @ to_string_lossy out, ''cargo:rerun-if-changed='' @ to_string_lossy ?dest,
          ''cargo:rustc-link-arg=-T'' @ to_string_lossy ?dest]\<rparr>)) s1 = (Inr (), s')" by blast
  from io_bind_InrD[OF r] obtain s2 where
      wr: "(if sa_read T ?dest (sc_world s1) = Some scr then (Inr (), s1) else io_step (sa_write T ?dest scr) s1) = (Inr (), s2)"
    and o: "sc_world s' = sc_world s2" "sc_out s' = sc_out s2 @ page_lines @
     [''cargo:rustc-link-search='' @ to_string_lossy out, ''cargo:rerun-if-changed='' @ to_string_lossy ?dest,
      ''cargo:rustc-link-arg=-T'' @ to_string_lossy ?dest]" by auto
  from generate_script_Inr[OF g] obtain arch status w where a: "env_var env ''CARGO_CFG_TARGET_ARCH'' = Some arch"
      "sa_output T (preprocess_command env self (path_join kit ''src/ta.ld.S'') arch) (sc_world s) = (Some (scr, status), w)"
      "sc_world s1 = w" "sc_out s1 = sc_out ?s @ [''cargo:rerun-if-changed='' @ to_string_lossy (path_join kit ''src/ta.ld.S''),
      ''cargo:rerun-if-env-changed=CC'', ''cargo:rerun-if-env-changed=CARGO_CFG_TARGET_ARCH'']" by auto
  have f1: "file w = file (sc_world s)" using script_fs_okD(5)[OF F a(2)] .
  have "file (sc_world s2) = (file w)(?dest \<mapsto> scr) \<and> sc_out s2 = sc_out s1"
    using wr a(3) script_fs_okD(1,2)[OF F] by (auto simp: io_step_Inr fun_upd_idem split: if_splits)
  then have "file (sc_world s') = (file (sc_world s))(?dest \<mapsto> scr)" and "sc_out s2 = sc_out s1" using f1 o(1) by simp_all
  then show ?thesis using a(1,2) by (intro exI[of _ arch] exI[of _ scr] exI[of _ status] exI[of _ "sc_world s"] exI[of _ w])
      (simp add: link_lines_def o(2) a(4))
qed

lemma write_file:
  assumes F: "script_fs_ok T file opened" and c: "sa_create T p w = (Some h, w1)" and wr: "sa_write_all T h d w1 = (True, w2)"
  shows "file w2 = (file w)(p \<mapsto> d)"
  using script_fs_okD(3)[OF F c] script_fs_okD(4)[OF F wr, of p "[]"] by simp

lemma link_all_Inr:
  assumes F: "script_fs_ok T file opened" and run: "link_all T env self out s = (Inr (), s')"
  shows "\<exists>kit arch scr status w'. env_var env ''TA_DEV_KIT_DIR'' = Some kit \<and> env_var env ''CARGO_CFG_TARGET_ARCH'' = Some arch \<and>
    sa_output T (preprocess_command env self (path_join kit ''src/ta.ld.S'') arch) (sc_world s) = (Some (scr, status), w') \<and>
    file (sc_world s') = (file (sc_world s))(path_join out ''ta.lds'' \<mapsto> scr, path_join out ''dyn_list'' \<mapsto> as_bytes DYN_LIST) \<and>
    sc_out s' = sc_out s @ link_lines env (lk_linker_type self) kit out"
proof -
  from run obtain kit s1 h w1 w2 where kit: "env_var env ''TA_DEV_KIT_DIR'' = Some kit"
    and ws: "write_and_set_linker_script T env self out kit (s\<lparr>sc_out := sc_out s @ [''cargo:rerun-if-env-changed=TA_DEV_KIT_DIR'']\<rparr>) = (Inr (), s1)"
    and f: "sa_create T (path_join out ''dyn_list'') (sc_world s1) = (Some h, w1)" "sa_write_all T h (as_bytes DYN_LIST) w1 = (True, w2)"
    and s': "sc_world s' = w2" "sc_out s' = sc_out s1 @
      [''cargo:rustc-link-search='' @ to_string_lossy (path_join kit ''lib''),
       ''cargo:rustc-link-lib=static=utee'', ''cargo:rustc-link-lib=static=utils''] @
      map (link_arg_line (lk_linker_type self)) [''-lutee'', ''-lutils''] @
      [''cargo:rustc-link-arg=-e__ta_entry'', ''cargo:rustc-link-arg=-pie'', ''cargo:rustc-link-arg=-Os''] @
      map (link_arg_line (lk_linker_type self)) [''--sort-section=alignment'', ''--dynamic-list=dyn_list'']"
    by (auto simp: link_all_def script_env_Inr create_file_Inr io_step_Inr link_arg_def println_def dest!: io_bind_InrD)
  from write_script_Inr[OF F ws] obtain arch scr status w' where "env_var env ''CARGO_CFG_TARGET_ARCH'' = Some arch"
      "sa_output T (preprocess_command env self (path_join kit ''src/ta.ld.S'') arch) (sc_world s) = (Some (scr, status), w')"
      "file (sc_world s1) = (file (sc_world s))(path_join out ''ta.lds'' \<mapsto> scr)"
      and o: "sc_out s' = (sc_out s @ [''cargo:rerun-if-env-changed=TA_DEV_KIT_DIR'']) @ tl (link_lines env (lk_linker_type self) kit out)"
    using s'(2) by auto
  moreover have "sc_out s' = sc_out s @ link_lines env (lk_linker_type self) kit out" using o by (simp add: link_lines_def)
  ultimately show ?thesis using kit write_file[OF F f] s'(1) by metis
qed

lemma write_script_panic:
  assumes "env_var env k = Some kit"
  shows "write_and_set_linker_script T env self out kit s \<noteq> (Inl Script_panic, s')"
  unfolding write_and_set_linker_script_def Let_def page_size_tail
  by (auto simp: target_line io_step_panic generate_script_panic[OF assms] dest!: io_bind_InlD split: if_splits)

lemma link_all_panic: "link_all T env self out s \<noteq> (Inl Script_panic, s')"
  by (auto simp: link_all_def script_env_panic script_env_Inr write_script_panic create_file_panic io_step_panic link_arg_def println_def
      dest!: io_bind_InlD)

lemma header_codes_Inr:
  "header_codes U render checks conf s = (Inr d, s') \<longleftrightarrow>
     s' = s \<and> (\<exists>items. HeaderFileGenerator_generate U checks conf = Returns (Inr items) \<and> d = render items)"
  by (auto simp: header_codes_def io_ask_def split: outcome.splits sum.splits)

lemma header_codes_panic:
  "header_codes U render checks conf s = (Inl Script_panic, s') \<Longrightarrow> HeaderFileGenerator_generate U checks conf = Panics"
  by (auto simp: header_codes_def io_ask_def split: outcome.splits sum.splits)

lemma auto_Inr:
  "Linker_auto env s = (r, s') \<Longrightarrow> \<exists>t. r = Inr (Linker_new t) \<and> s' = s\<lparr>sc_out := sc_out s @ [''cargo:rerun-if-env-changed=RUSTC_LINKER'']\<rparr>"
  by (auto simp: Linker_auto_def auto_detect_linker_type_def io_bind_eq println_def io_return_def)

section \<open>Properties\<close>


text \<open>
  A build script panics only if it is compiled with overflow checks and the sum of the two
  stack sizes of the configuration overflows.  In particular the path of the template is always
  text, as the source claims.
\<close>

lemma build_script_panics:
  assumes "Builder_build T U render checks env self s = (Inl Script_panic, s')"
  shows "checks \<and> 2 ^ 32 \<le> unat (tc_ta_stack_size (bd_ta_config self)) + unat (tc_ta_framework_stack_size (bd_ta_config self))"
proof -
  from assms have "HeaderFileGenerator_generate U checks (bd_ta_config self) = Panics"
    by (auto simp: Builder_build_def Builder_link_def write_header_file_def script_env_panic create_file_panic io_step_panic link_all_panic
        io_return_def dest!: io_bind_InlD auto_Inr header_codes_panic split: option.splits)
  then show ?thesis by (auto simp: generate_eq add_u32_def split: outcome.splits if_splits)
qed


section \<open>A reference instance\<close>

text \<open>A list of files, latest first, and the paths of the open files.\<close>

type_synonym script_disk = "(string \<times> bytes) list \<times> string list"

definition ref_opened :: "script_disk \<Rightarrow> nat \<rightharpoonup> string" where
  "ref_opened w h = (if h < length (snd w) then Some (snd w ! h) else None)"

definition ref_script :: "script_disk script_api" where
  "ref_script =
     \<lparr>sa_read = \<lambda>p w. map_of (fst w) p,
      sa_write = \<lambda>p d w. (True, ((p, d) # fst w, snd w)),
      sa_create = \<lambda>p w. (Some (length (snd w)), ((p, []) # fst w, snd w @ [p])),
      sa_write_all = \<lambda>h d w.
        (case ref_opened w h of
           Some p \<Rightarrow> (True, ((p, (case map_of (fst w) p of Some c \<Rightarrow> c | None \<Rightarrow> []) @ d) # fst w, snd w))
         | None \<Rightarrow> (False, w)),
      sa_output = \<lambda>c w. (Some (as_bytes ''SECTIONS'', Some 0), w)\<rparr>"

lemma ref_script_ok: "script_fs_ok ref_script (\<lambda>w. map_of (fst w)) ref_opened"
  by (auto simp: script_fs_ok_def ref_script_def ref_opened_def fun_eq_iff nth_append split: option.splits if_splits)

definition ref_env :: "string \<rightharpoonup> string" where
  "ref_env = [''OUT_DIR'' \<mapsto> ''/o'', ''TA_DEV_KIT_DIR'' \<mapsto> ''/k'', ''CARGO_CFG_TARGET_ARCH'' \<mapsto> ''aarch64'', ''TARGET'' \<mapsto> ''arm-unknown-optee'']"

lemma ref_env_vars:
  "env_var ref_env ''OUT_DIR'' = Some ''/o''" "env_var ref_env ''TA_DEV_KIT_DIR'' = Some ''/k''"
  "env_var ref_env ''CARGO_CFG_TARGET_ARCH'' = Some ''aarch64''" "env_var ref_env ''TARGET'' = Some ''arm-unknown-optee''"
  by (rule env_var_ascii; simp add: ref_env_def)+

lemma ref_write_all:
  "sa_write ref_script p d w = (True, ((p, d) # fst w, snd w))"
  "sa_create ref_script p w = (Some (length (snd w)), ((p, []) # fst w, snd w @ [p]))"
  "sa_write_all ref_script (length hs) d ((p, []) # fs, hs @ [p]) = (True, ((p, d) # (p, []) # fs, hs @ [p]))"
  by (simp_all add: ref_script_def ref_opened_def)

lemma ref_generates:
  "\<exists>s'. generate_new_link_script ref_script ref_env l ''/k'' s = (Inr (as_bytes ''SECTIONS''), s')"
proof -
  have v: "valid_utf8 (as_bytes ''/k/src/ta.ld.S'')" "valid_utf8 (as_bytes ''SECTIONS'')"
    by (rule valid_utf8_ascii; simp add: as_bytes_def)+
  have j: "path_join ''/k'' ''src/ta.ld.S'' = ''/k/src/ta.ld.S''" by (simp add: path_join_def path_is_absolute_def)
  show ?thesis
    unfolding generate_new_link_script_def Let_def j
    by (simp add: v io_check_def io_bind_eq script_env_def io_ask_def ref_env_vars io_alloc_def in_world_def ref_script_def
        io_return_def println_def del: append_Cons append_Nil)
qed

lemma ref_links: "\<exists>s'. link_all ref_script ref_env l ''/o'' s = (Inr (), s')"
proof -
  have "\<exists>s'. write_and_set_linker_script ref_script ref_env l ''/o'' ''/k'' s = (Inr (), s')" for s
  proof -
    obtain s1 where g: "generate_new_link_script ref_script ref_env l ''/k'' (s\<lparr>sc_out := sc_out s @ [''cargo:rerun-if-env-changed=TARGET''] @
        [link_arg_line (lk_linker_type l) ''--no-warn-mismatch'']\<rparr>) = (Inr (as_bytes ''SECTIONS''), s1)"
      using ref_generates by blast
    show ?thesis
      unfolding write_and_set_linker_script_def Let_def page_size_tail
      by (simp add: target_line ref_env_vars g del: append_Cons append_Nil)
        (simp add: io_bind_eq g io_step_def io_call_def in_world_def ref_write_all del: append_Cons append_Nil)
  qed
  then obtain s1 where w: "write_and_set_linker_script ref_script ref_env l ''/o'' ''/k'' (s\<lparr>sc_out := sc_out s @
      [''cargo:rerun-if-env-changed=TA_DEV_KIT_DIR'']\<rparr>) = (Inr (), s1)" by blast
  show ?thesis
    unfolding link_all_def
    by (simp add: script_env_def io_ask_def ref_env_vars io_bind_eq w
        create_file_def io_alloc_def io_step_def io_call_def in_world_def ref_write_all link_arg_def println_def del: append_Cons append_Nil)
qed

definition ref_state :: "script_disk script" where
  "ref_state = \<lparr>sc_world = ([], []), sc_out = []\<rparr>"


lemma build_script_panics_witness:
  "\<exists>s'. Builder_build ref_script uuid_ref (\<lambda>_. []) True ref_env (Builder_new (TaConfig_ta_stack_size (0xFFFFFFFF) sample_config)) ref_state =
     (Inl Script_panic, s') \<and> 2 ^ 32 \<le> unat (0xFFFFFFFF :: u32) + unat (2048 :: u32)"
proof -
  let ?b = "Builder_new (TaConfig_ta_stack_size (0xFFFFFFFF) sample_config)"
  have f: "tc_ta_stack_size (bd_ta_config ?b) = 0xFFFFFFFF" "tc_ta_framework_stack_size (bd_ta_config ?b) = 2048"
    by (simp_all add: sample_config_def TaConfig_add_ext_property_def TaConfig_ta_flags_def TaConfig_ta_stack_size_def Builder_new_def)
  have c: "add_u32 True (0xFFFFFFFF) 2048 = Panics" by (simp add: add_u32_def)
  have b: "bd_out_dir ?b = None" by (simp add: Builder_new_def)
  have "\<exists>s'. Builder_build ref_script uuid_ref (\<lambda>_. []) True ref_env ?b ref_state = (Inl Script_panic, s')"
    by (simp add: Builder_build_def b script_env_def io_ask_def ref_env_vars write_header_file_def create_file_def io_alloc_def in_world_def
        header_codes_def generate_eq c f io_bind_eq ref_write_all ref_state_def)
  then obtain s' where "Builder_build ref_script uuid_ref (\<lambda>_. []) True ref_env ?b ref_state = (Inl Script_panic, s')" by blast
  with build_script_panics[OF this] show ?thesis by (simp only: f) blast
qed

end
