(* ===== verification/ParamBytes.thy ===== *)
theory ParamBytes
  imports Parameters
begin

text \<open>
  The memref parameters as an application sees them: the bytes that \<^verbatim>\<open>read_to_vec\<close> returns, and the
  bytes that \<^verbatim>\<open>set_output\<close> stores.  Private vectors of the application do not appear; the lemmas
  relate this view to the byte memory of the theory \<open>Parameters\<close>.
\<close>

section \<open>Definitions\<close>

type_synonym ParametersAny = "ParameterAny \<times> ParameterAny \<times> ParameterAny \<times> ParameterAny"

definition input_bytes :: "mem \<Rightarrow> ParameterMemrefInput \<Rightarrow> bytes" where
  "input_bytes m p = mem_read m (MemrefInput_buffer_ptr p) (MemrefInput_buffer_len p)"

definition put_output :: "mem \<Rightarrow> ParameterMemrefOutput \<Rightarrow> bytes \<Rightarrow> (Error + unit) \<times> mem \<times> ParameterMemrefOutput" where
  "put_output m self data =
     (if length data > MemrefOutput_buffer_len self then (Inl (Error_from ShortBuffer), m, self)
      else (Inr (), mem_write m (MemrefOutput_buffer_ptr self) data, MemrefOutput_set_size (length data) self))"

section \<open>Lemmas\<close>

lemma mem_move_write: "mem_move m d s n = mem_write m d (mem_read m s n)"
  by (rule ext) (simp add: mem_move_def mem_write_def)

text \<open>The vector that \<^verbatim>\<open>read_to_vec\<close> returns, wherever it is allocated.\<close>

lemma input_bytes_vec:
  assumes "TEE_MemMove_ok M"
    and "region v (MemrefInput_buffer_len p) \<inter> region (MemrefInput_buffer_ptr p) (MemrefInput_buffer_len p) = {}"
    and "read_to_vec M MemrefInput_buffer_len MemrefInput_buffer_ptr m p v = (s, m')"
  shows "slice_bytes m' s = input_bytes m p"
  unfolding input_bytes_def by (rule memref_in.read_to_vec_contents(1)[OF assms(1) _ assms(2,3)]) simp

text \<open>What \<^verbatim>\<open>set_output\<close> does with a slice, whatever overlaps.\<close>

lemma put_output_slice:
  assumes "TEE_MemMove_ok M" and "MemrefOutput_inv self"
  shows "set_output M MemrefOutput_buffer_len MemrefOutput_buffer_ptr MemrefOutput_set_size m self s =
    put_output m self (slice_bytes m s)"
  unfolding set_output_def memref_out.write_at_eq[OF assms]
  by (auto simp: put_output_def slice_bytes_def mem_move_write)

lemma put_output_effect:
  assumes "MemrefOutput_inv q" and "put_output m q d = (r, m', q')"
  shows "r = Inr () \<longleftrightarrow> length d \<le> MemrefOutput_buffer_len q"
    "r = Inr () \<Longrightarrow> mem_read m' (MemrefOutput_buffer_ptr q) (length d) = d \<and> q' = MemrefOutput_set_size (length d) q"
    "a \<notin> region (MemrefOutput_buffer_ptr q) (MemrefOutput_buffer_len q) \<Longrightarrow> m' a = m a"
proof -
  have c: "MemrefOutput_buffer_len q \<le> usize_modulus" using assms(1) by (simp add: MemrefOutput_inv_def MemrefOutput_buffer_len_def)
  have r: "region p k \<subseteq> region p n" if "k \<le> n" for p k n using that by (auto simp: region_def)
  show "r = Inr () \<longleftrightarrow> length d \<le> MemrefOutput_buffer_len q" using assms(2) by (auto simp: put_output_def split: if_splits)
  show "mem_read m' (MemrefOutput_buffer_ptr q) (length d) = d \<and> q' = MemrefOutput_set_size (length d) q" if "r = Inr ()"
    using assms(2) that c by (auto simp: put_output_def mem_read_write split: if_splits)
  show "m' a = m a" if "a \<notin> region (MemrefOutput_buffer_ptr q) (MemrefOutput_buffer_len q)"
    using assms(2) that r[of "length d" "MemrefOutput_buffer_len q"] by (auto simp: put_output_def intro!: mem_write_outside split: if_splits)
qed

end
