(* ===== verification/SecureStorageTa.thy ===== *)
theory SecureStorageTa
  imports ParamBytes SecureDb
begin

text \<open>
  The secure-storage example: \<^verbatim>\<open>examples/ta/secure_storage-rs/src/main.rs\<close> and the commands of
  \<^verbatim>\<open>examples/ta/proto/src/secure_storage.rs\<close>.  A command takes its parameters, the memory it shares
  with its caller and the world of the TEE, and returns all three with its result.
\<close>

section \<open>Definitions\<close>

datatype SsCommand = Ss_Read | Ss_Write | Ss_Delete | Ss_Unknown

definition SsCommand_from :: "u32 \<Rightarrow> SsCommand" where
  "SsCommand_from n = (if n = 0 then Ss_Read else if n = 1 then Ss_Write else if n = 2 then Ss_Delete else Ss_Unknown)"

definition delete_object :: "'w obj_api \<Rightarrow> ParametersAny \<Rightarrow> mem \<Rightarrow> 'w \<Rightarrow> (Error + unit) \<times> 'w" where
  "delete_object T params m w =
     (case params of (p0, _, _, _) \<Rightarrow>
        (case as_memref_input p0 of
           Inl e \<Rightarrow> (Inl e, w)
         | Inr p0 \<Rightarrow>
             (case PersistentObject_open T Private (input_bytes m p0) (or DataFlag_ACCESS_READ DataFlag_ACCESS_WRITE_META) w of
                (Inl e, w1) \<Rightarrow> (Inl e, w1)
              | (Inr object, w1) \<Rightarrow> close_and_delete T object w1)))"

definition create_raw_object :: "'w obj_api \<Rightarrow> ParametersAny \<Rightarrow> mem \<Rightarrow> 'w \<Rightarrow> (Error + unit) \<times> 'w" where
  "create_raw_object T params m w =
     (case params of (p0, p1, _, _) \<Rightarrow>
        (case as_memref_input p0 of
           Inl e \<Rightarrow> (Inl e, w)
         | Inr p0 \<Rightarrow>
        (case as_memref_input p1 of
           Inl e \<Rightarrow> (Inl e, w)
         | Inr p1 \<Rightarrow>
        let obj_id = input_bytes m p0;
            data_buffer = input_bytes m p1;
            obj_data_flag =
              or (or (or DataFlag_ACCESS_READ DataFlag_ACCESS_WRITE) DataFlag_ACCESS_WRITE_META) DataFlag_OVERWRITE in
        (case PersistentObject_create T Private obj_id obj_data_flag None [] w of
           (Inl e, w1) \<Rightarrow> (Inl e, w1)
         | (Inr object, w1) \<Rightarrow>
             (case po_write T object data_buffer w1 of
                (Inr _, w2) \<Rightarrow> (Inr (), PersistentObject_drop T object w2)
              | (Inl e_write, w2) \<Rightarrow>
                  (case close_and_delete T object w2 of
                     (Inl e, w3) \<Rightarrow> (Inl e, w3)
                   | (Inr _, w3) \<Rightarrow> (Inl e_write, w3)))))))"

text \<open>The object is dropped on every path that leaves the function after it was opened.\<close>

definition read_raw_object ::
    "'w obj_api \<Rightarrow> (usize \<Rightarrow> bool) \<Rightarrow> ParametersAny \<Rightarrow> mem \<Rightarrow> 'w \<Rightarrow> (Error + unit) \<times> ParametersAny \<times> mem \<times> 'w" where
  "read_raw_object T can_reserve params m w =
     (case params of (p0, p1, p2, p3) \<Rightarrow>
        (case as_memref_input p0 of
           Inl e \<Rightarrow> (Inl e, params, m, w)
         | Inr q0 \<Rightarrow>
        (case as_memref_output p1 of
           Inl e \<Rightarrow> (Inl e, params, m, w)
         | Inr q1 \<Rightarrow>
        (case PersistentObject_open T Private (input_bytes m q0) (or DataFlag_ACCESS_READ DataFlag_SHARE_READ) w of
           (Inl e, w1) \<Rightarrow> (Inl e, params, m, w1)
         | (Inr object, w1) \<Rightarrow>
        (case obj_info T (po_raw object) w1 of
           (Inl e, w2) \<Rightarrow> (Inl e, params, m, PersistentObject_drop T object w2)
         | (Inr info, w2) \<Rightarrow>
             if MemrefOutput_buffer_len q1 < data_size info
             then (Inl (Error_from ShortBuffer), params, m, PersistentObject_drop T object w2)
             else
        (case read_remaining_to_vec T can_reserve object w2 of
           (Inl e, w3) \<Rightarrow> (Inl e, params, m, PersistentObject_drop T object w3)
         | (Inr data, w3) \<Rightarrow>
             if length data \<noteq> data_size info
             then (Inl (Error_from ExcessData), params, m, PersistentObject_drop T object w3)
             else
        (case put_output m q1 data of
           (r, m', q1') \<Rightarrow> (r, (p0, ParameterAny_MemrefOutput q1', p2, p3), m', PersistentObject_drop T object w3))))))))"

definition ss_invoke_command ::
    "'w obj_api \<Rightarrow> (usize \<Rightarrow> bool) \<Rightarrow> u32 \<Rightarrow> ParametersAny \<Rightarrow> mem \<Rightarrow> 'w \<Rightarrow> (Error + unit) \<times> ParametersAny \<times> mem \<times> 'w" where
  "ss_invoke_command T can_reserve cmd_id params m w =
     (case SsCommand_from cmd_id of
        Ss_Write \<Rightarrow> (case create_raw_object T params m w of (r, w') \<Rightarrow> (r, params, m, w'))
      | Ss_Read \<Rightarrow> read_raw_object T can_reserve params m w
      | Ss_Delete \<Rightarrow> (case delete_object T params m w of (r, w') \<Rightarrow> (r, params, m, w'))
      | Ss_Unknown \<Rightarrow> (Inl (Error_from NotSupported), params, m, w))"

subsection \<open>Hypotheses\<close>

text \<open>
  Writing replaces the data from the position on and moves the position; a failing write may
  damage the data of its own object only.
\<close>

definition obj_write_ok ::
    "'w obj_api \<Rightarrow> ('w \<Rightarrow> bytes \<Rightarrow> bytes option) \<Rightarrow> ('w \<Rightarrow> raw_handle \<Rightarrow> (bytes \<times> nat) option) \<Rightarrow> bool" where
  "obj_write_ok T objs hnd \<longleftrightarrow>
     (\<forall>h d w code w' i p c. TEE_WriteObjectData T h d w = (code, w') \<longrightarrow> hnd w h = Some (i, p) \<longrightarrow> objs w i = Some c \<longrightarrow>
        p \<le> length c \<longrightarrow>
        (\<forall>j. j \<noteq> i \<longrightarrow> objs w' j = objs w j) \<and> (\<exists>p'. hnd w' = (hnd w)(h \<mapsto> (i, p'))) \<and>
        (code = TEE_SUCCESS \<longrightarrow> objs w' i = Some (take p c @ d @ drop (p + length d) c)))"

section \<open>Lemmas\<close>

lemma obj_write_okD:
  assumes "obj_write_ok T objs hnd" "TEE_WriteObjectData T h d w = (code, w')" "hnd w h = Some (i, p)" "objs w i = Some c" "p \<le> length c"
  shows "j \<noteq> i \<Longrightarrow> objs w' j = objs w j" "\<exists>p'. hnd w' = (hnd w)(h \<mapsto> (i, p'))"
    "code = TEE_SUCCESS \<Longrightarrow> objs w' i = Some (take p c @ d @ drop (p + length d) c)"
  using assms unfolding obj_write_ok_def by blast+

lemma create_effect:
  assumes S: "obj_store_ok T objs hnd" and f: "f AND TEE_DATA_FLAG_OVERWRITE \<noteq> 0"
    and "PersistentObject_create T Private i f None d w = (r, w1)"
  shows "case r of Inl e \<Rightarrow> objs w1 = objs w \<and> hnd w1 = hnd w
     | Inr p \<Rightarrow> po_raw p \<noteq> 0 \<and> hnd w (po_raw p) = None \<and> objs w1 = (objs w)(i \<mapsto> d) \<and> hnd w1 = (hnd w)(po_raw p \<mapsto> (i, 0))"
proof -
  obtain code h w2 where c: "TEE_CreatePersistentObject T TEE_STORAGE_PRIVATE i f 0 d w = ((code, h), w2)" by (metis surj_pair)
  from obj_store_createD[OF S c f] assms(3) c[unfolded TEE_STORAGE_PRIVATE_def] show ?thesis
    by (auto simp: PersistentObject_create_def drop_attributes_def tee_check_def ObjectHandle_from_raw_def po_raw_def raw_consts
        split: if_splits)
qed

lemma close_and_delete_effect:
  assumes S: "obj_store_ok T objs hnd" and h: "hnd w (po_raw p) = Some (i, q)" and "close_and_delete T p w = (r, w')"
  shows "hnd w' = (hnd w)(po_raw p := None)" "j \<noteq> i \<Longrightarrow> objs w' j = objs w j" "r = Inr () \<Longrightarrow> objs w' = (objs w)(i := None)"
proof -
  obtain code w2 where c: "TEE_CloseAndDeletePersistentObject1 T (po_raw p) w = (code, w2)" by fastforce
  then have "w' = w2" "r = tee_check code" using assms(3) by (auto simp: close_and_delete_def ObjectHandle_forget_id)
  with obj_store_deleteD[OF S c h] show "hnd w' = (hnd w)(po_raw p := None)" "j \<noteq> i \<Longrightarrow> objs w' j = objs w j"
      "r = Inr () \<Longrightarrow> objs w' = (objs w)(i := None)"
    by (auto simp: tee_check_def split: if_splits)
qed

text \<open>Closing a handle that was not open before.\<close>

lemma closes: "f' = g(h := None) \<Longrightarrow> g = f(h \<mapsto> x) \<Longrightarrow> f h = None \<Longrightarrow> f' = f"
  by (simp add: fun_upd_idem)

lemma delete_object_effect:
  assumes S: "obj_store_ok T objs hnd" and q: "as_memref_input p0 = Inr q0"
    and run: "delete_object T (p0, p1, p2, p3) m w = (r, w')"
  shows "hnd w' = hnd w \<and> (\<forall>j. j \<noteq> input_bytes m q0 \<longrightarrow> objs w' j = objs w j) \<and>
    (r = Inr () \<longrightarrow> objs w (input_bytes m q0) \<noteq> None \<and> objs w' = (objs w)(input_bytes m q0 := None))"
proof -
  let ?id = "input_bytes m q0"
  obtain ro w1 where o: "PersistentObject_open T Private ?id (or DataFlag_ACCESS_READ DataFlag_ACCESS_WRITE_META) w = (ro, w1)"
    by (metis surj_pair)
  note O = open_effect[OF S o]
  show ?thesis
  proof (cases ro)
    case (Inl e)
    then show ?thesis using run q o O by (auto simp: delete_object_def)
  next
    case (Inr p)
    with O have h: "hnd w (po_raw p) = None" "hnd w1 = (hnd w)(po_raw p \<mapsto> (?id, 0))" "objs w1 = objs w" "objs w ?id \<noteq> None" by auto
    have c: "close_and_delete T p w1 = (r, w')" using run q o Inr by (simp add: delete_object_def)
    have h1: "hnd w1 (po_raw p) = Some (?id, 0)" using h(2) by simp
    note D = close_and_delete_effect[OF S h1 c]
    have "hnd w' = hnd w" by (rule closes[OF D(1) h(2,1)])
    then show ?thesis using D(2,3) h(3,4) by auto
  qed
qed

lemma create_raw_object_effect:
  assumes S: "obj_store_ok T objs hnd" and W: "obj_write_ok T objs hnd"
    and q: "as_memref_input p0 = Inr q0" "as_memref_input p1 = Inr q1"
    and run: "create_raw_object T (p0, p1, p2, p3) m w = (r, w')"
  shows "hnd w' = hnd w \<and> (\<forall>j. j \<noteq> input_bytes m q0 \<longrightarrow> objs w' j = objs w j) \<and>
    (r = Inr () \<longrightarrow> objs w' = (objs w)(input_bytes m q0 \<mapsto> input_bytes m q1))"
proof -
  let ?id = "input_bytes m q0" and ?d = "input_bytes m q1"
  let ?f = "or (or (or DataFlag_ACCESS_READ DataFlag_ACCESS_WRITE) DataFlag_ACCESS_WRITE_META) DataFlag_OVERWRITE"
  obtain rc w1 where c: "PersistentObject_create T Private ?id ?f None [] w = (rc, w1)" by (metis surj_pair)
  note C = create_effect[OF S overwrite_flag c]
  show ?thesis
  proof (cases rc)
    case (Inl e)
    then show ?thesis using run q c C by (auto simp: create_raw_object_def Let_def)
  next
    case (Inr p)
    with C have h: "po_raw p \<noteq> 0" "hnd w (po_raw p) = None" "hnd w1 = (hnd w)(po_raw p \<mapsto> (?id, 0))" "objs w1 = (objs w)(?id \<mapsto> [])"
      by auto
    obtain code w2 where wr: "TEE_WriteObjectData T (po_raw p) ?d w1 = (code, w2)" by fastforce
    have h1: "hnd w1 (po_raw p) = Some (?id, 0)" "objs w1 ?id = Some []" using h by simp_all
    note D = obj_write_okD[OF W wr h1]
    from D(2) h(3) obtain p' where h2: "hnd w2 = (hnd w)(po_raw p \<mapsto> (?id, p'))" by (metis fun_upd_upd list.size(3) le_zero_eq)
    have other: "j \<noteq> ?id \<Longrightarrow> objs w2 j = objs w j" for j using D(1) h(4) by simp
    show ?thesis
    proof (cases "code = TEE_SUCCESS")
      case True
      then have "r = Inr ()" "w' = PersistentObject_drop T p w2"
        using run q c Inr wr by (auto simp: create_raw_object_def Let_def po_write_def tee_check_def)
      moreover have "objs w2 = (objs w)(?id \<mapsto> ?d)" using D(3)[OF _ True] other by (auto simp: fun_eq_iff)
      ultimately show ?thesis using drop_effect(1)[OF S h(1), of w2] closes[OF drop_effect(2)[OF S h(1)] h2 h(2)] by simp
    next
      case False
      obtain rd w3 where cl: "close_and_delete T p w2 = (rd, w3)" by fastforce
      have "w' = w3" "r \<noteq> Inr ()" using run q c Inr wr False cl
        by (auto simp: create_raw_object_def Let_def po_write_def tee_check_def split: sum.splits)
      note res = this
      have "hnd w2 (po_raw p) = Some (?id, p')" using h2 by simp
      note X = close_and_delete_effect[OF S this cl]
      have "hnd w3 = hnd w" by (rule closes[OF X(1) h2 h(2)])
      then show ?thesis using res X(2) other by simp
    qed
  qed
qed

lemma read_remaining_effect:
  assumes S: "obj_store_ok T objs hnd" and h: "hnd w (po_raw p) = Some (i, pos)" and d: "objs w i = Some data"
    and r: "read_remaining_to_vec T cr p w = (res, w')"
  shows "objs w' = objs w \<and> (\<exists>q. hnd w' = (hnd w)(po_raw p \<mapsto> (i, q))) \<and> (\<forall>v. res = Inr v \<longrightarrow> v = take (length v) (drop pos data))"
proof -
  obtain code info w1 where g: "TEE_GetObjectInfo1 T (po_raw p) w = ((code, info), w1)" by (metis surj_pair)
  note I = obj_store_infoD[OF S g]
  have h1: "hnd w1 (po_raw p) = Some (i, pos)" and d1: "objs w1 i = Some data" using I h d by simp_all
  have same: "\<exists>q. hnd w1 = (hnd w)(po_raw p \<mapsto> (i, q))" using I(2) h by (metis fun_upd_triv)
  show ?thesis
  proof (cases "code = TEE_SUCCESS")
    case False
    with r g I same show ?thesis by (auto simp: read_remaining_to_vec_def obj_info_def tee_check_def)
  next
    case True
    have size: "dataSize info = length data" and pos: "dataPosition info = pos" using I(3)[OF True h d] by simp_all
    let ?n = "length data - pos"
    obtain c2 stored count w2 where rd: "TEE_ReadObjectData T (po_raw p) ?n w1 = ((c2, stored, count), w2)" by (metis surj_pair)
    note R = obj_store_readD[OF S rd h1 d1]
    have o2: "objs w2 = objs w" using R I(1) by simp
    have h2: "\<exists>q. hnd w2 = (hnd w)(po_raw p \<mapsto> (i, q))" using R same I(2) by (auto split: if_splits)
    have "take k (overwrite (replicate ?n 0) 0 stored) = take (length (take k (overwrite (replicate ?n 0) 0 stored))) (drop pos data)"
      if "c2 = TEE_SUCCESS" for k using that R by (simp add: overwrite_def min_def)
    with r g I R rd True size pos same o2 h2 show ?thesis
      by (auto simp: read_remaining_to_vec_def obj_info_def tee_check_def ObjectInfo_from_raw_def data_size_def
          po_read_def Let_def split: if_splits)
  qed
qed

lemma read_raw_object_effect:
  assumes S: "obj_store_ok T objs hnd" and q: "as_memref_input p0 = Inr q0" "as_memref_output p1 = Inr q1" and inv: "MemrefOutput_inv q1"
    and run: "read_raw_object T cr (p0, p1, p2, p3) m w = (r, ps', m', w')"
  shows "hnd w' = hnd w \<and> objs w' = objs w \<and>
    (\<forall>a. a \<notin> region (MemrefOutput_buffer_ptr q1) (MemrefOutput_buffer_len q1) \<longrightarrow> m' a = m a) \<and>
    (r = Inr () \<longrightarrow> (\<exists>d. objs w (input_bytes m q0) = Some d \<and> length d \<le> MemrefOutput_buffer_len q1 \<and>
       ps' = (p0, ParameterAny_MemrefOutput (MemrefOutput_set_size (length d) q1), p2, p3) \<and>
       mem_read m' (MemrefOutput_buffer_ptr q1) (length d) = d))"
proof -
  let ?id = "input_bytes m q0"
  obtain ro w1 where o: "PersistentObject_open T Private ?id (or DataFlag_ACCESS_READ DataFlag_SHARE_READ) w = (ro, w1)"
    by (metis surj_pair)
  note O = open_effect[OF S o]
  show ?thesis
  proof (cases ro)
    case (Inl e)
    then show ?thesis using run q o O by (auto simp: read_raw_object_def)
  next
    case (Inr p)
    with O obtain d where h: "po_raw p \<noteq> 0" "hnd w (po_raw p) = None" "hnd w1 = (hnd w)(po_raw p \<mapsto> (?id, 0))" "objs w1 = objs w"
      "objs w ?id = Some d" by auto
    obtain code info w2 where g: "TEE_GetObjectInfo1 T (po_raw p) w1 = ((code, info), w2)" by (metis surj_pair)
    note I = obj_store_infoD[OF S g]
    have h1: "hnd w1 (po_raw p) = Some (?id, 0)" "objs w1 ?id = Some d" using h by simp_all
    have h2: "hnd w2 (po_raw p) = Some (?id, 0)" "objs w2 ?id = Some d" "objs w2 = objs w" "hnd w2 = (hnd w)(po_raw p \<mapsto> (?id, 0))"
      using I(1,2) h1 h(3,4) by simp_all
    obtain rr w3 where rd: "read_remaining_to_vec T cr p w2 = (rr, w3)" by fastforce
    from read_remaining_effect[OF S h2(1,2) rd] obtain k where R: "objs w3 = objs w2" "hnd w3 = (hnd w2)(po_raw p \<mapsto> (?id, k))"
        "\<And>v. rr = Inr v \<Longrightarrow> v = take (length v) (drop 0 d)" by blast
    have h3: "hnd w3 = (hnd w)(po_raw p \<mapsto> (?id, k))" using R(2) h2(4) by (metis fun_upd_upd)
    have drop: "hnd (PersistentObject_drop T p w2) = hnd w" "objs (PersistentObject_drop T p w2) = objs w"
        "hnd (PersistentObject_drop T p w3) = hnd w" "objs (PersistentObject_drop T p w3) = objs w"
      using closes[OF drop_effect(2)[OF S h(1)] h2(4) h(2)] closes[OF drop_effect(2)[OF S h(1)] h3 h(2)] drop_effect(1)[OF S h(1)] h2(3) R(1)
      by simp_all
    have size: "dataSize info = length d" if "code = TEE_SUCCESS" using I(3)[OF that h1] by simp
    obtain r4 m4 q4 where p: "\<And>v. rr = Inr v \<Longrightarrow> put_output m q1 v = (r4, m4, q4)" by (cases rr) (auto, metis surj_pair)
    consider (stop) "w' = PersistentObject_drop T p w2 \<or> w' = PersistentObject_drop T p w3" "r \<noteq> Inr ()" "m' = m"
      | (go) v where "code = TEE_SUCCESS" "rr = Inr v" "length v = length d" "w' = PersistentObject_drop T p w3" "r = r4" "m' = m4"
          "ps' = (p0, ParameterAny_MemrefOutput q4, p2, p3)"
      using run q o Inr g rd p size
      by (cases rr) (auto simp: read_raw_object_def obj_info_def tee_check_def ObjectInfo_from_raw_def data_size_def Let_def split: if_splits)
    then show ?thesis
    proof cases
      case stop
      then show ?thesis using drop by auto
    next
      case (go v)
      then have v: "v = d" using R(3)[OF go(2)] by simp
      note P = put_output_effect[OF inv p[OF go(2)]]
      show ?thesis using go drop h(5) v P by auto
    qed
  qed
qed

section \<open>Properties\<close>

text \<open>
  C3.  The secure-storage application is a map from names to data.  Whatever command is sent with
  whatever parameters, afterwards no object is left open, only the object that the first
  parameter names can have changed, and memory changes only inside the output buffer of the caller.
  If a write succeeds, the object holds exactly the data of the second parameter; if a read succeeds,
  exactly the data of the object are in the buffer of the caller and their length is reported; if a
  deletion succeeds, the object existed and is gone.
\<close>

theorem secure_storage_is_a_map:
  assumes S: "obj_store_ok T objs hnd" and W: "obj_write_ok T objs hnd"
    and inv: "\<And>q. as_memref_output p1 = Inr q \<Longrightarrow> MemrefOutput_inv q"
    and run: "ss_invoke_command T can_reserve cmd_id (p0, p1, p2, p3) m w = (r, ps', m', w')"
  shows "hnd w' = hnd w \<and>
    (\<forall>id. (\<forall>q. as_memref_input p0 = Inr q \<longrightarrow> input_bytes m q \<noteq> id) \<longrightarrow> objs w' id = objs w id) \<and>
    (\<forall>a. (\<forall>q. as_memref_output p1 = Inr q \<longrightarrow> a \<notin> region (MemrefOutput_buffer_ptr q) (MemrefOutput_buffer_len q)) \<longrightarrow> m' a = m a) \<and>
    (r = Inr () \<longrightarrow>
       (\<exists>q0. as_memref_input p0 = Inr q0 \<and>
         (case SsCommand_from cmd_id of
            Ss_Write \<Rightarrow> \<exists>q1. as_memref_input p1 = Inr q1 \<and> objs w' = (objs w)(input_bytes m q0 \<mapsto> input_bytes m q1)
          | Ss_Read \<Rightarrow> objs w' = objs w \<and> (\<exists>q1 d. as_memref_output p1 = Inr q1 \<and> objs w (input_bytes m q0) = Some d \<and>
              length d \<le> MemrefOutput_buffer_len q1 \<and>
              ps' = (p0, ParameterAny_MemrefOutput (MemrefOutput_set_size (length d) q1), p2, p3) \<and>
              mem_read m' (MemrefOutput_buffer_ptr q1) (length d) = d)
          | Ss_Delete \<Rightarrow> objs w (input_bytes m q0) \<noteq> None \<and> objs w' = (objs w)(input_bytes m q0 := None)
          | Ss_Unknown \<Rightarrow> False)))"
proof (cases "as_memref_input p0")
  case (Inl e)
  then show ?thesis using run
    by (auto simp: ss_invoke_command_def create_raw_object_def read_raw_object_def delete_object_def split: SsCommand.splits)
next
  case q0: (Inr q0)
  show ?thesis
  proof (cases "SsCommand_from cmd_id")
    case Ss_Read
    then have rd: "read_raw_object T can_reserve (p0, p1, p2, p3) m w = (r, ps', m', w')" using run by (simp add: ss_invoke_command_def)
    show ?thesis
    proof (cases "as_memref_output p1")
      case (Inl e)
      then show ?thesis using rd q0 by (auto simp: read_raw_object_def)
    next
      case (Inr q1)
      from read_raw_object_effect[OF S q0 Inr inv[OF Inr] rd] show ?thesis using q0 Inr Ss_Read by simp
    qed
  next
    case Ss_Write
    then have cr: "create_raw_object T (p0, p1, p2, p3) m w = (r, w')" and m: "m' = m"
      using run by (auto simp: ss_invoke_command_def split: prod.splits)
    show ?thesis
    proof (cases "as_memref_input p1")
      case (Inl e)
      then show ?thesis using cr q0 m by (auto simp: create_raw_object_def)
    next
      case (Inr q1)
      from create_raw_object_effect[OF S W q0 Inr cr] show ?thesis using q0 Inr Ss_Write m by simp
    qed
  next
    case Ss_Delete
    then have dl: "delete_object T (p0, p1, p2, p3) m w = (r, w')" and m: "m' = m"
      using run by (auto simp: ss_invoke_command_def split: prod.splits)
    from delete_object_effect[OF S q0 dl] show ?thesis using q0 Ss_Delete m by simp
  next
    case Ss_Unknown
    then show ?thesis using run by (auto simp: ss_invoke_command_def)
  qed
qed

definition ref_storage_api :: "ref_store obj_api" where
  "ref_storage_api = ref_obj_api\<lparr>TEE_WriteObjectData := \<lambda>h d w.
     (case rs_open w h of
        None \<Rightarrow> (TEE_ERROR_BAD_STATE, w)
      | Some (i, p) \<Rightarrow>
          (case rs_objs w i of
             None \<Rightarrow> (TEE_ERROR_CORRUPT_OBJECT, w)
           | Some c \<Rightarrow> (TEE_SUCCESS, w\<lparr>rs_objs := (rs_objs w)(i \<mapsto> take p c @ d @ drop (p + length d) c),
               rs_open := (rs_open w)(h \<mapsto> (i, p + length d))\<rparr>)))\<rparr>"

lemma ref_storage_ok: "obj_store_ok ref_storage_api rs_objs rs_open" "obj_write_ok ref_storage_api rs_objs rs_open"
proof -
  show "obj_store_ok ref_storage_api rs_objs rs_open"
    using ref_obj_store_ok unfolding obj_store_ok_def by (simp add: ref_storage_api_def)
  show "obj_write_ok ref_storage_api rs_objs rs_open"
    by (auto simp: obj_write_ok_def ref_storage_api_def)
qed

theorem secure_storage_is_a_map_witness:
  "\<exists>w' m' ps'. ss_invoke_command ref_storage_api (\<lambda>_. True) 0
       (ParameterAny_MemrefInput \<lparr>input_param = Param_of_memref 16 2\<rparr>,
        ParameterAny_MemrefOutput \<lparr>output_capacity = 4, output_raw_param = Param_of_memref 32 4\<rparr>, ParameterAny_None, ParameterAny_None)
       (\<lambda>_. 5) \<lparr>rs_objs = [[5, 5] \<mapsto> [1, 2, 3]], rs_open = Map.empty, rs_next = 1\<rparr> = (Inr (), ps', m', w') \<and>
     mem_read m' 32 3 = [1, 2, 3] \<and> rs_objs w' = [[5, 5] \<mapsto> [1, 2, 3]]"
proof -
  let ?w = "\<lparr>rs_objs = [[5, 5] \<mapsto> [1, 2, 3]], rs_open = Map.empty, rs_next = 1\<rparr>"
  let ?p0 = "ParameterAny_MemrefInput \<lparr>input_param = Param_of_memref 16 2\<rparr>"
  let ?q1 = "\<lparr>output_capacity = 4, output_raw_param = Param_of_memref 32 4\<rparr>"
  let ?p1 = "ParameterAny_MemrefOutput ?q1"
  have id: "input_bytes (\<lambda>_. 5) \<lparr>input_param = Param_of_memref 16 2\<rparr> = [5, 5]"
    by (simp add: input_bytes_def MemrefInput_buffer_len_def MemrefInput_buffer_ptr_def Param_of_memref_def memref_size_def memref_buffer_def
        mem_read_def upt_rec)
  have inv: "MemrefOutput_inv ?q1" by (simp add: MemrefOutput_inv_def Param_of_memref_def memref_size_def usize_modulus_def)
  have ptr: "MemrefOutput_buffer_ptr ?q1 = 32" "MemrefOutput_buffer_len ?q1 = 4"
    by (simp_all add: MemrefOutput_buffer_ptr_def MemrefOutput_buffer_len_def Param_of_memref_def memref_buffer_def)
  have "\<exists>w' m' ps'. ss_invoke_command ref_storage_api (\<lambda>_. True) 0 (?p0, ?p1, ParameterAny_None, ParameterAny_None) (\<lambda>_. 5) ?w =
      (Inr (), ps', m', w')"
    by (simp add: ss_invoke_command_def SsCommand_from_def read_raw_object_def id ref_storage_api_def ref_obj_api_def rs_hand_out_def
        PersistentObject_open_def tee_check_def ObjectHandle_from_raw_def obj_info_def po_raw_def ObjectInfo_from_raw_def ref_info_def
        data_size_def ptr read_remaining_to_vec_def po_read_def overwrite_def put_output_def Let_def)
  then obtain w' m' ps' where run: "ss_invoke_command ref_storage_api (\<lambda>_. True) 0 (?p0, ?p1, ParameterAny_None, ParameterAny_None) (\<lambda>_. 5) ?w =
      (Inr (), ps', m', w')" by blast
  have "mem_read m' 32 (Suc (Suc (Suc 0))) = [1, 2, 3] \<and> rs_objs w' = [[5, 5] \<mapsto> [1, 2, 3]]"
    using secure_storage_is_a_map[OF ref_storage_ok _ run] inv id by (auto simp: SsCommand_from_def ptr)
  with run show ?thesis unfolding numeral_3_eq_3 by blast
qed

end
