(* ===== verification/ClientCalls.thy ===== *)
theory ClientCalls
  imports ParamBytes TaEntry TeecSession
begin

text \<open>
  A call from a client to a trusted application: \<^verbatim>\<open>Session::invoke_command\<close> on one side, the generated
  entry point on the other, and the TEE in between.

  An application that takes \<^verbatim>\<open>ParametersAny\<close> is a function of the command, the four parameters, its
  memory and its world.  \<open>delivers\<close> is what is relied on about the client library and the TEE: a call that
  fails before it reaches the application changes nothing; otherwise the application runs on parameters of
  the same types, with the values, the sizes and the contents of the input buffers of the client, wherever
  the TEE maps them, and when it returns the library updates values and sizes and copies the reported
  bytes of each output buffer that they fit into, slot by slot.
\<close>

section \<open>Definitions\<close>

type_synonym 'v any_app = "u32 \<Rightarrow> ParametersAny \<Rightarrow> mem \<Rightarrow> 'v \<Rightarrow> (Error + unit) \<times> ParametersAny \<times> mem \<times> 'v"

text \<open>The contents of a slot once the wrapper that borrowed it is gone.\<close>

fun Any_slot :: "TEE_Param \<Rightarrow> ParameterAny \<Rightarrow> TEE_Param" where
  "Any_slot old ParameterAny_None = old"
| "Any_slot old (ParameterAny_ValueInput p) = old"
| "Any_slot old (ParameterAny_ValueInout p) = vinout_param p"
| "Any_slot old (ParameterAny_ValueOutput p) = vout_param p"
| "Any_slot old (ParameterAny_MemrefInput p) = input_param p"
| "Any_slot old (ParameterAny_MemrefInout p) = inout_raw_param p"
| "Any_slot old (ParameterAny_MemrefOutput p) = output_raw_param p"
| "Any_slot old (ParameterAny_Unknown t p) = p"

fun Any_release :: "RawParams \<Rightarrow> ParametersAny \<Rightarrow> RawParams" where
  "Any_release (q0, q1, q2, q3) (p0, p1, p2, p3) = (Any_slot q0 p0, Any_slot q1 p1, Any_slot q2 p2, Any_slot q3 p3)"

definition app_entry :: "'v any_app \<Rightarrow> u32 \<Rightarrow> RawParamTypes \<Rightarrow> RawParams \<Rightarrow> mem \<times> 'v \<Rightarrow> u32 \<times> RawParams \<times> mem \<times> 'v" where
  "app_entry f =
     TA_InvokeCommandEntryPoint_plain (tuple_from_raw Any_from_raw Any_from_raw Any_from_raw Any_from_raw) Any_release
       (\<lambda>cmd p (m, v). case f cmd p m v of (r, p', m', v') \<Rightarrow> (r, p', (m', v')))"

subsection \<open>What the TEE delivers\<close>

definition is_memref :: "u32 \<Rightarrow> bool" where
  "is_memref t \<longleftrightarrow> t \<in> {TEE_PARAM_TYPE_MEMREF_INPUT, TEE_PARAM_TYPE_MEMREF_OUTPUT, TEE_PARAM_TYPE_MEMREF_INOUT}"

definition slot_in :: "mem \<Rightarrow> mem \<Rightarrow> u32 \<Rightarrow> TEEC_Parameter \<Rightarrow> TEE_Param \<Rightarrow> bool" where
  "slot_in cm m t p q \<longleftrightarrow>
     (t \<in> {TEE_PARAM_TYPE_VALUE_INPUT, TEE_PARAM_TYPE_VALUE_INOUT} \<longrightarrow>
        value_a q = tv_a (tp_value p) \<and> value_b q = tv_b (tp_value p)) \<and>
     (is_memref t \<longrightarrow>
        memref_size q = tmp_size (tp_tmpref p) \<and> (memref_buffer q = 0 \<longrightarrow> tmp_buffer (tp_tmpref p) = 0)) \<and>
     (t \<in> {TEE_PARAM_TYPE_MEMREF_INPUT, TEE_PARAM_TYPE_MEMREF_INOUT} \<longrightarrow>
        mem_read m (memref_buffer q) (memref_size q) = mem_read cm (tmp_buffer (tp_tmpref p)) (memref_size q))"

definition slot_back :: "u32 \<Rightarrow> TEEC_Parameter \<Rightarrow> TEE_Param \<Rightarrow> TEEC_Parameter" where
  "slot_back t p q =
     (if t \<in> {TEE_PARAM_TYPE_VALUE_OUTPUT, TEE_PARAM_TYPE_VALUE_INOUT} then p\<lparr>tp_w0 := par_w0 q\<rparr>
      else if t \<in> {TEE_PARAM_TYPE_MEMREF_OUTPUT, TEE_PARAM_TYPE_MEMREF_INOUT} then p\<lparr>tp_w1 := par_w1 q\<rparr>
      else p)"

definition copy_back :: "mem \<Rightarrow> u32 \<Rightarrow> TEEC_Parameter \<Rightarrow> TEE_Param \<Rightarrow> mem \<Rightarrow> mem" where
  "copy_back m t p q cm =
     (if t \<in> {TEE_PARAM_TYPE_MEMREF_OUTPUT, TEE_PARAM_TYPE_MEMREF_INOUT} \<and> memref_size q \<le> tmp_size (tp_tmpref p)
      then mem_write cm (tmp_buffer (tp_tmpref p)) (mem_read m (memref_buffer q) (memref_size q)) else cm)"

definition delivers :: "'v any_app \<Rightarrow> 'w teec_api \<Rightarrow> teec_sess \<Rightarrow> ('w \<Rightarrow> mem) \<Rightarrow> ('w \<Rightarrow> 'v) \<Rightarrow> bool" where
  "delivers f T s cmem st \<longleftrightarrow>
     (\<forall>cmd opn w code opn' org w' p0 p1 p2 p3.
        teec_invoke T s cmd opn w = ((code, opn', org), w') \<longrightarrow> op_params opn = (p0, p1, p2, p3) \<longrightarrow>
        code \<noteq> TEEC_SUCCESS \<and> cmem w' = cmem w \<and> st w' = st w \<or>
        (\<exists>q0 q1 q2 q3 r0 r1 r2 r3 m m'.
           (let t = (\<lambda>i. TEE_PARAM_TYPE_GET (op_paramTypes opn) i) in
              slot_in (cmem w) m (t 0) p0 q0 \<and> slot_in (cmem w) m (t 1) p1 q1 \<and>
              slot_in (cmem w) m (t 2) p2 q2 \<and> slot_in (cmem w) m (t 3) p3 q3 \<and>
              app_entry f cmd (op_paramTypes opn) (q0, q1, q2, q3) (m, st w) = (code, (r0, r1, r2, r3), m', st w') \<and>
              op_paramTypes opn' = op_paramTypes opn \<and>
              op_params opn' = (slot_back (t 0) p0 r0, slot_back (t 1) p1 r1, slot_back (t 2) p2 r2, slot_back (t 3) p3 r3) \<and>
              cmem w' = copy_back m' (t 3) p3 r3 (copy_back m' (t 2) p2 r2 (copy_back m' (t 1) p1 r1 (copy_back m' (t 0) p0 r0 (cmem w)))))))"

section \<open>Lemmas\<close>

lemmas client_param_defs = tmpref_impl_def value_impl_def none_impl_def teec_ParamTmpRef_to_raw_def teec_ParamTmpRef_param_type_def
  teec_ParamTmpRef_new_input_def teec_ParamTmpRef_new_output_def teec_ParamNone_to_raw_def teec_ParamNone_param_type_def
  teec_ParamValue_to_raw_def teec_ParamValue_param_type_def teec_ParamValue_new_def

lemma Operation_new_types:
  "TEE_PARAM_TYPE_GET (op_paramTypes (Operation_new A B C D pad started p0 p1 p2 p3)) 0 = teec_ParamType_into (pm_param_type A p0)"
  "TEE_PARAM_TYPE_GET (op_paramTypes (Operation_new A B C D pad started p0 p1 p2 p3)) 1 = teec_ParamType_into (pm_param_type B p1)"
  "TEE_PARAM_TYPE_GET (op_paramTypes (Operation_new A B C D pad started p0 p1 p2 p3)) 2 = teec_ParamType_into (pm_param_type C p2)"
  "TEE_PARAM_TYPE_GET (op_paramTypes (Operation_new A B C D pad started p0 p1 p2 p3)) 3 = teec_ParamType_into (pm_param_type D p3)"
  by (simp_all add: Operation_new_def teec_ParamTypes_into_def teec_types_pack TEE_PARAM_TYPES_get)

lemma Operation_new_params:
  "op_params (Operation_new A B C D pad started p0 p1 p2 p3) = (pm_to_raw A pad p0, pm_to_raw B pad p1, pm_to_raw C pad p2, pm_to_raw D pad p3)"
  by (simp add: Operation_new_def)

lemma Any_from_raw_memref:
  "memref_buffer q \<noteq> 0 \<Longrightarrow> Any_from_raw TEE_PARAM_TYPE_MEMREF_INPUT q = Inr (ParameterAny_MemrefInput \<lparr>input_param = q\<rparr>)"
  "memref_buffer q \<noteq> 0 \<Longrightarrow> Any_from_raw TEE_PARAM_TYPE_MEMREF_OUTPUT q =
     Inr (ParameterAny_MemrefOutput \<lparr>output_capacity = memref_size q, output_raw_param = q\<rparr>)"
  "Any_from_raw TEE_PARAM_TYPE_NONE q = Inr ParameterAny_None"
  by (simp_all add: Any_from_raw_def MemrefInput_from_raw_def MemrefOutput_from_raw_def check_type_is_def raw_consts)

text \<open>A call that reports success has run the application, on the parameters of the client.\<close>

lemma delivered:
  assumes "delivers f T s cmem st" and "teec_invoke T s cmd opn w = ((TEEC_SUCCESS, opn', org), w')"
    and "op_params opn = (p0, p1, p2, p3)" and "t = (\<lambda>i. TEE_PARAM_TYPE_GET (op_paramTypes opn) i)"
  obtains q0 q1 q2 q3 r0 r1 r2 r3 m m' where
    "slot_in (cmem w) m (t 0) p0 q0" "slot_in (cmem w) m (t 1) p1 q1" "slot_in (cmem w) m (t 2) p2 q2" "slot_in (cmem w) m (t 3) p3 q3"
    "app_entry f cmd (op_paramTypes opn) (q0, q1, q2, q3) (m, st w) = (TEE_SUCCESS, (r0, r1, r2, r3), m', st w')"
    "cmem w' = copy_back m' (t 3) p3 r3 (copy_back m' (t 2) p2 r2 (copy_back m' (t 1) p1 r1 (copy_back m' (t 0) p0 r0 (cmem w))))"
proof -
  have c: "TEEC_SUCCESS = TEE_SUCCESS" by (simp add: raw_consts)
  show thesis
    using assms(1)[unfolded delivers_def, rule_format, OF assms(2,3)] that unfolding Let_def assms(4) c
    by (elim disjE exE conjE) (simp, blast)
qed

lemma app_entry_success:
  assumes "app_entry f cmd types ps (m, v) = (TEE_SUCCESS, rs, m', v')"
    and "tuple_from_raw Any_from_raw Any_from_raw Any_from_raw Any_from_raw types ps = Inr a"
    and "\<And>e ps' m' v'. f cmd a m v = (Inl e, ps', m', v') \<Longrightarrow> raw_code e \<noteq> TEE_SUCCESS"
  shows "\<exists>ps'. f cmd a m v = (Inr (), ps', m', v') \<and> rs = Any_release ps ps'"
proof -
  obtain r ps' m1 v1 where f: "f cmd a m v = (r, ps', m1, v1)" by (metis surj_pair)
  with assms show ?thesis
    by (cases r) (auto simp: app_entry_def TA_InvokeCommandEntryPoint_plain_def result_code_def)
qed

lemma copy_back_in [simp]:
  "copy_back m TEE_PARAM_TYPE_MEMREF_INPUT p q cm = cm" "copy_back m TEE_PARAM_TYPE_NONE p q cm = cm"
  by (simp_all add: copy_back_def raw_consts)

section \<open>A reference implementation\<close>

text \<open>
  A TEE in the process of the client, which passes every parameter as it is.  Its world is the memory of
  the client, the state of the application and the next handle.
\<close>

fun same_slot :: "TEEC_Parameter \<Rightarrow> TEE_Param" where
  "same_slot p = \<lparr>par_w0 = tp_w0 p, par_w1 = tp_w1 p\<rparr>"

definition ref_invoke :: "'v any_app \<Rightarrow> u32 \<Rightarrow> TEEC_Operation \<Rightarrow> mem \<times> 'v \<times> u64 \<Rightarrow> (u32 \<times> TEEC_Operation \<times> u32) \<times> mem \<times> 'v \<times> u64" where
  "ref_invoke f cmd opn w =
     (case op_params opn of (p0, p1, p2, p3) \<Rightarrow>
        (case app_entry f cmd (op_paramTypes opn) (same_slot p0, same_slot p1, same_slot p2, same_slot p3) (fst w, fst (snd w)) of
           (code, (r0, r1, r2, r3), m', v') \<Rightarrow>
             (let t = (\<lambda>i. TEE_PARAM_TYPE_GET (op_paramTypes opn) i) in
                ((code,
                  opn\<lparr>op_params := (slot_back (t 0) p0 r0, slot_back (t 1) p1 r1, slot_back (t 2) p2 r2, slot_back (t 3) p3 r3)\<rparr>, 4),
                 copy_back m' (t 3) p3 r3 (copy_back m' (t 2) p2 r2 (copy_back m' (t 1) p1 r1 (copy_back m' (t 0) p0 r0 (fst w)))),
                 v', snd (snd w)))))"

definition ref_tee :: "'v any_app \<Rightarrow> (mem \<times> 'v \<times> u64) teec_api" where
  "ref_tee f = \<lparr>
     teec_initialize = (\<lambda>(m, v, n). ((TEEC_SUCCESS, n), m, v, n + 1)),
     teec_finalize = (\<lambda>c w. w),
     teec_open = (\<lambda>c u l opn (m, v, n). ((TEEC_SUCCESS, n, opn, 4), m, v, n + 1)),
     teec_invoke = (\<lambda>s. ref_invoke f),
     teec_close = (\<lambda>s w. w)\<rparr>"

lemma same_slot_in: "slot_in m m t p (same_slot p)"
  by (simp add: slot_in_def value_a_def value_b_def tp_value_def tp_tmpref_def memref_size_def memref_buffer_def)

lemma ref_tee_delivers: "delivers f (ref_tee f) s fst (\<lambda>w. fst (snd w))"
proof -
  have key: "\<exists>q0 q1 q2 q3 r0 r1 r2 r3 m m'.
       slot_in (fst w) m (t 0) p0 q0 \<and> slot_in (fst w) m (t 1) p1 q1 \<and> slot_in (fst w) m (t 2) p2 q2 \<and> slot_in (fst w) m (t 3) p3 q3 \<and>
       app_entry f cmd (op_paramTypes opn) (q0, q1, q2, q3) (m, fst (snd w)) = (code, (r0, r1, r2, r3), m', fst (snd w')) \<and>
       op_paramTypes opn' = op_paramTypes opn \<and>
       op_params opn' = (slot_back (t 0) p0 r0, slot_back (t 1) p1 r1, slot_back (t 2) p2 r2, slot_back (t 3) p3 r3) \<and>
       fst w' = copy_back m' (t 3) p3 r3 (copy_back m' (t 2) p2 r2 (copy_back m' (t 1) p1 r1 (copy_back m' (t 0) p0 r0 (fst w))))"
    if "ref_invoke f cmd opn w = ((code, opn', org), w')" "op_params opn = (p0, p1, p2, p3)"
      "t = (\<lambda>i. TEE_PARAM_TYPE_GET (op_paramTypes opn) i)" for cmd opn w code opn' org w' p0 p1 p2 p3 t
  proof -
    obtain c r0 r1 r2 r3 m' v' where e: "app_entry f cmd (op_paramTypes opn) (same_slot p0, same_slot p1, same_slot p2, same_slot p3)
        (fst w, fst (snd w)) = (c, (r0, r1, r2, r3), m', v')" by (metis surj_pair)
    show ?thesis
      by (rule exI[of _ "same_slot p0"], rule exI[of _ "same_slot p1"], rule exI[of _ "same_slot p2"], rule exI[of _ "same_slot p3"],
          rule exI[of _ r0], rule exI[of _ r1], rule exI[of _ r2], rule exI[of _ r3], rule exI[of _ "fst w"], rule exI[of _ m'])
        (use that e in \<open>auto simp: ref_invoke_def Let_def same_slot_in simp del: same_slot.simps\<close>)
  qed
  have invoke: "teec_invoke (ref_tee f) s = ref_invoke f" by (simp add: ref_tee_def)
  show ?thesis unfolding delivers_def Let_def invoke
    by (intro allI impI disjI2) (rule key[OF _ _ refl], assumption+)
qed

lemma ref_tee_success:
  assumes "op_params opn = (p0, p1, p2, p3)"
    and "tuple_from_raw Any_from_raw Any_from_raw Any_from_raw Any_from_raw (op_paramTypes opn)
      (same_slot p0, same_slot p1, same_slot p2, same_slot p3) = Inr a"
    and "f cmd a m v = (Inr (), ps', m', v')"
  shows "\<exists>opn' m''. teec_invoke (ref_tee f) s cmd opn (m, v, n) = ((TEEC_SUCCESS, opn', 4), m'', v', n)"
proof -
  obtain r0 r1 r2 r3 where "Any_release (same_slot p0, same_slot p1, same_slot p2, same_slot p3) ps' = (r0, r1, r2, r3)" by (metis surj_pair)
  then show ?thesis using assms
    by (simp add: ref_tee_def ref_invoke_def app_entry_def TA_InvokeCommandEntryPoint_plain_def result_code_def Let_def raw_consts
        del: same_slot.simps tuple_from_raw.simps)
qed

end
