(* ===== verification/SecureStorageCa.thy ===== *)
theory SecureStorageCa
  imports SecureStorageTa ClientCalls HostStd
begin

text \<open>
  The client of the secure-storage example, \<^verbatim>\<open>examples/ca/secure_storage-rs/src/main.rs\<close>, and the
  two programs together: the client on one side of the TEE, the application of
  \<open>SecureStorageTa\<close> on the other.

  The state of the client is that of \<open>TeecSession\<close> with the lines it has printed; \<open>cmem\<close> is its
  memory.  Buffers are slices of that memory.
\<close>

section \<open>Definitions\<close>

text \<open>\<^verbatim>\<open>as u32\<close> on the commands, which the client and the application share.\<close>

fun SsCommand_into :: "SsCommand \<Rightarrow> u32" where
  "SsCommand_into Ss_Read = 0"
| "SsCommand_into Ss_Write = 1"
| "SsCommand_into Ss_Delete = 2"
| "SsCommand_into Ss_Unknown = 3"

type_synonym ('w, 'a) ca = "('w client \<times> string list, teec_Error, 'a) io"

definition say :: "string \<Rightarrow> ('w, unit) ca" where
  "say line = (\<lambda>(st, out). (Inr (), st, out @ [line]))"

definition session_invoke :: "'w teec_api \<Rightarrow> Session \<Rightarrow> u32 \<Rightarrow> TEEC_Operation \<Rightarrow> ('w, unit) ca" where
  "session_invoke T session cmd operation =
     (\<lambda>(st, out). case teec_invoke_command T session cmd operation st of (r, operation', st') \<Rightarrow> (r, st', out))"

definition read_secure_object :: "'w teec_api \<Rightarrow> padding \<Rightarrow> Session \<Rightarrow> slice \<Rightarrow> slice \<Rightarrow> ('w, unit) ca" where
  "read_secure_object T pad session obj_id obj_data =
     (let p0 = teec_ParamTmpRef_new_input obj_id;
          p1 = teec_ParamTmpRef_new_output obj_data;
          operation = Operation_new tmpref_impl tmpref_impl none_impl none_impl pad 0 p0 p1 ParamNone ParamNone in
      io_bind (session_invoke T session (SsCommand_into Ss_Read) operation) (\<lambda>_.
        say ''- Read back the object''))"

definition write_secure_object :: "'w teec_api \<Rightarrow> padding \<Rightarrow> Session \<Rightarrow> slice \<Rightarrow> slice \<Rightarrow> ('w, unit) ca" where
  "write_secure_object T pad session obj_id obj_data =
     (let p0 = teec_ParamTmpRef_new_input obj_id;
          p1 = teec_ParamTmpRef_new_input obj_data;
          operation = Operation_new tmpref_impl tmpref_impl none_impl none_impl pad 0 p0 p1 ParamNone ParamNone in
      io_bind (session_invoke T session (SsCommand_into Ss_Write) operation) (\<lambda>_.
        say ''- Create and load object in the TA secure storage''))"

definition delete_secure_object :: "'w teec_api \<Rightarrow> padding \<Rightarrow> Session \<Rightarrow> slice \<Rightarrow> ('w, unit) ca" where
  "delete_secure_object T pad session obj_id =
     (let p0 = teec_ParamTmpRef_new_input obj_id;
          operation = Operation_new tmpref_impl none_impl none_impl none_impl pad 0 p0 ParamNone ParamNone ParamNone in
      io_bind (session_invoke T session (SsCommand_into Ss_Delete) operation) (\<lambda>_.
        say ''- Delete the object''))"

definition TEST_OBJECT_SIZE :: usize where "TEST_OBJECT_SIZE = 7000"

definition SS_UUID :: string where "SS_UUID = ''1cd6d392-bdab-11eb-9082-abc902ac5cd4''"

text \<open>
  The local variables of \<^verbatim>\<open>main\<close>: five buffers, which \<open>ss_locals_ok\<close> says are initialised as the
  declarations say and, as variables are, apart.  The text of an identifier holds no NUL, so that \<^verbatim>\<open>CString::new\<close> succeeds.
\<close>

record ss_locals =
  obj1_id :: slice
  obj1_data :: slice
  read_data :: slice
  obj2_id :: slice
  obj2_data :: slice

definition ss_locals_ok :: "mem \<Rightarrow> ss_locals \<Rightarrow> bool" where
  "ss_locals_ok m L \<longleftrightarrow>
     sl_ptr (obj1_id L) \<noteq> 0 \<and> sl_ptr (obj1_data L) \<noteq> 0 \<and> sl_ptr (read_data L) \<noteq> 0 \<and>
     sl_ptr (obj2_id L) \<noteq> 0 \<and> sl_ptr (obj2_data L) \<noteq> 0 \<and>
     region (sl_ptr (obj1_data L)) TEST_OBJECT_SIZE \<inter> region (sl_ptr (read_data L)) TEST_OBJECT_SIZE = {} \<and>
     CString_new ''object#1'' = Some (slice_bytes m (obj1_id L)) \<and>
     CString_new ''object#2'' = Some (slice_bytes m (obj2_id L)) \<and>
     slice_bytes m (obj1_data L) = replicate TEST_OBJECT_SIZE 0xA1 \<and>
     slice_bytes m (read_data L) = replicate TEST_OBJECT_SIZE 0 \<and>
     slice_bytes m (obj2_data L) = replicate TEST_OBJECT_SIZE 0xB1"

definition test_line :: "string \<Rightarrow> string" where
  "test_line name = CHR 0x0A # ''Test on object '' @ [CHR 0x22] @ name @ [CHR 0x22]"

definition UNEXPECTED :: string where "UNEXPECTED = ''- Unexpected content found in secure storage''"

definition main_first :: "'w teec_api \<Rightarrow> padding \<Rightarrow> ('w \<Rightarrow> mem) \<Rightarrow> ss_locals \<Rightarrow> Session \<Rightarrow> ('w, unit) ca" where
  "main_first T pad cmem L session =
     io_bind (say (test_line ''object#1'')) (\<lambda>_.
     io_bind (write_secure_object T pad session (obj1_id L) (obj1_data L)) (\<lambda>_.
     io_bind (read_secure_object T pad session (obj1_id L) (read_data L)) (\<lambda>_.
     io_bind (io_ask (\<lambda>(st, out). Inr (cmem (cl_world st)))) (\<lambda>m.
     io_bind (if list_all (\<lambda>(a, b). a = b) (zip (slice_bytes m (obj1_data L)) (slice_bytes m (read_data L)))
              then say ''- Content read-out correctly'' else say UNEXPECTED) (\<lambda>_.
     delete_secure_object T pad session (obj1_id L))))))"

definition main_second :: "'w teec_api \<Rightarrow> padding \<Rightarrow> ss_locals \<Rightarrow> Session \<Rightarrow> ('w, unit) ca" where
  "main_second T pad L session =
     io_bind (say (test_line ''object#2'')) (\<lambda>_ s.
       case read_secure_object T pad session (obj2_id L) (read_data L) s of
         (Inl e, s1) \<Rightarrow>
           if teec_kind e \<noteq> Teec_ItemNotFound then io_bind (say (teec_Error_fmt e)) (\<lambda>_. io_ask (\<lambda>_. Inl e)) s1
           else io_bind (say ''- Object not found in TA secure storage, create it'') (\<lambda>_.
                  write_secure_object T pad session (obj2_id L) (obj2_data L)) s1
       | (Inr _, s1) \<Rightarrow>
           io_bind (say ''- Object found in TA secure storage, delete it'') (\<lambda>_.
             delete_secure_object T pad session (obj2_id L)) s1)"

definition ss_main ::
    "'w teec_api \<Rightarrow> 'u uuid_crate \<Rightarrow> padding \<Rightarrow> ('w \<Rightarrow> mem) \<Rightarrow> ss_locals \<Rightarrow> 'w client \<Rightarrow>
     ((teec_Error + unit) \<times> string list \<times> 'w client) option" where
  "ss_main T U pad cmem L st =
     (case Context_new T st of
        (Inl e, st1) \<Rightarrow> Some (Inl e, [], st1)
      | (Inr ctx, st1) \<Rightarrow>
          (case teec_Uuid_parse_str U SS_UUID of
             Inl e \<Rightarrow> Some (Inl e, [], Context_drop T ctx st1)
           | Inr uuid \<Rightarrow>
               (case open_session T ctx uuid st1 of
                  None \<Rightarrow> None
                | Some (Inl e, _, st2) \<Rightarrow> Some (Inl e, [], Context_drop T ctx st2)
                | Some (Inr session, _, st2) \<Rightarrow>
                    (case io_bind (main_first T pad cmem L session) (\<lambda>_.
                          io_bind (main_second T pad L session) (\<lambda>_.
                            say (CHR 0x0A # ''We''@[CHR 0x27]@''re done, close and release TEE resources''))) (st2, []) of
                       (r, st3, out) \<Rightarrow> Some (r, out, Context_drop T ctx (Session_drop T session st3))))))"

subsection \<open>The calls as operations on a map\<close>

datatype ca_call = CaWrite slice slice | CaRead slice slice | CaDelete slice

fun ca_exec :: "'w teec_api \<Rightarrow> padding \<Rightarrow> Session \<Rightarrow> ca_call \<Rightarrow> ('w, unit) ca" where
  "ca_exec T pad session (CaWrite i d) = write_secure_object T pad session i d"
| "ca_exec T pad session (CaRead i d) = read_secure_object T pad session i d"
| "ca_exec T pad session (CaDelete i) = delete_secure_object T pad session i"

fun ca_run :: "'w teec_api \<Rightarrow> padding \<Rightarrow> Session \<Rightarrow> ca_call list \<Rightarrow> ('w, unit) ca" where
  "ca_run T pad session [] = io_return ()"
| "ca_run T pad session (c # cs) = io_bind (ca_exec T pad session c) (\<lambda>_. ca_run T pad session cs)"

text \<open>What they mean: the objects by name, and the memory of the client.\<close>

fun ca_spec :: "ca_call \<Rightarrow> (bytes \<rightharpoonup> bytes) \<times> mem \<Rightarrow> (bytes \<rightharpoonup> bytes) \<times> mem" where
  "ca_spec (CaWrite i d) (M, m) = (M(slice_bytes m i \<mapsto> slice_bytes m d), m)"
| "ca_spec (CaRead i d) (M, m) = (M, mem_write m (sl_ptr d) (the (M (slice_bytes m i))))"
| "ca_spec (CaDelete i) (M, m) = (M(slice_bytes m i := None), m)"

text \<open>A buffer of the client: not null, and of a length that a slice can have.\<close>

definition slice_ok :: "slice \<Rightarrow> bool" where
  "slice_ok s \<longleftrightarrow> sl_ptr s \<noteq> 0 \<and> sl_len s < usize_modulus"

fun ca_call_ok :: "ca_call \<Rightarrow> bool" where
  "ca_call_ok (CaWrite i d) \<longleftrightarrow> slice_ok i \<and> slice_ok d"
| "ca_call_ok (CaRead i d) \<longleftrightarrow> slice_ok i \<and> slice_ok d"
| "ca_call_ok (CaDelete i) \<longleftrightarrow> slice_ok i"

text \<open>Making a context and opening a session leave the buffers of the client alone.\<close>

definition quiet :: "'w teec_api \<Rightarrow> ('w \<Rightarrow> mem) \<Rightarrow> bool" where
  "quiet T cmem \<longleftrightarrow> (\<forall>w. cmem (snd (teec_initialize T w)) = cmem w) \<and> (\<forall>c u l opn w. cmem (snd (teec_open T c u l opn w)) = cmem w) \<and>
     (\<forall>c w. cmem (teec_finalize T c w) = cmem w)"

section \<open>Lemmas\<close>

lemma SsCommand_from_into [simp]: "SsCommand_from (SsCommand_into c) = c"
  by (cases c) (simp_all add: SsCommand_from_def)

text \<open>The application never disguises an error as a success.\<close>

lemma honest_tee_check: "tee_check c = Inl e \<Longrightarrow> raw_code e \<noteq> TEE_SUCCESS"
  by (auto simp: tee_check_def split: if_splits)

lemma honest_kinds [simp]:
  "raw_code (Error_from BadParameters) \<noteq> TEE_SUCCESS" "raw_code (Error_from NotSupported) \<noteq> TEE_SUCCESS"
  "raw_code (Error_from ShortBuffer) \<noteq> TEE_SUCCESS" "raw_code (Error_from ExcessData) \<noteq> TEE_SUCCESS"
  "raw_code (Error_from OutOfMemory) \<noteq> TEE_SUCCESS"
  by (simp_all add: Error_from_def raw_code_def raw_consts)

lemma honest_objects:
  "PersistentObject_open T st i f w = (Inl e, w') \<Longrightarrow> raw_code e \<noteq> TEE_SUCCESS"
  "PersistentObject_create T st i f None d w = (Inl e, w') \<Longrightarrow> raw_code e \<noteq> TEE_SUCCESS"
  "po_write T p d w = (Inl e, w') \<Longrightarrow> raw_code e \<noteq> TEE_SUCCESS"
  "close_and_delete T p w = (Inl e, w') \<Longrightarrow> raw_code e \<noteq> TEE_SUCCESS"
  "obj_info T h w = (Inl e, w') \<Longrightarrow> raw_code e \<noteq> TEE_SUCCESS"
  "read_remaining_to_vec T cr p w = (Inl e, w') \<Longrightarrow> raw_code e \<noteq> TEE_SUCCESS"
  by (auto simp: PersistentObject_open_def PersistentObject_create_def drop_attributes_def po_write_def close_and_delete_def obj_info_def
      read_remaining_to_vec_def po_read_def tee_check_def try_bind_def ObjectHandle_from_raw_def Let_def
      split: if_splits sum.splits prod.splits)

lemma honest_params:
  "as_memref_input p = Inl e \<Longrightarrow> raw_code e \<noteq> TEE_SUCCESS" "as_memref_output p = Inl e \<Longrightarrow> raw_code e \<noteq> TEE_SUCCESS"
  by (cases p; auto)+

lemma delete_object_honest: "delete_object T (p0, p1, p2, p3) m w = (Inl e, w') \<Longrightarrow> raw_code e \<noteq> TEE_SUCCESS"
  by (auto simp: delete_object_def dest: honest_params honest_objects split: sum.splits prod.splits)

lemma create_raw_object_honest: "create_raw_object T (p0, p1, p2, p3) m w = (Inl e, w') \<Longrightarrow> raw_code e \<noteq> TEE_SUCCESS"
  by (auto simp: create_raw_object_def Let_def dest: honest_params honest_objects split: sum.splits prod.splits)

lemma read_raw_object_honest:
  assumes "read_raw_object T cr (p0, p1, p2, p3) m w = (Inl e, ps', m', w')"
  shows "raw_code e \<noteq> TEE_SUCCESS"
proof -
  have put: "put_output m q d = (Inl e, x) \<Longrightarrow> raw_code e \<noteq> TEE_SUCCESS" for m q d e x by (auto simp: put_output_def split: if_splits)
  show ?thesis
    using assms by (auto simp: read_raw_object_def Let_def dest: honest_params honest_objects put split: sum.splits prod.splits if_splits)
qed

lemma ss_invoke_honest:
  assumes "ss_invoke_command T cr cmd (p0, p1, p2, p3) m w = (Inl e, ps', m', w')"
  shows "raw_code e \<noteq> TEE_SUCCESS"
proof (cases "SsCommand_from cmd")
  case Ss_Read
  then show ?thesis using assms read_raw_object_honest by (simp add: ss_invoke_command_def)
next
  case Ss_Write
  then show ?thesis using assms create_raw_object_honest[of T p0 p1 p2 p3 m w]
    by (auto simp: ss_invoke_command_def split: prod.splits)
next
  case Ss_Delete
  then show ?thesis using assms delete_object_honest[of T p0 p1 p2 p3 m w]
    by (auto simp: ss_invoke_command_def split: prod.splits)
next
  case Ss_Unknown
  then show ?thesis using assms by (auto simp: ss_invoke_command_def)
qed

lemma session_invoke_success:
  assumes "io_bind (session_invoke T session cmd operation) (\<lambda>_. say line) (c, out) = (Inr (), c', out')"
  obtains operation' org where
    "teec_invoke T (session_handle session) cmd operation (cl_world c) = ((TEEC_SUCCESS, operation', org), cl_world c')"
  using assms
  by (auto simp: io_bind_eq session_invoke_def teec_invoke_command_def say_def split: prod.splits sum.splits)

lemma tmpref_slot:
  assumes "slice_ok s"
  shows "tp_tmpref (pm_to_raw tmpref_impl pad (teec_ParamTmpRef_new_input s)) = \<lparr>tmp_buffer = sl_ptr s, tmp_size = sl_len s\<rparr>"
    "tp_tmpref (pm_to_raw tmpref_impl pad (teec_ParamTmpRef_new_output s)) = \<lparr>tmp_buffer = sl_ptr s, tmp_size = sl_len s\<rparr>"
  using assms by (simp_all add: client_param_defs slice_ok_def)

lemma slot_input_bytes:
  assumes "slot_in cm m TEE_PARAM_TYPE_MEMREF_INPUT (pm_to_raw tmpref_impl pad (teec_ParamTmpRef_new_input s)) q" and "slice_ok s"
  shows "memref_buffer q \<noteq> 0" "input_bytes m \<lparr>input_param = q\<rparr> = slice_bytes cm s"
  using assms unfolding slot_in_def tmpref_slot[OF assms(2)]
  by (auto simp: is_memref_def slice_ok_def input_bytes_def slice_bytes_def MemrefInput_buffer_ptr_def MemrefInput_buffer_len_def)

lemma ss_entry_success:
  assumes e: "app_entry (ss_invoke_command Ob cr) cmd types ps (m, v) = (TEE_SUCCESS, rs, m', v')"
    and a: "tuple_from_raw Any_from_raw Any_from_raw Any_from_raw Any_from_raw types ps = Inr a"
  shows "\<exists>ps'. ss_invoke_command Ob cr cmd a m v = (Inr (), ps', m', v') \<and> rs = Any_release ps ps'"
proof -
  obtain a0 a1 a2 a3 where "a = (a0, a1, a2, a3)" by (cases a)
  then have "raw_code err \<noteq> TEE_SUCCESS" if "ss_invoke_command Ob cr cmd a m v = (Inl err, x)" for err x
    using that by (cases x) (simp add: ss_invoke_honest)
  from app_entry_success[OF e a this] show ?thesis by simp
qed

lemma write_delivered:
  assumes S: "obj_store_ok Ob objs hnd" and W: "obj_write_ok Ob objs hnd"
    and D: "delivers (ss_invoke_command Ob cr) T (session_handle session) cmem store"
    and i: "slice_ok i" and d: "slice_ok d"
    and run: "write_secure_object T pad session i d (c, out) = (Inr (), c', out')"
  shows "cmem (cl_world c') = cmem (cl_world c) \<and> hnd (store (cl_world c')) = hnd (store (cl_world c)) \<and>
    objs (store (cl_world c')) = (objs (store (cl_world c)))(slice_bytes (cmem (cl_world c)) i \<mapsto> slice_bytes (cmem (cl_world c)) d)"
proof -
  let ?opn = "Operation_new tmpref_impl tmpref_impl none_impl none_impl pad 0 (teec_ParamTmpRef_new_input i) (teec_ParamTmpRef_new_input d) ParamNone ParamNone"
  let ?w = "cl_world c" and ?w' = "cl_world c'"
  from run[unfolded write_secure_object_def Let_def] obtain opn' org where
    call: "teec_invoke T (session_handle session) (SsCommand_into Ss_Write) ?opn ?w = ((TEEC_SUCCESS, opn', org), ?w')"
    by (rule session_invoke_success)
  have t: "TEE_PARAM_TYPE_GET (op_paramTypes ?opn) 0 = TEE_PARAM_TYPE_MEMREF_INPUT"
      "TEE_PARAM_TYPE_GET (op_paramTypes ?opn) 1 = TEE_PARAM_TYPE_MEMREF_INPUT"
      "TEE_PARAM_TYPE_GET (op_paramTypes ?opn) 2 = TEE_PARAM_TYPE_NONE" "TEE_PARAM_TYPE_GET (op_paramTypes ?opn) 3 = TEE_PARAM_TYPE_NONE"
    unfolding Operation_new_types by (simp_all add: client_param_defs raw_consts)
  obtain q0 q1 q2 q3 r0 r1 r2 r3 m m' where
    q: "slot_in (cmem ?w) m TEE_PARAM_TYPE_MEMREF_INPUT (pm_to_raw tmpref_impl pad (teec_ParamTmpRef_new_input i)) q0"
      "slot_in (cmem ?w) m TEE_PARAM_TYPE_MEMREF_INPUT (pm_to_raw tmpref_impl pad (teec_ParamTmpRef_new_input d)) q1"
      "slot_in (cmem ?w) m TEE_PARAM_TYPE_NONE (pm_to_raw none_impl pad ParamNone) q2"
      "slot_in (cmem ?w) m TEE_PARAM_TYPE_NONE (pm_to_raw none_impl pad ParamNone) q3"
    and e: "app_entry (ss_invoke_command Ob cr) (SsCommand_into Ss_Write) (op_paramTypes ?opn) (q0, q1, q2, q3) (m, store ?w) =
      (TEE_SUCCESS, (r0, r1, r2, r3), m', store ?w')" and m: "cmem ?w' = cmem ?w"
    by (rule delivered[OF D call Operation_new_params refl, unfolded t copy_back_in])
  note Q0 = slot_input_bytes[OF q(1) i] and Q1 = slot_input_bytes[OF q(2) d]
  let ?a = "(ParameterAny_MemrefInput \<lparr>input_param = q0\<rparr>, ParameterAny_MemrefInput \<lparr>input_param = q1\<rparr>, ParameterAny_None, ParameterAny_None)"
  have a: "tuple_from_raw Any_from_raw Any_from_raw Any_from_raw Any_from_raw (op_paramTypes ?opn) (q0, q1, q2, q3) = Inr ?a"
    by (simp only: tuple_from_raw.simps t Any_from_raw_memref(1)[OF Q0(1)] Any_from_raw_memref(1)[OF Q1(1)] Any_from_raw_memref(3) try_bind_Inr)
  from ss_entry_success[OF e a] obtain ps' where
    "ss_invoke_command Ob cr (SsCommand_into Ss_Write) ?a m (store ?w) = (Inr (), ps', m', store ?w')" by blast
  then have "create_raw_object Ob ?a m (store ?w) = (Inr (), store ?w')"
    unfolding ss_invoke_command_def SsCommand_from_into by (auto split: prod.splits)
  from create_raw_object_effect[OF S W _ _ this] show ?thesis using m Q0(2) Q1(2) by simp
qed

lemma read_delivered:
  assumes S: "obj_store_ok Ob objs hnd"
    and D: "delivers (ss_invoke_command Ob cr) T (session_handle session) cmem store"
    and i: "slice_ok i" and d: "slice_ok d"
    and run: "read_secure_object T pad session i d (c, out) = (Inr (), c', out')"
  shows "hnd (store (cl_world c')) = hnd (store (cl_world c)) \<and> objs (store (cl_world c')) = objs (store (cl_world c)) \<and>
    (\<exists>x. objs (store (cl_world c)) (slice_bytes (cmem (cl_world c)) i) = Some x \<and> length x \<le> sl_len d \<and>
       cmem (cl_world c') = mem_write (cmem (cl_world c)) (sl_ptr d) x)"
proof -
  let ?opn = "Operation_new tmpref_impl tmpref_impl none_impl none_impl pad 0 (teec_ParamTmpRef_new_input i) (teec_ParamTmpRef_new_output d) ParamNone ParamNone"
  let ?w = "cl_world c" and ?w' = "cl_world c'" and ?p1 = "pm_to_raw tmpref_impl pad (teec_ParamTmpRef_new_output d)"
  from run[unfolded read_secure_object_def Let_def] obtain opn' org where
    call: "teec_invoke T (session_handle session) (SsCommand_into Ss_Read) ?opn ?w = ((TEEC_SUCCESS, opn', org), ?w')"
    by (rule session_invoke_success)
  have t: "TEE_PARAM_TYPE_GET (op_paramTypes ?opn) 0 = TEE_PARAM_TYPE_MEMREF_INPUT"
      "TEE_PARAM_TYPE_GET (op_paramTypes ?opn) 1 = TEE_PARAM_TYPE_MEMREF_OUTPUT"
      "TEE_PARAM_TYPE_GET (op_paramTypes ?opn) 2 = TEE_PARAM_TYPE_NONE" "TEE_PARAM_TYPE_GET (op_paramTypes ?opn) 3 = TEE_PARAM_TYPE_NONE"
    unfolding Operation_new_types by (simp_all add: client_param_defs raw_consts)
  obtain q0 q1 q2 q3 r0 r1 r2 r3 m m' where
    q: "slot_in (cmem ?w) m TEE_PARAM_TYPE_MEMREF_INPUT (pm_to_raw tmpref_impl pad (teec_ParamTmpRef_new_input i)) q0"
      "slot_in (cmem ?w) m TEE_PARAM_TYPE_MEMREF_OUTPUT ?p1 q1"
      "slot_in (cmem ?w) m TEE_PARAM_TYPE_NONE (pm_to_raw none_impl pad ParamNone) q2"
      "slot_in (cmem ?w) m TEE_PARAM_TYPE_NONE (pm_to_raw none_impl pad ParamNone) q3"
    and e: "app_entry (ss_invoke_command Ob cr) (SsCommand_into Ss_Read) (op_paramTypes ?opn) (q0, q1, q2, q3) (m, store ?w) =
      (TEE_SUCCESS, (r0, r1, r2, r3), m', store ?w')"
    and m: "cmem ?w' = copy_back m' TEE_PARAM_TYPE_MEMREF_OUTPUT ?p1 r1 (cmem ?w)"
    by (rule delivered[OF D call Operation_new_params refl, unfolded t copy_back_in])
  note Q0 = slot_input_bytes[OF q(1) i]
  have Q1: "memref_buffer q1 \<noteq> 0" "memref_size q1 = sl_len d"
    using q(2) d unfolding slot_in_def tmpref_slot[OF d] by (auto simp: is_memref_def slice_ok_def)
  let ?q1 = "\<lparr>output_capacity = memref_size q1, output_raw_param = q1\<rparr>"
  let ?a = "(ParameterAny_MemrefInput \<lparr>input_param = q0\<rparr>, ParameterAny_MemrefOutput ?q1, ParameterAny_None, ParameterAny_None)"
  have a: "tuple_from_raw Any_from_raw Any_from_raw Any_from_raw Any_from_raw (op_paramTypes ?opn) (q0, q1, q2, q3) = Inr ?a"
    by (simp only: tuple_from_raw.simps t Any_from_raw_memref(1)[OF Q0(1)] Any_from_raw_memref(2)[OF Q1(1)] Any_from_raw_memref(3) try_bind_Inr)
  from ss_entry_success[OF e a] obtain ps' where
    "ss_invoke_command Ob cr (SsCommand_into Ss_Read) ?a m (store ?w) = (Inr (), ps', m', store ?w')"
    and rs: "(r0, r1, r2, r3) = Any_release (q0, q1, q2, q3) ps'" by blast
  then have rd: "read_raw_object Ob cr ?a m (store ?w) = (Inr (), ps', m', store ?w')"
    unfolding ss_invoke_command_def SsCommand_from_into by simp
  have inv: "MemrefOutput_inv ?q1" using Q1(2) d by (simp add: MemrefOutput_inv_def slice_ok_def)
  obtain x where x: "objs (store ?w) (slice_bytes (cmem ?w) i) = Some x" "length x \<le> sl_len d"
      "ps' = (ParameterAny_MemrefInput \<lparr>input_param = q0\<rparr>, ParameterAny_MemrefOutput (MemrefOutput_set_size (length x) ?q1),
        ParameterAny_None, ParameterAny_None)"
      "mem_read m' (memref_buffer q1) (length x) = x"
    and same: "hnd (store ?w') = hnd (store ?w)" "objs (store ?w') = objs (store ?w)"
    using read_raw_object_effect[OF S _ _ inv rd, of "\<lparr>input_param = q0\<rparr>"] Q0(2) Q1(2)
    by (auto simp: MemrefOutput_buffer_len_def MemrefOutput_buffer_ptr_def)
  have "r1 = set_memref_size (length x) q1" using rs x(3) by (simp add: MemrefOutput_set_size_def)
  moreover have "memref_size (set_memref_size (length x) q1) = length x" "memref_buffer (set_memref_size (length x) q1) = memref_buffer q1"
    using x(2) d by (simp_all add: slice_ok_def usize_modulus_def memref_size_def memref_buffer_def set_memref_size_def unat_of_nat)
  ultimately have "cmem ?w' = mem_write (cmem ?w) (sl_ptr d) x"
    using m x(2,4) tmpref_slot(2)[OF d, of pad] by (simp add: copy_back_def)
  then show ?thesis using same x(1,2) by blast
qed

lemma delete_delivered:
  assumes S: "obj_store_ok Ob objs hnd"
    and D: "delivers (ss_invoke_command Ob cr) T (session_handle session) cmem store"
    and i: "slice_ok i"
    and run: "delete_secure_object T pad session i (c, out) = (Inr (), c', out')"
  shows "cmem (cl_world c') = cmem (cl_world c) \<and> hnd (store (cl_world c')) = hnd (store (cl_world c)) \<and>
    objs (store (cl_world c)) (slice_bytes (cmem (cl_world c)) i) \<noteq> None \<and>
    objs (store (cl_world c')) = (objs (store (cl_world c)))(slice_bytes (cmem (cl_world c)) i := None)"
proof -
  let ?opn = "Operation_new tmpref_impl none_impl none_impl none_impl pad 0 (teec_ParamTmpRef_new_input i) ParamNone ParamNone ParamNone"
  let ?w = "cl_world c" and ?w' = "cl_world c'"
  from run[unfolded delete_secure_object_def Let_def] obtain opn' org where
    call: "teec_invoke T (session_handle session) (SsCommand_into Ss_Delete) ?opn ?w = ((TEEC_SUCCESS, opn', org), ?w')"
    by (rule session_invoke_success)
  have t: "TEE_PARAM_TYPE_GET (op_paramTypes ?opn) 0 = TEE_PARAM_TYPE_MEMREF_INPUT"
      "TEE_PARAM_TYPE_GET (op_paramTypes ?opn) 1 = TEE_PARAM_TYPE_NONE"
      "TEE_PARAM_TYPE_GET (op_paramTypes ?opn) 2 = TEE_PARAM_TYPE_NONE" "TEE_PARAM_TYPE_GET (op_paramTypes ?opn) 3 = TEE_PARAM_TYPE_NONE"
    unfolding Operation_new_types by (simp_all add: client_param_defs raw_consts)
  obtain q0 q1 q2 q3 r0 r1 r2 r3 m m' where
    q: "slot_in (cmem ?w) m TEE_PARAM_TYPE_MEMREF_INPUT (pm_to_raw tmpref_impl pad (teec_ParamTmpRef_new_input i)) q0"
      "slot_in (cmem ?w) m TEE_PARAM_TYPE_NONE (pm_to_raw none_impl pad ParamNone) q1"
      "slot_in (cmem ?w) m TEE_PARAM_TYPE_NONE (pm_to_raw none_impl pad ParamNone) q2"
      "slot_in (cmem ?w) m TEE_PARAM_TYPE_NONE (pm_to_raw none_impl pad ParamNone) q3"
    and e: "app_entry (ss_invoke_command Ob cr) (SsCommand_into Ss_Delete) (op_paramTypes ?opn) (q0, q1, q2, q3) (m, store ?w) =
      (TEE_SUCCESS, (r0, r1, r2, r3), m', store ?w')" and m: "cmem ?w' = cmem ?w"
    by (rule delivered[OF D call Operation_new_params refl, unfolded t copy_back_in])
  note Q0 = slot_input_bytes[OF q(1) i]
  let ?a = "(ParameterAny_MemrefInput \<lparr>input_param = q0\<rparr>, ParameterAny_None, ParameterAny_None, ParameterAny_None)"
  have a: "tuple_from_raw Any_from_raw Any_from_raw Any_from_raw Any_from_raw (op_paramTypes ?opn) (q0, q1, q2, q3) = Inr ?a"
    by (simp only: tuple_from_raw.simps t Any_from_raw_memref(1)[OF Q0(1)] Any_from_raw_memref(3) try_bind_Inr)
  from ss_entry_success[OF e a] obtain ps' where
    "ss_invoke_command Ob cr (SsCommand_into Ss_Delete) ?a m (store ?w) = (Inr (), ps', m', store ?w')" by blast
  then have "delete_object Ob ?a m (store ?w) = (Inr (), store ?w')"
    unfolding ss_invoke_command_def SsCommand_from_into by (auto split: prod.splits)
  from delete_object_effect[OF S _ this] show ?thesis using m Q0(2) by simp
qed

lemma say_simp [simp]: "say l (st, out) = (Inr (), st, out @ [l])"
  by (simp add: say_def)

text \<open>Actions that do not print a given line.\<close>

definition silent :: "string \<Rightarrow> ('w, 'a) ca \<Rightarrow> bool" where
  "silent l a \<longleftrightarrow> (\<forall>st out r st' out'. a (st, out) = (r, st', out') \<longrightarrow> l \<notin> set out \<longrightarrow> l \<notin> set out')"

lemma silentD: "silent l a \<Longrightarrow> a (st, out) = (r, st', out') \<Longrightarrow> l \<notin> set out \<Longrightarrow> l \<notin> set out'"
  unfolding silent_def by blast

lemma silent_say: "l \<noteq> l' \<Longrightarrow> silent l (say l')"
  by (simp add: silent_def)

lemma silent_bind:
  assumes "silent l a" and "\<And>x. silent l (f x)"
  shows "silent l (io_bind a f)"
  unfolding silent_def
proof (intro allI impI)
  fix st out r st' out'
  assume run: "io_bind a f (st, out) = (r, st', out')" and n: "l \<notin> set out"
  obtain x s1 o1 where a: "a (st, out) = (x, s1, o1)" by (metis surj_pair)
  from silentD[OF assms(1) a n] have n1: "l \<notin> set o1" .
  show "l \<notin> set out'"
  proof (cases x)
    case (Inl e)
    then show ?thesis using run a n1 by (simp add: io_bind_eq)
  next
    case (Inr y)
    then have "f y (s1, o1) = (r, st', out')" using run a by (simp add: io_bind_eq)
    from silentD[OF assms(2) this n1] show ?thesis .
  qed
qed

lemma silent_invoke: "silent l (session_invoke T session cmd opn)"
  by (auto simp: silent_def session_invoke_def split: prod.splits)

lemma silent_calls:
  "silent UNEXPECTED (read_secure_object T pad session i d)" "silent UNEXPECTED (write_secure_object T pad session i d)"
  "silent UNEXPECTED (delete_secure_object T pad session i)"
  unfolding read_secure_object_def write_secure_object_def delete_secure_object_def Let_def
  by (intro silent_bind silent_invoke silent_say; simp add: UNEXPECTED_def)+

lemma fmt_not_unexpected: "teec_Error_fmt e \<noteq> UNEXPECTED"
proof
  assume "teec_Error_fmt e = UNEXPECTED"
  then have "last (teec_Error_fmt e) = last UNEXPECTED" by simp
  then show False by (simp add: teec_Error_fmt_def UNEXPECTED_def)
qed

lemma silent_ask: "silent l (io_ask g)"
  by (simp add: silent_def io_ask_def)

lemma silent_second: "silent UNEXPECTED (main_second T pad L session)"
proof -
  have test: "UNEXPECTED \<noteq> test_line n" for n by (simp add: test_line_def UNEXPECTED_def)
  have lines: "UNEXPECTED \<noteq> ''- Object not found in TA secure storage, create it''"
      "UNEXPECTED \<noteq> ''- Object found in TA secure storage, delete it''" "UNEXPECTED \<noteq> teec_Error_fmt e" for e
    using fmt_not_unexpected[of e] by (simp_all add: UNEXPECTED_def)
  have "UNEXPECTED \<notin> set out'"
    if run: "(case read_secure_object T pad session (obj2_id L) (read_data L) (st, out) of
         (Inl e, s1) \<Rightarrow>
           if teec_kind e \<noteq> Teec_ItemNotFound then io_bind (say (teec_Error_fmt e)) (\<lambda>_. io_ask (\<lambda>_. Inl e)) s1
           else io_bind (say ''- Object not found in TA secure storage, create it'') (\<lambda>_.
                  write_secure_object T pad session (obj2_id L) (obj2_data L)) s1
       | (Inr _, s1) \<Rightarrow>
           io_bind (say ''- Object found in TA secure storage, delete it'') (\<lambda>_.
             delete_secure_object T pad session (obj2_id L)) s1) = (r, st', out')" and n: "UNEXPECTED \<notin> set out" for st out r st' out'
  proof -
    obtain x s1 o1 where a: "read_secure_object T pad session (obj2_id L) (read_data L) (st, out) = (x, s1, o1)" by (metis surj_pair)
    from silentD[OF silent_calls(1) a n] have n1: "UNEXPECTED \<notin> set o1" .
    consider (err) e where "io_bind (say (teec_Error_fmt e)) (\<lambda>_. io_ask (\<lambda>_. Inl e)) (s1, o1) = (r, st', out')"
      | (new) "io_bind (say ''- Object not found in TA secure storage, create it'') (\<lambda>_.
          write_secure_object T pad session (obj2_id L) (obj2_data L)) (s1, o1) = (r, st', out')"
      | (old) "io_bind (say ''- Object found in TA secure storage, delete it'') (\<lambda>_.
          delete_secure_object T pad session (obj2_id L)) (s1, o1) = (r, st', out')"
      using run a by (cases x) (auto split: if_splits)
    then show ?thesis
    proof cases
      case err
      have "silent UNEXPECTED (io_bind (say (teec_Error_fmt e)) (\<lambda>_. io_ask (\<lambda>_. Inl e)))" by (intro silent_bind silent_say silent_ask lines(3))
      then show ?thesis using err n1 unfolding silent_def by blast
    next
      case new
      have "silent UNEXPECTED (io_bind (say ''- Object not found in TA secure storage, create it'') (\<lambda>_.
          write_secure_object T pad session (obj2_id L) (obj2_data L)))" by (intro silent_bind silent_say silent_calls lines(1))
      from silentD[OF this new n1] show ?thesis .
    next
      case old
      have "silent UNEXPECTED (io_bind (say ''- Object found in TA secure storage, delete it'') (\<lambda>_.
          delete_secure_object T pad session (obj2_id L)))" by (intro silent_bind silent_say silent_calls lines(2))
      from silentD[OF this old n1] show ?thesis .
    qed
  qed
  then show ?thesis unfolding main_second_def
    by (intro silent_bind silent_say test) (simp add: silent_def)
qed

lemma ca_exec_refines:
  assumes S: "obj_store_ok Ob objs hnd" and W: "obj_write_ok Ob objs hnd"
    and D: "delivers (ss_invoke_command Ob cr) T (session_handle session) cmem store" and k: "ca_call_ok k"
    and run: "ca_exec T pad session k (c, out) = (Inr (), c', out')"
  shows "hnd (store (cl_world c')) = hnd (store (cl_world c)) \<and>
    (objs (store (cl_world c')), cmem (cl_world c')) = ca_spec k (objs (store (cl_world c)), cmem (cl_world c))"
proof (cases k)
  case (CaWrite i d)
  then show ?thesis using write_delivered[OF S W D _ _ run[unfolded CaWrite ca_exec.simps]] k by simp
next
  case (CaRead i d)
  then show ?thesis using read_delivered[OF S D _ _ run[unfolded CaRead ca_exec.simps]] k by auto
next
  case (CaDelete i)
  then show ?thesis using delete_delivered[OF S D _ run[unfolded CaDelete ca_exec.simps]] k by simp
qed

lemma ca_run_refines:
  assumes S: "obj_store_ok Ob objs hnd" and W: "obj_write_ok Ob objs hnd"
    and D: "delivers (ss_invoke_command Ob cr) T (session_handle session) cmem store" and k: "list_all ca_call_ok ks"
    and run: "ca_run T pad session ks (c, out) = (Inr (), c', out')"
  shows "hnd (store (cl_world c')) = hnd (store (cl_world c)) \<and>
    (objs (store (cl_world c')), cmem (cl_world c')) = fold ca_spec ks (objs (store (cl_world c)), cmem (cl_world c))"
  using k run
proof (induction ks arbitrary: c out)
  case Nil
  then show ?case by (simp add: io_return_def)
next
  case (Cons k ks)
  obtain r c1 out1 where e: "ca_exec T pad session k (c, out) = (r, c1, out1)" by (metis surj_pair)
  with Cons.prems(2) have r: "r = Inr ()" "ca_run T pad session ks (c1, out1) = (Inr (), c', out')"
    by (auto simp: io_bind_eq split: sum.splits)
  from Cons.IH[OF _ r(2)] ca_exec_refines[OF S W D _ e[unfolded r(1)]] Cons.prems(1) show ?case by simp
qed

lemma ss_locals_slices:
  assumes "ss_locals_ok m L"
  shows "slice_ok (obj1_id L)" "slice_ok (obj1_data L)" "slice_ok (read_data L)"
    "sl_len (obj1_data L) = TEST_OBJECT_SIZE" "sl_len (read_data L) = TEST_OBJECT_SIZE"
proof -
  have len: "sl_len s = length (slice_bytes m s)" for s by (simp add: slice_bytes_def)
  have "slice_bytes m (obj1_id L) = as_bytes ''object#1'' @ [0]"
    using assms by (auto simp: ss_locals_ok_def CString_new_def split: if_splits)
  then show "slice_ok (obj1_id L)" using assms by (simp add: slice_ok_def len ss_locals_ok_def usize_modulus_def)
  show l: "sl_len (obj1_data L) = TEST_OBJECT_SIZE" "sl_len (read_data L) = TEST_OBJECT_SIZE"
    using assms unfolding len by (simp_all add: ss_locals_ok_def)
  show "slice_ok (obj1_data L)" "slice_ok (read_data L)"
    using assms by (simp_all add: slice_ok_def l ss_locals_ok_def usize_modulus_def TEST_OBJECT_SIZE_def)
qed

text \<open>The comparison of \<^verbatim>\<open>main\<close> succeeds: what was read is what was written.\<close>

lemma read_back:
  assumes S: "obj_store_ok Ob objs hnd" and W: "obj_write_ok Ob objs hnd"
    and D: "delivers (ss_invoke_command Ob cr) T (session_handle session) cmem store" and L: "ss_locals_ok (cmem (cl_world c)) L"
    and wr: "write_secure_object T pad session (obj1_id L) (obj1_data L) (c, out) = (Inr (), c1, out1)"
    and rd: "read_secure_object T pad session (obj1_id L) (read_data L) (c1, out1) = (Inr (), c2, out2)"
  shows "slice_bytes (cmem (cl_world c2)) (obj1_data L) = slice_bytes (cmem (cl_world c2)) (read_data L)"
proof -
  note l = ss_locals_slices[OF L]
  let ?m = "cmem (cl_world c)" and ?m2 = "cmem (cl_world c2)"
  let ?d = "slice_bytes ?m (obj1_data L)"
  have d: "length ?d = TEST_OBJECT_SIZE" using l(4) by (simp add: slice_bytes_def)
  note w = write_delivered[OF S W D l(1,2) wr] and r = read_delivered[OF S D l(1,3) rd]
  from w r have m2: "?m2 = mem_write ?m (sl_ptr (read_data L)) ?d" by auto
  have "slice_bytes ?m2 (read_data L) = ?d"
    using mem_read_write[of ?d ?m "sl_ptr (read_data L)"] d l(5) by (simp add: slice_bytes_def m2 usize_modulus_def TEST_OBJECT_SIZE_def)
  moreover have "mem_read ?m2 (sl_ptr (obj1_data L)) (sl_len (obj1_data L)) = mem_read ?m (sl_ptr (obj1_data L)) (sl_len (obj1_data L))"
  proof (rule mem_read_cong)
    fix a assume "a \<in> region (sl_ptr (obj1_data L)) (sl_len (obj1_data L))"
    then have "a \<notin> region (sl_ptr (read_data L)) (length ?d)" using L l(4) d by (auto simp: ss_locals_ok_def)
    then show "?m2 a = ?m a" unfolding m2 by (rule mem_write_outside)
  qed (simp add: l(4) TEST_OBJECT_SIZE_def usize_modulus_def)
  ultimately show ?thesis by (simp add: slice_bytes_def)
qed

lemma silent_first:
  assumes S: "obj_store_ok Ob objs hnd" and W: "obj_write_ok Ob objs hnd"
    and D: "delivers (ss_invoke_command Ob cr) T (session_handle session) cmem store" and L: "ss_locals_ok (cmem (cl_world c)) L"
    and run: "main_first T pad cmem L session (c, out) = (r, c', out')" and n: "UNEXPECTED \<notin> set out"
  shows "UNEXPECTED \<notin> set out'"
proof -
  let ?o = "out @ [test_line ''object#1'']"
  have n0: "UNEXPECTED \<notin> set ?o" using n by (simp add: test_line_def UNEXPECTED_def)
  obtain r1 c1 o1 where wr: "write_secure_object T pad session (obj1_id L) (obj1_data L) (c, ?o) = (r1, c1, o1)" by (metis surj_pair)
  have n1: "UNEXPECTED \<notin> set o1" by (rule silentD[OF silent_calls(2) wr n0])
  obtain r2 c2 o2 where rd: "read_secure_object T pad session (obj1_id L) (read_data L) (c1, o1) = (r2, c2, o2)" by (metis surj_pair)
  have n2: "UNEXPECTED \<notin> set o2" by (rule silentD[OF silent_calls(1) rd n1])
  show ?thesis
  proof (cases "r1 = Inr () \<and> r2 = Inr ()")
    case False
    then show ?thesis using run wr rd n1 n2
      by (cases r1; cases r2) (auto simp: main_first_def io_bind_eq)
  next
    case True
    let ?m = "cmem (cl_world c2)"
    have "slice_bytes ?m (obj1_data L) = slice_bytes ?m (read_data L)"
      using read_back[OF S W D L] wr rd True by blast
    then have eq: "list_all (\<lambda>(a, b). a = b) (zip (slice_bytes ?m (obj1_data L)) (slice_bytes ?m (read_data L)))"
      by (auto simp: list_all_iff zip_same)
    have "delete_secure_object T pad session (obj1_id L) (c2, o2 @ [''- Content read-out correctly'']) = (r, c', out')"
      using run wr rd True eq by (simp add: main_first_def io_bind_eq io_ask_def)
    moreover have "UNEXPECTED \<notin> set (o2 @ [''- Content read-out correctly''])" using n2 by (simp add: UNEXPECTED_def)
    ultimately show ?thesis by (rule silentD[OF silent_calls(3)])
  qed
qed

lemma quiet_open:
  assumes Q: "quiet T cmem" and o: "open_session T ctx uuid c = Some (r, opn, c')"
  shows "cmem (cl_world c') = cmem (cl_world c)"
proof -
  have drop: "cmem (cl_world (arc_drop T a st)) = cmem (cl_world st)" for a st
    using Q by (auto simp: arc_drop_def InnerContext_drop_def quiet_def split: option.splits)
  have keep: "cmem (snd (teec_open T a u l opn w)) = cmem w" for a u l opn w using Q by (simp add: quiet_def)
  show ?thesis
    using o keep
    by (auto simp: open_session_def open_session_with_login_def Session_new_def inner_context_def arc_clone_def Let_def drop
        split: option.splits prod.splits sum.splits) (metis snd_conv)+
qed

lemma quiet_context:
  assumes Q: "quiet T cmem" and "Context_new T c = (r, c')"
  shows "cmem (cl_world c') = cmem (cl_world c)"
proof -
  have "cmem (snd (teec_initialize T (cl_world c))) = cmem (cl_world c)" using Q by (simp add: quiet_def)
  then show ?thesis using assms(2) by (auto simp: Context_new_def arc_new_def Let_def split: prod.splits sum.splits)
qed

section \<open>Properties\<close>

text \<open>
  C2.  Client and application together are a map.  Whatever sequence of writes, reads and deletions a client
  sends through a session, over a TEE that delivers calls and an object store that behaves as documented: if
  all of them succeed, the objects afterwards are those that the sequence leaves in a map from identifiers to
  data, every read has put exactly the data of its object at the start of its buffer, no other byte of the
  memory of the client has changed, and no object is left open.
\<close>

theorem secure_storage_end_to_end:
  assumes "obj_store_ok Ob objs hnd" and "obj_write_ok Ob objs hnd"
    and "delivers (ss_invoke_command Ob cr) T (session_handle session) cmem store" and "list_all ca_call_ok ks"
    and "ca_run T pad session ks (c, out) = (Inr (), c', out')"
  shows "hnd (store (cl_world c')) = hnd (store (cl_world c)) \<and>
    (objs (store (cl_world c')), cmem (cl_world c')) = fold ca_spec ks (objs (store (cl_world c)), cmem (cl_world c))"
  by (rule ca_run_refines[OF assms])

theorem secure_storage_end_to_end_witness:
  "\<exists>c' out'. ca_run (ref_tee (ss_invoke_command ref_storage_api (\<lambda>_. True))) (0, 0) \<lparr>session_handle = 1, session_ctx = 0\<rparr>
       [CaRead \<lparr>sl_ptr = 16, sl_len = 1\<rparr> \<lparr>sl_ptr = 64, sl_len = 3\<rparr>]
       (\<lparr>cl_arcs = Map.empty, cl_next = 0,
         cl_world = (\<lambda>a. ucast a, \<lparr>rs_objs = [[16] \<mapsto> [1, 2]], rs_open = Map.empty, rs_next = 1\<rparr>, 2)\<rparr>, []) = (Inr (), c', out') \<and>
     rs_objs (fst (snd (cl_world c'))) = [[16] \<mapsto> [1, 2]] \<and> mem_read (fst (cl_world c')) 64 3 = [1, 2, 66]"
proof -
  let ?f = "ss_invoke_command ref_storage_api (\<lambda>_. True)"
  let ?i = "\<lparr>sl_ptr = 16, sl_len = 1\<rparr>" and ?d = "\<lparr>sl_ptr = 64, sl_len = 3\<rparr>" and ?s = "\<lparr>session_handle = 1, session_ctx = 0\<rparr>"
  let ?v = "\<lparr>rs_objs = [[16] \<mapsto> [1, 2]], rs_open = Map.empty, rs_next = 1\<rparr>"
  let ?c = "\<lparr>cl_arcs = Map.empty, cl_next = 0, cl_world = (\<lambda>a. ucast a, ?v, 2)\<rparr>"
  let ?opn = "Operation_new tmpref_impl tmpref_impl none_impl none_impl (0, 0) 0 (teec_ParamTmpRef_new_input ?i) (teec_ParamTmpRef_new_output ?d)
      ParamNone ParamNone"
  let ?q0 = "\<lparr>par_w0 = 16, par_w1 = 1\<rparr>" and ?q1 = "\<lparr>par_w0 = 64, par_w1 = 3\<rparr>"
  let ?a = "(ParameterAny_MemrefInput \<lparr>input_param = ?q0\<rparr>, ParameterAny_MemrefOutput \<lparr>output_capacity = 3, output_raw_param = ?q1\<rparr>,
      ParameterAny_None, ParameterAny_None)"
  have t: "TEE_PARAM_TYPE_GET (op_paramTypes ?opn) 0 = TEE_PARAM_TYPE_MEMREF_INPUT"
      "TEE_PARAM_TYPE_GET (op_paramTypes ?opn) 1 = TEE_PARAM_TYPE_MEMREF_OUTPUT"
      "TEE_PARAM_TYPE_GET (op_paramTypes ?opn) 2 = TEE_PARAM_TYPE_NONE" "TEE_PARAM_TYPE_GET (op_paramTypes ?opn) 3 = TEE_PARAM_TYPE_NONE"
    unfolding Operation_new_types by (simp_all add: client_param_defs raw_consts)
  have slots: "same_slot (pm_to_raw tmpref_impl (0, 0) (teec_ParamTmpRef_new_input ?i)) = ?q0"
      "same_slot (pm_to_raw tmpref_impl (0, 0) (teec_ParamTmpRef_new_output ?d)) = ?q1"
    by (simp_all add: client_param_defs Parameter_of_tmpref_def)
  have q: "memref_buffer ?q0 \<noteq> 0" "memref_buffer ?q1 \<noteq> 0" "memref_size ?q1 = 3" by (simp_all add: memref_buffer_def memref_size_def)
  have a: "tuple_from_raw Any_from_raw Any_from_raw Any_from_raw Any_from_raw (op_paramTypes ?opn) (?q0, ?q1, x, y) = Inr ?a" for x y
    by (simp only: tuple_from_raw.simps t Any_from_raw_memref(1)[OF q(1)] Any_from_raw_memref(2)[OF q(2)] Any_from_raw_memref(3) try_bind_Inr q(3))
  have id: "input_bytes (\<lambda>a. ucast a) \<lparr>input_param = ?q0\<rparr> = [16]"
    by (simp add: input_bytes_def MemrefInput_buffer_len_def MemrefInput_buffer_ptr_def memref_size_def memref_buffer_def mem_read_def)
  have "\<exists>ps' m' v'. ?f (SsCommand_into Ss_Read) ?a (\<lambda>a. ucast a) ?v = (Inr (), ps', m', v')"
    by (simp add: ss_invoke_command_def SsCommand_from_def read_raw_object_def id ref_storage_api_def ref_obj_api_def rs_hand_out_def
        PersistentObject_open_def tee_check_def ObjectHandle_from_raw_def obj_info_def po_raw_def ObjectInfo_from_raw_def ref_info_def
        data_size_def MemrefOutput_buffer_len_def read_remaining_to_vec_def po_read_def overwrite_def put_output_def Let_def)
  then obtain ps' m' v' where f: "?f (SsCommand_into Ss_Read) ?a (\<lambda>a. ucast a) ?v = (Inr (), ps', m', v')" by blast
  from ref_tee_success[where f = ?f, OF Operation_new_params _ f] a slots obtain opn' m'' where
    "teec_invoke (ref_tee ?f) 1 (SsCommand_into Ss_Read) ?opn (\<lambda>a. ucast a, ?v, 2) = ((TEEC_SUCCESS, opn', 4), m'', v', 2)" by metis
  then have "\<exists>c' out'. ca_run (ref_tee ?f) (0, 0) ?s [CaRead ?i ?d] (?c, []) = (Inr (), c', out')"
    by (simp add: io_bind_eq io_return_def read_secure_object_def session_invoke_def teec_invoke_command_def
        teec_check_with_origin_def Let_def)
  then obtain c' out' where run: "ca_run (ref_tee ?f) (0, 0) ?s [CaRead ?i ?d] (?c, []) = (Inr (), c', out')" by blast
  have "list_all ca_call_ok [CaRead ?i ?d]" by (simp add: slice_ok_def usize_modulus_def)
  from secure_storage_end_to_end[OF ref_storage_ok ref_tee_delivers this run]
  have "(rs_objs (fst (snd (cl_world c'))), fst (cl_world c')) = ([[16] \<mapsto> [1, 2]], mem_write (\<lambda>a. ucast a) 64 [1, 2])"
    by (simp add: slice_bytes_def mem_read_def)
  then show ?thesis using run by (auto simp: mem_read_def mem_write_def upt_rec)
qed

text \<open>
  C4.  The client program finds its data.  Whatever fails on the way, over a TEE that delivers the calls of its
  sessions the program never prints that it found unexpected content.
\<close>

theorem client_finds_its_data:
  assumes S: "obj_store_ok Ob objs hnd" and W: "obj_write_ok Ob objs hnd"
    and D: "\<And>s. delivers (ss_invoke_command Ob cr) T s cmem store" and Q: "quiet T cmem"
    and L: "ss_locals_ok (cmem (cl_world c)) L" and run: "ss_main T U pad cmem L c = Some (r, out, c')"
  shows "UNEXPECTED \<notin> set out"
proof -
  obtain rc c1 where cn: "Context_new T c = (rc, c1)" by (metis surj_pair)
  consider (early) "out = []" | (session) s opn c2 c3 where "open_session T (projr rc) (projr (teec_Uuid_parse_str U SS_UUID)) c1 = Some (Inr s, opn, c2)"
      "io_bind (main_first T pad cmem L s) (\<lambda>_. io_bind (main_second T pad L s) (\<lambda>_.
         say (CHR 0x0A # ''We''@[CHR 0x27]@''re done, close and release TEE resources''))) (c2, []) = (r, c3, out)"
    using run cn by (auto simp: ss_main_def split: sum.splits option.splits prod.splits)
  then show ?thesis
  proof cases
    case early
    then show ?thesis by simp
  next
    case session
    have "cmem (cl_world c2) = cmem (cl_world c)" using quiet_context[OF Q cn] quiet_open[OF Q session(1)] by simp
    then have L2: "ss_locals_ok (cmem (cl_world c2)) L" using L by simp
    obtain r1 c4 o1 where f: "main_first T pad cmem L s (c2, []) = (r1, c4, o1)" by (metis surj_pair)
    have n: "UNEXPECTED \<notin> set o1" by (rule silent_first[OF S W D L2 f]) simp
    have rest: "silent UNEXPECTED (io_bind (main_second T pad L s) (\<lambda>_.
        say (CHR 0x0A # ''We''@[CHR 0x27]@''re done, close and release TEE resources'')))"
      by (intro silent_bind silent_second silent_say) (simp add: UNEXPECTED_def)
    show ?thesis using session(2) f n silentD[OF rest _ n] by (cases r1) (auto simp: io_bind_eq[of "main_first T pad cmem L s"])
  qed
qed

text \<open>A memory with the local variables in five places.\<close>

definition example_locals :: ss_locals where
  "example_locals = \<lparr>obj1_id = \<lparr>sl_ptr = 0x1000, sl_len = 9\<rparr>, obj1_data = \<lparr>sl_ptr = 0x10000, sl_len = 7000\<rparr>,
     read_data = \<lparr>sl_ptr = 0x20000, sl_len = 7000\<rparr>, obj2_id = \<lparr>sl_ptr = 0x2000, sl_len = 9\<rparr>, obj2_data = \<lparr>sl_ptr = 0x30000, sl_len = 7000\<rparr>\<rparr>"

definition example_memory :: mem where
  "example_memory a =
     (let n = unat a in
      if n < 0x2000 then (as_bytes ''object#1'' @ [0]) ! (n - 0x1000)
      else if n < 0x10000 then (as_bytes ''object#2'' @ [0]) ! (n - 0x2000)
      else if n < 0x20000 then 0xA1 else if n < 0x30000 then 0 else 0xB1)"

lemma mem_read_pointwise:
  assumes "length xs = n" and "\<And>i. i < n \<Longrightarrow> m (p + of_nat i) = xs ! i"
  shows "mem_read m p n = xs"
  using assms by (intro nth_equalityI) simp_all

lemma example_locals_ok: "ss_locals_ok example_memory example_locals"
proof -
  have u: "unat (p + of_nat i :: u64) = unat p + i" if "unat p < 0x40000" "i < 7000" for p i
    using that by (simp add: unat_word_ariths unat_of_nat)
  have "slice_bytes example_memory (obj1_id example_locals) = as_bytes ''object#1'' @ [0]"
    "slice_bytes example_memory (obj2_id example_locals) = as_bytes ''object#2'' @ [0]"
    "slice_bytes example_memory (obj1_data example_locals) = replicate 7000 0xA1"
    "slice_bytes example_memory (read_data example_locals) = replicate 7000 0"
    "slice_bytes example_memory (obj2_data example_locals) = replicate 7000 0xB1"
    unfolding slice_bytes_def
    by (rule mem_read_pointwise; simp add: example_locals_def example_memory_def u Let_def)+
  moreover have "region 0x10000 7000 \<inter> region (0x20000 :: u64) 7000 = {}"
  proof -
    have False if "unat (a - 0x10000) < 7000" "unat (a - 0x20000) < 7000" for a :: u64
      using that by (unat_arith; simp)
    then show ?thesis by (auto simp: region_def)
  qed
  ultimately show ?thesis
    by (simp add: ss_locals_ok_def example_locals_def TEST_OBJECT_SIZE_def CString_new_def as_bytes_def)
qed

theorem client_finds_its_data_witness:
  "\<exists>r out c'. ss_main (ref_tee (ss_invoke_command ref_storage_api (\<lambda>_. True))) uuid_ref (0, 0) fst example_locals
       \<lparr>cl_arcs = Map.empty, cl_next = 0, cl_world = (example_memory, rs_empty, 1)\<rparr> = Some (r, out, c') \<and> UNEXPECTED \<notin> set out"
proof -
  let ?T = "ref_tee (ss_invoke_command ref_storage_api (\<lambda>_. True))"
  let ?c = "\<lparr>cl_arcs = Map.empty, cl_next = 0, cl_world = (example_memory, rs_empty, 1)\<rparr>"
  have "ss_main ?T uuid_ref (0, 0) fst example_locals ?c \<noteq> None"
    by (simp add: ss_main_def Context_new_def ref_tee_def teec_check_def arc_new_def open_session_def open_session_with_login_def
        Session_new_def inner_context_def arc_clone_def teec_check_with_origin_def Let_def split: sum.splits prod.splits)
  then obtain r out c' where run: "ss_main ?T uuid_ref (0, 0) fst example_locals ?c = Some (r, out, c')"
    by (metis not_None_eq surj_pair)
  have "quiet ?T fst" by (simp add: quiet_def ref_tee_def split_beta)
  from client_finds_its_data[OF ref_storage_ok ref_tee_delivers this _ run] example_locals_ok run show ?thesis by simp
qed

end
