(* ===== verification/HotpTa.thy ===== *)
theory HotpTa
  imports ParamBytes CryptoLifecycle
begin

text \<open>
  The one-time-password example: \<^verbatim>\<open>examples/ta/hotp-rs/src/main.rs\<close> and the commands of
  \<^verbatim>\<open>examples/ta/proto/src/hotp.rs\<close>, over the wrappers for MAC operations and transient objects.

  \<open>overflow_checks\<close> tells whether the application is compiled with overflow checks, as a debug
  build is; a panic is \<open>Aborts\<close>.  \<open>to_vec\<close> places a private copy of some bytes in memory and
  \<open>init_ref\<close> is \<^verbatim>\<open>TEE_InitRefAttribute\<close>.
\<close>

section \<open>Definitions\<close>

definition SHA1_HASH_SIZE :: usize where "SHA1_HASH_SIZE = 20"
definition MAX_KEY_SIZE :: usize where "MAX_KEY_SIZE = 64"
definition MIN_KEY_SIZE :: usize where "MIN_KEY_SIZE = 10"
definition DBC2_MODULO :: u32 where "DBC2_MODULO = 1000000"

record HmacOtp =
  hotp_counter :: bytes
  hotp_key :: bytes
  hotp_key_len :: usize

definition HmacOtp_default :: HmacOtp where
  "HmacOtp_default = \<lparr>hotp_counter = replicate 8 0, hotp_key = replicate MAX_KEY_SIZE 0, hotp_key_len = 0\<rparr>"

datatype HotpCommand = RegisterSharedKey | GetHOTP | Hotp_Unknown

definition HotpCommand_from :: "u32 \<Rightarrow> HotpCommand" where
  "HotpCommand_from n = (if n = 0 then RegisterSharedKey else if n = 1 then GetHOTP else Hotp_Unknown)"

definition register_shared_key :: "HmacOtp \<Rightarrow> ParametersAny \<Rightarrow> mem \<Rightarrow> (Error + unit) \<times> HmacOtp" where
  "register_shared_key hotp params m =
     (case params of (p0, _, _, _) \<Rightarrow>
        (case as_memref_input p0 of
           Inl e \<Rightarrow> (Inl e, hotp)
         | Inr p0 \<Rightarrow>
             let buffer = input_bytes m p0 in
             if length buffer < MIN_KEY_SIZE \<or> length buffer > MAX_KEY_SIZE then (Inl (Error_from BadParameters), hotp)
             else (Inr (), hotp\<lparr>hotp_key_len := length buffer, hotp_key := overwrite (hotp_key hotp) 0 buffer\<rparr>)))"

text \<open>Leaving \<^verbatim>\<open>hmac_sha1\<close> drops the key object and then the operation.\<close>

definition hmac_leave ::
    "'w crypto_api \<Rightarrow> 'w obj_api \<Rightarrow> Mac \<Rightarrow> TransientObject \<Rightarrow> Error + usize \<Rightarrow> bytes \<Rightarrow> 'w \<Rightarrow> boxes \<Rightarrow>
     ((Error + usize) \<times> bytes \<times> 'w \<times> boxes) run" where
  "hmac_leave T Ob mac key_object r out w b =
     run_map (\<lambda>(w', b'). (r, out, w', b')) (OperationHandle_drop T (mac_op mac) (TransientObject_drop Ob key_object w) b)"

text \<open>From \<^verbatim>\<open>mac.set_key\<close> on.\<close>

definition hmac_keyed ::
    "'w crypto_api \<Rightarrow> 'w obj_api \<Rightarrow> Mac \<Rightarrow> TransientObject \<Rightarrow> bytes \<Rightarrow> bytes \<Rightarrow> 'w \<Rightarrow> boxes \<Rightarrow>
     ((Error + usize) \<times> bytes \<times> 'w \<times> boxes) run" where
  "hmac_keyed T Ob mac key_object counter out w b =
     run_bind (Mac_set_key T b mac (to_raw key_object) w) (\<lambda>(r, w1).
       case r of
         Inl e \<Rightarrow> hmac_leave T Ob mac key_object (Inl e) out w1 b
       | Inr _ \<Rightarrow>
           run_bind (Mac_init T b mac [] w1) (\<lambda>w2.
           run_bind (Mac_update T b mac counter w2) (\<lambda>w3.
           run_bind (Mac_compute_final T b mac [] out w3) (\<lambda>(r, out', w4).
             hmac_leave T Ob mac key_object r out' w4 b))))"

definition hmac_sha1 ::
    "'w crypto_api \<Rightarrow> 'w obj_api \<Rightarrow> allocator \<Rightarrow> (bytes \<Rightarrow> 'w \<Rightarrow> slice \<times> 'w) \<Rightarrow>
     (TEE_Attribute \<Rightarrow> u32 \<Rightarrow> u64 \<Rightarrow> usize \<Rightarrow> TEE_Attribute) \<Rightarrow> HmacOtp \<Rightarrow> bytes \<Rightarrow> 'w \<Rightarrow> boxes \<Rightarrow>
     ((Error + usize) \<times> bytes \<times> 'w \<times> boxes) run" where
  "hmac_sha1 T Ob alloc to_vec init_ref hotp out w b =
     (if hotp_key_len hotp < MIN_KEY_SIZE \<or> hotp_key_len hotp > MAX_KEY_SIZE
      then Finishes (Inl (Error_from BadParameters), out, w, b)
      else run_bind (Mac_allocate T alloc Alg_HmacSha1 (hotp_key_len hotp * 8) w b) (\<lambda>(r, w1, b1).
        case r of
          Inl e \<Rightarrow> Finishes (Inl e, out, w1, b1)
        | Inr mac \<Rightarrow>
            (case TransientObject_allocate Ob (TransientObjectType_code Type_HmacSha1) (hotp_key_len hotp * 8) w1 of
               (Inl e, w2) \<Rightarrow> run_map (\<lambda>(w', b'). (Inl e, out, w', b')) (OperationHandle_drop T (mac_op mac) w2 b1)
             | (Inr key_object, w2) \<Rightarrow>
                 (case to_vec (take (hotp_key_len hotp) (hotp_key hotp)) w2 of
                    (tmp_key, w3) \<Rightarrow>
                      (case TransientObject_populate Ob key_object
                              [AttributeMemref_from_ref init_ref (AttributeId_code Attr_SecretValue) tmp_key] w3 of
                         (Inl e, w4) \<Rightarrow> hmac_leave T Ob mac key_object (Inl e) out w4 b1
                       | (Inr _, w4) \<Rightarrow>
                           hmac_keyed T Ob mac key_object (hotp_counter hotp) out w4 b1)))))"

text \<open>\<^verbatim>\<open>for i in (0..len).rev()\<close>: \<open>i\<close> counters remain.\<close>

fun counter_loop :: "bool \<Rightarrow> nat \<Rightarrow> bytes \<Rightarrow> bytes outcome" where
  "counter_loop overflow_checks 0 c = Returns c"
| "counter_loop overflow_checks (Suc i) c =
     (if overflow_checks \<and> c ! i = 255 then Panics
      else let c' = c[i := c ! i + 1] in if c' ! i > 0 then Returns c' else counter_loop overflow_checks i c')"

text \<open>Indexing past the end panics.\<close>

definition otp_truncate :: "bytes \<Rightarrow> u32 outcome" where
  "otp_truncate hmac_result =
     (if length hmac_result \<le> 19 then Panics
      else let offset = unat (hmac_result ! 19 AND 0xf) in
        if length hmac_result \<le> offset + 3 then Panics
        else let bin_code =
               or (or (or (push_bit 24 (ucast (hmac_result ! offset AND 0x7f)))
                          (push_bit 16 (ucast (hmac_result ! (offset + 1)))))
                      (push_bit 8 (ucast (hmac_result ! (offset + 2)))))
                  (ucast (hmac_result ! (offset + 3)) :: u32)
             in Returns (bin_code mod DBC2_MODULO))"

definition get_hotp ::
    "'w crypto_api \<Rightarrow> 'w obj_api \<Rightarrow> allocator \<Rightarrow> (bytes \<Rightarrow> 'w \<Rightarrow> slice \<times> 'w) \<Rightarrow>
     (TEE_Attribute \<Rightarrow> u32 \<Rightarrow> u64 \<Rightarrow> usize \<Rightarrow> TEE_Attribute) \<Rightarrow> bool \<Rightarrow> HmacOtp \<Rightarrow> ParametersAny \<Rightarrow> 'w \<Rightarrow> boxes \<Rightarrow>
     ((Error + unit) \<times> HmacOtp \<times> ParametersAny \<times> 'w \<times> boxes) run" where
  "get_hotp T Ob alloc to_vec init_ref overflow_checks hotp params w b =
     (case params of (p0, p1, p2, p3) \<Rightarrow>
        run_bind (hmac_sha1 T Ob alloc to_vec init_ref hotp (replicate SHA1_HASH_SIZE 0) w b) (\<lambda>(r, mac, w1, b1).
          case r of
            Inl e \<Rightarrow> Finishes (Inl e, hotp, params, w1, b1)
          | Inr _ \<Rightarrow>
              (case counter_loop overflow_checks (length (hotp_counter hotp)) (hotp_counter hotp) of
                 Panics \<Rightarrow> Aborts
               | Returns c \<Rightarrow>
                   (case otp_truncate mac of
                      Panics \<Rightarrow> Aborts
                    | Returns hotp_val \<Rightarrow>
                        (case as_value_output p0 of
                           Inl e \<Rightarrow> Finishes (Inl e, hotp\<lparr>hotp_counter := c\<rparr>, params, w1, b1)
                         | Inr q0 \<Rightarrow>
                             Finishes (Inr (), hotp\<lparr>hotp_counter := c\<rparr>,
                               (ParameterAny_ValueOutput (ValueOutput_set_a hotp_val q0), p1, p2, p3), w1, b1))))))"

definition hotp_invoke_command ::
    "'w crypto_api \<Rightarrow> 'w obj_api \<Rightarrow> allocator \<Rightarrow> (bytes \<Rightarrow> 'w \<Rightarrow> slice \<times> 'w) \<Rightarrow>
     (TEE_Attribute \<Rightarrow> u32 \<Rightarrow> u64 \<Rightarrow> usize \<Rightarrow> TEE_Attribute) \<Rightarrow> bool \<Rightarrow> HmacOtp \<Rightarrow> u32 \<Rightarrow> ParametersAny \<Rightarrow> mem \<Rightarrow> 'w \<Rightarrow> boxes \<Rightarrow>
     ((Error + unit) \<times> HmacOtp \<times> ParametersAny \<times> 'w \<times> boxes) run" where
  "hotp_invoke_command T Ob alloc to_vec init_ref overflow_checks sess_ctx cmd_id params m w b =
     (case HotpCommand_from cmd_id of
        RegisterSharedKey \<Rightarrow>
          (case register_shared_key sess_ctx params m of (r, sess_ctx') \<Rightarrow> Finishes (r, sess_ctx', params, w, b))
      | GetHOTP \<Rightarrow> get_hotp T Ob alloc to_vec init_ref overflow_checks sess_ctx params w b
      | Hotp_Unknown \<Rightarrow> Finishes (Inl (Error_from BadParameters), sess_ctx, params, w, b))"

subsection \<open>Hypotheses\<close>

text \<open>
  What the TEE does with a MAC operation and a key object.  \<open>ops w h\<close> are the key and the message so
  far of an operation, \<open>keys w h\<close> the key of a transient object, \<open>memory w\<close> the private memory of the
  application.  A failing call changes neither.
\<close>

definition init_ref_ok :: "(TEE_Attribute \<Rightarrow> u32 \<Rightarrow> u64 \<Rightarrow> usize \<Rightarrow> TEE_Attribute) \<Rightarrow> bool" where
  "init_ref_ok init_ref \<longleftrightarrow> (\<forall>a i p n. init_ref a i p n = \<lparr>attributeID = i, attr_w0 = p, attr_w1 = of_nat n\<rparr>)"

definition mac_tee_ok ::
    "'w crypto_api \<Rightarrow> 'w obj_api \<Rightarrow> (bytes \<Rightarrow> 'w \<Rightarrow> slice \<times> 'w) \<Rightarrow> (bytes \<Rightarrow> bytes \<Rightarrow> bytes) \<Rightarrow>
     ('w \<Rightarrow> raw_handle \<rightharpoonup> bytes option \<times> bytes) \<Rightarrow> ('w \<Rightarrow> raw_handle \<rightharpoonup> bytes option) \<Rightarrow> ('w \<Rightarrow> mem) \<Rightarrow> bool" where
  "mac_tee_ok T Ob to_vec hmac ops keys memory \<longleftrightarrow>
     (\<forall>n w code h w'. TEE_AllocateOperation T (AlgorithmId_code Alg_HmacSha1) (OperationMode_code Mode_Mac) n w = ((code, h), w') \<longrightarrow>
        keys w' = keys w \<and>
        (if code = TEE_SUCCESS then ops w h = None \<and> ops w' = (ops w)(h \<mapsto> (None, [])) else ops w' = ops w)) \<and>
     (\<forall>n w code h w'. TEE_AllocateTransientObject Ob (TransientObjectType_code Type_HmacSha1) n w = ((code, h), w') \<longrightarrow>
        ops w' = ops w \<and>
        (if code = TEE_SUCCESS then h \<noteq> 0 \<and> keys w h = None \<and> keys w' = (keys w)(h \<mapsto> None) else keys w' = keys w)) \<and>
     (\<forall>bs w s w'. to_vec bs w = (s, w') \<longrightarrow> length bs < usize_modulus \<longrightarrow>
        ops w' = ops w \<and> keys w' = keys w \<and> sl_len s = length bs \<and> mem_read (memory w') (sl_ptr s) (sl_len s) = bs) \<and>
     (\<forall>h p n w code w'. TEE_PopulateTransientObject Ob h
          [\<lparr>attributeID = AttributeId_code Attr_SecretValue, attr_w0 = p, attr_w1 = n\<rparr>] 1 w = (code, w') \<longrightarrow>
        ops w' = ops w \<and>
        keys w' = (if code = TEE_SUCCESS then (keys w)(h \<mapsto> Some (mem_read (memory w) p (unat n))) else keys w)) \<and>
     (\<forall>h j k d w code w'. TEE_SetOperationKey T h j w = (code, w') \<longrightarrow> keys w j = Some (Some k) \<longrightarrow> ops w h = Some d \<longrightarrow>
        keys w' = keys w \<and> ops w' = (if code = TEE_SUCCESS then (ops w)(h \<mapsto> (Some k, [])) else ops w)) \<and>
     (\<forall>h iv k d w. ops w h = Some (Some k, d) \<longrightarrow>
        keys (TEE_MACInit T h iv w) = keys w \<and> ops (TEE_MACInit T h iv w) = (ops w)(h \<mapsto> (Some k, []))) \<and>
     (\<forall>h bs k d w. ops w h = Some (Some k, d) \<longrightarrow>
        keys (TEE_MACUpdate T h bs w) = keys w \<and> ops (TEE_MACUpdate T h bs w) = (ops w)(h \<mapsto> (Some k, d @ bs))) \<and>
     (\<forall>h bs n k d w code out len w'. TEE_MACComputeFinal T h bs n w = ((code, out, len), w') \<longrightarrow> ops w h = Some (Some k, d) \<longrightarrow>
        keys w' = keys w \<and> (\<exists>x. ops w' = (ops w)(h \<mapsto> x)) \<and>
        (code = TEE_SUCCESS \<longrightarrow> out = hmac k (d @ bs) \<and> length out \<le> n)) \<and>
     (\<forall>h w. keys (TEE_FreeOperation T h w) = keys w \<and> ops (TEE_FreeOperation T h w) = (ops w)(h := None)) \<and>
     (\<forall>h w. keys (TEE_CloseObject Ob h w) = (keys w)(h := None) \<and> ops (TEE_CloseObject Ob h w) = ops w)"

subsection \<open>The reference\<close>

text \<open>RFC 4226, section 5.3: dynamic truncation and the value of six digits.\<close>

definition DT :: "bytes \<Rightarrow> nat" where
  "DT s = be_value (take 4 (drop (unat (s ! 19) mod 16) s)) mod 2 ^ 31"

definition HOTP :: "(bytes \<Rightarrow> bytes \<Rightarrow> bytes) \<Rightarrow> bytes \<Rightarrow> nat \<Rightarrow> nat" where
  "HOTP hmac K C = DT (hmac K (be_bytes 8 C)) mod 10 ^ 6"

text \<open>The fields of a session, and what they stand for: a shared key and a counter.\<close>

definition HmacOtp_inv :: "HmacOtp \<Rightarrow> bool" where
  "HmacOtp_inv s \<longleftrightarrow> length (hotp_counter s) = 8 \<and> length (hotp_key s) = MAX_KEY_SIZE \<and> hotp_key_len s \<le> MAX_KEY_SIZE"

definition hotp_view :: "HmacOtp \<Rightarrow> bytes \<times> nat" where
  "hotp_view s = (take (hotp_key_len s) (hotp_key s), be_value (hotp_counter s))"

text \<open>
  What a command may do to them.  A code that cannot be delivered, for want of an output parameter,
  is spent all the same.
\<close>

inductive hotp_step ::
    "(bytes \<Rightarrow> bytes \<Rightarrow> bytes) \<Rightarrow> mem \<Rightarrow> HotpCommand \<Rightarrow> ParametersAny \<Rightarrow> bytes \<times> nat \<Rightarrow>
     (Error + unit) \<times> ParametersAny \<times> bytes \<times> nat \<Rightarrow> bool" for hmac m where
  hotp_registers: "as_memref_input p0 = Inr q \<Longrightarrow> K' = input_bytes m q \<Longrightarrow> length K' \<in> {MIN_KEY_SIZE..MAX_KEY_SIZE} \<Longrightarrow>
    hotp_step hmac m RegisterSharedKey (p0, p1, p2, p3) (K, C) (Inr (), (p0, p1, p2, p3), K', C)"
| hotp_generates: "as_value_output p0 = Inr q \<Longrightarrow> length K \<in> {MIN_KEY_SIZE..MAX_KEY_SIZE} \<Longrightarrow>
    hotp_step hmac m GetHOTP (p0, p1, p2, p3) (K, C)
      (Inr (), (ParameterAny_ValueOutput (ValueOutput_set_a (of_nat (HOTP hmac K C)) q), p1, p2, p3), K, (C + 1) mod 2 ^ 64)"
| hotp_spends: "as_value_output p0 = Inl e \<Longrightarrow> length K \<in> {MIN_KEY_SIZE..MAX_KEY_SIZE} \<Longrightarrow>
    hotp_step hmac m GetHOTP (p0, p1, p2, p3) (K, C) (Inl e, (p0, p1, p2, p3), K, (C + 1) mod 2 ^ 64)"
| hotp_refuses: "hotp_step hmac m c ps (K, C) (Inl e, ps, K, C)"

section \<open>Lemmas\<close>

lemma or_plus:
  fixes a b c d :: u8
  assumes "unat a < 128"
  shows "unat (or (or (or (push_bit 24 (ucast a)) (push_bit 16 (ucast b))) (push_bit 8 (ucast c))) (ucast d) :: u32) =
    unat a * 2 ^ 24 + unat b * 2 ^ 16 + unat c * 2 ^ 8 + unat d"
proof -
  have or_add: "x AND y = 0 \<Longrightarrow> or x y = x + y" for x y :: u32
    by (simp add: disjunctive_add_eq_or)
  have bounds: "unat a \<le> 127" "unat b \<le> 255" "unat c \<le> 255" "unat d \<le> 255"
    using assms unat_u8_less[of b] unat_u8_less[of c] unat_u8_less[of d] by linarith+
  have 1: "push_bit 24 (ucast a) AND push_bit 16 (ucast b) = (0 :: u32)"
    by (rule bit_word_eqI) (auto simp: bit_simps dest: bit_imp_le_length)
  have 2: "or (push_bit 24 (ucast a)) (push_bit 16 (ucast b)) AND push_bit 8 (ucast c) = (0 :: u32)"
    by (rule bit_word_eqI) (auto simp: bit_simps dest: bit_imp_le_length)
  have 3: "or (or (push_bit 24 (ucast a)) (push_bit 16 (ucast b))) (push_bit 8 (ucast c)) AND ucast d = (0 :: u32)"
    by (rule bit_word_eqI) (auto simp: bit_simps dest: bit_imp_le_length)
  have "or (or (or (push_bit 24 (ucast a)) (push_bit 16 (ucast b))) (push_bit 8 (ucast c))) (ucast d) =
      (of_nat (unat a * 2 ^ 24 + unat b * 2 ^ 16 + unat c * 2 ^ 8 + unat d) :: u32)"
    unfolding or_add[OF 3] unfolding or_add[OF 2] unfolding or_add[OF 1] by (simp add: push_bit_eq_mult)
  moreover have "unat a * 2 ^ 24 + unat b * 2 ^ 16 + unat c * 2 ^ 8 + unat d < 2 ^ 32"
    using bounds by simp
  ultimately show ?thesis by (simp only: unat_of_nat) simp
qed

lemma unat_and_ones: "unat ((b :: u8) AND 0xf) = unat b mod 16" "unat ((b :: u8) AND 0x7f) = unat b mod 128"
proof -
  have "b AND 0xf = take_bit 4 b" "b AND 0x7f = take_bit 7 b" by (simp_all add: take_bit_eq_mask mask_eq_exp_minus_1)
  then show "unat (b AND 0xf) = unat b mod 16" "unat (b AND 0x7f) = unat b mod 128"
    by (simp_all add: unsigned_take_bit_eq take_bit_nat_def)
qed

lemma be_value_snoc: "be_value (xs @ [b]) = be_value xs * 256 + unat b"
  by (simp add: be_value_def)

lemma be_value_four: "be_value [a, b, c, d] = unat a * 2 ^ 24 + unat b * 2 ^ 16 + unat c * 2 ^ 8 + unat d"
  by (simp add: be_value_def)

lemma be_value_top_bit:
  "be_value [a, b, c, d] mod 2 ^ 31 = unat a mod 128 * 2 ^ 24 + unat b * 2 ^ 16 + unat c * 2 ^ 8 + unat d"
proof -
  let ?r = "unat b * 2 ^ 16 + unat c * 2 ^ 8 + unat d"
  have "unat b \<le> 255" "unat c \<le> 255" "unat d \<le> 255"
    using unat_u8_less[of b] unat_u8_less[of c] unat_u8_less[of d] by linarith+
  then have r: "?r < 2 ^ 24" by simp
  have "unat a mod 128 \<le> 127" using mod_less_divisor[of 128 "unat a"] by linarith
  then have "unat a mod 128 * 2 ^ 24 + ?r < 2 ^ 31" using r by simp
  moreover have "unat a * 2 ^ 24 + ?r = (unat a mod 128 * 2 ^ 24 + ?r) + 2 ^ 31 * (unat a div 128)"
  proof -
    have "(m + 128 * q) * 2 ^ 24 + r = (m * 2 ^ 24 + r) + 2 ^ 31 * q" for m q r :: nat by simp
    from this[of "unat a mod 128" "unat a div 128" ?r] show ?thesis unfolding mod_mult_div_eq .
  qed
  ultimately show ?thesis unfolding be_value_four by (metis (no_types, lifting) add.assoc mod_less mod_mult_self2)
qed

lemma truncate_DT:
  assumes "length s = 20"
  shows "otp_truncate s = Returns (of_nat (DT s mod 10 ^ 6))"
proof -
  define k where "k = unat (s ! 19) mod 16"
  have k: "k < 16" by (simp add: k_def)
  have "drop k s = s ! k # s ! (k + 1) # s ! (k + 2) # s ! (k + 3) # drop (k + 4) s"
    using assms k by (simp add: Cons_nth_drop_Suc numeral_eq_Suc)
  then have four: "take 4 (drop k s) = [s ! k, s ! (k + 1), s ! (k + 2), s ! (k + 3)]" by simp
  let ?x = "or (or (or (push_bit 24 (ucast (s ! k AND 0x7f))) (push_bit 16 (ucast (s ! (k + 1))))) (push_bit 8 (ucast (s ! (k + 2)))))
      (ucast (s ! (k + 3))) :: u32"
  have "unat (s ! k AND 0x7f) < 128" by (simp only: unat_and_ones)
  then have x: "unat ?x = DT s"
    unfolding DT_def k_def[symmetric] four be_value_top_bit by (subst or_plus) (simp_all only: unat_and_ones)
  have "unat (?x mod DBC2_MODULO) = DT s mod 10 ^ 6" unfolding x[symmetric] DBC2_MODULO_def by (simp add: unat_mod_distrib)
  then have "?x mod DBC2_MODULO = of_nat (DT s mod 10 ^ 6)" by (metis of_nat_unat ucast_id)
  then show ?thesis using assms k unfolding otp_truncate_def unat_and_ones k_def[symmetric] Let_def by simp
qed

lemma be_bytes_Suc: "be_bytes (Suc k) n = be_bytes k (n div 256) @ [of_nat n]"
proof -
  have "(of_nat (n mod 256) :: u8) = of_nat n" by (rule word_unat_eq_iff[THEN iffD2]) (simp add: unat_of_nat_u8)
  then show ?thesis by (simp add: be_bytes_def)
qed

text \<open>A release build counts modulo \<open>2 ^ 64\<close>.\<close>

lemma counter_loop_release:
  "counter_loop False k (be_bytes k n @ rest) = Returns (be_bytes k (n + 1) @ rest)"
proof (induction k arbitrary: n rest)
  case 0
  then show ?case by (simp add: be_bytes_def)
next
  case (Suc k)
  let ?c = "be_bytes k (n div 256) @ of_nat (n + 1) # rest"
  have nth: "(be_bytes (Suc k) n @ rest) ! k = of_nat n" by (simp add: be_bytes_Suc nth_append)
  have upd: "(be_bytes (Suc k) n @ rest)[k := of_nat n + 1] = ?c"
    by (simp add: be_bytes_Suc list_update_append add.commute)
  have u: "unat (of_nat (n + 1) :: u8) = (n + 1) mod 256" by (rule unat_of_nat_u8)
  show ?case
  proof (cases "(n + 1) mod 256 = 0")
    case True
    then have "(of_nat (n + 1) :: u8) = 0" using u by (metis unat_eq_zero)
    moreover have "(n + 1) div 256 = n div 256 + 1" using True by (simp add: div_Suc mod_Suc split: if_splits)
    ultimately show ?thesis
      using Suc[of "n div 256" "0 # rest"] by (simp only: counter_loop.simps nth upd Let_def) (simp add: be_bytes_Suc nth_append)
  next
    case False
    then have "(of_nat (n + 1) :: u8) > 0" using u by (metis unat_0 word_neq_0_conv)
    moreover have "(n + 1) div 256 = n div 256" using False by (simp add: div_Suc mod_Suc split: if_splits)
    ultimately show ?thesis
      by (simp only: counter_loop.simps nth upd Let_def) (simp add: be_bytes_Suc nth_append)
  qed
qed

text \<open>With overflow checks the loop never gets past the last byte.\<close>

lemma counter_loop_checked:
  assumes "length c = Suc k"
  shows "counter_loop True (length c) c = (if c ! k = 255 then Panics else Returns (be_bytes (length c) (be_value c + 1)))"
proof (cases "c ! k = 255")
  case False
  have "(255 :: u8) = -1" by simp
  then have "c ! k + 1 > 0" using False by (metis eq_neg_iff_add_eq_0 word_neq_0_conv)
  then have "counter_loop True (length c) c = counter_loop False (length c) c" using False assms by simp
  also have "\<dots> = Returns (be_bytes (length c) (be_value c + 1))"
    using counter_loop_release[of "length c" "be_value c" "[]"] by (simp add: be_bytes_value)
  finally show ?thesis using False by simp
qed (simp add: assms)

lemmas mac_allocated = mac_tee_ok_def[THEN iffD1, THEN conjunct1, rule_format]
lemmas key_allocated = mac_tee_ok_def[THEN iffD1, THEN conjunct2, THEN conjunct1, rule_format]
lemmas key_copied = mac_tee_ok_def[THEN iffD1, THEN conjunct2, THEN conjunct2, THEN conjunct1, rule_format]
lemmas key_populated = mac_tee_ok_def[THEN iffD1, THEN conjunct2, THEN conjunct2, THEN conjunct2, THEN conjunct1, rule_format]
lemmas key_set = mac_tee_ok_def[THEN iffD1, THEN conjunct2, THEN conjunct2, THEN conjunct2, THEN conjunct2, THEN conjunct1, rule_format]
lemmas mac_inited = mac_tee_ok_def[THEN iffD1, THEN conjunct2, THEN conjunct2, THEN conjunct2, THEN conjunct2, THEN conjunct2, THEN conjunct1, rule_format]
lemmas mac_updated = mac_tee_ok_def[THEN iffD1, THEN conjunct2, THEN conjunct2, THEN conjunct2, THEN conjunct2, THEN conjunct2, THEN conjunct2, THEN conjunct1, rule_format]
lemmas mac_computed = mac_tee_ok_def[THEN iffD1, THEN conjunct2, THEN conjunct2, THEN conjunct2, THEN conjunct2, THEN conjunct2, THEN conjunct2, THEN conjunct2, THEN conjunct1, rule_format]
lemmas mac_freed = mac_tee_ok_def[THEN iffD1, THEN conjunct2, THEN conjunct2, THEN conjunct2, THEN conjunct2, THEN conjunct2, THEN conjunct2, THEN conjunct2, THEN conjunct2, THEN conjunct1, rule_format]
lemmas key_closed = mac_tee_ok_def[THEN iffD1, THEN conjunct2, THEN conjunct2, THEN conjunct2, THEN conjunct2, THEN conjunct2, THEN conjunct2, THEN conjunct2, THEN conjunct2, THEN conjunct2, rule_format]

text \<open>Leaving the function gives back the key object, the operation and its cell.\<close>

lemma hmac_leave_effect:
  assumes T: "mac_tee_ok T Ob to_vec hmac ops keys memory"
    and run: "hmac_leave T Ob \<lparr>mac_op = \<lparr>oph_raw = a\<rparr>\<rparr> \<lparr>to_handle = \<lparr>oh_raw = j\<rparr>\<rparr> r out w1 b1 = Finishes (r', out', w', b')"
    and b: "b a = None" "a \<noteq> 0" "b1 = b(a \<mapsto> h)" and j: "j \<noteq> 0" "keys w j = None" "keys w1 = (keys w)(j \<mapsto> y)"
    and o: "ops w h = None" "ops w1 = (ops w)(h \<mapsto> x)"
  shows "r' = r \<and> out' = out \<and> ops w' = ops w \<and> keys w' = keys w \<and> b' = b"
proof -
  let ?v = "TEE_CloseObject Ob j w1"
  have F: "keys (TEE_FreeOperation T h v) = keys v" "ops (TEE_FreeOperation T h v) = (ops v)(h := None)" for v
    using mac_freed[OF T] by blast+
  have C: "keys ?v = (keys w1)(j := None)" "ops ?v = ops w1"
    using key_closed[OF T] by blast+
  have "r' = r \<and> out' = out \<and> w' = TEE_FreeOperation T h ?v \<and> b' = b"
    using run b j(1) by (auto simp: hmac_leave_def OperationHandle_drop_def OperationHandle_handle_def
        TransientObject_drop_def ObjectHandle_drop_def ObjectHandle_is_null_def fun_upd_idem)
  moreover have "ops (TEE_FreeOperation T h ?v) = ops w" unfolding F C o(2) using o(1) by (simp add: fun_upd_idem)
  moreover have "keys (TEE_FreeOperation T h ?v) = keys w" unfolding F C j(3) using j(2) by (simp add: fun_upd_idem)
  ultimately show ?thesis by simp
qed

lemma hmac_keyed_effect:
  assumes T: "mac_tee_ok T Ob to_vec hmac ops keys memory"
    and run: "hmac_keyed T Ob \<lparr>mac_op = \<lparr>oph_raw = a\<rparr>\<rparr> \<lparr>to_handle = \<lparr>oh_raw = j\<rparr>\<rparr> c out w1 b1 = Finishes (r, out', w', b')"
    and b: "b a = None" "a \<noteq> 0" "b1 = b(a \<mapsto> h)" and j: "j \<noteq> 0" "keys w j = None" "keys w1 = (keys w)(j \<mapsto> Some k)"
    and o: "ops w h = None" "ops w1 = (ops w)(h \<mapsto> x)"
  shows "ops w' = ops w \<and> keys w' = keys w \<and> b' = b \<and>
    (\<forall>n. r = Inr n \<longrightarrow> out' = overwrite out 0 (hmac k c) \<and> length (hmac k c) \<le> length out)"
proof -
  let ?mac = "\<lparr>mac_op = \<lparr>oph_raw = a\<rparr>\<rparr>" and ?key = "\<lparr>to_handle = \<lparr>oh_raw = j\<rparr>\<rparr>"
  have h: "b1 a = Some h" using b(3) by simp
  obtain code w2 where t2: "TEE_SetOperationKey T h j w1 = (code, w2)" by (metis surj_pair)
  have 2: "keys w2 = keys w1 \<and> ops w2 = (if code = TEE_SUCCESS then (ops w1)(h \<mapsto> (Some k, [])) else ops w1)"
    by (rule key_set[OF T t2]) (simp_all add: j(3) o(2))
  define w3 where "w3 = TEE_MACInit T h [] w2"
  define w4 where "w4 = TEE_MACUpdate T h c w3"
  obtain code' s n w5 where t5: "TEE_MACComputeFinal T h [] (length out) w4 = ((code', s, n), w5)" by (metis surj_pair)
  show ?thesis
  proof (cases "code = TEE_SUCCESS")
    case False
    then have "hmac_leave T Ob ?mac ?key (Inl (from_raw_error code)) out w2 b1 = Finishes (r, out', w', b')"
      using run h t2 by (simp add: hmac_keyed_def Mac_set_key_def crypto_method_defs box_read_def checked_def tee_check_def to_raw_def)
    moreover have "keys w2 = (keys w)(j \<mapsto> Some k)" "ops w2 = (ops w)(h \<mapsto> x)" using False 2 j(3) o(2) by simp_all
    ultimately show ?thesis using hmac_leave_effect[OF T _ b j(1,2) _ o(1)] by blast
  next
    case True
    have 3: "keys w3 = keys w2 \<and> ops w3 = (ops w2)(h \<mapsto> (Some k, []))"
      unfolding w3_def by (rule mac_inited[OF T]) (simp add: 2 True)
    have 4: "keys w4 = keys w3 \<and> ops w4 = (ops w3)(h \<mapsto> (Some k, c))"
      using mac_updated[OF T, of w3 h k "[]" c] 3 by (simp add: w4_def)
    have 5: "keys w5 = keys w4 \<and> (\<exists>x. ops w5 = (ops w4)(h \<mapsto> x)) \<and>
        (code' = TEE_SUCCESS \<longrightarrow> s = hmac k c \<and> length s \<le> length out)"
      using mac_computed[OF T t5, of k c] 4 by auto
    then obtain y where "ops w5 = (ops w)(h \<mapsto> y)" using 2 3 4 o(2) by (metis fun_upd_upd)
    moreover have "keys w5 = (keys w)(j \<mapsto> Some k)" using 2 3 4 5 j(3) by simp
    moreover have "hmac_leave T Ob ?mac ?key (try_bind (tee_check code') (\<lambda>_. Inr n)) (overwrite out 0 s) w5 b1 =
        Finishes (r, out', w', b')"
      using run h t2 t5 True unfolding w3_def w4_def
      by (simp add: hmac_keyed_def Mac_set_key_def crypto_method_defs box_read_def checked_def tee_check_def to_raw_def into_buffer_def)
    ultimately have "r = try_bind (tee_check code') (\<lambda>_. Inr n) \<and> out' = overwrite out 0 s \<and>
        ops w' = ops w \<and> keys w' = keys w \<and> b' = b"
      using hmac_leave_effect[OF T _ b j(1,2) _ o(1)] by blast
    then show ?thesis using 5 by (auto simp: tee_check_def split: if_splits)
  qed
qed

text \<open>
  The MAC is that of the counter under the registered key, and the operation, the key object and the
  cell are gone when the function returns.  Only when the operation cannot be allocated does the cell
  stay, as it does in every \<^verbatim>\<open>OperationHandle::allocate\<close> that fails.
\<close>

lemma hmac_sha1_effect:
  assumes T: "mac_tee_ok T Ob to_vec hmac ops keys memory" and I: "init_ref_ok init_ref" and A: "allocator_ok alloc"
    and run: "hmac_sha1 T Ob alloc to_vec init_ref hotp out w b = Finishes (r, out', w', b')"
  shows "ops w' = ops w \<and> keys w' = keys w \<and> b \<subseteq>\<^sub>m b' \<and>
    (\<forall>n. r = Inr n \<longrightarrow> b' = b \<and> hotp_key_len hotp \<in> {MIN_KEY_SIZE..MAX_KEY_SIZE} \<and>
       (let mac = hmac (take (hotp_key_len hotp) (hotp_key hotp)) (hotp_counter hotp)
        in out' = overwrite out 0 mac \<and> length mac \<le> length out))"
proof (cases "hotp_key_len hotp \<in> {MIN_KEY_SIZE..MAX_KEY_SIZE}")
  case False
  then show ?thesis using run by (auto simp: hmac_sha1_def)
next
  case True
  define k where "k = take (hotp_key_len hotp) (hotp_key hotp)"
  obtain code h w1 where t1: "TEE_AllocateOperation T (AlgorithmId_code Alg_HmacSha1) (OperationMode_code Mode_Mac)
      (of_nat (hotp_key_len hotp * 8)) w = ((code, h), w1)" by (metis surj_pair)
  note 1 = mac_allocated[OF T t1]
  obtain a where a: "alloc b = Some a"
    using run True by (cases "alloc b") (auto simp: hmac_sha1_def Mac_allocate_def OperationHandle_allocate_def box_new_def)
  then have a': "b a = None" "a \<noteq> 0" using A by (auto simp: allocator_ok_def)
  obtain code2 j w2 where t2: "TEE_AllocateTransientObject Ob (TransientObjectType_code Type_HmacSha1)
      (of_nat (hotp_key_len hotp * 8)) w1 = ((code2, j), w2)" by (metis surj_pair)
  note 2 = key_allocated[OF T t2]
  obtain s w3 where t3: "to_vec k w2 = (s, w3)" by (metis surj_pair)
  have short: "length k \<le> 64" using True by (auto simp: k_def MAX_KEY_SIZE_def intro: min.coboundedI2)
  have 3: "ops w3 = ops w2 \<and> keys w3 = keys w2 \<and> sl_len s = length k \<and> mem_read (memory w3) (sl_ptr s) (sl_len s) = k"
    by (rule key_copied[OF T t3]) (use short in \<open>simp add: usize_modulus_def\<close>)
  let ?attr = "\<lparr>attributeID = AttributeId_code Attr_SecretValue, attr_w0 = sl_ptr s, attr_w1 = of_nat (sl_len s)\<rparr>"
  obtain code4 w4 where t4: "TEE_PopulateTransientObject Ob j [?attr] 1 w3 = (code4, w4)" by (metis surj_pair)
  note 4 = key_populated[OF T t4]
  note run' = run t1 t2 t3 t4
  note enter = hmac_sha1_def Mac_allocate_def OperationHandle_allocate_def box_new_def a TransientObject_allocate_def
    ObjectHandle_from_raw_def k_def[symmetric] TransientObject_populate_def AttributeMemref_from_ref_def to_raw_def
    I[unfolded init_ref_ok_def] tee_check_def
  consider (mac) "code \<noteq> TEE_SUCCESS" | (obj) "code = TEE_SUCCESS" "code2 \<noteq> TEE_SUCCESS"
    | (ok) "code = TEE_SUCCESS" "code2 = TEE_SUCCESS" by blast
  then show ?thesis
  proof cases
    case mac
    then have "r = Inl (from_raw_error code) \<and> w' = w1 \<and> b' = b(a \<mapsto> 0)" using True run' by (simp add: enter)
    then show ?thesis using 1 mac a'(1) by (auto simp: map_le_def)
  next
    case obj
    then have "r = Inl (from_raw_error code2) \<and> w' = TEE_FreeOperation T h w2 \<and> b' = b"
      using True run' a' by (auto simp: enter OperationHandle_drop_def OperationHandle_handle_def fun_upd_idem)
    moreover have "ops (TEE_FreeOperation T h w2) = ops w"
      using mac_freed[OF T, of h w2] 1 2 obj by (simp add: fun_upd_idem)
    moreover have "keys (TEE_FreeOperation T h w2) = keys w" using mac_freed[OF T, of h w2] 1 2 obj by simp
    ultimately show ?thesis by auto
  next
    case ok
    have "unat (of_nat (sl_len s) :: u64) = sl_len s" using 3 short by (simp add: unat_of_nat)
    then have k: "mem_read (memory w3) (sl_ptr s) (unat (of_nat (sl_len s) :: u64)) = k" using 3 by metis
    have j: "j \<noteq> 0" "keys w j = None" and h: "ops w h = None" using 1 2 ok by auto
    have w4: "keys w4 = (keys w)(j \<mapsto> (if code4 = TEE_SUCCESS then Some k else None))" "ops w4 = (ops w)(h \<mapsto> (None, []))"
      using 1 2 3 4 k ok by simp_all
    show ?thesis
    proof (cases "code4 = TEE_SUCCESS")
      case False
      then have "hmac_leave T Ob \<lparr>mac_op = \<lparr>oph_raw = a\<rparr>\<rparr> \<lparr>to_handle = \<lparr>oh_raw = j\<rparr>\<rparr> (Inl (from_raw_error code4)) out w4
          (b(a \<mapsto> h)) = Finishes (r, out', w', b')"
        using True run' ok j(1) by (simp add: enter)
      from hmac_leave_effect[OF T this a' refl j w4(1) h w4(2)] show ?thesis by auto
    next
      case key: True
      then have run4: "hmac_keyed T Ob \<lparr>mac_op = \<lparr>oph_raw = a\<rparr>\<rparr> \<lparr>to_handle = \<lparr>oh_raw = j\<rparr>\<rparr> (hotp_counter hotp) out w4
          (b(a \<mapsto> h)) = Finishes (r, out', w', b')"
        using True run' ok j(1) by (simp add: enter)
      have k4: "keys w4 = (keys w)(j \<mapsto> Some k)" using w4(1) key by simp
      show ?thesis using hmac_keyed_effect[OF T run4 a' refl j k4 h w4(2)] True by (auto simp: k_def Let_def)
    qed
  qed
qed

text \<open>A cell for the operation is all the function needs to return.\<close>

lemma hmac_leave_finishes:
  "a \<in> dom b \<Longrightarrow> \<exists>x. hmac_leave T Ob \<lparr>mac_op = \<lparr>oph_raw = a\<rparr>\<rparr> key r out w b = Finishes x"
  by (auto simp: hmac_leave_def OperationHandle_drop_def OperationHandle_handle_def box_read_def box_free_def)

lemma hmac_keyed_finishes:
  assumes "a \<in> dom b"
  shows "\<exists>x. hmac_keyed T Ob \<lparr>mac_op = \<lparr>oph_raw = a\<rparr>\<rparr> key c out w b = Finishes x"
proof -
  obtain h where h: "b a = Some h" using assms by auto
  obtain r w1 where 1: "checked (TEE_SetOperationKey T h (to_raw key) w) = (r, w1)" by (metis surj_pair)
  obtain r' out' w2 where "into_buffer out
      (TEE_MACComputeFinal T h [] (length out) (TEE_MACUpdate T h c (TEE_MACInit T h [] w1))) = (r', out', w2)"
    by (metis surj_pair)
  with h 1 show ?thesis
    using hmac_leave_finishes[OF assms, of T Ob key]
    by (cases r) (simp_all add: hmac_keyed_def Mac_set_key_def crypto_method_defs box_read_def del: split_paired_Ex)
qed

lemma hmac_sha1_finishes:
  assumes "alloc b = Some a"
  shows "\<exists>x. hmac_sha1 T Ob alloc to_vec init_ref hotp out w b = Finishes x"
proof (cases "hotp_key_len hotp < MIN_KEY_SIZE \<or> hotp_key_len hotp > MAX_KEY_SIZE")
  case False
  obtain code h w1 where t1: "TEE_AllocateOperation T (AlgorithmId_code Alg_HmacSha1) (OperationMode_code Mode_Mac)
      (of_nat (hotp_key_len hotp * 8)) w = ((code, h), w1)" by (metis surj_pair)
  have a: "a \<in> dom (b(a \<mapsto> x))" for x by simp
  show ?thesis
    using False assms t1 hmac_leave_finishes[OF a] hmac_keyed_finishes[OF a]
    by (auto simp: hmac_sha1_def Mac_allocate_def OperationHandle_allocate_def box_new_def tee_check_def
        OperationHandle_drop_def OperationHandle_handle_def box_read_def split: sum.splits prod.splits)
qed (simp add: hmac_sha1_def)

lemma register_refines:
  assumes s: "HmacOtp_inv s" and run: "register_shared_key s ps m = (r, s')"
  shows "HmacOtp_inv s' \<and> hotp_step hmac m RegisterSharedKey ps (hotp_view s) (r, ps, hotp_view s')"
proof -
  obtain p0 p1 p2 p3 where ps: "ps = (p0, p1, p2, p3)" by (cases ps)
  note refuse = hotp_refuses[of hmac m RegisterSharedKey ps]
  show ?thesis
  proof (cases "as_memref_input p0")
    case (Inl e)
    then show ?thesis using run s refuse by (auto simp: ps register_shared_key_def hotp_view_def)
  next
    case (Inr q)
    let ?k = "input_bytes m q"
    show ?thesis
    proof (cases "length ?k \<in> {MIN_KEY_SIZE..MAX_KEY_SIZE}")
      case False
      then show ?thesis using run s Inr refuse by (auto simp: ps register_shared_key_def hotp_view_def)
    next
      case True
      then have "r = Inr ()" "s' = s\<lparr>hotp_key_len := length ?k, hotp_key := overwrite (hotp_key s) 0 ?k\<rparr>"
        using run Inr by (auto simp: ps register_shared_key_def Let_def)
      then show ?thesis using hotp_registers[OF Inr refl True] True s
        by (auto simp: ps HmacOtp_inv_def hotp_view_def overwrite_def)
    qed
  qed
qed

lemma get_hotp_refines:
  assumes T: "mac_tee_ok T Ob to_vec hmac ops keys memory" and I: "init_ref_ok init_ref" and A: "allocator_ok alloc"
    and len: "\<And>k c. length (hmac k c) = SHA1_HASH_SIZE" and s: "HmacOtp_inv s" and a: "alloc b = Some a"
  shows "\<exists>r s' ps' w' b'. get_hotp T Ob alloc to_vec init_ref False s ps w b = Finishes (r, s', ps', w', b') \<and>
    HmacOtp_inv s' \<and> hotp_step hmac m GetHOTP ps (hotp_view s) (r, ps', hotp_view s') \<and>
    ops w' = ops w \<and> keys w' = keys w \<and> b \<subseteq>\<^sub>m b'"
proof -
  obtain p0 p1 p2 p3 where ps: "ps = (p0, p1, p2, p3)" by (cases ps)
  obtain r mac w' b' where run: "hmac_sha1 T Ob alloc to_vec init_ref s (replicate SHA1_HASH_SIZE 0) w b = Finishes (r, mac, w', b')"
    using hmac_sha1_finishes[where alloc = alloc, OF a] by (metis prod_cases4)
  note eff = hmac_sha1_effect[OF T I A run]
  show ?thesis
  proof (cases r)
    case (Inl e)
    then show ?thesis using run eff s hotp_refuses by (auto simp: ps get_hotp_def hotp_view_def)
  next
    case (Inr n)
    let ?c = "be_bytes 8 (be_value (hotp_counter s) + 1)" and ?K = "take (hotp_key_len s) (hotp_key s)"
    let ?mac = "hmac ?K (hotp_counter s)" and ?s = "s\<lparr>hotp_counter := ?c\<rparr>"
    have mac: "mac = ?mac" "length ?mac = 20" using eff Inr len by (auto simp: Let_def overwrite_def SHA1_HASH_SIZE_def)
    have K: "length ?K \<in> {MIN_KEY_SIZE..MAX_KEY_SIZE}" using eff Inr s by (auto simp: HmacOtp_inv_def)
    have l: "length (hotp_counter s) = 8" using s by (simp add: HmacOtp_inv_def)
    have c: "counter_loop False (length (hotp_counter s)) (hotp_counter s) = Returns ?c"
      using counter_loop_release[of 8 "be_value (hotp_counter s)" "[]"] be_bytes_value[of "hotp_counter s"] l by simp
    have v: "otp_truncate mac = Returns (of_nat (HOTP hmac ?K (be_value (hotp_counter s))))"
      using truncate_DT[OF mac(2)] be_bytes_value[of "hotp_counter s"] l by (simp add: mac(1) HOTP_def)
    have inv: "HmacOtp_inv ?s" using s by (simp add: HmacOtp_inv_def)
    show ?thesis
    proof (cases "as_value_output p0")
      case (Inl e)
      then show ?thesis using run Inr c v inv hotp_spends[OF Inl K] eff
        by (simp add: ps get_hotp_def) (simp add: hotp_view_def be_value_bytes)
    next
      case out: (Inr q)
      then show ?thesis using run Inr c v inv hotp_generates[OF out K] eff
        by (simp add: ps get_hotp_def) (simp add: hotp_view_def be_value_bytes)
    qed
  qed
qed

text \<open>
  With overflow checks the increment of a last byte of 255 panics, so that the code after 255 codes of a
  session is never delivered.
\<close>

lemma get_hotp_checked_panics:
  assumes "hmac_sha1 T Ob alloc to_vec init_ref s (replicate SHA1_HASH_SIZE 0) w b = Finishes (Inr n, mac, w', b')"
    and "HmacOtp_inv s" and "hotp_counter s ! 7 = 255"
  shows "get_hotp T Ob alloc to_vec init_ref True s ps w b = Aborts"
proof -
  have "counter_loop True (length (hotp_counter s)) (hotp_counter s) = Panics"
    using counter_loop_checked[of "hotp_counter s" 7] assms(2,3) by (simp add: HmacOtp_inv_def)
  then show ?thesis using assms(1) by (simp add: get_hotp_def split_beta)
qed

section \<open>A reference implementation\<close>

text \<open>A TEE with one MAC operation and one key object, at the handle 1 each.\<close>

record mac_world =
  mw_ops :: "raw_handle \<rightharpoonup> bytes option \<times> bytes"
  mw_keys :: "raw_handle \<rightharpoonup> bytes option"
  mw_mem :: mem

definition mw_empty :: mac_world where
  "mw_empty = \<lparr>mw_ops = Map.empty, mw_keys = Map.empty, mw_mem = (\<lambda>_. 0)\<rparr>"

definition ref_to_vec :: "bytes \<Rightarrow> mac_world \<Rightarrow> slice \<times> mac_world" where
  "ref_to_vec bs w = (\<lparr>sl_ptr = 0x1000, sl_len = length bs\<rparr>, w\<lparr>mw_mem := mem_write (mw_mem w) 0x1000 bs\<rparr>)"

definition ref_init_ref :: "TEE_Attribute \<Rightarrow> u32 \<Rightarrow> u64 \<Rightarrow> usize \<Rightarrow> TEE_Attribute" where
  "ref_init_ref a i p n = \<lparr>attributeID = i, attr_w0 = p, attr_w1 = of_nat n\<rparr>"

definition ref_mac_api :: "(bytes \<Rightarrow> bytes \<Rightarrow> bytes) \<Rightarrow> mac_world crypto_api" where
  "ref_mac_api hmac = \<lparr>
     TEE_AllocateOperation = (\<lambda>a m k w.
       if mw_ops w 1 = None then ((TEE_SUCCESS, 1), w\<lparr>mw_ops := (mw_ops w)(1 \<mapsto> (None, []))\<rparr>)
       else ((TEE_ERROR_OUT_OF_MEMORY, 0), w)),
     TEE_FreeOperation = (\<lambda>h w. w\<lparr>mw_ops := (mw_ops w)(h := None)\<rparr>),
     TEE_GetOperationInfo = (\<lambda>h w. (ref_operation_info, w)),
     TEE_GetOperationInfoMultiple = (\<lambda>h n w. echo (replicate 32 0) n w),
     TEE_ResetOperation = (\<lambda>h w. w),
     TEE_SetOperationKey = (\<lambda>h j w.
       (case mw_keys w j of
          Some (Some k) \<Rightarrow> (TEE_SUCCESS, w\<lparr>mw_ops := (mw_ops w)(h \<mapsto> (Some k, []))\<rparr>)
        | _ \<Rightarrow> (TEE_ERROR_BAD_PARAMETERS, w))),
     TEE_SetOperationKey2 = (\<lambda>h j k w. (TEE_SUCCESS, w)),
     TEE_CopyOperation = (\<lambda>h s w. w),
     TEE_IsAlgorithmSupported = (\<lambda>a e w. (TEE_SUCCESS, w)),
     TEE_DigestUpdate = (\<lambda>h d w. w),
     TEE_DigestDoFinal = (\<lambda>h. echo),
     TEE_CipherInit = (\<lambda>h d w. w),
     TEE_CipherUpdate = (\<lambda>h. echo),
     TEE_CipherDoFinal = (\<lambda>h. echo),
     TEE_MACInit = (\<lambda>h iv w.
       (case mw_ops w h of Some (k, d) \<Rightarrow> w\<lparr>mw_ops := (mw_ops w)(h \<mapsto> (k, []))\<rparr> | None \<Rightarrow> w)),
     TEE_MACUpdate = (\<lambda>h bs w.
       (case mw_ops w h of Some (k, d) \<Rightarrow> w\<lparr>mw_ops := (mw_ops w)(h \<mapsto> (k, d @ bs))\<rparr> | None \<Rightarrow> w)),
     TEE_MACComputeFinal = (\<lambda>h bs n w.
       (case mw_ops w h of
          Some (Some k, d) \<Rightarrow>
            echo (hmac k (d @ bs)) n (w\<lparr>mw_ops := (mw_ops w)(h \<mapsto> (Some k, []))\<rparr>)
        | _ \<Rightarrow> ((TEE_ERROR_BAD_STATE, [], 0), w))),
     TEE_MACCompareFinal = (\<lambda>h d m w. (TEE_ERROR_MAC_INVALID, w)),
     TEE_AEInit = (\<lambda>h d t a p w. (TEE_SUCCESS, w)),
     TEE_AEUpdateAAD = (\<lambda>h d w. w),
     TEE_AEUpdate = (\<lambda>h. echo),
     TEE_AEEncryptFinal = (\<lambda>h d n m w. ((TEE_SUCCESS, ([], 0), ([], 0)), w)),
     TEE_AEDecryptFinal = (\<lambda>h d n t. echo d n),
     TEE_AsymmetricEncrypt = (\<lambda>h a k. echo),
     TEE_AsymmetricDecrypt = (\<lambda>h a k. echo),
     TEE_AsymmetricSignDigest = (\<lambda>h a k. echo),
     TEE_AsymmetricVerifyDigest = (\<lambda>h a k d s w. (TEE_SUCCESS, w)),
     TEE_DeriveKey = (\<lambda>h a k j w. w),
     TEE_GenerateRandom = (\<lambda>n w. (replicate n 4, w))\<rparr>"

definition ref_key_api :: "mac_world obj_api" where
  "ref_key_api = \<lparr>
     TEE_OpenPersistentObject = (\<lambda>s i f w. ((TEE_ERROR_ITEM_NOT_FOUND, 0), w)),
     TEE_CreatePersistentObject = (\<lambda>s i f a d w. ((TEE_ERROR_NOT_SUPPORTED, 0), w)),
     TEE_CloseObject = (\<lambda>h w. w\<lparr>mw_keys := (mw_keys w)(h := None)\<rparr>),
     TEE_CloseAndDeletePersistentObject1 = (\<lambda>h w. (TEE_ERROR_BAD_STATE, w)),
     TEE_RenamePersistentObject = (\<lambda>h i w. (TEE_ERROR_NOT_SUPPORTED, w)),
     TEE_ReadObjectData = (\<lambda>h n w. ((TEE_ERROR_BAD_STATE, [], 0), w)),
     TEE_WriteObjectData = (\<lambda>h d w. (TEE_ERROR_NOT_SUPPORTED, w)),
     TEE_TruncateObjectData = (\<lambda>h n w. (TEE_ERROR_NOT_SUPPORTED, w)),
     TEE_SeekObjectData = (\<lambda>h n k w. (TEE_ERROR_NOT_SUPPORTED, w)),
     TEE_GetObjectInfo1 = (\<lambda>h w. ((TEE_ERROR_BAD_STATE, ref_info 0 0), w)),
     TEE_RestrictObjectUsage1 = (\<lambda>h u w. (TEE_SUCCESS, w)),
     TEE_GetObjectBufferAttribute = (\<lambda>h i n w. ((TEE_ERROR_ITEM_NOT_FOUND, [], 0), w)),
     TEE_GetObjectValueAttribute = (\<lambda>h i w. ((TEE_ERROR_ITEM_NOT_FOUND, 0, 0), w)),
     TEE_AllocateTransientObject = (\<lambda>k m w.
       if mw_keys w 1 = None then ((TEE_SUCCESS, 1), w\<lparr>mw_keys := (mw_keys w)(1 \<mapsto> None)\<rparr>)
       else ((TEE_ERROR_OUT_OF_MEMORY, 0), w)),
     TEE_ResetTransientObject = (\<lambda>h w. w),
     TEE_PopulateTransientObject = (\<lambda>h a n w.
       (case a of
          [x] \<Rightarrow> (TEE_SUCCESS, w\<lparr>mw_keys := (mw_keys w)(h \<mapsto> Some (mem_read (mw_mem w) (attr_w0 x) (unat (attr_w1 x))))\<rparr>)
        | _ \<Rightarrow> (TEE_ERROR_BAD_PARAMETERS, w))),
     TEE_CopyObjectAttributes1 = (\<lambda>h g w. (TEE_SUCCESS, w)),
     TEE_GenerateKey = (\<lambda>h k a n w. (TEE_SUCCESS, w))\<rparr>"

lemma ref_mac_tee_ok: "mac_tee_ok (ref_mac_api hmac) ref_key_api ref_to_vec hmac mw_ops mw_keys mw_mem"
  unfolding mac_tee_ok_def
  by (intro conjI allI impI)
    (auto simp: ref_mac_api_def ref_key_api_def ref_to_vec_def echo_def raw_consts mem_read_write usize_modulus_def
      split: if_splits option.splits)

lemma ref_init_ref_ok: "init_ref_ok ref_init_ref"
  by (simp add: init_ref_ok_def ref_init_ref_def)

text \<open>The MAC of the example of RFC 4226, section 5.4, whatever the key and the message.\<close>

definition example_mac :: bytes where
  "example_mac = [0x1f, 0x86, 0x98, 0x69, 0x0e, 0x02, 0xca, 0x16, 0x61, 0x85, 0x50, 0xef, 0x7f, 0x19, 0xda, 0x8e, 0x94, 0x5b, 0x55, 0x5a]"

section \<open>Properties\<close>

text \<open>
  C7. In a release build every command of the application, run with memory for one more cell, returns,
  and is a step of the HOTP algorithm of RFC 4226: a registered key of 10 to 64 bytes replaces the shared
  key; a code returned to the caller is \<open>HOTP(K, C)\<close> for the key and the counter of the session, and the
  counter has moved to the next one; any other call leaves the key and all parameters as they were.  Whatever
  the outcome, the MAC operation and the key object allocated on the way are released.
\<close>

theorem hotp_refines:
  assumes "mac_tee_ok T Ob to_vec hmac ops keys memory" and "init_ref_ok init_ref" and "allocator_ok alloc"
    and "\<And>k c. length (hmac k c) = SHA1_HASH_SIZE" and "HmacOtp_inv s" and "alloc b \<noteq> None"
  shows "\<exists>r s' ps' w' b'. hotp_invoke_command T Ob alloc to_vec init_ref False s cmd_id ps m w b = Finishes (r, s', ps', w', b') \<and>
    HmacOtp_inv s' \<and> hotp_step hmac m (HotpCommand_from cmd_id) ps (hotp_view s) (r, ps', hotp_view s') \<and>
    ops w' = ops w \<and> keys w' = keys w \<and> b \<subseteq>\<^sub>m b'"
proof (cases "HotpCommand_from cmd_id")
  case RegisterSharedKey
  obtain r s' where run: "register_shared_key s ps m = (r, s')" by (metis surj_pair)
  from register_refines[OF assms(5) run] show ?thesis by (simp add: hotp_invoke_command_def RegisterSharedKey run)
next
  case GetHOTP
  from assms(6) obtain a where "alloc b = Some a" by blast
  from get_hotp_refines[where alloc = alloc, OF assms(1-5) this] show ?thesis by (simp add: hotp_invoke_command_def GetHOTP)
next
  case Hotp_Unknown
  then show ?thesis using assms(5) hotp_refuses by (simp add: hotp_invoke_command_def hotp_view_def)
qed

theorem hotp_refines_witness:
  "\<exists>s' ps' w' b'. hotp_invoke_command (ref_mac_api (\<lambda>_ _. example_mac)) ref_key_api two_cells ref_to_vec ref_init_ref False
       (HmacOtp_default\<lparr>hotp_key_len := 20, hotp_counter := [0, 0, 0, 0, 0, 0, 0, 255]\<rparr>) 1
       (ParameterAny_ValueOutput \<lparr>vout_param = Param_of_value 0 0 0\<rparr>, ParameterAny_None, ParameterAny_None, ParameterAny_None)
       (\<lambda>_. 0) mw_empty Map.empty = Finishes (Inr (), s', ps', w', b') \<and>
     (\<exists>q. ps' = (ParameterAny_ValueOutput (ValueOutput_set_a 872921 q), ParameterAny_None, ParameterAny_None, ParameterAny_None)) \<and>
     snd (hotp_view s') = 256"
proof -
  let ?s = "HmacOtp_default\<lparr>hotp_key_len := 20, hotp_counter := [0, 0, 0, 0, 0, 0, 0, 255]\<rparr>"
  let ?p = "(ParameterAny_ValueOutput \<lparr>vout_param = Param_of_value 0 0 0\<rparr>, ParameterAny_None, ParameterAny_None, ParameterAny_None)"
  let ?run = "hotp_invoke_command (ref_mac_api (\<lambda>_ _. example_mac)) ref_key_api two_cells ref_to_vec ref_init_ref False ?s 1 ?p
       (\<lambda>_. 0) mw_empty Map.empty"
  have "length example_mac = SHA1_HASH_SIZE" by (simp add: example_mac_def SHA1_HASH_SIZE_def)
  moreover have "HmacOtp_inv ?s" by (simp add: HmacOtp_inv_def HmacOtp_default_def MAX_KEY_SIZE_def)
  ultimately obtain r s' ps' w' b' where run: "?run = Finishes (r, s', ps', w', b')"
    and step: "hotp_step (\<lambda>_ _. example_mac) (\<lambda>_. 0) GetHOTP ?p (hotp_view ?s) (r, ps', hotp_view s')"
    using hotp_refines[OF ref_mac_tee_ok[of "\<lambda>_ _. example_mac"] ref_init_ref_ok two_cells_ok, of ?s Map.empty 1 ?p "\<lambda>_. 0" mw_empty]
    by (auto simp: two_cells_def HotpCommand_from_def)
  have "\<exists>s' ps' w' b'. ?run = Finishes (Inr (), s', ps', w', b')"
    by (simp add: hotp_invoke_command_def HotpCommand_from_def get_hotp_def hmac_sha1_def hmac_keyed_def hmac_leave_def
        Mac_allocate_def OperationHandle_allocate_def box_new_def two_cells_def HmacOtp_default_def MIN_KEY_SIZE_def MAX_KEY_SIZE_def
        ref_mac_api_def ref_key_api_def ref_to_vec_def ref_init_ref_def mw_empty_def TransientObject_allocate_def ObjectHandle_from_raw_def
        TransientObject_populate_def AttributeMemref_from_ref_def to_raw_def tee_check_def Mac_set_key_def crypto_method_defs box_read_def
        box_free_def checked_def into_buffer_def echo_def example_mac_def SHA1_HASH_SIZE_def OperationHandle_drop_def TransientObject_drop_def
        ObjectHandle_drop_def overwrite_def otp_truncate_def Let_def)
  then have r: "r = Inr ()" using run by auto
  have v: "hotp_view ?s = (replicate 20 0, 255)"
    by (simp add: hotp_view_def HmacOtp_default_def MAX_KEY_SIZE_def be_value_def)
  have "HOTP (\<lambda>_ _. example_mac) k c = 872921" for k c
    by (simp add: HOTP_def DT_def example_mac_def be_value_def)
  then show ?thesis using run step unfolding r v
    by (auto elim!: hotp_step.cases)
qed

end
