(* ===== verification/Spec2Isabelle.thy ===== *)
theory Spec2Isabelle
  imports
    TeeUuid TeecUuid DeprecatedParams TaSession TeecSession SecureDb ObjectEnum CryptoLifecycle
    TaEntry TaProperty Plugin CargoPublish Net BigIntExact TaLinker SecureStorageCa HotpTa
begin

text \<open>
  The Teaclave TrustZone SDK.  The repository holds the Rust crates with which trusted applications
  (TAs) for OP-TEE and the clients (CAs) that call them are written, the tool that builds them, and
  example applications.  This development is a model of these programs and of what their
  correctness rests on.  Paths below are relative to \<^verbatim>\<open>src/\<close>.

  \<^bold>\<open>The parts and how they interact.\<close>  A build script describes a TA
  (\<^verbatim>\<open>optee-utee-build\<close>), which yields a header that OP-TEE reads, a linker script and directives for
  cargo; \<^verbatim>\<open>tools/cargo-optee\<close> compiles, strips, signs and installs the result under the UUID that it
  reads back from the image.  At run time a client (\<^verbatim>\<open>optee-teec\<close>) opens a context and sessions and
  sends commands with up to four parameters.  In the TA the entry points generated by
  \<^verbatim>\<open>optee-utee-macros\<close> receive them and hand typed parameters (\<^verbatim>\<open>optee-utee/src/parameter\<close>) to the
  functions of the application, which use the wrappers of \<^verbatim>\<open>optee-utee\<close> for storage objects,
  cryptographic operations, big integers, sockets, properties, plugins and sessions with other TAs.
  \<^verbatim>\<open>secure_db\<close> is a key-value store over the storage objects.

  \<^bold>\<open>Conventions.\<close>  An integer of \<open>n\<close> bits is an \<open>n\<close>-bit word, \<^verbatim>\<open>usize\<close> is \<open>nat\<close> with the
  checks of the code against \<open>usize_modulus\<close> written out, a \<^verbatim>\<open>struct\<close> is a record, an \<^verbatim>\<open>enum\<close> a
  datatype, a \<^verbatim>\<open>String\<close> its UTF-8 bytes.  \<^verbatim>\<open>Result\<close> is a sum with \<open>Inl\<close> for the error and
  \<open>try_bind\<close> for the question mark; \<open>'a outcome\<close> adds a panic, and \<open>'a run\<close> a panic and undefined
  behaviour (reading or freeing a heap cell that is not there).  State is passed explicitly.  What is
  not in the repository, the functions of OP-TEE, crates such as \<^verbatim>\<open>uuid\<close>, \<^verbatim>\<open>goblin\<close> and
  \<^verbatim>\<open>bincode\<close>, the file system and other programs, is a record of functions over an opaque world
  \<open>'w\<close>.  What is relied on about it is a definition whose name ends in \<open>_ok\<close>, taken from the GlobalPlatform or
  crate documentation, and is a hypothesis of the theorems; a concrete instance (\<open>ref_...\<close>) satisfies
  it.  The only loops without a structural measure are given a termination proof, so no fuel is used;
  loops that depend on the outside (\<^verbatim>\<open>write_all\<close>, \<^verbatim>\<open>read_exact\<close>) terminate because each
  round shortens what is left.

  \<^bold>\<open>Foundations.\<close>
  \<^item> \<open>Prelude\<close>: widths, results, hexadecimal text, byte images of numbers, and the locale \<open>num_enum\<close>
    for enums with a numeric representation, interpreted for every such enum of the crates.
  \<^item> \<open>Memory\<close>, \<open>Boxes\<close>, \<open>Ownership\<close>: the address space and \<^verbatim>\<open>TEE_MemMove\<close>; heap cells behind raw
    pointers; values that own a handle and the books a program keeps of them.
  \<^item> \<open>RustString\<close>, \<open>HostStd\<close>: UTF-8, C strings, paths, the environment, commands and fallible steps
    of programs on the host.
  \<^item> \<open>TeeApiDefines\<close>, \<open>TeeClientApi\<close>: the constants of \<^verbatim>\<open>optee-utee-sys\<close> and \<^verbatim>\<open>optee-teec-sys\<close>.
  \<^item> \<open>UuidCrate\<close>: the contract of the \<^verbatim>\<open>uuid\<close> crate.

  \<^bold>\<open>The client side\<close> (\<^verbatim>\<open>crates/optee-teec/src\<close>).
  \<^item> \<open>TeecError\<close> (\<^verbatim>\<open>error.rs\<close>), \<open>TeecUuid\<close> (\<^verbatim>\<open>uuid.rs\<close>): codes and UUIDs survive conversion.
  \<^item> \<open>TeecParams\<close> (\<^verbatim>\<open>parameter.rs\<close>, \<^verbatim>\<open>operation.rs\<close>): an operation gives back its parameters.
  \<^item> \<open>TeecSession\<close> (\<^verbatim>\<open>context.rs\<close>, \<^verbatim>\<open>session.rs\<close>): reference-counted contexts and sessions with their
    drop order; in every interleaving no session outlives its context and all is closed once.

  \<^bold>\<open>The TA side\<close> (\<^verbatim>\<open>crates/optee-utee/src\<close>).
  \<^item> \<open>TeeError\<close>, \<open>TeeUuid\<close>, \<open>Identity\<close>: errors, UUIDs and client identities.
  \<^item> \<open>RawParam\<close>, \<open>Parameters\<close>, \<open>ParamBytes\<close> (\<^verbatim>\<open>parameter/\<close>): the union of the raw parameter, the typed
    parameters and their buffer operations; the locales \<open>parameter_memref\<close>, \<open>parameter_memref_write\<close> and
    \<open>parameter_value\<close> carry the lemmas of the traits that the parameter types share.  Writes stay inside the buffer of the host, whatever the order of
    calls and whatever overlaps; what was written is read back.
  \<^item> \<open>DeprecatedParams\<close> (\<^verbatim>\<open>parameter/deprecated.rs\<close>): the legacy interface and its unchecked size.
  \<^item> \<open>TeeParams\<close>, \<open>TaSession\<close> (\<^verbatim>\<open>tee_parameter.rs\<close>, \<^verbatim>\<open>ta_session.rs\<close>): calls to other TAs; a caller sees
    exactly the prefix of its own buffer that the callee reports, and sessions are closed once.
  \<^item> \<open>TaEntry\<close> (\<^verbatim>\<open>crates/optee-utee-macros/src/lib.rs\<close>): the attribute macros and the generated entry
    points; over any number of interleaved sessions they refine a specification in which every
    session has a context of its own.
  \<^item> \<open>Objects\<close>, \<open>ObjectEnum\<close> (\<^verbatim>\<open>object/\<close>): persistent and transient objects, attributes, enumerators;
    handles and cells are balanced, reading the rest of an object is exact.
  \<^item> \<open>CryptoIds\<close>, \<open>CryptoOp\<close>, \<open>CryptoLifecycle\<close> (\<^verbatim>\<open>crypto_op.rs\<close>): every method of the six kinds of
    operation; operations are freed once, output buffers are respected, identifiers match the
    bindings; null operations are undefined behaviour.
  \<^item> \<open>BigInt\<close>, \<open>BigIntExact\<close> (\<^verbatim>\<open>arithmetical.rs\<close>): the chosen sizes are those the TEE requires, so the
    arithmetic is that of the integers; division by a longer number underflows.
  \<^item> \<open>Net\<close> (\<^verbatim>\<open>net/\<close>): sockets; transfers of whole buffers terminate and are exact.
  \<^item> \<open>TaProperty\<close> (\<^verbatim>\<open>property.rs\<close>): a configured property is the one that is read.
  \<^item> \<open>Plugin\<close> (\<^verbatim>\<open>extension.rs\<close> of both sides, \<^verbatim>\<open>optee-teec-build\<close>, \<^verbatim>\<open>optee-teec-macros\<close>): what a plugin
    writes is what the TA receives.

  \<^bold>\<open>Storage and applications.\<close>
  \<^item> \<open>SecureDb\<close> (\<^verbatim>\<open>crates/secure_db/src\<close>): backend, database, naming and client; any successful run
    answers like a map.
  \<^item> \<open>SecureStorageTa\<close> (\<^verbatim>\<open>examples/ta/secure_storage-rs\<close>): the commands are the operations of a map
    from names to data.
  \<^item> \<open>HotpTa\<close> (\<^verbatim>\<open>examples/ta/hotp-rs\<close>): the commands are the steps of RFC 4226.

  \<^bold>\<open>Building.\<close>
  \<^item> \<open>TaHeader\<close>, \<open>TaHeaderTable\<close> (\<^verbatim>\<open>ta_config.rs\<close>, \<^verbatim>\<open>code_generator.rs\<close>): the generated header, whose
    property table leads to the configured values.
  \<^item> \<open>TaLinker\<close> (\<^verbatim>\<open>builder.rs\<close>, \<^verbatim>\<open>linker.rs\<close>, \<^verbatim>\<open>lib.rs\<close>): the files a build script leaves and what it
    tells cargo.
  \<^item> \<open>ElfUuid\<close>, \<open>CargoConfig\<close>, \<open>CargoBuild\<close>, \<open>CargoPublish\<close> (\<^verbatim>\<open>tools/cargo-optee/src\<close>): reading the UUID
    from an image; the precedence of settings; the steps of every command; what is on disk after
    success and after failure, and what the child processes see.

  \<^bold>\<open>Not modelled.\<close>
  \<^item> The functions of OP-TEE and of the client library, declared in \<^verbatim>\<open>optee-utee-sys\<close> and
    \<^verbatim>\<open>optee-teec-sys\<close>, are parameters; so are cryptography, \<^verbatim>\<open>bincode\<close>, \<^verbatim>\<open>goblin\<close> and \<^verbatim>\<open>uuid\<close>.
  \<^item> Tracing (\<^verbatim>\<open>trace.rs\<close>, \<^verbatim>\<open>macros.rs\<close>): formatting and output.
  \<^item> \<^verbatim>\<open>time.rs\<close>: one call of the TEE per method.
  \<^item> Parsing of command lines by \<^verbatim>\<open>clap\<close> and of cargo's metadata, and the rendering of tokens by
    \<^verbatim>\<open>syn\<close>, \<^verbatim>\<open>quote\<close> and \<^verbatim>\<open>prettyplease\<close>: third-party code; its results are data of the model.
  \<^item> \<^verbatim>\<open>rustls_provider\<close>, the system tests of the bindings and the build scripts of the binding
    crates: calls of third-party code and generated tests.
  \<^item> The remaining examples, the projects and the shell scripts: see the list of components.
\<close>

end
